(* ===== verification/Prelude.thy ===== *)
theory Prelude
  imports Main "HOL-Library.Monad_Syntax" "HOL-Library.Sublist"
begin

text \<open>
  Shared vocabulary of the development: the loop combinators that stand for the C++
  \<open>for\<close> loops, the C string functions the sources call (\<open>strstr\<close>, \<open>strchr\<close>, \<open>isspace\<close>,
  \<open>atoi\<close>, \<open>strcasecmp\<close>, the \<open>%d\<close> and \<open>%03d\<close> conversions of \<open>sprintf\<close>), checked
  32-bit arithmetic, and the lemmas about them that every component uses.

  Conventions. A C string is a \<^typ>\<open>string\<close> without its terminating NUL. An operation
  that always has a result is a function \<open>'s \<Rightarrow> 'a \<times> 's\<close> on the state; an operation that can
  run into undefined behaviour (a read of an uninitialised buffer, a null dereference, a
  read outside an object) or that need not return has type \<open>'s \<Rightarrow> ('a \<times> 's) option\<close>, and
  \<^const>\<open>None\<close> is that case. A process exit is a value of a sum type.
\<close>

named_theorems log_extends \<open>operations that only add events to the log\<close>
named_theorems node_config \<open>operations that leave the configuration of a node object alone\<close>

section \<open>Loops\<close>

text \<open>\<open>for (i in is) body\<close> where the body updates an accumulator and the state.\<close>

fun foreach :: "'i list \<Rightarrow> ('i \<Rightarrow> 'a \<Rightarrow> 's \<Rightarrow> 'a \<times> 's) \<Rightarrow> 'a \<Rightarrow> 's \<Rightarrow> 'a \<times> 's" where
  "foreach [] f a s = (a, s)"
| "foreach (i # ids) f a s = (let (a', s') = f i a s in foreach ids f a' s')"

text \<open>The same where the body can have undefined behaviour: it stops there.\<close>

fun foreachM :: "'i list \<Rightarrow> ('i \<Rightarrow> 'a \<Rightarrow> 's \<Rightarrow> ('a \<times> 's) option) \<Rightarrow> 'a \<Rightarrow> 's \<Rightarrow> ('a \<times> 's) option" where
  "foreachM [] f a s = Some (a, s)"
| "foreachM (i # ids) f a s = do { (a', s') \<leftarrow> f i a s; foreachM ids f a' s' }"

text \<open>The idiom \<open>local_result += op(i)\<close>.\<close>

fun sum_loop :: "'i list \<Rightarrow> ('i \<Rightarrow> 's \<Rightarrow> int \<times> 's) \<Rightarrow> 's \<Rightarrow> int \<times> 's" where
  "sum_loop [] f s = (0, s)"
| "sum_loop (i # ids) f s =
     (let (r, s1) = f i s; (r2, s2) = sum_loop ids f s1 in (r + r2, s2))"

text \<open>Loops whose body is run for its effects only.\<close>

fun do_loop :: "'i list \<Rightarrow> ('i \<Rightarrow> 's \<Rightarrow> 's) \<Rightarrow> 's \<Rightarrow> 's" where
  "do_loop [] f s = s"
| "do_loop (i # ids) f s = do_loop ids f (f i s)"

fun do_loopM :: "'i list \<Rightarrow> ('i \<Rightarrow> 's \<Rightarrow> 's option) \<Rightarrow> 's \<Rightarrow> 's option" where
  "do_loopM [] f s = Some s"
| "do_loopM (i # ids) f s = do { s' \<leftarrow> f i s; do_loopM ids f s' }"

text \<open>\<open>do r = call(); while (again(r));\<close>, which need not end.\<close>

partial_function (option) repeat_while :: "('s \<Rightarrow> 'a \<times> 's) \<Rightarrow> ('a \<Rightarrow> 's \<Rightarrow> bool) \<Rightarrow> 's \<Rightarrow> ('a \<times> 's) option" where
  "repeat_while call again s =
     (let (r, s) = call s in if again r s then repeat_while call again s else Some (r, s))"

lemma do_loop_append: "do_loop (xs @ ys) f s = do_loop ys f (do_loop xs f s)"
  by (induction xs arbitrary: s) auto

lemma foreach_append:
  "foreach (xs @ ys) f a s = (let (a', s') = foreach xs f a s in foreach ys f a' s')"
  by (induction xs arbitrary: a s) (auto simp: Let_def split: prod.splits)

text \<open>
  Elimination rules that take a sequence of calls that returned apart, one call at a time,
  and keep its intermediate states as variables.
\<close>

lemma bind_returns:
  assumes "Option.bind m f = Some y"
  obtains x where "m = Some x" "f x = Some y"
  using assms by (auto simp: Option.bind_eq_Some_conv)

lemma let_returns:
  assumes "Let a f = y"
  obtains x where "x = a" "f x = y"
  using assms by simp

lemma pair_returns:
  assumes "(case p of (a, b) \<Rightarrow> f a b) = y"
  obtains a b where "p = (a, b)" "f a b = y"
  using assms by (cases p) auto

lemma pair_apply_returns:
  assumes "(case p of (a, b) \<Rightarrow> f a b) x = y"
  obtains a b where "p = (a, b)" "f a b x = y"
  using assms by (cases p) auto

lemmas returns_elims = bind_returns let_returns pair_apply_returns pair_returns

text \<open>Invariant rules for the loops.\<close>

lemma foreach_inv:
  assumes "I a s"
    and "\<And>i a s. i \<in> set ids \<Longrightarrow> I a s \<Longrightarrow> I (fst (f i a s)) (snd (f i a s))"
  shows "I (fst (foreach ids f a s)) (snd (foreach ids f a s))"
  using assms
proof (induction ids arbitrary: a s)
  case Nil
  then show ?case by simp
next
  case (Cons i ids)
  obtain a' s' where f: "f i a s = (a', s')" by (cases "f i a s")
  from Cons.prems(2)[of i a s] Cons.prems(1) f have "I a' s'" by simp
  then have "I (fst (foreach ids f a' s')) (snd (foreach ids f a' s'))"
    using Cons.IH Cons.prems(2) by simp
  with f show ?case by simp
qed

lemma foreachM_inv:
  assumes "foreachM ids f a s = Some (a', s')" "I a s"
    and "\<And>i a s a1 s1. i \<in> set ids \<Longrightarrow> I a s \<Longrightarrow> f i a s = Some (a1, s1) \<Longrightarrow> I a1 s1"
  shows "I a' s'"
  using assms
proof (induction ids arbitrary: a s)
  case Nil
  then show ?case by simp
next
  case (Cons i ids)
  then obtain a1 s1 where f: "f i a s = Some (a1, s1)"
    and r: "foreachM ids f a1 s1 = Some (a', s')"
    by (auto simp: Option.bind_eq_Some_conv)
  have "I a1 s1" using Cons.prems(3)[OF _ Cons.prems(2) f] by simp
  then show ?case
    by (rule Cons.IH[OF r]) (rule Cons.prems(3), auto)
qed

lemma do_loop_inv:
  assumes "I s" and "\<And>i s. i \<in> set ids \<Longrightarrow> I s \<Longrightarrow> I (f i s)"
  shows "I (do_loop ids f s)"
  using assms by (induction ids arbitrary: s) auto

lemma do_loopM_inv:
  assumes "do_loopM ids f s = Some s'" "I s"
    and "\<And>i s s1. i \<in> set ids \<Longrightarrow> I s \<Longrightarrow> f i s = Some s1 \<Longrightarrow> I s1"
  shows "I s'"
  using assms
proof (induction ids arbitrary: s)
  case Nil
  then show ?case by simp
next
  case (Cons i ids)
  then obtain s1 where f: "f i s = Some s1" and r: "do_loopM ids f s1 = Some s'"
    by (auto simp: Option.bind_eq_Some_conv)
  have "I s1" using Cons.prems(3)[OF _ Cons.prems(2) f] by simp
  then show ?case
    by (rule Cons.IH[OF r]) (rule Cons.prems(3), auto)
qed

lemma sum_loop_inv:
  assumes "I s" and "\<And>i s. i \<in> set ids \<Longrightarrow> I s \<Longrightarrow> I (snd (f i s))"
  shows "I (snd (sum_loop ids f s))"
  using assms
  by (induction ids arbitrary: s) (auto simp: Let_def split_def)

lemma sum_loop_bounds:
  assumes "\<And>i s. i \<in> set ids \<Longrightarrow> 0 \<le> fst (f i s) \<and> fst (f i s) \<le> k"
  shows "0 \<le> fst (sum_loop ids f s) \<and> fst (sum_loop ids f s) \<le> int (length ids) * k"
  using assms
proof (induction ids arbitrary: s)
  case Nil
  then show ?case by simp
next
  case (Cons i ids)
  have "0 \<le> fst (f i s) \<and> fst (f i s) \<le> k" using Cons.prems by simp
  moreover have "0 \<le> fst (sum_loop ids f (snd (f i s))) \<and>
      fst (sum_loop ids f (snd (f i s))) \<le> int (length ids) * k"
    using Cons by simp
  ultimately show ?case by (auto simp: split_def Let_def algebra_simps)
qed

section \<open>Characters and strings\<close>

text \<open>\<open>isspace\<close> of the C locale: space, form feed, newline, carriage return, tabs.\<close>

definition is_space :: "char \<Rightarrow> bool" where
  "is_space c \<longleftrightarrow> (let n = (of_char c :: nat) in n = 32 \<or> (9 \<le> n \<and> n \<le> 13))"

definition is_digit :: "char \<Rightarrow> bool" where
  "is_digit c \<longleftrightarrow> (let n = (of_char c :: nat) in 48 \<le> n \<and> n \<le> 57)"

definition digit_val :: "char \<Rightarrow> nat" where
  "digit_val c = of_char c - 48"

definition digit_char :: "nat \<Rightarrow> char" where
  "digit_char d = char_of (48 + d)"

definition newline :: char where
  "newline = char_of (10 :: nat)"

definition to_lower :: "char \<Rightarrow> char" where
  "to_lower c = (let n = (of_char c :: nat) in if 65 \<le> n \<and> n \<le> 90 then char_of (n + 32) else c)"

text \<open>\<open>strcasecmp(a, b) == 0\<close>\<close>

definition strcaseeq :: "string \<Rightarrow> string \<Rightarrow> bool" where
  "strcaseeq a b \<longleftrightarrow> map to_lower a = map to_lower b"

text \<open>\<open>strchr\<close> and \<open>strstr\<close> return a pointer into the string: the suffix it points to.\<close>

fun strchr :: "string \<Rightarrow> char \<Rightarrow> string option" where
  "strchr [] c = None"
| "strchr (x # xs) c = (if x = c then Some (x # xs) else strchr xs c)"

fun strstr :: "string \<Rightarrow> string \<Rightarrow> string option" where
  "strstr [] n = (if n = [] then Some [] else None)"
| "strstr (x # xs) n = (if take (length n) (x # xs) = n then Some (x # xs) else strstr xs n)"

text \<open>The text before the first occurrence of a character (what \<open>*strchr(s, c) = 0\<close> leaves).\<close>

definition cut_at :: "string \<Rightarrow> char \<Rightarrow> string" where
  "cut_at s c = takeWhile (\<lambda>x. x \<noteq> c) s"

fun nat_str :: "nat \<Rightarrow> string" where
  "nat_str n = (if n < 10 then [digit_char n] else nat_str (n div 10) @ [digit_char (n mod 10)])"

declare nat_str.simps [simp del]

text \<open>\<open>%d\<close>\<close>

definition int_str :: "int \<Rightarrow> string" where
  "int_str i = (if i < 0 then CHR ''-'' # nat_str (nat (- i)) else nat_str (nat i))"

text \<open>\<open>%03d\<close> of a node index\<close>

definition pad3 :: "nat \<Rightarrow> string" where
  "pad3 n = (let s = nat_str n in replicate (3 - length s) (CHR ''0'') @ s)"

text \<open>The longest prefix of digits as a number, and whether there was a digit.\<close>

fun scan_digits :: "nat \<Rightarrow> string \<Rightarrow> nat \<times> string" where
  "scan_digits acc [] = (acc, [])"
| "scan_digits acc (c # cs) =
     (if is_digit c then scan_digits (10 * acc + digit_val c) cs else (acc, c # cs))"

text \<open>
  \<open>sscanf(s, "%d", &x)\<close>: blanks, a sign, digits; \<^const>\<open>None\<close> when nothing is converted
  and \<open>x\<close> keeps its old value.
\<close>

definition scan_int :: "string \<Rightarrow> (int \<times> string) option" where
  "scan_int s =
     (let t = dropWhile is_space s;
          neg = (t \<noteq> [] \<and> hd t = CHR ''-'');
          u = (if t \<noteq> [] \<and> (hd t = CHR ''-'' \<or> hd t = CHR ''+'') then tl t else t)
      in if u \<noteq> [] \<and> is_digit (hd u)
         then (let (n, r) = scan_digits 0 u in Some (if neg then - int n else int n, r))
         else None)"

definition atoi :: "string \<Rightarrow> int" where
  "atoi s = (case scan_int s of None \<Rightarrow> 0 | Some (i, _) \<Rightarrow> i)"

text \<open>
  The text a \<open>printf\<close> format without arguments produces: \<open>%%\<close> is a percent sign, any other
  conversion reads an argument that was not passed.
\<close>

fun c_format0 :: "string \<Rightarrow> string option" where
  "c_format0 [] = Some []"
| "c_format0 (c # cs) =
     (if c \<noteq> CHR ''%'' then map_option (Cons c) (c_format0 cs)
      else (case cs of
              [] \<Rightarrow> None
            | d # ds \<Rightarrow> if d = CHR ''%'' then map_option (Cons (CHR ''%'')) (c_format0 ds) else None))"

text \<open>A signed 32-bit product: overflow is undefined behaviour.\<close>

definition int32_ok :: "int \<Rightarrow> bool" where
  "int32_ok x \<longleftrightarrow> - (2 ^ 31) \<le> x \<and> x < 2 ^ 31"

definition mul32 :: "int \<Rightarrow> int \<Rightarrow> int option" where
  "mul32 a b = (if int32_ok (a * b) then Some (a * b) else None)"

section \<open>Lemmas on strings\<close>

lemma newline_code: "newline = CHR 0x0A"
  by (simp add: newline_def char_of_def bit_0)

lemma strchr_None_iff: "strchr s c = None \<longleftrightarrow> c \<notin> set s"
  by (induction s) auto

lemma strchr_Some: "strchr s c = Some t \<Longrightarrow> s = cut_at s c @ t \<and> t \<noteq> [] \<and> hd t = c"
  by (induction s) (auto simp: cut_at_def split: if_splits)

lemma strstr_Some: "strstr s n = Some t \<Longrightarrow> (\<exists>u. s = u @ t) \<and> take (length n) t = n"
proof (induction s n rule: strstr.induct)
  case (1 n)
  then show ?case by (simp split: if_splits)
next
  case (2 x xs n)
  show ?case
  proof (cases "take (length n) (x # xs) = n")
    case True
    with "2.prems" show ?thesis by (metis append_Nil option.inject strstr.simps(2))
  next
    case False
    with 2 obtain u where "xs = u @ t" "take (length n) t = n" by auto
    then show ?thesis by (metis append_Cons)
  qed
qed

lemma strstr_iff_sublist: "strstr s n \<noteq> None \<longleftrightarrow> sublist n s"
proof (induction s n rule: strstr.induct)
  case (1 n)
  then show ?case by simp
next
  case (2 x xs n)
  have pre: "take (length n) (x # xs) = n \<longleftrightarrow> Sublist.prefix n (x # xs)"
    by (metis append_eq_conv_conj append_take_drop_id prefix_def)
  show ?case
    using 2 pre by (auto simp: sublist_Cons_right)
qed

lemma strstr_None: "strstr s n = None \<longleftrightarrow> \<not> sublist n s"
  using strstr_iff_sublist by blast

lemma strstr_ex: "(\<exists>t. strstr s n = Some t) \<longleftrightarrow> sublist n s"
  using strstr_iff_sublist by fastforce

lemma strstr_prefix: "strstr (n @ t) n = Some (n @ t)"
proof (cases "n @ t")
  case Nil
  then show ?thesis by simp
next
  case (Cons a u)
  have "take (length n) (a # u) = n" by (simp flip: Cons)
  then show ?thesis by (simp add: Cons)
qed

lemma nat_str_nonempty [simp]: "nat_str n \<noteq> []"
  by (subst nat_str.simps) simp

lemma digit_char_digit [simp]:
  assumes "d < 10"
  shows "is_digit (digit_char d)" "digit_val (digit_char d) = d"
proof -
  have "of_char (digit_char d) = (48 + d) mod 256"
    by (simp add: digit_char_def)
  with assms have "of_char (digit_char d) = 48 + d" by simp
  with assms show "is_digit (digit_char d)" "digit_val (digit_char d) = d"
    by (simp_all add: is_digit_def digit_val_def Let_def)
qed

lemma nat_str_digits: "\<forall>c \<in> set (nat_str n). is_digit c"
proof (induction n rule: nat_str.induct)
  case (1 n)
  then show ?case by (subst nat_str.simps) (auto simp: digit_char_digit)
qed

lemma scan_digits_append:
  assumes "\<forall>c \<in> set xs. is_digit c"
  shows "scan_digits a (xs @ ys) = scan_digits (fst (scan_digits a xs)) ys"
  using assms by (induction xs arbitrary: a) auto

lemma scan_digits_nat_str:
  "r = [] \<or> \<not> is_digit (hd r) \<Longrightarrow> scan_digits 0 (nat_str n @ r) = (n, r)"
proof (induction n arbitrary: r rule: nat_str.induct)
  case (1 n)
  have stop: "scan_digits a r = (a, r)" for a
    using "1.prems" by (cases r) auto
  show ?case
  proof (cases "n < 10")
    case True
    then show ?thesis by (subst nat_str.simps) (simp add: stop)
  next
    case False
    have "scan_digits 0 (nat_str (n div 10)) = (n div 10, [])"
      using "1.IH"[OF False, of "[]"] by simp
    with False show ?thesis
      by (subst nat_str.simps) (simp add: scan_digits_append nat_str_digits stop)
  qed
qed

lemma is_digit_not_space: "is_digit c \<Longrightarrow> \<not> is_space c \<and> c \<noteq> CHR ''-'' \<and> c \<noteq> CHR ''+''"
  by (auto simp: is_digit_def is_space_def Let_def)

lemma hd_nat_str_digit: "is_digit (hd (nat_str n))"
  using nat_str_digits nat_str_nonempty hd_in_set by blast

lemma scan_int_int_str:
  assumes "r = [] \<or> \<not> is_digit (hd r)"
  shows "scan_int (int_str i @ r) = Some (i, r)"
proof -
  have hdn: "is_digit (hd (nat_str n @ r))" for n
    using hd_nat_str_digit[of n] by (simp add: hd_append)
  have dw: "dropWhile is_space (nat_str n @ r) = nat_str n @ r" for n
    using hdn[of n] is_digit_not_space nat_str_nonempty
    by (metis Nil_is_append_conv dropWhile_eq_self_iff)
  have minus: "\<not> is_space (CHR ''-'')" by (simp add: is_space_def)
  show ?thesis
  proof (cases "i < 0")
    case True
    with assms minus hdn[of "nat (- i)"] show ?thesis
      by (simp add: scan_int_def int_str_def scan_digits_nat_str Let_def)
  next
    case False
    with assms hdn[of "nat i"] is_digit_not_space[OF hdn[of "nat i"]] show ?thesis
      by (simp add: scan_int_def int_str_def scan_digits_nat_str Let_def dw)
  qed
qed

lemma atoi_int_str [simp]: "atoi (int_str i) = i"
  using scan_int_int_str[of "[]" i] by (simp add: atoi_def)

lemma int_str_inject [simp]: "int_str i = int_str j \<longleftrightarrow> i = j"
  by (metis atoi_int_str)

lemma c_format0_plain: "CHR ''%'' \<notin> set s \<Longrightarrow> c_format0 s = Some s"
  by (induction s) auto

end
