(* ===== verification/World.thy ===== *)
theory World
  imports Prelude
begin

text \<open>
  What lies outside the repository: the MariaDB client library, the shell (\<open>system\<close> and
  \<open>popen\<close>), sockets, files, the process environment. None of it is defined here. It is the
  record \<open>env\<close>, an argument of every operation: one function per library call, giving its
  result from the whole history of calls made so far. The history is the log
  \<open>trace\<close> of \<open>world\<close>, to which every call adds an event; a function of the history is
  the most general deterministic outside world, so a server may change its mind between
  two identical calls.

  Three facts of the client library's documentation are built into the types: a result
  set that \<open>mysql_store_result\<close> returned is a finite table held by the client; one
  \<open>mysql_query\<close> has finitely many results, which \<open>mysql_next_result\<close> walks through; and
  a failed query leaves no result to store.

  Then come the build (the directory of the tests and the table of configuration templates
  that cmake generates), the text of the time elapsed since the test started, the resolver
  (\<open>getaddrinfo\<close>, \<open>gethostbyname\<close>, \<open>inet_pton\<close>, \<open>inet_aton\<close>, \<open>getsockname\<close>), the socket option and the flags of a socket (\<open>fcntl\<close>), whether a
  failed call was interrupted and the text of its error (\<open>strerror_r\<close>), OpenSSL's \<open>SHA1\<close>, jansson's parser, and the calls on
  prepared statements.

  \<open>fs_open\<close>, \<open>fs_eof\<close> and \<open>fs_gets\<close> are \<open>fopen\<close> for reading, \<open>feof\<close> and \<open>fgets\<close>, for the file
  of a name; \<open>now\<close> is \<open>gettimeofday\<close>, seconds and microseconds.

  Console output (\<open>printf\<close>, \<open>tprintf\<close>, \<open>fflush\<close>) and the release of memory
  (\<open>free\<close>, \<open>mysql_free_result\<close>) are not events.
\<close>

type_synonym conn = nat
type_synonym stmt = nat
type_synonym sockfd = int

text \<open>\<open>MYSQL_ROW\<close>: the fields of a row, \<^const>\<open>None\<close> for SQL NULL.\<close>

type_synonym row = "string option list"

text \<open>\<open>MYSQL_RES\<close>\<close>

record mysql_res =
  field_names :: "string list"
  rows :: "row list"

text \<open>One result of a query: the result set if it has one, the affected rows otherwise.\<close>

record rset =
  stored :: "mysql_res option"
  affected :: nat

datatype reply = QFail | QOk rset "rset list"

datatype mysql_option = OptConnectTimeout | OptReadTimeout | OptWriteTimeout | OptReconnect

text \<open>The calls on a prepared statement.\<close>

datatype stmt_op =
    StmtInit "conn option"
  | StmtPrepare string
  | StmtBindParam
  | StmtBindResult
  | StmtSendLong "nat list"
  | StmtExecute
  | StmtStoreResult
  | StmtFetch
  | StmtFreeResult
  | StmtReset
  | StmtAttr string nat
  | StmtClose

datatype event =
    EInit "conn option"
  | EOption conn mysql_option nat
  | ESslSet conn string string string
  | EConnect conn string string string "string option" int nat
  | EPing conn
  | EChangeUser "conn option" string string "string option"
  | EQuery "conn option" string
  | EStore "conn option"
  | ENext "conn option"
  | EClose "conn option"
  | EStmtExec stmt
  | EStmtStore stmt
  | EStmtNext stmt
  | ESystem string
  | EPopenR string
  | EPopenW string string
  | ESleep nat
  | EReadFile string
  | EWriteFile string string
  | EAppendFile string string
  | ETruncate string
  | EUnlink string
  | EOpen string
  | EClock
  | ESetenv string string
  | EGets string
  | ESocket sockfd
  | EConnectSock sockfd string int
  | ESend sockfd string
  | ERecv sockfd nat
  | ECloseSock sockfd
  | ESetOpt sockfd
  | EGetFlags sockfd
  | ESetFlags sockfd int
  | EStmt "stmt option" stmt_op

text \<open>What \<open>fgets\<close> reports.\<close>

datatype gets_result = GotLine string | AtEof | ReadError

type_synonym hist = "event list"

text \<open>A parsed JSON document (jansson's \<open>json_t\<close>); a real is given by the text it prints as.\<close>

datatype json =
    JObject "(string \<times> json) list" | JArray "json list" | JString string | JInteger int
  | JReal string | JTrue | JFalse | JNull

record env =
  env_get :: "string \<Rightarrow> string option"
  my_init :: "hist \<Rightarrow> conn option"
  my_connect :: "hist \<Rightarrow> conn \<Rightarrow> bool"
  my_errno :: "hist \<Rightarrow> conn option \<Rightarrow> nat"
  my_error :: "hist \<Rightarrow> conn option \<Rightarrow> string"
  my_ping :: "hist \<Rightarrow> conn \<Rightarrow> int"
  my_change_user :: "hist \<Rightarrow> conn option \<Rightarrow> string \<Rightarrow> string \<Rightarrow> string option \<Rightarrow> int"
  my_query :: "hist \<Rightarrow> conn option \<Rightarrow> string \<Rightarrow> reply"
  my_ssl_set :: "hist \<Rightarrow> conn \<Rightarrow> int"
  my_stmt_exec :: "hist \<Rightarrow> stmt \<Rightarrow> (nat \<times> nat list) option"
  sh_system :: "hist \<Rightarrow> string \<Rightarrow> int"
  sh_read :: "hist \<Rightarrow> string \<Rightarrow> (string \<times> int) option"
  sh_write :: "hist \<Rightarrow> string \<Rightarrow> string \<Rightarrow> int option"
  fs_read :: "hist \<Rightarrow> string \<Rightarrow> string option"
  fs_write :: "hist \<Rightarrow> string \<Rightarrow> bool"
  fs_gets :: "hist \<Rightarrow> string \<Rightarrow> gets_result"
  fs_open :: "hist \<Rightarrow> string \<Rightarrow> bool"
  fs_eof :: "hist \<Rightarrow> string \<Rightarrow> bool"
  now :: "hist \<Rightarrow> int \<times> int"
  mem_ok :: "hist \<Rightarrow> bool"
  sk_open :: "hist \<Rightarrow> sockfd"
  sk_connect :: "hist \<Rightarrow> sockfd \<Rightarrow> string \<Rightarrow> int \<Rightarrow> int"
  sk_send :: "hist \<Rightarrow> sockfd \<Rightarrow> string \<Rightarrow> int"
  sk_recv :: "hist \<Rightarrow> sockfd \<Rightarrow> nat \<Rightarrow> string option"
  cf_test_dir :: string
  cf_template :: "string \<Rightarrow> string option"
  cf_default_template :: string
  clock :: "hist \<Rightarrow> string"
  net_lookup :: "hist \<Rightarrow> string \<Rightarrow> string option"
  net_parse :: "string \<Rightarrow> int"
  net_local :: "hist \<Rightarrow> sockfd \<Rightarrow> string option"
  sk_option :: "hist \<Rightarrow> sockfd \<Rightarrow> int"
  sk_getfl :: "hist \<Rightarrow> sockfd \<Rightarrow> int"
  sk_setfl :: "hist \<Rightarrow> sockfd \<Rightarrow> int \<Rightarrow> int"
  sk_intr :: "hist \<Rightarrow> bool"
  sk_error :: "hist \<Rightarrow> string"
  net_aton :: "string \<Rightarrow> bool"
  sha1 :: "string \<Rightarrow> string"
  json_parse :: "string \<Rightarrow> json option"
  stmt_init :: "hist \<Rightarrow> conn option \<Rightarrow> stmt option"
  stmt_rc :: "hist \<Rightarrow> stmt option \<Rightarrow> stmt_op \<Rightarrow> int"
  stmt_row :: "hist \<Rightarrow> stmt option \<Rightarrow> int \<times> int \<times> nat list"

record world =
  trace :: hist

definition emit :: "event \<Rightarrow> 'a world_scheme \<Rightarrow> 'a world_scheme" where
  "emit e s = s\<lparr>trace := trace s @ [e]\<rparr>"

definition emits :: "hist \<Rightarrow> 'a world_scheme \<Rightarrow> 'a world_scheme" where
  "emits es s = s\<lparr>trace := trace s @ es\<rparr>"

text \<open>\<open>extends s s'\<close>: from \<open>s\<close> to \<open>s'\<close> only the log has grown.\<close>

definition extends :: "'a world_scheme \<Rightarrow> 'a world_scheme \<Rightarrow> bool" where
  "extends s s' \<longleftrightarrow> (\<exists>es. s' = emits es s)"

text \<open>
  An outside world in which no variable is set, every call fails and every file is missing:
  the starting point for concrete worlds.
\<close>

definition dead_env :: env where
  "dead_env = \<lparr>env_get = (\<lambda>_. None), my_init = (\<lambda>_. None), my_connect = (\<lambda>_ _. False),
     my_errno = (\<lambda>_ _. 2006), my_error = (\<lambda>_ _. ''''), my_ping = (\<lambda>_ _. 1),
     my_change_user = (\<lambda>_ _ _ _ _. 1), my_query = (\<lambda>_ _ _. QFail),
     my_ssl_set = (\<lambda>_ _. 0), my_stmt_exec = (\<lambda>_ _. None), sh_system = (\<lambda>_ _. 256),
     sh_read = (\<lambda>_ _. None), sh_write = (\<lambda>_ _ _. None), fs_read = (\<lambda>_ _. None),
     fs_write = (\<lambda>_ _. False), fs_gets = (\<lambda>_ _. AtEof), fs_open = (\<lambda>_ _. False), fs_eof = (\<lambda>_ _. True),
     now = (\<lambda>_. (0, 0)), mem_ok = (\<lambda>_. True),
     sk_open = (\<lambda>_. -1), sk_connect = (\<lambda>_ _ _ _. -1), sk_send = (\<lambda>_ _ _. -1),
     sk_recv = (\<lambda>_ _ _. None), cf_test_dir = ''.'', cf_template = (\<lambda>_. None),
     cf_default_template = ''replication'', clock = (\<lambda>_. ''0.000000''),
     net_lookup = (\<lambda>_ _. None), net_parse = (\<lambda>_. 0), net_local = (\<lambda>_ _. None),
     sk_option = (\<lambda>_ _. -1), sk_getfl = (\<lambda>_ _. -1), sk_setfl = (\<lambda>_ _ _. -1), sk_intr = (\<lambda>_. False),
     sk_error = (\<lambda>_. ''Connection refused''), net_aton = (\<lambda>_. False), sha1 = (\<lambda>_. replicate 20 (CHR 0x00)),
     json_parse = (\<lambda>_. None), stmt_init = (\<lambda>_ _. None), stmt_rc = (\<lambda>_ _ _. 1),
     stmt_row = (\<lambda>_ _. (0, 0, []))\<rparr>"

definition start_world :: world where
  "start_world = \<lparr>trace = []\<rparr>"

section \<open>Library calls\<close>

text \<open>The wait status of \<open>system\<close> and \<open>pclose\<close>: \<open>WIFEXITED\<close> and \<open>WEXITSTATUS\<close>.\<close>

definition wifexited :: "int \<Rightarrow> bool" where
  "wifexited st \<longleftrightarrow> st mod 128 = 0"

definition wexitstatus :: "int \<Rightarrow> int" where
  "wexitstatus st = (st div 256) mod 256"

definition c_system :: "env \<Rightarrow> string \<Rightarrow> 'a world_scheme \<Rightarrow> int \<times> 'a world_scheme" where
  "c_system E cmd s = (sh_system E (trace s) cmd, emit (ESystem cmd) s)"

definition popen_read ::
  "env \<Rightarrow> string \<Rightarrow> 'a world_scheme \<Rightarrow> (string \<times> int) option \<times> 'a world_scheme" where
  "popen_read E cmd s = (sh_read E (trace s) cmd, emit (EPopenR cmd) s)"

definition popen_write ::
  "env \<Rightarrow> string \<Rightarrow> string \<Rightarrow> 'a world_scheme \<Rightarrow> int option \<times> 'a world_scheme" where
  "popen_write E cmd inp s = (sh_write E (trace s) cmd inp, emit (EPopenW cmd inp) s)"

definition c_sleep :: "nat \<Rightarrow> 'a world_scheme \<Rightarrow> 'a world_scheme" where
  "c_sleep n s = emit (ESleep n) s"

definition mysql_init :: "env \<Rightarrow> 'a world_scheme \<Rightarrow> conn option \<times> 'a world_scheme" where
  "mysql_init E s = (let c = my_init E (trace s) in (c, emit (EInit c) s))"

definition mysql_close :: "conn option \<Rightarrow> 'a world_scheme \<Rightarrow> 'a world_scheme" where
  "mysql_close c s = emit (EClose c) s"

definition mysql_errno :: "env \<Rightarrow> conn option \<Rightarrow> 'a world_scheme \<Rightarrow> nat" where
  "mysql_errno E c s = my_errno E (trace s) c"

definition mysql_ping :: "env \<Rightarrow> conn \<Rightarrow> 'a world_scheme \<Rightarrow> int \<times> 'a world_scheme" where
  "mysql_ping E c s = (my_ping E (trace s) c, emit (EPing c) s)"

definition mysql_change_user ::
  "env \<Rightarrow> conn option \<Rightarrow> string \<Rightarrow> string \<Rightarrow> string option \<Rightarrow> 'a world_scheme \<Rightarrow> int \<times> 'a world_scheme" where
  "mysql_change_user E c user pw db s = (my_change_user E (trace s) c user pw db, emit (EChangeUser c user pw db) s)"

definition c_unlink :: "string \<Rightarrow> 'a world_scheme \<Rightarrow> 'a world_scheme" where
  "c_unlink file s = emit (EUnlink file) s"

definition mysql_query ::
  "env \<Rightarrow> conn option \<Rightarrow> string \<Rightarrow> 'a world_scheme \<Rightarrow> reply \<times> 'a world_scheme" where
  "mysql_query E c q s = (my_query E (trace s) c q, emit (EQuery c q) s)"

definition mysql_store :: "conn option \<Rightarrow> 'a world_scheme \<Rightarrow> 'a world_scheme" where
  "mysql_store c s = emit (EStore c) s"

definition mysql_next :: "conn option \<Rightarrow> 'a world_scheme \<Rightarrow> 'a world_scheme" where
  "mysql_next c s = emit (ENext c) s"

text \<open>A field of a row; an index outside the row reads foreign memory.\<close>

definition row_at :: "row \<Rightarrow> nat \<Rightarrow> string option option" where
  "row_at r i = (if i < length r then Some (r ! i) else None)"

section \<open>The log only grows\<close>

lemma emit_emits: "emit e s = emits [e] s"
  by (simp add: emit_def emits_def)

lemma emits_emits [simp]: "emits es (emits ds s) = emits (ds @ es) s"
  by (simp add: emits_def)

lemma emits_Nil [simp]: "emits [] s = s"
  by (simp add: emits_def)

lemma trace_emits [simp]: "trace (emits es s) = trace s @ es"
  by (simp add: emits_def)

lemma trace_emit [simp]: "trace (emit e s) = trace s @ [e]"
  by (simp add: emit_def)

lemma more_emits [simp]: "world.more (emits es s) = world.more s"
  by (simp add: emits_def)

lemma more_emit [simp]: "world.more (emit e s) = world.more s"
  by (simp add: emit_def)

lemma extends_refl [simp]: "extends s s"
  unfolding extends_def by (metis emits_Nil)

lemma extends_trans: "extends s t \<Longrightarrow> extends t u \<Longrightarrow> extends s u"
  unfolding extends_def by (metis emits_emits)

lemma extends_emit [simp, log_extends]: "extends s (emit e s)"
  unfolding extends_def by (metis emit_emits)

lemma extends_emits [simp, log_extends]: "extends s (emits es s)"
  unfolding extends_def by blast

lemma extends_emit_trans: "extends s t \<Longrightarrow> extends s (emit e t)"
  using extends_emit extends_trans by blast

lemma extends_more: "extends s t \<Longrightarrow> world.more t = world.more s"
  by (auto simp: extends_def)

lemma extends_trace: "extends s t \<Longrightarrow> \<exists>es. trace t = trace s @ es"
  by (auto simp: extends_def)

lemma extends_emitsE:
  assumes "extends s t"
  obtains es where "t = emits es s" "trace t = trace s @ es"
  using assms unfolding extends_def by auto

lemmas call_defs = c_system_def popen_read_def popen_write_def c_sleep_def mysql_init_def
  mysql_close_def mysql_errno_def mysql_ping_def mysql_query_def mysql_store_def mysql_next_def
  mysql_change_user_def c_unlink_def

lemma extends_calls [log_extends]:
  "extends s (snd (c_system E cmd s))"
  "extends s (snd (popen_read E cmd s))"
  "extends s (snd (popen_write E cmd inp s))"
  "extends s (c_sleep n s)"
  "extends s (snd (mysql_init E s))"
  "extends s (mysql_close c s)"
  "extends s (snd (mysql_ping E d s))"
  "extends s (snd (mysql_query E c q s))"
  "extends s (mysql_store c s)"
  "extends s (mysql_next c s)"
  "extends s (snd (mysql_change_user E c user pw db s))"
  "extends s (c_unlink file s)"
  by (simp_all add: call_defs Let_def)

lemma extends_do_loop:
  assumes "\<And>i s. i \<in> set ids \<Longrightarrow> extends s (f i s)"
  shows "extends s (do_loop ids f s)"
  by (rule do_loop_inv[where I = "\<lambda>t. extends s t"]) (auto intro: extends_trans assms)

lemma extends_sum_loop:
  assumes "\<And>i s. i \<in> set ids \<Longrightarrow> extends s (snd (f i s))"
  shows "extends s (snd (sum_loop ids f s))"
  by (rule sum_loop_inv[where I = "\<lambda>t. extends s t"]) (auto intro: extends_trans assms)

lemma extends_foreachM:
  assumes "foreachM ids f a s = Some (a', s')"
    and "\<And>i a s a1 s1. i \<in> set ids \<Longrightarrow> f i a s = Some (a1, s1) \<Longrightarrow> extends s s1"
  shows "extends s s'"
  using assms(1)
  by (rule foreachM_inv[where I = "\<lambda>_ t. extends s t"]) (auto intro: extends_trans assms(2))

text \<open>
  Backward rules for chains of operations: they peel the last operation off a state. The
  components collect their own in the same form.
\<close>

lemma extends_if:
  "(b \<Longrightarrow> extends s t) \<Longrightarrow> (\<not> b \<Longrightarrow> extends s u) \<Longrightarrow> extends s (if b then t else u)"
  by simp

lemma extends_sum_loop_chain:
  assumes "extends s t" and "\<And>i u. i \<in> set ids \<Longrightarrow> extends u (snd (f i u))"
  shows "extends s (snd (sum_loop ids f t))"
  using assms extends_sum_loop extends_trans by metis

lemma extends_do_loop_chain:
  assumes "extends s t" and "\<And>i u. i \<in> set ids \<Longrightarrow> extends u (f i u)"
  shows "extends s (do_loop ids f t)"
  using assms extends_do_loop extends_trans by metis

text \<open>\<^const>\<open>wexitstatus\<close> is one byte, so 256 never is an exit status.\<close>

lemma wexitstatus_range: "0 \<le> wexitstatus st \<and> wexitstatus st < 256"
  by (simp add: wexitstatus_def)

end
