(* ===== verification/Mariadb_Func.thy ===== *)
theory Mariadb_Func
  imports World "HOL-Library.Word"
begin

text \<open>
  \<open>mariadb_func.cpp\<close>: opening connections, running queries and reading their results,
  reading log files, comparing version numbers. A \<open>MYSQL *\<close> is a \<^typ>\<open>conn option\<close>, with
  \<^const>\<open>None\<close> for the null pointer. The variadic \<open>execute_query\<close> takes the formatted text;
  \<open>execute_query_fmt\<close> is its use with a format computed at run time and no arguments.
\<close>

definition CLIENT_MULTI_STATEMENTS :: nat where
  "CLIENT_MULTI_STATEMENTS = 65536"

section \<open>Opening connections\<close>

definition set_ssl :: "env \<Rightarrow> conn \<Rightarrow> 'a world_scheme \<Rightarrow> int \<times> 'a world_scheme" where
  "set_ssl E c s =
     (let dir = (case env_get E ''test_dir'' of None \<Rightarrow> ''.'' | Some d \<Rightarrow> d)
      in (my_ssl_set E (trace s) c,
          emit (ESslSet c (dir @ ''/ssl-cert/client-key.pem'')
                          (dir @ ''/ssl-cert/client-cert.pem'')
                          (dir @ ''/ssl-cert/ca.pem'')) s))"

text \<open>\<open>mysql_real_connect\<close>; its result only selects between two branches that do the same.\<close>

definition real_connect ::
  "env \<Rightarrow> conn \<Rightarrow> string \<Rightarrow> string \<Rightarrow> string \<Rightarrow> string option \<Rightarrow> int \<Rightarrow> nat
   \<Rightarrow> 'a world_scheme \<Rightarrow> bool \<times> 'a world_scheme" where
  "real_connect E c ip user pw db port flag s =
     (my_connect E (trace s) c, emit (EConnect c ip user pw db port flag) s)"

definition open_conn_db_flags ::
  "env \<Rightarrow> int \<Rightarrow> string \<Rightarrow> string option \<Rightarrow> string \<Rightarrow> string \<Rightarrow> nat \<Rightarrow> bool
   \<Rightarrow> 'a world_scheme \<Rightarrow> conn option \<times> 'a world_scheme" where
  "open_conn_db_flags E port ip db user pw flag ssl s =
     (let (co, s) = mysql_init E s in
      case co of
        None \<Rightarrow> (None, s)
      | Some c \<Rightarrow>
          (let s = (if ssl then snd (set_ssl E c s) else s);
               (ok, s) = real_connect E c ip user pw db port flag s
           in if \<not> ok then (Some c, s) else (Some c, s)))"

definition open_conn_db_timeout ::
  "env \<Rightarrow> int \<Rightarrow> string \<Rightarrow> string \<Rightarrow> string \<Rightarrow> string \<Rightarrow> nat \<Rightarrow> bool
   \<Rightarrow> 'a world_scheme \<Rightarrow> conn option \<times> 'a world_scheme" where
  "open_conn_db_timeout E port ip db user pw timeout ssl s =
     (let (co, s) = mysql_init E s in
      case co of
        None \<Rightarrow> (None, s)
      | Some c \<Rightarrow>
          (let t = timeout mod 2 ^ 32;
               s = emit (EOption c OptConnectTimeout t) s;
               s = emit (EOption c OptReadTimeout t) s;
               s = emit (EOption c OptWriteTimeout t) s;
               s = (if ssl then snd (set_ssl E c s) else s);
               (ok, s) = real_connect E c ip user pw (Some db) port CLIENT_MULTI_STATEMENTS s
           in if \<not> ok then (Some c, s) else (Some c, s)))"

definition open_conn_db ::
  "env \<Rightarrow> int \<Rightarrow> string \<Rightarrow> string \<Rightarrow> string \<Rightarrow> string \<Rightarrow> bool
   \<Rightarrow> 'a world_scheme \<Rightarrow> conn option \<times> 'a world_scheme" where
  "open_conn_db E port ip db user pw ssl s =
     open_conn_db_flags E port ip (Some db) user pw CLIENT_MULTI_STATEMENTS ssl s"

definition open_conn ::
  "env \<Rightarrow> int \<Rightarrow> string \<Rightarrow> string \<Rightarrow> string \<Rightarrow> bool
   \<Rightarrow> 'a world_scheme \<Rightarrow> conn option \<times> 'a world_scheme" where
  "open_conn E port ip user pw ssl s = open_conn_db E port ip ''test'' user pw ssl s"

definition open_conn_no_db ::
  "env \<Rightarrow> int \<Rightarrow> string \<Rightarrow> string \<Rightarrow> string \<Rightarrow> bool
   \<Rightarrow> 'a world_scheme \<Rightarrow> conn option \<times> 'a world_scheme" where
  "open_conn_no_db E port ip user pw ssl s =
     open_conn_db_flags E port ip None user pw CLIENT_MULTI_STATEMENTS ssl s"

section \<open>Running queries\<close>

text \<open>
  \<open>do { res = mysql_store_result(conn); ... } while (mysql_next_result(conn) == 0)\<close>
  over the results of the last query, with a body that may look at the stored result.
\<close>

fun each_result ::
  "conn option \<Rightarrow> (rset \<Rightarrow> 'b \<Rightarrow> 'b option) \<Rightarrow> rset \<Rightarrow> rset list \<Rightarrow> 'b
   \<Rightarrow> 'a world_scheme \<Rightarrow> ('b \<times> 'a world_scheme) option" where
  "each_result c f r [] b s =
     do { b' \<leftarrow> f r b; Some (b', mysql_next c (mysql_store c s)) }"
| "each_result c f r (r' # rs) b s =
     do { b' \<leftarrow> f r b; each_result c f r' rs b' (mysql_next c (mysql_store c s)) }"

text \<open>The loop that stores and frees every result.\<close>

fun drain :: "conn option \<Rightarrow> rset list \<Rightarrow> 'a world_scheme \<Rightarrow> 'a world_scheme" where
  "drain c [] s = mysql_next c (mysql_store c s)"
| "drain c (r # rs) s = drain c rs (mysql_next c (mysql_store c s))"

definition execute_query1 ::
  "env \<Rightarrow> conn option \<Rightarrow> string \<Rightarrow> bool \<Rightarrow> 'a world_scheme \<Rightarrow> int \<times> 'a world_scheme" where
  "execute_query1 E c sql silent s =
     (case c of
        None \<Rightarrow> (1, s)
      | Some _ \<Rightarrow>
          (let (rep, s) = mysql_query E c sql s in
           case rep of
             QFail \<Rightarrow> (1, s)
           | QOk r rs \<Rightarrow> (0, drain c rs s)))"

definition execute_query ::
  "env \<Rightarrow> conn option \<Rightarrow> string \<Rightarrow> 'a world_scheme \<Rightarrow> int \<times> 'a world_scheme" where
  "execute_query E c sql s = execute_query1 E c sql False s"

definition execute_query_fmt ::
  "env \<Rightarrow> conn option \<Rightarrow> string \<Rightarrow> 'a world_scheme \<Rightarrow> (int \<times> 'a world_scheme) option" where
  "execute_query_fmt E c format s =
     do { sql \<leftarrow> c_format0 format; Some (execute_query1 E c sql False s) }"

definition execute_query_silent ::
  "env \<Rightarrow> conn option \<Rightarrow> string \<Rightarrow> 'a world_scheme \<Rightarrow> int \<times> 'a world_scheme" where
  "execute_query_silent E c sql s = execute_query1 E c sql True s"

text \<open>
  \<open>while (isspace(*nul)) *nul-- = 0\<close> from the last character: on a line of blanks only it
  runs past the start of the buffer.
\<close>

definition trim_end :: "string \<Rightarrow> string option" where
  "trim_end buf =
     (if \<forall>c \<in> set buf. is_space c then None
      else Some (rev (dropWhile is_space (rev buf))))"

definition execute_query_from_file ::
  "env \<Rightarrow> conn option \<Rightarrow> string \<Rightarrow> 'a world_scheme \<Rightarrow> (int \<times> 'a world_scheme) option" where
  "execute_query_from_file E c file s =
     (let g = fs_gets E (trace s) file; s = emit (EGets file) s in
      case g of
        GotLine line \<Rightarrow>
          do { buf \<leftarrow> trim_end line;
               let ptr = dropWhile is_space buf;
               Some (if ptr \<noteq> [] then execute_query1 E c buf False s else (-1, s)) }
      | ReadError \<Rightarrow> Some (1, s)
      | AtEof \<Rightarrow> Some (-1, s))"

text \<open>One result inside \<open>execute_query_check_one\<close>: the new value of \<open>r\<close>.\<close>

definition check_one_result :: "string \<Rightarrow> rset \<Rightarrow> int \<Rightarrow> int option" where
  "check_one_result expected rs r =
     (case stored rs of
        None \<Rightarrow> Some r
      | Some res \<Rightarrow>
          (if length (rows res) = 1
           then do { f \<leftarrow> row_at (hd (rows res)) 0;
                     Some (case f of
                             None \<Rightarrow> r
                           | Some v \<Rightarrow> if v = expected then 0 else r) }
           else Some r))"

text \<open>\<open>for (i = 0; i < n_attempts && r != 0; i++)\<close>, with a \<open>break\<close> when the query fails.\<close>

fun check_one_attempts ::
  "env \<Rightarrow> conn option \<Rightarrow> string \<Rightarrow> string \<Rightarrow> nat \<Rightarrow> bool \<Rightarrow> int
   \<Rightarrow> 'a world_scheme \<Rightarrow> (int \<times> 'a world_scheme) option" where
  "check_one_attempts E c sql expected 0 first r s = Some (r, s)"
| "check_one_attempts E c sql expected (Suc n) first r s =
     (if r = 0 then Some (r, s)
      else
        let s = (if first then s else c_sleep 1 s);
            (rep, s) = mysql_query E c sql s
        in case rep of
             QFail \<Rightarrow> Some (r, s)
           | QOk q qs \<Rightarrow>
               do { (r, s) \<leftarrow> each_result c (check_one_result expected) q qs r s;
                    check_one_attempts E c sql expected n False r s })"

definition execute_query_check_one ::
  "env \<Rightarrow> conn option \<Rightarrow> string \<Rightarrow> string \<Rightarrow> 'a world_scheme \<Rightarrow> (int \<times> 'a world_scheme) option" where
  "execute_query_check_one E c sql expected s =
     (if c \<noteq> None then check_one_attempts E c sql expected 3 True 1 s else Some (1, s))"

text \<open>Returns the result code and the last value stored in \<open>*affected_rows\<close>, if any.\<close>

fun drain_affected ::
  "conn option \<Rightarrow> rset \<Rightarrow> rset list \<Rightarrow> 'a world_scheme \<Rightarrow> nat \<times> 'a world_scheme" where
  "drain_affected c r [] s = (affected r, mysql_next c (mysql_store c s))"
| "drain_affected c r (r' # rs) s = drain_affected c r' rs (mysql_next c (mysql_store c s))"

definition execute_query_affected_rows ::
  "env \<Rightarrow> conn option \<Rightarrow> string \<Rightarrow> 'a world_scheme \<Rightarrow> (int \<times> nat option) \<times> 'a world_scheme" where
  "execute_query_affected_rows E c sql s =
     (case c of
        None \<Rightarrow> ((1, None), s)
      | Some _ \<Rightarrow>
          (let (rep, s) = mysql_query E c sql s in
           case rep of
             QFail \<Rightarrow> ((1, None), s)
           | QOk r rs \<Rightarrow>
               (let (n, s) = drain_affected c r rs s in ((0, Some n), s))))"

text \<open>
  The rows of every result, in the order the code stores them in \<open>num_of_rows\<close>; the
  length of the list is \<open>*i\<close>. The function itself does not bound the array.
\<close>

definition count_result :: "rset \<Rightarrow> nat" where
  "count_result r = (case stored r of None \<Rightarrow> 0 | Some res \<Rightarrow> length (rows res))"

definition execute_query_num_of_rows ::
  "env \<Rightarrow> conn option \<Rightarrow> string \<Rightarrow> 'a world_scheme \<Rightarrow> (int \<times> nat list) \<times> 'a world_scheme" where
  "execute_query_num_of_rows E c sql s =
     (case c of
        None \<Rightarrow> ((1, []), s)
      | Some _ \<Rightarrow>
          (let (rep, s) = mysql_query E c sql s in
           case rep of
             QFail \<Rightarrow> ((1, []), s)
           | QOk r rs \<Rightarrow> ((0, map count_result (r # rs)), drain c rs s)))"

fun stmt_drain :: "stmt \<Rightarrow> nat list \<Rightarrow> 'a world_scheme \<Rightarrow> 'a world_scheme" where
  "stmt_drain st [] s = emit (EStmtNext st) (emit (EStmtStore st) s)"
| "stmt_drain st (n # ns) s = stmt_drain st ns (emit (EStmtNext st) (emit (EStmtStore st) s))"

definition execute_stmt_num_of_rows ::
  "env \<Rightarrow> stmt \<Rightarrow> 'a world_scheme \<Rightarrow> (int \<times> nat list) \<times> 'a world_scheme" where
  "execute_stmt_num_of_rows E st s =
     (let rep = my_stmt_exec E (trace s) st; s = emit (EStmtExec st) s in
      case rep of
        None \<Rightarrow> ((1, []), s)
      | Some (n, ns) \<Rightarrow> ((0, n # ns), stmt_drain st ns s))"

text \<open>
  \<open>int rval\<close> accumulates \<open>unsigned long long\<close> counts: each sum is reduced to 32 bits. The
  local array has 1024 elements, and a longer sequence of results overruns it.
\<close>

definition execute_query_count_rows ::
  "env \<Rightarrow> conn option \<Rightarrow> string \<Rightarrow> 'a world_scheme \<Rightarrow> (int \<times> 'a world_scheme) option" where
  "execute_query_count_rows E c sql s =
     (let ((rc, ns), s) = execute_query_num_of_rows E c sql s in
      if length ns > 1024 then None
      else if rc = 0
      then Some (sint (fold (\<lambda>n (acc :: 32 word). acc + of_nat n) ns 0), s)
      else Some (-1, s))"

section \<open>Reading single values\<close>

text \<open>
  A row of \<open>show processlist\<close>: column 2 is the host, column 3 the database. Both tests
  add to the count.
\<close>

definition count_conn_row ::
  "string \<Rightarrow> string \<Rightarrow> string \<Rightarrow> row \<Rightarrow> 32 word \<Rightarrow> 32 word option" where
  "count_conn_row ip host db r n =
     do { h \<leftarrow> row_at r 2;
          d \<leftarrow> row_at r 3;
          Some (case (h, d) of
                  (Some h, Some d) \<Rightarrow>
                    (let n = (if strstr h ip \<noteq> None \<and> strstr d db \<noteq> None then n + 1 else n)
                     in if strstr h host \<noteq> None \<and> strstr d db \<noteq> None then n + 1 else n)
                | _ \<Rightarrow> n) }"

fun count_conn_rows ::
  "string \<Rightarrow> string \<Rightarrow> string \<Rightarrow> row list \<Rightarrow> 32 word \<Rightarrow> 32 word option" where
  "count_conn_rows ip host db [] n = Some n"
| "count_conn_rows ip host db (r # rs) n =
     do { n' \<leftarrow> count_conn_row ip host db r n; count_conn_rows ip host db rs n' }"

definition get_conn_num ::
  "env \<Rightarrow> conn option \<Rightarrow> string \<Rightarrow> string \<Rightarrow> string \<Rightarrow> 'a world_scheme
   \<Rightarrow> (int \<times> 'a world_scheme) option" where
  "get_conn_num E c ip hostname db s =
     (let host = (if ip = ''127.0.0.1'' then ''localhost'' else hostname) in
      do { (n, s) \<leftarrow>
             (case c of
                None \<Rightarrow> Some (0, s)
              | Some _ \<Rightarrow>
                  (let (rep, s) = mysql_query E c ''show processlist;'' s in
                   case rep of
                     QFail \<Rightarrow> Some (0, s)
                   | QOk r rs \<Rightarrow>
                       (let s = mysql_store c s in
                        case stored r of
                          None \<Rightarrow> Some (- 1, s)
                        | Some res \<Rightarrow>
                            do { n \<leftarrow> count_conn_rows ip host db (rows res) 0; Some (n, s) })));
           let n = (if ip = ''127.0.0.1'' then n - 1 else n);
           Some (sint n, s) })"

text \<open>
  The loop over the fields: the index of the first name that contains the wanted one, or
  index 0 and \<open>ret = 1\<close> when there is none.
\<close>

fun field_index :: "string \<Rightarrow> nat \<Rightarrow> string list \<Rightarrow> nat option" where
  "field_index name i [] = None"
| "field_index name i (f # fs) = (if strstr f name \<noteq> None then Some i else field_index name (Suc i) fs)"

text \<open>
  \<open>find_field\<close> returns the code and what it wrote to \<open>value\<close>: \<^const>\<open>None\<close> when the buffer
  was left alone. Formatting a SQL NULL with \<open>%s\<close> passes a null pointer to \<open>sprintf\<close>.
\<close>

definition find_in_result :: "string \<Rightarrow> mysql_res \<Rightarrow> (int \<times> string option) option" where
  "find_in_result name res =
     (let (ret, i) = (case field_index name 0 (field_names res) of
                        None \<Rightarrow> (1, 0)
                      | Some i \<Rightarrow> (0 :: int, i))
      in case rows res of
           [] \<Rightarrow> Some (ret, None)
         | r # _ \<Rightarrow>
             do { f \<leftarrow> row_at r i;
                  v \<leftarrow> f;
                  Some (ret, Some v) })"

definition find_field ::
  "env \<Rightarrow> conn option \<Rightarrow> string \<Rightarrow> string \<Rightarrow> 'a world_scheme
   \<Rightarrow> ((int \<times> string option) \<times> 'a world_scheme) option" where
  "find_field E c sql name s =
     (case c of
        None \<Rightarrow> Some ((1, None), s)
      | Some _ \<Rightarrow>
          (let (rep, s) = mysql_query E c sql s in
           case rep of
             QFail \<Rightarrow> Some ((1, None), s)
           | QOk r rs \<Rightarrow>
               (let s = mysql_store c s in
                do { v \<leftarrow> (case stored r of
                            None \<Rightarrow> Some (1, None)
                          | Some res \<Rightarrow> find_in_result name res);
                     Some (v, drain c rs s) })))"

text \<open>\<open>sscanf(str, "%u", &SBM)\<close> on the buffer; reading it uninitialised has no result.\<close>

definition get_seconds_behind_master ::
  "env \<Rightarrow> conn option \<Rightarrow> 'a world_scheme \<Rightarrow> (32 word \<times> 'a world_scheme) option" where
  "get_seconds_behind_master E c s =
     do { ((ret, v), s) \<leftarrow> find_field E c ''show slave status;'' ''Seconds_Behind_Master'' s;
          if ret \<noteq> 1
          then do { str \<leftarrow> v;
                    Some (case scan_int str of None \<Rightarrow> 0 | Some (i, _) \<Rightarrow> word_of_int i, s) }
          else Some (0, s) }"

definition read_log ::
  "env \<Rightarrow> string \<Rightarrow> 'a world_scheme \<Rightarrow> (int \<times> string option) \<times> 'a world_scheme" where
  "read_log E name s =
     (let f = fs_read E (trace s) name; ok = mem_ok E (trace s); s = emit (EReadFile name) s in
      case f of
        None \<Rightarrow> ((1, None), s)
      | Some content \<Rightarrow>
          (if ok then ((0, Some (map (\<lambda>c. if c = char_of (0::nat) then newline else c) content)), s)
           else ((1, None), s)))"

section \<open>Version numbers\<close>

text \<open>
  \<open>std::istringstream >> int\<close>: \<^const>\<open>None\<close> is a stream with its failure bit set, on which
  an extraction leaves the variable (here: zero) alone; a number out of range is clamped
  and sets the bit.
\<close>

definition extract_int :: "string option \<Rightarrow> int \<times> string option" where
  "extract_int st =
     (case st of
        None \<Rightarrow> (0, None)
      | Some s \<Rightarrow>
          (case scan_int s of
             None \<Rightarrow> (0, None)
           | Some (i, r) \<Rightarrow>
               if int32_ok i then (i, Some r)
               else (if i < 0 then - (2 ^ 31) else 2 ^ 31 - 1, None)))"

definition extract_char :: "string option \<Rightarrow> string option" where
  "extract_char st =
     (case st of
        None \<Rightarrow> None
      | Some s \<Rightarrow> (case dropWhile is_space s of [] \<Rightarrow> None | _ # r \<Rightarrow> Some r))"

text \<open>Signed overflow in the final sum is undefined.\<close>

definition get_int_version :: "string \<Rightarrow> int option" where
  "get_int_version version =
     (let (major, st) = extract_int (Some version);
          st = extract_char st;
          (minor, st) = extract_int st;
          st = extract_char st;
          (patch, st) = extract_int st
      in do { a \<leftarrow> mul32 major 10000;
              b \<leftarrow> mul32 minor 100;
              if int32_ok (a + b) \<and> int32_ok (a + b + patch) then Some (a + b + patch) else None })"

end
