(* ===== verification/Func_Lemmas.thy ===== *)
theory Func_Lemmas
  imports Mariadb_Func
begin

text \<open>
  What the query functions of \<open>mariadb_func.cpp\<close> do to the world: each only adds events to
  the log, and for the frequent ones the events are known exactly. The locale
  \<open>query_runner\<close> is the contract of the functions that run a statement for its effect: a
  result of 0 or 1 and a log that only grows. Its clients are the loops that count failures.
\<close>

section \<open>The log\<close>

text \<open>The library calls that fetch the results of one query.\<close>

definition fetch_events :: "conn option \<Rightarrow> nat \<Rightarrow> hist" where
  "fetch_events c n = concat (replicate n [EStore c, ENext c])"

lemma fetch_events_Suc: "fetch_events c (Suc n) = EStore c # ENext c # fetch_events c n"
  by (simp add: fetch_events_def)

lemma next_store_emits: "mysql_next c (mysql_store c s) = emits [EStore c, ENext c] s"
  by (simp add: mysql_next_def mysql_store_def emit_emits)

lemma drain_emits: "drain c rs s = emits (fetch_events c (Suc (length rs))) s"
  by (induction rs arbitrary: s)
    (simp_all add: next_store_emits fetch_events_def)

lemma each_result_emits:
  "each_result c f r rs b s = Some (b', s') \<Longrightarrow> s' = emits (fetch_events c (Suc (length rs))) s"
proof (induction rs arbitrary: r b s)
  case Nil
  then show ?case
    by (auto simp: Option.bind_eq_Some_conv next_store_emits fetch_events_def)
next
  case (Cons r' rs)
  then obtain b1 where "each_result c f r' rs b1 (emits [EStore c, ENext c] s) = Some (b', s')"
    by (auto simp: Option.bind_eq_Some_conv next_store_emits)
  from Cons.IH[OF this] show ?case by (simp add: fetch_events_Suc)
qed

lemma drain_affected_emits:
  "drain_affected c r rs s = (affected (last (r # rs)), emits (fetch_events c (Suc (length rs))) s)"
  by (induction rs arbitrary: r s) (simp_all add: next_store_emits fetch_events_def)

lemma extends_drain [log_extends]: "extends s (drain c rs s)"
  by (simp add: drain_emits)

section \<open>Frames\<close>

lemma extends_set_ssl [log_extends]: "extends s (snd (set_ssl E c s))"
  by (simp add: set_ssl_def Let_def)

lemma extends_real_connect [log_extends]:
  "extends s (snd (real_connect E c ip user pw db port flag s))"
  by (simp add: real_connect_def)

lemma extends_open_conn_db_flags [log_extends]:
  "extends s (snd (open_conn_db_flags E port ip db user pw flag ssl s))"
  by (auto simp: open_conn_db_flags_def mysql_init_def Let_def real_connect_def set_ssl_def emit_emits
      split: option.splits)

lemma extends_open_conn_db_timeout [log_extends]:
  "extends s (snd (open_conn_db_timeout E port ip db user pw t ssl s))"
  by (auto simp: open_conn_db_timeout_def mysql_init_def Let_def real_connect_def set_ssl_def emit_emits
      split: option.splits)

lemma extends_open_conns [log_extends]:
  "extends s (snd (open_conn_db E port ip db' user pw ssl s))"
  "extends s (snd (open_conn E port ip user pw ssl s))"
  "extends s (snd (open_conn_no_db E port ip user pw ssl s))"
  by (simp_all add: open_conn_db_def open_conn_def open_conn_no_db_def log_extends)

text \<open>The exact effect of \<^const>\<open>execute_query1\<close>, for every reply.\<close>

lemma execute_query1_eq:
  "execute_query1 E c sql silent s =
     (case c of
        None \<Rightarrow> (1, s)
      | Some _ \<Rightarrow>
          (case my_query E (trace s) c sql of
             QFail \<Rightarrow> (1, emits [EQuery c sql] s)
           | QOk r rs \<Rightarrow> (0, emits (EQuery c sql # fetch_events c (Suc (length rs))) s)))"
  by (auto simp: execute_query1_def mysql_query_def drain_emits emit_emits Let_def
      split: option.splits reply.splits)

lemma extends_execute_query1 [log_extends]: "extends s (snd (execute_query1 E c sql silent s))"
  by (auto simp: execute_query1_eq split: option.splits reply.splits)

lemma extends_execute_query [log_extends]: "extends s (snd (execute_query E c sql s))"
  by (simp add: execute_query_def log_extends)

lemma extends_execute_query_silent [log_extends]: "extends s (snd (execute_query_silent E c sql s))"
  by (simp add: execute_query_silent_def log_extends)

lemma extends_execute_query_fmt:
  "execute_query_fmt E c f s = Some (r, s') \<Longrightarrow> extends s s'"
  using extends_execute_query1[of s E c _ False]
  by (auto simp: execute_query_fmt_def Option.bind_eq_Some_conv) (metis snd_conv)

lemma extends_execute_query_affected_rows [log_extends]:
  "extends s (snd (execute_query_affected_rows E c sql s))"
  by (auto simp: execute_query_affected_rows_def mysql_query_def drain_affected_emits emit_emits Let_def
      split: option.splits reply.splits)

lemma extends_execute_query_num_of_rows [log_extends]:
  "extends s (snd (execute_query_num_of_rows E c sql s))"
  by (auto simp: execute_query_num_of_rows_def mysql_query_def drain_emits emit_emits Let_def
      split: option.splits reply.splits)

lemma extends_find_field:
  "find_field E c sql name s = Some (r, s') \<Longrightarrow> extends s s'"
  by (auto simp: find_field_def mysql_query_def mysql_store_def drain_emits emit_emits Let_def
      Option.bind_eq_Some_conv split: option.splits reply.splits)

lemma extends_get_conn_num:
  "get_conn_num E c ip h db s = Some (r, s') \<Longrightarrow> extends s s'"
  by (auto simp: get_conn_num_def mysql_query_def mysql_store_def emit_emits Let_def
      Option.bind_eq_Some_conv split: option.splits reply.splits if_splits)

lemma extends_read_log [log_extends]: "extends s (snd (read_log E name s))"
  by (auto simp: read_log_def Let_def split: option.splits)

lemma extends_check_one_attempts:
  "check_one_attempts E c sql ex n first r s = Some (r', s') \<Longrightarrow> extends s s'"
proof (induction n arbitrary: first r s)
  case 0
  then show ?case by simp
next
  case (Suc n)
  show ?case
  proof (cases "r = 0")
    case True
    with Suc.prems show ?thesis by simp
  next
    case False
    define s1 where "s1 = (if first then s else c_sleep 1 s)"
    have e1: "extends s (emit (EQuery c sql) s1)"
      by (auto simp: s1_def c_sleep_def intro: extends_emit_trans)
    show ?thesis
    proof (cases "my_query E (trace s1) c sql")
      case QFail
      with Suc.prems False e1 show ?thesis by (simp add: mysql_query_def s1_def[symmetric])
    next
      case (QOk q qs)
      with Suc.prems False obtain r2 s2 where
        er: "each_result c (check_one_result ex) q qs r (emit (EQuery c sql) s1) = Some (r2, s2)" and
        rest: "check_one_attempts E c sql ex n False r2 s2 = Some (r', s')"
        by (auto simp: mysql_query_def s1_def[symmetric] Option.bind_eq_Some_conv)
      have "extends (emit (EQuery c sql) s1) s2" using each_result_emits[OF er] by simp
      with e1 Suc.IH[OF rest] show ?thesis by (meson extends_trans)
    qed
  qed
qed

lemma extends_execute_query_check_one:
  "execute_query_check_one E c sql ex s = Some (r, s') \<Longrightarrow> extends s s'"
  by (auto simp: execute_query_check_one_def intro: extends_check_one_attempts split: if_splits)

section \<open>Running a statement for its effect\<close>

locale query_runner =
  fixes run :: "conn option \<Rightarrow> string \<Rightarrow> 'a world_scheme \<Rightarrow> int \<times> 'a world_scheme"
  assumes run_code: "fst (run c q s) = 0 \<or> fst (run c q s) = 1"
    and run_extends: "extends s (snd (run c q s))"
    and run_null: "fst (run None q s) = 1"
begin

text \<open>
  A loop each of whose turns runs one statement (on a handle and with a text that may depend
  on the turn and the state) returns the number of statements that failed.
\<close>

lemma count_failures:
  assumes "\<And>i s. \<exists>c q. f i s = run c q s"
  shows "0 \<le> fst (sum_loop ids f s) \<and> fst (sum_loop ids f s) \<le> int (length ids)"
proof -
  have "0 \<le> fst (f i s) \<and> fst (f i s) \<le> 1" for i s
    using assms[of i s] run_code by (metis dual_order.refl zero_le_one)
  then show ?thesis using sum_loop_bounds[of ids f 1 s] by simp
qed

lemma all_succeed:
  assumes "\<And>i s. \<exists>c q. f i s = run c q s" and "fst (sum_loop ids f s) = 0" and "ids \<noteq> []"
  shows "\<exists>c q. f (hd ids) s = run (Some c) q s"
proof -
  obtain i js where ids: "ids = i # js" using assms(3) by (cases ids) auto
  obtain c q where f: "f i s = run c q s" using assms(1) by blast
  have "0 \<le> fst (sum_loop js f (snd (f i s)))" using count_failures[where f = f and ids = js, OF assms(1)] by blast
  moreover have "fst (f i s) + fst (sum_loop js f (snd (f i s))) = 0"
    using assms(2) ids by (simp add: split_def Let_def)
  ultimately have "c \<noteq> None" using f run_code[of c q s] run_null[of q s] by (cases c) auto
  then show ?thesis using f ids by auto
qed

lemma loop_extends:
  assumes "\<And>i s. \<exists>c q. f i s = run c q s"
  shows "extends s (snd (sum_loop ids f s))"
  by (rule extends_sum_loop) (metis assms run_extends)

end

interpretation eq: query_runner "execute_query E"
  by unfold_locales
    (auto simp: execute_query_def execute_query1_eq log_extends split: option.splits reply.splits)

interpretation eqs: query_runner "execute_query_silent E"
  by unfold_locales
    (auto simp: execute_query_silent_def execute_query1_eq log_extends split: option.splits reply.splits)

end
