(* ===== verification/Func_Props.thy ===== *)
theory Func_Props
  imports Func_Lemmas
begin

text \<open>
  The properties of \<open>mariadb_func.cpp\<close>: what running a statement returns and sends, when a
  value is found, how connections and rows are counted, and how version texts compare.
\<close>

section \<open>Running statements\<close>

text \<open>The loop of \<open>execute_query_check_one\<close>: a result that carries the expected value alone.\<close>

definition single_answer :: "string \<Rightarrow> rset \<Rightarrow> bool" where
  "single_answer v r \<longleftrightarrow>
     (case stored r of Some res \<Rightarrow> (case rows res of [f # _] \<Rightarrow> f = Some v | _ \<Rightarrow> False) | None \<Rightarrow> False)"

definition queries_sent :: "hist \<Rightarrow> nat" where
  "queries_sent h = length (filter (\<lambda>e. case e of EQuery _ _ \<Rightarrow> True | _ \<Rightarrow> False) h)"

lemma queries_sent_simps [simp]:
  "queries_sent (xs @ ys) = queries_sent xs + queries_sent ys"
  "queries_sent [EQuery c q] = 1"
  "queries_sent [ESleep n] = 0"
  "queries_sent (EQuery c q # es) = Suc (queries_sent es)"
  "queries_sent (ESleep n # es) = queries_sent es"
  "queries_sent [] = 0"
  by (simp_all add: queries_sent_def)

lemma queries_sent_fetch [simp]: "queries_sent (fetch_events c n) = 0"
  by (induction n) (simp_all add: fetch_events_Suc queries_sent_def fetch_events_def)

lemma check_one_result_single:
  assumes "check_one_result v r a = Some b"
  shows "b = 0 \<longleftrightarrow> a = 0 \<or> single_answer v r"
proof (cases "stored r")
  case None
  with assms show ?thesis by (simp add: check_one_result_def single_answer_def)
next
  case (Some res)
  show ?thesis
  proof (cases "length (rows res) = 1")
    case True
    then obtain rw where "rows res = [rw]" by (cases "rows res") auto
    with assms Some show ?thesis
      by (cases rw) (auto simp: check_one_result_def single_answer_def row_at_def
          Option.bind_eq_Some_conv split: option.splits if_splits)
  next
    case False
    with assms Some show ?thesis
      by (auto simp: check_one_result_def single_answer_def split: list.splits)
  qed
qed

lemma each_result_single:
  "each_result c (check_one_result v) r rs a s = Some (b, s') \<Longrightarrow>
   b = 0 \<longleftrightarrow> a = 0 \<or> (\<exists>x \<in> set (r # rs). single_answer v x)"
proof (induction rs arbitrary: r a s)
  case Nil
  then show ?case by (auto simp: Option.bind_eq_Some_conv dest: check_one_result_single)
next
  case (Cons x rs)
  then obtain b1 where b1: "check_one_result v r a = Some b1"
    and r: "each_result c (check_one_result v) x rs b1 (mysql_next c (mysql_store c s)) = Some (b, s')"
    by (auto simp: Option.bind_eq_Some_conv)
  show ?case using Cons.IH[OF r] check_one_result_single[OF b1] by auto
qed

lemma check_one_attempts_spec:
  assumes "check_one_attempts E c sql v n first a s = Some (b, s')"
  shows "\<exists>es. trace s' = trace s @ es \<and> queries_sent es \<le> n \<and>
     (b = 0 \<longrightarrow> a = 0 \<or> (\<exists>pre q qs. my_query E (trace s @ pre) c sql = QOk q qs \<and>
        (\<exists>x \<in> set (q # qs). single_answer v x)))"
  using assms
proof (induction n arbitrary: first a s)
  case 0
  then show ?case by auto
next
  case (Suc n)
  show ?case
  proof (cases "a = 0")
    case True
    with Suc.prems show ?thesis by (intro exI[of _ "[]"]) auto
  next
    case False
    define pre where "pre = (if first then [] else [ESleep 1])"
    have s1: "(if first then s else c_sleep 1 s) = emits pre s"
      by (simp add: pre_def c_sleep_def emit_emits)
    have pre0: "queries_sent pre = 0" by (simp add: pre_def)
    show ?thesis
    proof (cases "my_query E (trace s @ pre) c sql")
      case QFail
      with Suc.prems False show ?thesis
        by (intro exI[of _ "pre @ [EQuery c sql]"]) (auto simp: s1 mysql_query_def emit_emits pre0 split: if_splits)
    next
      case (QOk q qs)
      with Suc.prems False obtain a2 s2 where
        er: "each_result c (check_one_result v) q qs a (emits (pre @ [EQuery c sql]) s) = Some (a2, s2)" and
        rest: "check_one_attempts E c sql v n False a2 s2 = Some (b, s')"
        by (auto simp: s1 mysql_query_def emit_emits Option.bind_eq_Some_conv)
      let ?d = "pre @ EQuery c sql # fetch_events c (Suc (length qs))"
      have s2: "trace s2 = trace s @ ?d" using each_result_emits[OF er] by simp
      from Suc.IH[OF rest] obtain es where es: "trace s' = trace s2 @ es" "queries_sent es \<le> n"
        and ok: "b = 0 \<longrightarrow> a2 = 0 \<or> (\<exists>pre q qs. my_query E (trace s2 @ pre) c sql = QOk q qs \<and>
          (\<exists>x \<in> set (q # qs). single_answer v x))" by blast
      have "b = 0 \<longrightarrow> (\<exists>pre q qs. my_query E (trace s @ pre) c sql = QOk q qs \<and>
          (\<exists>x \<in> set (q # qs). single_answer v x))"
        using ok each_result_single[OF er] False QOk s2 by (metis append.assoc)
      then show ?thesis
        using es s2 pre0 by (intro exI[of _ "?d @ es"]) auto
    qed
  qed
qed

text \<open>
  \<open>execute_query\<close> returns 0 exactly when there is a connection and the server accepts the
  statement; the statement is sent once, and then every result of it is stored and advanced
  over, so that no result is left pending on the connection.
\<close>

theorem execute_query_sends:
  "execute_query E c sql s =
     (case c of
        None \<Rightarrow> (1, s)
      | Some _ \<Rightarrow>
          (case my_query E (trace s) c sql of
             QFail \<Rightarrow> (1, emits [EQuery c sql] s)
           | QOk r rs \<Rightarrow> (0, emits (EQuery c sql # fetch_events c (length (r # rs))) s)))"
  by (simp add: execute_query_def execute_query1_eq split: option.splits reply.splits)

text \<open>
  C26. \<open>execute_query_check_one\<close> sends the query at most three times, and it reports success
  (0) only if some answer contained a result set of exactly one row whose first column is the
  expected value.
\<close>

theorem execute_query_check_one_sound:
  assumes "execute_query_check_one E c sql v s = Some (r, s')"
  shows "\<exists>es. trace s' = trace s @ es \<and> queries_sent es \<le> 3 \<and>
     (r = 0 \<longrightarrow> (\<exists>pre q qs. my_query E (trace s @ pre) c sql = QOk q qs \<and>
        (\<exists>x \<in> set (q # qs). single_answer v x)))"
proof (cases c)
  case None
  with assms show ?thesis by (intro exI[of _ "[]"]) (auto simp: execute_query_check_one_def)
next
  case (Some k)
  with assms show ?thesis
    using check_one_attempts_spec[of E c sql v 3 True 1 s r s']
    by (simp add: execute_query_check_one_def)
qed

definition one_value_reply :: "string \<Rightarrow> reply" where
  "one_value_reply v = QOk \<lparr>stored = Some \<lparr>field_names = [''v''], rows = [[Some v]]\<rparr>, affected = 0\<rparr> []"

theorem execute_query_check_one_sound_witness:
  "\<exists>es. queries_sent es \<le> 3 \<and>
    snd (the (execute_query_check_one (dead_env\<lparr>my_query := (\<lambda>_ _ _. one_value_reply ''1'')\<rparr>)
          (Some 0) ''select 1'' ''1'' start_world)) = emits es start_world"
proof -
  have "execute_query_check_one (dead_env\<lparr>my_query := (\<lambda>_ _ _. one_value_reply ''1'')\<rparr>)
          (Some 0) ''select 1'' ''1'' start_world
        = Some (0, emits [EQuery (Some 0) ''select 1'', EStore (Some 0), ENext (Some 0)] start_world)"
    by (simp add: execute_query_check_one_def one_value_reply_def mysql_query_def mysql_store_def
        mysql_next_def emit_emits numeral_3_eq_3 check_one_result_def row_at_def)
  from execute_query_check_one_sound[OF this] this show ?thesis
    by (auto simp: emits_def start_world_def)
qed

lemma dropWhile_rev_nonblank:
  assumes "\<exists>c \<in> set l. \<not> P c"
  shows "\<exists>c \<in> set (rev (dropWhile P (rev l))). \<not> P c"
proof -
  have "dropWhile P (rev l) \<noteq> []" using assms by (simp add: dropWhile_eq_Nil_conv)
  then show ?thesis by (metis hd_dropWhile list.set_sel(1) set_rev)
qed

text \<open>
  C36. \<open>execute_query_from_file\<close> on a line of the file: it has a defined result exactly when the
  line holds a character that is not blank, and then it sends the line without its trailing
  blanks, its leading blanks included.
\<close>

theorem execute_query_from_file_line:
  assumes "fs_gets E (trace s) file = GotLine line"
  shows "execute_query_from_file E c file s =
    (if \<exists>x \<in> set line. \<not> is_space x
     then Some (execute_query1 E c (rev (dropWhile is_space (rev line))) False (emit (EGets file) s))
     else None)"
proof (cases "\<exists>x \<in> set line. \<not> is_space x")
  case True
  then have "dropWhile is_space (rev (dropWhile is_space (rev line))) \<noteq> []"
    using dropWhile_rev_nonblank[of line is_space] by (simp add: dropWhile_eq_Nil_conv)
  with True assms show ?thesis
    by (auto simp: execute_query_from_file_def trim_end_def)
next
  case False
  with assms show ?thesis by (simp add: execute_query_from_file_def trim_end_def)
qed

theorem execute_query_from_file_line_witness:
  "execute_query_from_file (dead_env\<lparr>fs_gets := (\<lambda>_ _. GotLine '' a '')\<rparr>) None ''f'' start_world
     = Some (1, emit (EGets ''f'') start_world)
   \<and> execute_query_from_file (dead_env\<lparr>fs_gets := (\<lambda>_ _. GotLine ''  '')\<rparr>) None ''f'' start_world = None"
proof -
  have sp: "is_space (CHR '' '')" "\<not> is_space (CHR ''a'')" by (simp_all add: is_space_def)
  show ?thesis
    by (simp add: execute_query_from_file_line sp execute_query1_eq)
qed

section \<open>Reading values\<close>

lemma field_index_spec:
  "field_index name k fs = Some i \<longleftrightarrow>
     k \<le> i \<and> i < k + length fs \<and> sublist name (fs ! (i - k)) \<and> (\<forall>j < i - k. \<not> sublist name (fs ! j))"
proof (induction fs arbitrary: k)
  case Nil
  then show ?case by auto
next
  case (Cons f fs)
  show ?case
  proof (cases "sublist name f")
    case True
    then show ?thesis
      by (auto simp: strstr_None nth_Cons' split: if_splits)
  next
    case False
    show ?thesis
    proof (cases "i = k")
      case True
      with False Cons show ?thesis by (simp add: strstr_None)
    next
      case ne: False
      have all: "(\<forall>j < i - k. \<not> sublist name ((f # fs) ! j)) \<longleftrightarrow> (\<forall>j < i - Suc k. \<not> sublist name (fs ! j))"
        if "k < i"
        unfolding Suc_diff_Suc[OF that, symmetric] All_less_Suc2 using False by simp
      have "(f # fs) ! (i - k) = fs ! (i - Suc k)" if "k < i"
        unfolding Suc_diff_Suc[OF that, symmetric] by simp
      then show ?thesis
        using False ne Cons.IH[of "Suc k"] all by (auto simp: strstr_None)
    qed
  qed
qed

lemma field_index_None: "field_index name k fs = None \<longleftrightarrow> (\<forall>f \<in> set fs. \<not> sublist name f)"
  by (induction fs arbitrary: k) (auto simp: strstr_None strstr_ex)

text \<open>
  C37. \<open>find_field\<close> on an accepted query: the value it delivers is, in the first row, that of the
  first column whose name contains the wanted name, with result 0. Without such a column it
  delivers the first column with result 1; and with an empty result set it reports 0 for a
  column that exists although it has delivered nothing.
\<close>

theorem find_field_value:
  assumes "my_query E (trace s) (Some c) sql = QOk q qs" "stored q = Some res"
  shows "(\<forall>r rest. rows res = r # rest \<and> i < length (field_names res) \<and> i < length r \<and>
            sublist name (field_names res ! i) \<and> (\<forall>j < i. \<not> sublist name (field_names res ! j)) \<longrightarrow>
            map_option fst (find_field E (Some c) sql name s) = map_option (\<lambda>v. (0, Some v)) (r ! i))
      \<and> (\<forall>r rest. rows res = r # rest \<and> r \<noteq> [] \<and> (\<forall>f \<in> set (field_names res). \<not> sublist name f) \<longrightarrow>
            map_option fst (find_field E (Some c) sql name s) = map_option (\<lambda>v. (1, Some v)) (hd r))
      \<and> (rows res = [] \<longrightarrow> map_option fst (find_field E (Some c) sql name s) =
            Some (if \<exists>f \<in> set (field_names res). sublist name f then 0 else 1, None))"
proof -
  have ff: "map_option fst (find_field E (Some c) sql name s) = find_in_result name res"
    using assms
    by (cases "find_in_result name res") (simp_all add: find_field_def mysql_query_def)
  have "find_in_result name res = map_option (\<lambda>v. (0, Some v)) (r ! i)"
    if "rows res = r # rest" "i < length (field_names res)" "i < length r"
      "sublist name (field_names res ! i)" "\<forall>j < i. \<not> sublist name (field_names res ! j)" for r rest
    using field_index_spec[of name 0 "field_names res" i] that
    by (cases "r ! i") (simp_all add: find_in_result_def row_at_def)
  moreover have "find_in_result name res = map_option (\<lambda>v. (1, Some v)) (hd r)"
    if "rows res = r # rest" "r \<noteq> []" "\<forall>f \<in> set (field_names res). \<not> sublist name f" for r rest
    using field_index_None[of name 0 "field_names res"] that
    by (cases "hd r") (simp_all add: find_in_result_def row_at_def hd_conv_nth)
  moreover have "find_in_result name res =
      Some (if \<exists>f \<in> set (field_names res). sublist name f then 0 else 1, None)"
    if "rows res = []"
    using field_index_None[of name 0 "field_names res"] that
    by (auto simp: find_in_result_def split: option.splits)
  ultimately show ?thesis unfolding ff by blast
qed

definition two_columns :: reply where
  "two_columns = QOk \<lparr>stored = Some \<lparr>field_names = [''id'', ''Value''], rows = [[Some ''7'', Some ''x'']]\<rparr>,
                      affected = 0\<rparr> []"

theorem find_field_value_witness:
  "map_option fst (find_field (dead_env\<lparr>my_query := (\<lambda>_ _ _. two_columns)\<rparr>) (Some 0) ''q'' ''alu'' start_world)
     = Some (0, Some ''x'')"
proof -
  have "my_query (dead_env\<lparr>my_query := (\<lambda>_ _ _. two_columns)\<rparr>) (trace start_world) (Some 0) ''q'' = two_columns"
    by simp
  note * = find_field_value[OF this[unfolded two_columns_def], where i = 1 and name = "''alu''"]
  show ?thesis
    using * by (simp add: two_columns_def strstr_iff_sublist[symmetric] eval_nat_numeral)
qed

section \<open>Counting\<close>

definition connection_matches :: "string \<Rightarrow> string \<Rightarrow> row \<Rightarrow> bool" where
  "connection_matches host db r \<longleftrightarrow>
     (case (r ! 2, r ! 3) of (Some h, Some d) \<Rightarrow> sublist host h \<and> sublist db d | _ \<Rightarrow> False)"

definition count_rows :: "(row \<Rightarrow> bool) \<Rightarrow> row list \<Rightarrow> nat" where
  "count_rows P rs = length (filter P rs)"

lemma count_conn_row_word:
  assumes "4 \<le> length r"
  shows "count_conn_row ip host db r n =
    Some (n + of_bool (connection_matches ip db r) + of_bool (connection_matches host db r))"
  using assms
  by (auto simp: count_conn_row_def row_at_def connection_matches_def strstr_ex strstr_None
      split: option.splits)

lemma count_conn_rows_word:
  assumes "\<forall>r \<in> set rs. 4 \<le> length r"
  shows "count_conn_rows ip host db rs n =
    Some (n + of_nat (count_rows (connection_matches ip db) rs + count_rows (connection_matches host db) rs))"
  using assms
proof (induction rs arbitrary: n)
  case Nil
  then show ?case by (simp add: count_rows_def)
next
  case (Cons r rs)
  then show ?case
    by (auto simp: count_conn_row_word count_rows_def algebra_simps split: if_splits)
qed

lemma sint_small:
  assumes "n < 2 ^ 31"
  shows "sint (of_nat n :: 32 word) = int n"
  using assms by (simp add: sint_uint signed_take_bit_int_eq_self unsigned_of_nat take_bit_nat_eq_self)

lemma sint_small_pred:
  assumes "n < 2 ^ 31"
  shows "sint ((of_nat n :: 32 word) - 1) = int n - 1"
proof (cases n)
  case 0
  then show ?thesis by simp
next
  case (Suc m)
  then have "(of_nat n :: 32 word) - 1 = of_nat m" by simp
  with Suc assms show ?thesis by (simp add: sint_small)
qed

text \<open>
  \<open>get_conn_num\<close> counts, over the rows of the process list, those whose host contains the
  given address and those whose host contains the host name (a row that contains both counts
  twice), in both cases with a matching database; on the local host it leaves one out.
\<close>

theorem get_conn_num_counts:
  assumes "my_query E (trace s) (Some c) ''show processlist;'' = QOk q qs" "stored q = Some res"
    and "\<forall>r \<in> set (rows res). 4 \<le> length r" "2 * length (rows res) < 2 ^ 31"
  shows "map_option fst (get_conn_num E (Some c) ip hostname db s) =
    Some (int (count_rows (connection_matches ip db) (rows res))
        + int (count_rows (connection_matches (if ip = ''127.0.0.1'' then ''localhost'' else hostname) db) (rows res))
        - (if ip = ''127.0.0.1'' then 1 else 0))"
proof -
  define host where "host = (if ip = ''127.0.0.1'' then ''localhost'' else hostname)"
  define n where "n = count_rows (connection_matches ip db) (rows res) + count_rows (connection_matches host db) (rows res)"
  have "n \<le> 2 * length (rows res)"
    unfolding n_def count_rows_def mult_2 by (intro add_mono length_filter_le)
  then have n: "n < 2 ^ 31" using assms(4) by simp
  have "map_option fst (get_conn_num E (Some c) ip hostname db s) =
      Some (sint ((of_nat n :: 32 word) - (if ip = ''127.0.0.1'' then 1 else 0)))"
    using assms
    by (simp add: get_conn_num_def mysql_query_def count_conn_rows_word Let_def n_def flip: host_def)
  then show ?thesis
    using sint_small[OF n] sint_small_pred[OF n] by (simp add: n_def host_def split: if_splits)
qed

definition process_list :: "row list \<Rightarrow> reply" where
  "process_list rs = QOk \<lparr>stored = Some \<lparr>field_names = [''Id'', ''User'', ''Host'', ''db''], rows = rs\<rparr>,
                      affected = 0\<rparr> []"

theorem get_conn_num_counts_witness:
  "map_option fst (get_conn_num (dead_env\<lparr>my_query := (\<lambda>_ _ _. process_list
      [[Some ''1'', Some ''u'', Some ''10.0.0.1:33'', Some ''test''],
       [Some ''2'', Some ''u'', Some ''box'', Some ''test''],
       [Some ''3'', Some ''u'', Some ''10.0.0.1:34'', None]])\<rparr>)
     (Some 0) ''10.0.0.1'' ''box'' ''test'' start_world) = Some 2"
proof -
  let ?rs = "[[Some ''1'', Some ''u'', Some ''10.0.0.1:33'', Some ''test''],
       [Some ''2'', Some ''u'', Some ''box'', Some ''test''],
       [Some ''3'', Some ''u'', Some ''10.0.0.1:34'', None]] :: row list"
  have q: "my_query (dead_env\<lparr>my_query := (\<lambda>_ _ _. process_list ?rs)\<rparr>) (trace start_world) (Some 0)
      ''show processlist;'' = QOk \<lparr>stored = Some \<lparr>field_names = [''Id'', ''User'', ''Host'', ''db''], rows = ?rs\<rparr>,
                      affected = 0\<rparr> []"
    by (simp add: process_list_def)
  have n: "count_rows (connection_matches ''10.0.0.1'' ''test'') ?rs = 1"
      "count_rows (connection_matches ''box'' ''test'') ?rs = 1"
    by (simp_all add: count_rows_def connection_matches_def strstr_iff_sublist[symmetric] eval_nat_numeral)
  show ?thesis
    by (subst get_conn_num_counts[OF q rset.select_convs(1)]) (simp_all add: n)
qed

lemma fold_word_sum:
  "fold (\<lambda>n (acc :: 32 word). acc + of_nat n) ns w = w + of_nat (sum_list ns)"
  by (induction ns arbitrary: w) (simp_all add: algebra_simps)

text \<open>
  \<open>execute_query_count_rows\<close> returns the number of rows over all results of an accepted
  statement, as long as that number fits an \<open>int\<close> and there are at most 1024 results.
\<close>

theorem execute_query_count_rows_total:
  assumes "my_query E (trace s) (Some c) sql = QOk q qs" "length qs < 1024"
    and "sum_list (map count_result (q # qs)) < 2 ^ 31"
  shows "map_option fst (execute_query_count_rows E (Some c) sql s) =
    Some (int (sum_list (map count_result (q # qs))))"
  using assms sint_small[OF assms(3)]
  by (simp add: execute_query_count_rows_def execute_query_num_of_rows_def mysql_query_def fold_word_sum Let_def)

theorem execute_query_count_rows_total_witness:
  "map_option fst (execute_query_count_rows (dead_env\<lparr>my_query := (\<lambda>_ _ _. process_list [[], [], []])\<rparr>)
     (Some 0) ''q'' start_world) = Some 3"
proof -
  have q: "my_query (dead_env\<lparr>my_query := (\<lambda>_ _ _. process_list [[], [], []])\<rparr>) (trace start_world) (Some 0) ''q''
     = QOk \<lparr>stored = Some \<lparr>field_names = [''Id'', ''User'', ''Host'', ''db''], rows = [[], [], []]\<rparr>, affected = 0\<rparr> []"
    by (simp add: process_list_def)
  show ?thesis using execute_query_count_rows_total[OF q] by (simp add: count_result_def)
qed

section \<open>Version numbers\<close>

definition version_text :: "nat \<Rightarrow> nat \<Rightarrow> nat \<Rightarrow> string \<Rightarrow> string" where
  "version_text a b c rest = nat_str a @ ''.'' @ nat_str b @ ''.'' @ nat_str c @ rest"

definition ends_number :: "string \<Rightarrow> bool" where
  "ends_number r \<longleftrightarrow> r = [] \<or> \<not> is_digit (hd r)"

lemma lex3:
  assumes "b < 100" "c < 100" "b' < 100" "c' < (100 :: nat)"
  shows "a * 10000 + b * 100 + c < a' * 10000 + b' * 100 + c' \<longleftrightarrow>
     a < a' \<or> (a = a' \<and> (b < b' \<or> (b = b' \<and> c < c')))"
proof -
  consider "a < a'" | "a' < a" | "a = a'" by linarith
  then show ?thesis
  proof cases
    case 3
    consider "b < b'" | "b' < b" | "b = b'" by linarith
    then show ?thesis using assms 3 by cases linarith+
  qed (use assms in linarith)+
qed

lemma extract_int_nat_str:
  assumes "n < 2 ^ 31" "ends_number r"
  shows "extract_int (Some (nat_str n @ r)) = (int n, Some r)"
  using assms scan_int_int_str[of r "int n"]
  by (simp add: extract_int_def int_str_def ends_number_def int32_ok_def)

lemma get_int_version_value:
  assumes "a * 10000 + b * 100 + c < 2 ^ 31" "ends_number r"
  shows "get_int_version (version_text a b c r) = Some (int (a * 10000 + b * 100 + c))"
proof -
  have dot: "ends_number (CHR ''.'' # t)" "\<not> is_space (CHR ''.'')" for t
    by (simp_all add: ends_number_def is_digit_def is_space_def)
  have lt: "a < 2 ^ 31" "b < 2 ^ 31" "c < 2 ^ 31" using assms(1) by auto
  have ch: "extract_char (Some (''.'' @ t)) = Some t" for t
    by (simp add: extract_char_def dot(2))
  have d: "ends_number (''.'' @ t)" for t by (simp add: dot(1))
  have e1: "extract_int (Some (version_text a b c r)) = (int a, Some (''.'' @ nat_str b @ ''.'' @ nat_str c @ r))"
    unfolding version_text_def by (rule extract_int_nat_str[OF lt(1) d])
  have e2: "extract_int (Some (nat_str b @ ''.'' @ nat_str c @ r)) = (int b, Some (''.'' @ nat_str c @ r))"
    by (rule extract_int_nat_str[OF lt(2) d])
  have e3: "extract_int (Some (nat_str c @ r)) = (int c, Some r)"
    by (rule extract_int_nat_str[OF lt(3) assms(2)])
  have ok: "int32_ok (int a * 10000)" "int32_ok (int b * 100)"
      "int32_ok (int a * 10000 + int b * 100)" "int32_ok (int a * 10000 + int b * 100 + int c)"
    using assms(1) by (auto simp: int32_ok_def)
  show ?thesis
    unfolding get_int_version_def e1 Let_def prod.case ch e2 e3 mul32_def ok if_True
    using ok by simp
qed

text \<open>
  \<open>get_int_version\<close> reads a version text \<open>a.b.c\<close> (followed by anything that does not
  continue the last number, such as \<open>-MariaDB\<close>) and orders such texts as versions, compared
  part by part, provided the second and third parts are below 100.
\<close>

theorem get_int_version_orders:
  assumes "a < 200000" "b < 100" "c < 100" "a' < 200000" "b' < 100" "c' < 100"
    and "ends_number r" "ends_number r'"
  shows "\<exists>v v'. get_int_version (version_text a b c r) = Some v \<and>
      get_int_version (version_text a' b' c' r') = Some v' \<and>
      (v < v' \<longleftrightarrow> a < a' \<or> (a = a' \<and> (b < b' \<or> (b = b' \<and> c < c'))))"
proof -
  have "get_int_version (version_text a b c r) = Some (int (a * 10000 + b * 100 + c))"
    by (rule get_int_version_value) (use assms in simp_all)
  moreover have "get_int_version (version_text a' b' c' r') = Some (int (a' * 10000 + b' * 100 + c'))"
    by (rule get_int_version_value) (use assms in simp_all)
  moreover have "a * 10000 + b * 100 + c < a' * 10000 + b' * 100 + c' \<longleftrightarrow>
      a < a' \<or> (a = a' \<and> (b < b' \<or> (b = b' \<and> c < c')))"
    by (rule lex3) (use assms in simp_all)
  ultimately show ?thesis by (metis of_nat_less_iff)
qed

theorem get_int_version_orders_witness:
  "\<exists>v v'. get_int_version (version_text 10 0 30 ''-MariaDB'') = Some v \<and>
      get_int_version (version_text 10 1 2 '''') = Some v' \<and> v < v'"
proof -
  have e: "ends_number ''-MariaDB''" "ends_number ''''" by (simp_all add: ends_number_def is_digit_def)
  show ?thesis using get_int_version_orders[of 10 0 30 10 1 2, OF _ _ _ _ _ _ e] by simp
qed

end
