(* ===== verification/Nodes_State.thy ===== *)
theory Nodes_State
  imports Mariadb_Func
begin

text \<open>
  The \<open>Mariadb_nodes\<close> object (\<open>mariadb_nodes.h\<close>): its fields, the heap that holds the
  objects, and how \<open>read_env\<close> fills an object from the environment variables. The C arrays
  indexed by node are functions of the index. A fresh object's memory is arbitrary: what
  the constructor does not write keeps whatever value it had, so the theorems hold for any
  such value. \<open>Galera_nodes\<close> derives from \<open>Mariadb_nodes\<close> and overrides two virtual
  methods; \<open>mn_class\<close> is the object's dynamic type.
\<close>

datatype node_class = Mariadb_class | Galera_class

record mnodes =
  mn_class :: node_class
  mn_nodes :: "nat \<Rightarrow> conn option"
  mn_IP :: "nat \<Rightarrow> string"
  mn_IP_private :: "nat \<Rightarrow> string"
  mn_IP6 :: "nat \<Rightarrow> string"
  mn_use_ipv6 :: bool
  mn_port :: "nat \<Rightarrow> int"
  mn_socket :: "nat \<Rightarrow> string"
  mn_socket_cmd :: "nat \<Rightarrow> string"
  mn_sshkey :: "nat \<Rightarrow> string"
  mn_N :: int
  mn_user_name :: string
  mn_password :: string
  mn_prefix :: string
  mn_start_db_command :: "nat \<Rightarrow> string"
  mn_stop_db_command :: "nat \<Rightarrow> string"
  mn_cleanup_db_command :: "nat \<Rightarrow> string"
  mn_ssl :: bool
  mn_access_user :: "nat \<Rightarrow> string"
  mn_access_sudo :: "nat \<Rightarrow> string"
  mn_access_homedir :: "nat \<Rightarrow> string"
  mn_no_set_pos :: bool
  mn_verbose :: bool
  mn_version :: "nat \<Rightarrow> string"
  mn_version_major :: "nat \<Rightarrow> string"
  mn_version_number :: "nat \<Rightarrow> string"
  mn_v51 :: bool
  mn_test_dir :: string
  mn_blocked :: "nat \<Rightarrow> bool"

text \<open>The heap: a pointer to an object is its address.\<close>

type_synonym cid = nat

record sys = world +
  objs :: "cid \<Rightarrow> mnodes"

definition upd :: "cid \<Rightarrow> (mnodes \<Rightarrow> mnodes) \<Rightarrow> 'a sys_scheme \<Rightarrow> 'a sys_scheme" where
  "upd this f s = s\<lparr>objs := (objs s)(this := f (objs s this))\<rparr>"

text \<open>The indices of the object's nodes, in the order of the \<open>for\<close> loops.\<close>

definition node_ids :: "mnodes \<Rightarrow> nat list" where
  "node_ids obj = [0..<nat (mn_N obj)]"

section \<open>Reading the environment\<close>

text \<open>\<open>sscanf(env, "%s", buf)\<close>: the first word, if there is one.\<close>

definition scan_word :: "string \<Rightarrow> string option" where
  "scan_word t =
     (let w = takeWhile (\<lambda>c. \<not> is_space c) (dropWhile is_space t)
      in if w = [] then None else Some w)"

definition env_yes :: "env \<Rightarrow> string \<Rightarrow> bool" where
  "env_yes E name =
     (case env_get E name of None \<Rightarrow> False | Some v \<Rightarrow> strcaseeq v ''yes'' \<or> strcaseeq v ''true'')"

definition env_or :: "env \<Rightarrow> string \<Rightarrow> string \<Rightarrow> string" where
  "env_or E name dflt = (case env_get E name of None \<Rightarrow> dflt | Some v \<Rightarrow> v)"

definition node_var :: "mnodes \<Rightarrow> nat \<Rightarrow> string \<Rightarrow> string" where
  "node_var obj i key = mn_prefix obj @ ''_'' @ pad3 i @ key"

text \<open>
  One turn of the loop of \<open>read_env\<close>, variable by variable. When no \<open>stop_db_command\<close> is
  given the code writes its default into \<open>start_db_command\<close>.
\<close>

definition node_env :: "env \<Rightarrow> mnodes \<Rightarrow> nat \<Rightarrow> string \<Rightarrow> string option" where
  "node_env E ob i key = env_get E (node_var ob i key)"

definition read_node_address :: "env \<Rightarrow> nat \<Rightarrow> mnodes \<Rightarrow> mnodes" where
  "read_node_address E i ob =
     (let ip = (case node_env E ob i ''_network'' of Some v \<Rightarrow> v | None \<Rightarrow> mn_IP ob i)
      in ob\<lparr>mn_IP := (mn_IP ob)(i := ip),
            mn_IP_private := (mn_IP_private ob)(i := (case node_env E ob i ''_private_ip'' of
              Some v \<Rightarrow> v | None \<Rightarrow> ip)),
            mn_IP6 := (mn_IP6 ob)(i := (case node_env E ob i ''_network6'' of
              Some v \<Rightarrow> v | None \<Rightarrow> ip)),
            mn_port := (mn_port ob)(i := (case node_env E ob i ''_port'' of
              Some v \<Rightarrow> (case scan_int v of Some (p, _) \<Rightarrow> p | None \<Rightarrow> mn_port ob i)
            | None \<Rightarrow> 3306))\<rparr>)"

definition read_node_socket :: "env \<Rightarrow> nat \<Rightarrow> mnodes \<Rightarrow> mnodes" where
  "read_node_socket E i ob =
     ob\<lparr>mn_socket := (mn_socket ob)(i := (case node_env E ob i ''_socket'' of
           Some v \<Rightarrow> v | None \<Rightarrow> '' '')),
        mn_socket_cmd := (mn_socket_cmd ob)(i := (case node_env E ob i ''_socket'' of
           Some v \<Rightarrow> ''--socket='' @ v | None \<Rightarrow> '' '')),
        mn_sshkey := (mn_sshkey ob)(i := (case node_env E ob i ''_keyfile'' of
           Some v \<Rightarrow> v | None \<Rightarrow> ''vagrant.pem''))\<rparr>"

definition read_node_commands :: "env \<Rightarrow> nat \<Rightarrow> mnodes \<Rightarrow> mnodes" where
  "read_node_commands E i ob =
     (let start = (case node_env E ob i ''_start_db_command'' of
                     Some v \<Rightarrow> v | None \<Rightarrow> ''service mysql start'');
          stop = node_env E ob i ''_stop_db_command''
      in ob\<lparr>mn_start_db_command := (mn_start_db_command ob)(i := (case stop of
              Some _ \<Rightarrow> start | None \<Rightarrow> ''service mysql stop'')),
            mn_stop_db_command := (mn_stop_db_command ob)(i := (case stop of
              Some v \<Rightarrow> v | None \<Rightarrow> mn_stop_db_command ob i)),
            mn_cleanup_db_command := (mn_cleanup_db_command ob)(i :=
              (case node_env E ob i ''_cleanup_db_command'' of Some v \<Rightarrow> v | None \<Rightarrow> '' ''))\<rparr>)"

definition read_node_access :: "env \<Rightarrow> nat \<Rightarrow> mnodes \<Rightarrow> mnodes" where
  "read_node_access E i ob =
     (let user = (case node_env E ob i ''_whoami'' of Some v \<Rightarrow> v | None \<Rightarrow> ''root'')
      in ob\<lparr>mn_access_user := (mn_access_user ob)(i := user),
            mn_access_sudo := (mn_access_sudo ob)(i := (case node_env E ob i ''_access_sudo'' of
              Some v \<Rightarrow> v | None \<Rightarrow> '' '')),
            mn_access_homedir := (mn_access_homedir ob)(i :=
              (if user = ''root'' then ''/'' @ user @ ''/'' else ''/home/'' @ user @ ''/''))\<rparr>)"

definition read_node_env :: "env \<Rightarrow> nat \<Rightarrow> mnodes \<Rightarrow> mnodes" where
  "read_node_env E i ob =
     read_node_access E i (read_node_commands E i (read_node_socket E i (read_node_address E i ob)))"

text \<open>The part before the loop: node count, user, password, ssl.\<close>

definition read_cluster_env :: "env \<Rightarrow> mnodes \<Rightarrow> mnodes" where
  "read_cluster_env E ob =
     (let ob = (case env_get E (mn_prefix ob @ ''_N'') of
                  Some v \<Rightarrow> (case scan_int v of Some (n, _) \<Rightarrow> ob\<lparr>mn_N := n\<rparr> | None \<Rightarrow> ob)
                | None \<Rightarrow> ob\<lparr>mn_N := 0\<rparr>);
          ob = (case env_get E (mn_prefix ob @ ''_user'') of
                  Some v \<Rightarrow> (case scan_word v of Some w \<Rightarrow> ob\<lparr>mn_user_name := w\<rparr> | None \<Rightarrow> ob)
                | None \<Rightarrow> ob\<lparr>mn_user_name := ''skysql''\<rparr>);
          ob = (case env_get E (mn_prefix ob @ ''_password'') of
                  Some v \<Rightarrow> (case scan_word v of Some w \<Rightarrow> ob\<lparr>mn_password := w\<rparr> | None \<Rightarrow> ob)
                | None \<Rightarrow> ob\<lparr>mn_password := ''skysql''\<rparr>)
      in ob\<lparr>mn_ssl := env_yes E (mn_prefix ob @ ''_ssl'')\<rparr>)"

definition read_env :: "env \<Rightarrow> mnodes \<Rightarrow> mnodes" where
  "read_env E ob =
     (let ob = read_cluster_env E ob
      in if 0 < mn_N ob \<and> mn_N ob < 255 then fold (read_node_env E) (node_ids ob) ob else ob)"

section \<open>The object store\<close>

lemma objs_upd [simp]:
  "objs (upd this f s) = (objs s)(this := f (objs s this))"
  by (simp add: upd_def)

lemma trace_upd [simp]: "trace (upd this f s) = trace s"
  by (simp add: upd_def)

lemma sys_more_upd [simp]: "sys.more (upd this f s) = sys.more s"
  by (simp add: upd_def)

lemma objs_emit [simp]: "objs (emit e s) = objs s"
  by (simp add: emit_def)

lemma objs_emits [simp]: "objs (emits es s) = objs s"
  by (simp add: emits_def)

lemma sys_more_emits [simp]: "sys.more (emits es s) = sys.more s"
  by (simp add: emits_def)

lemma sys_more_emit [simp]: "sys.more (emit e s) = sys.more s"
  by (simp add: emit_def)

lemma extends_objs: "extends s t \<Longrightarrow> objs t = objs s"
  by (auto simp: extends_def)

lemma extends_sys_more: "extends s t \<Longrightarrow> sys.more t = sys.more s"
  by (auto simp: extends_def)

text \<open>
  What the operations of an object keep: the log only grows, other objects are untouched,
  and of the object itself only its connections, the blocked flags, the versions and the
  two mode flags may change. Everything \<open>read_env\<close> set stays.
\<close>

definition same_config :: "mnodes \<Rightarrow> mnodes \<Rightarrow> bool" where
  "same_config a b \<longleftrightarrow>
     b = a\<lparr>mn_nodes := mn_nodes b, mn_blocked := mn_blocked b, mn_ssl := mn_ssl b,
           mn_version := mn_version b, mn_version_major := mn_version_major b,
           mn_version_number := mn_version_number b, mn_v51 := mn_v51 b\<rparr>"

definition node_step :: "cid \<Rightarrow> 'a sys_scheme \<Rightarrow> 'a sys_scheme \<Rightarrow> bool" where
  "node_step this s t \<longleftrightarrow>
     (\<exists>es. trace t = trace s @ es) \<and>
     (\<forall>c. c \<noteq> this \<longrightarrow> objs t c = objs s c) \<and>
     same_config (objs s this) (objs t this) \<and>
     sys.more t = sys.more s"

lemma same_config_refl [simp]: "same_config a a"
  by (simp add: same_config_def)

lemma same_config_trans: "same_config a b \<Longrightarrow> same_config b c \<Longrightarrow> same_config a c"
  unfolding same_config_def by (cases a, cases b, cases c) simp

lemma same_config_simps:
  assumes "same_config a b"
  shows "mn_N b = mn_N a" "mn_IP b = mn_IP a" "mn_IP_private b = mn_IP_private a"
    "mn_IP6 b = mn_IP6 a" "mn_port b = mn_port a" "mn_sshkey b = mn_sshkey a"
    "mn_access_user b = mn_access_user a" "mn_access_sudo b = mn_access_sudo a"
    "mn_access_homedir b = mn_access_homedir a" "mn_prefix b = mn_prefix a"
    "mn_class b = mn_class a" "mn_socket_cmd b = mn_socket_cmd a"
    "mn_user_name b = mn_user_name a" "mn_password b = mn_password a"
    "mn_test_dir b = mn_test_dir a" "mn_verbose b = mn_verbose a"
    "mn_no_set_pos b = mn_no_set_pos a" "mn_use_ipv6 b = mn_use_ipv6 a"
    "mn_start_db_command b = mn_start_db_command a"
    "mn_stop_db_command b = mn_stop_db_command a"
    "mn_cleanup_db_command b = mn_cleanup_db_command a" "node_ids b = node_ids a"
  using assms unfolding same_config_def node_ids_def
  by (cases a, cases b, simp)+

lemma node_step_refl [simp]: "node_step this s s"
  by (simp add: node_step_def)

lemma node_step_trans: "node_step this s t \<Longrightarrow> node_step this t u \<Longrightarrow> node_step this s u"
  unfolding node_step_def by (auto intro: same_config_trans)

lemma node_step_extends: "extends s t \<Longrightarrow> node_step this s t"
  by (auto simp: node_step_def extends_def)

lemma node_step_upd [node_config]:
  assumes "same_config (objs s this) (f (objs s this))"
  shows "node_step this s (upd this f s)"
  using assms by (simp add: node_step_def)

lemma node_step_node_ids: "node_step this s t \<Longrightarrow> node_ids (objs t this) = node_ids (objs s this)"
  by (auto simp: node_step_def same_config_simps)

lemma node_step_do_loop:
  assumes "\<And>i s. i \<in> set ids \<Longrightarrow> node_step this s (f i s)"
  shows "node_step this s (do_loop ids f s)"
  by (rule do_loop_inv[where I = "\<lambda>t. node_step this s t"]) (auto intro: node_step_trans assms)

lemma node_step_sum_loop:
  assumes "\<And>i s. i \<in> set ids \<Longrightarrow> node_step this s (snd (f i s))"
  shows "node_step this s (snd (sum_loop ids f s))"
  by (rule sum_loop_inv[where I = "\<lambda>t. node_step this s t"]) (auto intro: node_step_trans assms)

lemma node_step_if:
  "(b \<Longrightarrow> node_step this s t) \<Longrightarrow> (\<not> b \<Longrightarrow> node_step this s u) \<Longrightarrow> node_step this s (if b then t else u)"
  by simp

lemma node_step_snd: "node_step this s t \<Longrightarrow> node_step this s (snd (x, t))"
  by simp

lemma node_step_sum_loop_chain:
  assumes "node_step this s t" and "\<And>i u. i \<in> set ids \<Longrightarrow> node_step this u (snd (f i u))"
  shows "node_step this s (snd (sum_loop ids f t))"
  using assms node_step_sum_loop node_step_trans by metis

lemma node_step_do_loop_chain:
  assumes "node_step this s t" and "\<And>i u. i \<in> set ids \<Longrightarrow> node_step this u (f i u)"
  shows "node_step this s (do_loop ids f t)"
  using assms node_step_do_loop node_step_trans by metis

lemma node_step_extends_chain: "node_step this s t \<Longrightarrow> extends t u \<Longrightarrow> node_step this s u"
  using node_step_extends node_step_trans by blast

lemma node_step_foreachM:
  assumes "foreachM ids f a s = Some (a', s')"
    and "\<And>i a s a1 s1. i \<in> set ids \<Longrightarrow> f i a s = Some (a1, s1) \<Longrightarrow> node_step this s s1"
  shows "node_step this s s'"
  using assms(1)
  by (rule foreachM_inv[where I = "\<lambda>_ t. node_step this s t"]) (auto intro: node_step_trans assms(2))

lemma node_step_do_loopM:
  assumes "do_loopM ids f s = Some s'"
    and "\<And>i s s1. i \<in> set ids \<Longrightarrow> f i s = Some s1 \<Longrightarrow> node_step this s s1"
  shows "node_step this s s'"
  using assms(1)
  by (rule do_loopM_inv[where I = "\<lambda>t. node_step this s t"]) (auto intro: node_step_trans assms(2))

end
