(* ===== verification/Nodes_Ops.thy ===== *)
theory Nodes_Ops
  imports Nodes_State Func_Lemmas
begin

text \<open>
  The operations of \<open>Mariadb_nodes\<close> on single nodes and on their connections
  (\<open>mariadb_nodes.cpp\<close>): shell commands over ssh, file copies, starting and stopping a
  server, opening and closing connections, blocking a node with iptables, housekeeping
  queries on every node. \<open>this\<close> is the object's address.
\<close>

section \<open>Shell commands on a node\<close>

definition ssh_prefix :: "mnodes \<Rightarrow> nat \<Rightarrow> string" where
  "ssh_prefix ob node =
     ''ssh -i '' @ mn_sshkey ob node @
     '' -o UserKnownHostsFile=/dev/null -o StrictHostKeyChecking=no  -o LogLevel=quiet '' @
     mn_access_user ob node @ ''@'' @ mn_IP ob node"

definition quote :: string where
  "quote = [char_of (39 :: nat)]"

definition generate_ssh_cmd :: "mnodes \<Rightarrow> nat \<Rightarrow> string \<Rightarrow> bool \<Rightarrow> string" where
  "generate_ssh_cmd ob node ssh sudo =
     (if mn_IP ob node = ''127.0.0.1''
      then (if sudo then mn_access_sudo ob node @ '' '' @ ssh else ssh)
      else (if sudo
            then ssh_prefix ob node @ '' '' @ quote @ mn_access_sudo ob node @ '' '' @ ssh @ quote
            else ssh_prefix ob node @ '' '' @ quote @ ssh @ quote))"

definition ssh_node ::
  "env \<Rightarrow> cid \<Rightarrow> nat \<Rightarrow> string \<Rightarrow> bool \<Rightarrow> 'a sys_scheme \<Rightarrow> int \<times> 'a sys_scheme" where
  "ssh_node E this node ssh sudo s =
     (let (st, s) = c_system E (generate_ssh_cmd (objs s this) node ssh sudo) s
      in (if wifexited st then wexitstatus st else 256, s))"

text \<open>The output, and the exit code: neither is produced when \<open>popen\<close> fails.\<close>

definition ssh_node_output ::
  "env \<Rightarrow> cid \<Rightarrow> nat \<Rightarrow> string \<Rightarrow> bool \<Rightarrow> 'a sys_scheme \<Rightarrow> (string \<times> int) option \<times> 'a sys_scheme" where
  "ssh_node_output E this node ssh sudo s =
     (let (r, s) = popen_read E (generate_ssh_cmd (objs s this) node ssh sudo) s in
      case r of
        None \<Rightarrow> (None, s)
      | Some (out, code) \<Rightarrow> (Some (out, if wifexited code then wexitstatus code else 256), s))"

definition copy_to_node ::
  "env \<Rightarrow> cid \<Rightarrow> string \<Rightarrow> string \<Rightarrow> nat \<Rightarrow> 'a sys_scheme \<Rightarrow> int \<times> 'a sys_scheme" where
  "copy_to_node E this src dest i s =
     (let ob = objs s this in
      if int i \<ge> mn_N ob then (1, s)
      else if mn_IP ob i = ''127.0.0.1''
      then c_system E (''cp '' @ src @ '' '' @ dest) s
      else c_system E (''scp -q -r -i '' @ mn_sshkey ob i @
             '' -o UserKnownHostsFile=/dev/null -o StrictHostKeyChecking=no -o LogLevel=quiet '' @
             src @ '' '' @ mn_access_user ob i @ ''@'' @ mn_IP ob i @ '':'' @ dest) s)"

definition copy_from_node ::
  "env \<Rightarrow> cid \<Rightarrow> string \<Rightarrow> string \<Rightarrow> nat \<Rightarrow> 'a sys_scheme \<Rightarrow> int \<times> 'a sys_scheme" where
  "copy_from_node E this src dest i s =
     (let ob = objs s this in
      if int i \<ge> mn_N ob then (1, s)
      else if mn_IP ob i = ''127.0.0.1''
      then c_system E (''cp '' @ src @ '' '' @ dest) s
      else c_system E (''scp -q -r -i '' @ mn_sshkey ob i @
             '' -o UserKnownHostsFile=/dev/null -o StrictHostKeyChecking=no -o LogLevel=quiet '' @
             mn_access_user ob i @ ''@'' @ mn_IP ob i @ '':'' @ src @ '' '' @ dest) s)"

definition stop_node :: "env \<Rightarrow> cid \<Rightarrow> nat \<Rightarrow> 'a sys_scheme \<Rightarrow> int \<times> 'a sys_scheme" where
  "stop_node E this node s = ssh_node E this node (mn_stop_db_command (objs s this) node) True s"

definition start_node :: "env \<Rightarrow> cid \<Rightarrow> nat \<Rightarrow> string \<Rightarrow> 'a sys_scheme \<Rightarrow> int \<times> 'a sys_scheme" where
  "start_node E this node param s =
     (let ob = objs s this;
          cmd = (if mn_v51 ob
                 then mn_start_db_command ob node @ '' '' @ param @ '' --report-host''
                 else mn_start_db_command ob node @ '' '' @ param)
      in ssh_node E this node cmd True s)"

definition cleanup_db_node :: "env \<Rightarrow> cid \<Rightarrow> nat \<Rightarrow> 'a sys_scheme \<Rightarrow> int \<times> 'a sys_scheme" where
  "cleanup_db_node E this node s =
     ssh_node E this node (mn_cleanup_db_command (objs s this) node) True s"

definition cleanup_db_nodes :: "env \<Rightarrow> cid \<Rightarrow> 'a sys_scheme \<Rightarrow> int \<times> 'a sys_scheme" where
  "cleanup_db_nodes E this s = sum_loop (node_ids (objs s this)) (cleanup_db_node E this) s"

text \<open>The loop body probes node 0, whatever the node it was asked about.\<close>

definition check_node_ssh :: "env \<Rightarrow> cid \<Rightarrow> nat \<Rightarrow> 'a sys_scheme \<Rightarrow> int \<times> 'a sys_scheme" where
  "check_node_ssh E this node s =
     (let (rc, s) = ssh_node E this 0 ''ls > /dev/null'' False s
      in (if rc \<noteq> 0 then 1 else 0, s))"

definition check_nodes :: "env \<Rightarrow> cid \<Rightarrow> 'a sys_scheme \<Rightarrow> int \<times> 'a sys_scheme" where
  "check_nodes E this s = sum_loop (node_ids (objs s this)) (check_node_ssh E this) s"

section \<open>Connections\<close>

definition set_node :: "nat \<Rightarrow> conn option \<Rightarrow> mnodes \<Rightarrow> mnodes" where
  "set_node i c ob = ob\<lparr>mn_nodes := (mn_nodes ob)(i := c)\<rparr>"

definition connect_node :: "env \<Rightarrow> cid \<Rightarrow> nat \<Rightarrow> 'a sys_scheme \<Rightarrow> int \<times> 'a sys_scheme" where
  "connect_node E this i s =
     (let (stale, s) = (case mn_nodes (objs s this) i of
                          None \<Rightarrow> (True, s)
                        | Some c \<Rightarrow> (let (p, s) = mysql_ping E c s in (p \<noteq> 0, s)));
          s = (if stale
               then (let ob = objs s this;
                         s = (if mn_nodes ob i \<noteq> None then mysql_close (mn_nodes ob i) s else s);
                         (c, s) = open_conn_db_timeout E (mn_port ob i) (mn_IP ob i) ''test''
                                    (mn_user_name ob) (mn_password ob) 50 (mn_ssl ob) s
                     in upd this (set_node i c) s)
               else s);
          c = mn_nodes (objs s this) i
      in (if c \<noteq> None \<and> mysql_errno E c s \<noteq> 0 then 1 else 0, s))"

definition connect :: "env \<Rightarrow> cid \<Rightarrow> 'a sys_scheme \<Rightarrow> int \<times> 'a sys_scheme" where
  "connect E this s = sum_loop (node_ids (objs s this)) (connect_node E this) s"

definition close_connection :: "cid \<Rightarrow> nat \<Rightarrow> 'a sys_scheme \<Rightarrow> 'a sys_scheme" where
  "close_connection this i s =
     (if mn_nodes (objs s this) i \<noteq> None
      then upd this (set_node i None) (mysql_close (mn_nodes (objs s this) i) s)
      else s)"

definition close_connections :: "cid \<Rightarrow> 'a sys_scheme \<Rightarrow> 'a sys_scheme" where
  "close_connections this s = do_loop (node_ids (objs s this)) (close_connection this) s"

text \<open>\<open>execute_query(nodes[i], sql)\<close> with the handle read at the time of the call.\<close>

definition query_node :: "env \<Rightarrow> cid \<Rightarrow> string \<Rightarrow> nat \<Rightarrow> 'a sys_scheme \<Rightarrow> int \<times> 'a sys_scheme" where
  "query_node E this sql i s = execute_query E (mn_nodes (objs s this) i) sql s"

definition stop_nodes :: "env \<Rightarrow> cid \<Rightarrow> 'a sys_scheme \<Rightarrow> int \<times> 'a sys_scheme" where
  "stop_nodes E this s =
     (let (_, s) = connect E this s
      in sum_loop (node_ids (objs s this))
           (\<lambda>i s. let (r1, s) = query_node E this ''stop slave;'' i s;
                      (r2, s) = stop_node E this i s
                  in (r1 + r2, s)) s)"

definition stop_slaves :: "env \<Rightarrow> cid \<Rightarrow> 'a sys_scheme \<Rightarrow> int \<times> 'a sys_scheme" where
  "stop_slaves E this s =
     (let (_, s) = connect E this s;
          (r, s) = sum_loop (node_ids (objs s this)) (query_node E this ''stop slave;'') s
      in (r, close_connections this s))"

text \<open>\<open>sql\<close> is used as a format, so a conversion in it has no argument to print.\<close>

definition execute_query_all_nodes ::
  "env \<Rightarrow> cid \<Rightarrow> string \<Rightarrow> 'a sys_scheme \<Rightarrow> (int \<times> 'a sys_scheme) option" where
  "execute_query_all_nodes E this sql s =
     (let (_, s) = connect E this s in
      do { (r, s) \<leftarrow> foreachM (node_ids (objs s this))
                       (\<lambda>i acc s. do { (r, s) \<leftarrow> execute_query_fmt E (mn_nodes (objs s this) i) sql s;
                                       Some (acc + r, s) }) 0 s;
           Some (r, close_connections this s) })"

text \<open>\<open>create_repl_user\<close> of \<open>sql_const.h\<close> as a format, and the text it prints.\<close>

definition create_repl_user :: string where
  "create_repl_user =
     ''grant replication slave on *.* to repl@'' @ quote @ ''%%'' @ quote @
     '' identified by '' @ quote @ ''repl'' @ quote @ ''; FLUSH PRIVILEGES''"

definition create_repl_user_sql :: string where
  "create_repl_user_sql = (case c_format0 create_repl_user of Some q \<Rightarrow> q | None \<Rightarrow> [])"

definition set_repl_user :: "env \<Rightarrow> cid \<Rightarrow> 'a sys_scheme \<Rightarrow> int \<times> 'a sys_scheme" where
  "set_repl_user E this s =
     (let (r0, s) = connect E this s;
          (r, s) = sum_loop (node_ids (objs s this)) (query_node E this create_repl_user_sql) s
      in (r0 + r, close_connections this s))"

section \<open>Blocking a node\<close>

definition clean_iptables_line :: "string \<Rightarrow> int \<Rightarrow> string" where
  "clean_iptables_line tool port =
     (let bs = char_of (92 :: nat); dq = CHR 0x22
      in ''echo '' @ [dq] @ ''while [ '' @ [bs, dq, bs] @ ''$('' @ tool @
         '' -n -L INPUT 1|grep '' @ quote @ int_str port @ quote @ '')'' @ [bs, dq] @ '' != '' @
         [bs, dq, bs, dq] @ '' ]; do '' @ tool @ '' -D INPUT 1; done'' @ [dq] @
         '' >>  clean_iptables.sh'')"

definition clean_iptables :: "env \<Rightarrow> cid \<Rightarrow> nat \<Rightarrow> 'a sys_scheme \<Rightarrow> int \<times> 'a sys_scheme" where
  "clean_iptables E this node s =
     (let port = mn_port (objs s this) node;
          (r1, s) = ssh_node E this node
                      (''echo '' @ [CHR 0x22] @ ''#!/bin/bash'' @ [CHR 0x22] @ '' > clean_iptables.sh'') False s;
          (r2, s) = ssh_node E this node (clean_iptables_line ''iptables'' port) False s;
          (r3, s) = ssh_node E this node (clean_iptables_line ''ip6tables'' port) False s;
          (r4, s) = ssh_node E this node ''chmod a+x clean_iptables.sh'' False s;
          (r5, s) = ssh_node E this node ''./clean_iptables.sh'' True s
      in (r1 + r2 + r3 + r4 + r5, s))"

definition firewall_rule :: "string \<Rightarrow> int \<Rightarrow> string \<Rightarrow> string" where
  "firewall_rule tool port action =
     tool @ '' -I INPUT -p tcp --dport '' @ int_str port @ '' -j '' @ action"

definition set_blocked :: "nat \<Rightarrow> bool \<Rightarrow> mnodes \<Rightarrow> mnodes" where
  "set_blocked i b ob = ob\<lparr>mn_blocked := (mn_blocked ob)(i := b)\<rparr>"

definition block_node :: "env \<Rightarrow> cid \<Rightarrow> nat \<Rightarrow> 'a sys_scheme \<Rightarrow> int \<times> 'a sys_scheme" where
  "block_node E this node s =
     (let port = mn_port (objs s this) node;
          (r1, s) = clean_iptables E this node s;
          (r2, s) = ssh_node E this node (firewall_rule ''iptables'' port ''REJECT'') True s;
          (r3, s) = ssh_node E this node (firewall_rule ''ip6tables'' port ''REJECT'') True s;
          s = upd this (set_blocked node True) s
      in (r1 + r2 + r3, s))"

definition unblock_node :: "env \<Rightarrow> cid \<Rightarrow> nat \<Rightarrow> 'a sys_scheme \<Rightarrow> int \<times> 'a sys_scheme" where
  "unblock_node E this node s =
     (let port = mn_port (objs s this) node;
          (r1, s) = clean_iptables E this node s;
          (r2, s) = ssh_node E this node (firewall_rule ''iptables'' port ''ACCEPT'') True s;
          (r3, s) = ssh_node E this node (firewall_rule ''ip6tables'' port ''ACCEPT'') True s;
          s = upd this (set_blocked node False) s
      in (r1 + r2 + r3, s))"

definition unblock_all_nodes :: "env \<Rightarrow> cid \<Rightarrow> 'a sys_scheme \<Rightarrow> int \<times> 'a sys_scheme" where
  "unblock_all_nodes E this s = sum_loop (node_ids (objs s this)) (unblock_node E this) s"

text \<open>The destructor.\<close>

definition mariadb_nodes_destroy :: "env \<Rightarrow> cid \<Rightarrow> 'a sys_scheme \<Rightarrow> 'a sys_scheme" where
  "mariadb_nodes_destroy E this s =
     do_loop (node_ids (objs s this))
       (\<lambda>i s. if mn_blocked (objs s this) i then snd (unblock_node E this i s) else s) s"

section \<open>Housekeeping on every node\<close>

definition truncate_mariadb_logs :: "env \<Rightarrow> cid \<Rightarrow> 'a sys_scheme \<Rightarrow> int \<times> 'a sys_scheme" where
  "truncate_mariadb_logs E this s =
     sum_loop (node_ids (objs s this))
       (\<lambda>node s.
          let ob = objs s this in
          if mn_IP ob node \<noteq> ''127.0.0.1''
          then c_system E (ssh_prefix ob node @ '' '' @ quote @
                 ''sudo truncate  /var/lib/mysql/*.err --size 0;sudo rm -f /etc/my.cnf.d/binlog_enc*'' @
                 quote @ '' &'') s
          else (0, s)) s"

text \<open>The first column of every row; \<open>std::string(NULL)\<close> has no meaning.\<close>

fun first_columns :: "row list \<Rightarrow> string list option" where
  "first_columns [] = Some []"
| "first_columns (r # rs) =
     do { f \<leftarrow> row_at r 0; v \<leftarrow> f; vs \<leftarrow> first_columns rs; Some (v # vs) }"

definition anonymous_users_sql :: string where
  "anonymous_users_sql =
     (let bq = char_of (92 :: nat) # quote
      in ''SELECT CONCAT('' @ quote @ bq @ quote @ '', user, '' @ quote @ bq @ ''@'' @ bq @ quote @
         '', host, '' @ quote @ bq @ quote @ '') FROM mysql.user WHERE user = '' @ quote @ quote)"

definition mysql_query_rc ::
  "env \<Rightarrow> conn option \<Rightarrow> string \<Rightarrow> 'a world_scheme \<Rightarrow> int \<times> 'a world_scheme" where
  "mysql_query_rc E c q s = (let (rep, s) = mysql_query E c q s in (if rep = QFail then 1 else 0, s))"

definition flush_hosts_node ::
  "env \<Rightarrow> cid \<Rightarrow> nat \<Rightarrow> 'a sys_scheme \<Rightarrow> (int \<times> 'a sys_scheme) option" where
  "flush_hosts_node E this i s =
     (let c = mn_nodes (objs s this) i;
          (r1, s) = mysql_query_rc E c ''FLUSH HOSTS'' s;
          (r2, s) = mysql_query_rc E c ''SET GLOBAL max_connections=10000'' s;
          (rep, s) = mysql_query E c anonymous_users_sql s
      in case rep of
           QFail \<Rightarrow> Some (r1 + r2 + 1, s)
         | QOk r rs \<Rightarrow>
             (let s = mysql_store c s in
              case stored r of
                None \<Rightarrow> Some (r1 + r2, s)
              | Some res \<Rightarrow>
                  do { users \<leftarrow> first_columns (rows res);
                       Some (r1 + r2,
                             do_loop users (\<lambda>u s. snd (mysql_query E c (''DROP USER '' @ u) s)) s) }))"

definition flush_hosts :: "env \<Rightarrow> cid \<Rightarrow> 'a sys_scheme \<Rightarrow> (int \<times> 'a sys_scheme) option" where
  "flush_hosts E this s =
     (let (failed, s) = (if mn_nodes (objs s this) 0 = None
                         then (let (r, s) = connect E this s in (r \<noteq> 0, s)) else (False, s))
      in if failed then Some (1, s)
         else foreachM (node_ids (objs s this))
                (\<lambda>i acc s. do { (r, s) \<leftarrow> flush_hosts_node E this i s; Some (acc + r, s) }) 0 s)"

definition processlist_ids_sql :: string where
  "processlist_ids_sql =
     ''select id from information_schema.processlist where id != @@pseudo_thread_id and user not in ('' @
     quote @ ''system user'' @ quote @ '', '' @ quote @ ''repl'' @ quote @ '')''"

definition close_active_node ::
  "env \<Rightarrow> cid \<Rightarrow> nat \<Rightarrow> 'a sys_scheme \<Rightarrow> 'a sys_scheme option" where
  "close_active_node E this i s =
     (let c = mn_nodes (objs s this) i;
          (rep, s) = mysql_query E c processlist_ids_sql s
      in case rep of
           QFail \<Rightarrow> Some s
         | QOk r rs \<Rightarrow>
             (let s = mysql_store c s in
              case stored r of
                None \<Rightarrow> Some s
              | Some res \<Rightarrow>
                  do_loopM (rows res)
                    (\<lambda>row s. do { f \<leftarrow> row_at row 0; v \<leftarrow> f;
                                  Some (snd (execute_query_silent E c (''KILL '' @ v) s)) }) s))"

definition close_active_connections :: "env \<Rightarrow> cid \<Rightarrow> 'a sys_scheme \<Rightarrow> 'a sys_scheme option" where
  "close_active_connections E this s =
     (let s = (if mn_nodes (objs s this) 0 = None then snd (connect E this s) else s)
      in do_loopM (node_ids (objs s this)) (close_active_node E this) s)"

section \<open>TLS on the backends\<close>

definition configure_ssl :: "env \<Rightarrow> cid \<Rightarrow> bool \<Rightarrow> 'a sys_scheme \<Rightarrow> int \<times> 'a sys_scheme" where
  "configure_ssl E this require s =
     (let s = upd this (\<lambda>ob. ob\<lparr>mn_ssl := True\<rparr>) s;
          dir = mn_test_dir (objs s this);
          (r, s) = sum_loop (node_ids (objs s this))
             (\<lambda>i s.
                let (_, s) = stop_node E this i s;
                    (r1, s) = copy_to_node E this (dir @ ''/ssl-cert'') ''~/'' i s;
                    (r2, s) = copy_to_node E this (dir @ ''/ssl.cnf'') ''~/'' i s;
                    (r3, s) = ssh_node E this i ''cp ~/ssl.cnf /etc/my.cnf.d/'' True s;
                    (r4, s) = ssh_node E this i ''cp -r ~/ssl-cert /etc/'' True s;
                    (r5, s) = ssh_node E this i ''chown mysql:mysql -R /etc/ssl-cert'' True s;
                    (_, s) = start_node E this i '''' s
                in (r1 + r2 + r3 + r4 + r5, s)) s;
          s = (if require
               then (let ob = objs s this; dq = [CHR 0x22];
                         (_, s) = copy_to_node E this (dir @ ''/create_user_ssl.sh'') ''~/'' 0 s;
                         (_, s) = ssh_node E this 0
                                    (''export node_user='' @ dq @ mn_user_name ob @ dq @
                                     ''; export node_password='' @ dq @ mn_password ob @ dq @
                                     ''; ./create_user_ssl.sh '' @ mn_socket_cmd ob 0) False s
                     in s)
               else s)
      in (r, s))"

text \<open>The statement that would drop the TLS user is built, and the empty query is sent.\<close>

definition disable_ssl :: "env \<Rightarrow> cid \<Rightarrow> 'a sys_scheme \<Rightarrow> int \<times> 'a sys_scheme" where
  "disable_ssl E this s =
     (let (r0, s) = connect E this s;
          (r1, s) = query_node E this '''' 0 s;
          s = close_connections this s;
          (r, s) = sum_loop (node_ids (objs s this))
             (\<lambda>i s. let (_, s) = stop_node E this i s;
                        (r, s) = ssh_node E this i ''rm -f /etc/my.cnf.d/ssl.cnf'' True s;
                        (_, s) = start_node E this i '''' s
                    in (r, s)) s
      in (r0 + r1 + r, s))"

end
