(* ===== verification/Replication.thy ===== *)
theory Replication
  imports Nodes_Ops
begin

text \<open>
  Replication and cluster set-up of \<open>mariadb_nodes.cpp\<close>: finding and changing the master,
  starting and checking a master/slave or a Galera set-up (the two virtual methods), the
  repair loop \<open>fix_replication\<close>, server versions, waiting for slaves, and the object's
  constructor. Operations that may read an uninitialised buffer are partial.
\<close>

section \<open>Master and slaves\<close>

text \<open>The texts of \<open>sql_const.h\<close>.\<close>

definition setup_slave :: "string \<Rightarrow> string \<Rightarrow> string \<Rightarrow> int \<Rightarrow> string" where
  "setup_slave host file pos port =
     ''change master to MASTER_HOST='' @ quote @ host @ quote @ '', MASTER_USER='' @ quote @ ''repl'' @ quote @
     '', MASTER_PASSWORD='' @ quote @ ''repl'' @ quote @ '', MASTER_LOG_FILE='' @ quote @ file @ quote @
     '', MASTER_LOG_POS='' @ pos @ '', MASTER_PORT='' @ int_str port @ ''; start slave;''"

definition setup_slave_no_pos :: "string \<Rightarrow> int \<Rightarrow> string" where
  "setup_slave_no_pos host port =
     ''change master to MASTER_HOST='' @ quote @ host @ quote @ '', MASTER_USER='' @ quote @ ''repl'' @ quote @
     '', MASTER_PASSWORD='' @ quote @ ''repl'' @ quote @ '', MASTER_LOG_FILE='' @ quote @ ''mar-bin.000001'' @
     quote @ '', MASTER_LOG_POS=4, MASTER_PORT='' @ int_str port"

text \<open>First loop of \<open>find_master\<close>: the first node whose \<open>Master_Host\<close> field is found.\<close>

fun find_master_host ::
  "env \<Rightarrow> cid \<Rightarrow> nat list \<Rightarrow> 'a sys_scheme \<Rightarrow> (string option \<times> 'a sys_scheme) option" where
  "find_master_host E this [] s = Some (None, s)"
| "find_master_host E this (i # is) s =
     do { ((ret, v), s) \<leftarrow> find_field E (mn_nodes (objs s this) i) ''show slave status;'' ''Master_Host'' s;
          if ret = 0 then do { str \<leftarrow> v; Some (Some str, s) }
          else find_master_host E this is s }"

definition find_master :: "env \<Rightarrow> cid \<Rightarrow> 'a sys_scheme \<Rightarrow> (int \<times> 'a sys_scheme) option" where
  "find_master E this s =
     do { (h, s) \<leftarrow> find_master_host E this (node_ids (objs s this)) s;
          Some (case h of
                  None \<Rightarrow> 255
                | Some master_IP \<Rightarrow>
                    (case find (\<lambda>i. mn_IP (objs s this) i = master_IP) (node_ids (objs s this)) of
                       None \<Rightarrow> 255 | Some i \<Rightarrow> int i), s) }"

definition change_master ::
  "env \<Rightarrow> cid \<Rightarrow> nat \<Rightarrow> nat \<Rightarrow> 'a sys_scheme \<Rightarrow> 'a sys_scheme option" where
  "change_master E this NewMaster OldMaster s =
     (let s = do_loop (node_ids (objs s this))
                (\<lambda>i s. if i \<noteq> OldMaster then snd (query_node E this ''stop slave;'' i s) else s) s;
          (_, s) = query_node E this create_repl_user_sql NewMaster s;
          (_, s) = query_node E this ''reset master;'' OldMaster s
      in do { ((_, log_file), s) \<leftarrow> find_field E (mn_nodes (objs s this) NewMaster) ''show master status'' ''File'' s;
              ((_, log_pos), s) \<leftarrow> find_field E (mn_nodes (objs s this) NewMaster) ''show master status'' ''Position'' s;
              do_loopM (node_ids (objs s this))
                (\<lambda>i s. if i \<noteq> NewMaster
                       then do { lf \<leftarrow> log_file; lp \<leftarrow> log_pos;
                                 (_, s) \<leftarrow> execute_query_fmt E (mn_nodes (objs s this) i)
                                   (setup_slave (mn_IP (objs s this) NewMaster) lf lp
                                      (mn_port (objs s this) NewMaster)) s;
                                 Some s }
                       else Some s) s })"

definition set_slave ::
  "env \<Rightarrow> cid \<Rightarrow> conn option \<Rightarrow> string \<Rightarrow> int \<Rightarrow> string \<Rightarrow> string
   \<Rightarrow> 'a sys_scheme \<Rightarrow> (int \<times> 'a sys_scheme) option" where
  "set_slave E this c master_host master_port log_file log_pos s =
     (let str = setup_slave master_host log_file log_pos master_port;
          str = (if mn_no_set_pos (objs s this) then setup_slave_no_pos master_host master_port else str)
      in execute_query_fmt E c str s)"

definition get_server_id :: "env \<Rightarrow> cid \<Rightarrow> nat \<Rightarrow> 'a sys_scheme \<Rightarrow> (int \<times> 'a sys_scheme) option" where
  "get_server_id E this index s =
     do { ((ret, v), s) \<leftarrow> find_field E (mn_nodes (objs s this) index) ''SELECT @@server_id'' ''@@server_id'' s;
          if ret = 0 then do { str \<leftarrow> v; Some (atoi str, s) } else Some (-1, s) }"

section \<open>Starting a cluster\<close>

definition dq :: string where
  "dq = [CHR 0x22]"

definition reset_node_cmd :: "string \<Rightarrow> string" where
  "reset_node_cmd sock =
     ''mysql -u root '' @ sock @ '' -e '' @ dq @
     ''STOP SLAVE; RESET SLAVE; RESET SLAVE ALL; RESET MASTER; SET GLOBAL read_only=OFF;'' @ dq"

definition change_master_cmd :: "string \<Rightarrow> string \<Rightarrow> int \<Rightarrow> string" where
  "change_master_cmd sock host port =
     (let bdq = char_of (92 :: nat) # dq
      in ''mysql -u root '' @ sock @ '' -e '' @ dq @ ''CHANGE MASTER TO MASTER_HOST='' @ bdq @ host @ bdq @
         '', MASTER_PORT='' @ int_str port @ '', MASTER_USER='' @ bdq @ ''repl'' @ bdq @
         '', MASTER_PASSWORD='' @ bdq @ ''repl'' @ bdq @ '';START SLAVE;'' @ dq)"

definition start_replication_mariadb :: "env \<Rightarrow> cid \<Rightarrow> 'a sys_scheme \<Rightarrow> int \<times> 'a sys_scheme" where
  "start_replication_mariadb E this s =
     (let ob = objs s this;
          (local_result, s) = sum_loop (node_ids ob)
             (\<lambda>i s. let (r, s) = start_node E this i '''' s;
                        (_, s) = ssh_node E this i (reset_node_cmd (mn_socket_cmd ob i)) True s
                    in (r, s)) s;
          (_, s) = copy_to_node E this (mn_test_dir ob @ ''/create_user.sh'') (mn_access_homedir ob 0) 0 s;
          (_, s) = ssh_node E this 0
             (''export node_user='' @ dq @ mn_user_name ob @ dq @ ''; export node_password='' @ dq @
              mn_password ob @ dq @ ''; '' @ mn_access_homedir ob 0 @ ''/create_user.sh '' @
              mn_socket_cmd ob 0) False s;
          (_, s) = ssh_node E this 0
             (''mysqldump --all-databases --add-drop-database --flush-privileges --master-data=1 --gtid '' @
              mn_socket_cmd ob 0 @ '' > /tmp/master_backup.sql'') True s;
          dump = mn_test_dir ob @ ''/master_backup.sql'';
          (_, s) = copy_from_node E this ''/tmp/master_backup.sql'' dump 0 s;
          s = do_loop [1..<nat (mn_N ob)]
             (\<lambda>i s. let (_, s) = copy_to_node E this dump ''/tmp/master_backup.sql'' i s;
                        (_, s) = ssh_node E this i
                           (''mysql -u root '' @ mn_socket_cmd ob i @ '' < /tmp/master_backup.sql'') True s;
                        (_, s) = ssh_node E this i
                           (change_master_cmd (mn_socket_cmd ob i) (mn_IP_private ob 0) (mn_port ob 0)) True s
                    in s) s
      in (local_result, s))"

definition start_galera :: "env \<Rightarrow> cid \<Rightarrow> 'a sys_scheme \<Rightarrow> int \<times> 'a sys_scheme" where
  "start_galera E this s =
     (let (r0, s) = stop_nodes E this s;
          ob = objs s this;
          (_, s) = ssh_node E this 0 ''rm -f /var/lib/mysql/grastate.dat'' True s;
          (_, s) = ssh_node E this 0 ''echo [mysqld] > cluster_address.cnf'' False s;
          (_, s) = ssh_node E this 0 ''echo wsrep_cluster_address=gcomm:// >>  cluster_address.cnf'' False s;
          (_, s) = ssh_node E this 0 ''cp cluster_address.cnf /etc/my.cnf.d/'' True s;
          (r1, s) = start_node E this 0 '' --wsrep-cluster-address=gcomm://'' s;
          (_, s) = copy_to_node E this (mn_test_dir ob @ ''/create_user_galera.sh'') ''~/'' 0 s;
          (_, s) = ssh_node E this 0
             (''export galera_user='' @ dq @ mn_user_name ob @ dq @ ''; export galera_password='' @ dq @
              mn_password ob @ dq @ ''; ./create_user_galera.sh '' @ mn_socket_cmd ob 0) False s;
          (r2, s) = sum_loop [1..<nat (mn_N ob)]
             (\<lambda>i s. let (_, s) = ssh_node E this i ''echo [mysqld] > cluster_address.cnf'' True s;
                        (_, s) = ssh_node E this i
                           (''echo wsrep_cluster_address=gcomm://'' @ mn_IP_private ob 0 @
                            '' >>  cluster_address.cnf'') True s;
                        (_, s) = ssh_node E this i ''cp cluster_address.cnf /etc/my.cnf.d/'' True s
                    in start_node E this i ('' --wsrep-cluster-address=gcomm://'' @ mn_IP_private ob 0) s) s;
          s = c_sleep 5 s;
          (r3, s) = connect E this s;
          (r4, s) = query_node E this create_repl_user_sql 0 s
      in (r0 + r1 + r2 + r3 + r4, close_connections this s))"

text \<open>The virtual \<open>start_replication\<close>.\<close>

definition start_replication :: "env \<Rightarrow> cid \<Rightarrow> 'a sys_scheme \<Rightarrow> int \<times> 'a sys_scheme" where
  "start_replication E this s =
     (case mn_class (objs s this) of
        Mariadb_class \<Rightarrow> start_replication_mariadb E this s
      | Galera_class \<Rightarrow> start_galera E this s)"

section \<open>Versions\<close>

definition starts_with :: "string \<Rightarrow> string \<Rightarrow> bool" where
  "starts_with p s \<longleftrightarrow> take (length p) s = p"

text \<open>\<open>version_number\<close> and \<open>version_major\<close> from \<open>version\<close>.\<close>

definition major_of :: "string \<Rightarrow> string" where
  "major_of number =
     (let m = (if starts_with ''5.'' number then take 3 number else number)
      in if starts_with ''10.'' m then take 4 m else m)"

definition set_version :: "nat \<Rightarrow> string option \<Rightarrow> mnodes \<Rightarrow> mnodes" where
  "set_version i v ob =
     (let ver = (case v of Some x \<Rightarrow> x | None \<Rightarrow> mn_version ob i);
          number = cut_at ver (CHR ''-'')
      in ob\<lparr>mn_version := (mn_version ob)(i := ver),
            mn_version_number := (mn_version_number ob)(i := number),
            mn_version_major := (mn_version_major ob)(i := major_of number)\<rparr>)"

definition get_versions :: "env \<Rightarrow> cid \<Rightarrow> 'a sys_scheme \<Rightarrow> (int \<times> 'a sys_scheme) option" where
  "get_versions E this s =
     (let s = upd this (\<lambda>ob. ob\<lparr>mn_v51 := False\<rparr>) s in
      do { (local_result, s) \<leftarrow> foreachM (node_ids (objs s this))
             (\<lambda>i acc s. do { ((r, v), s) \<leftarrow> find_field E (mn_nodes (objs s this) i) ''SELECT @@version'' ''@@version'' s;
                             Some (acc + r, upd this (set_version i v) s) }) 0 s;
           let s = do_loop (node_ids (objs s this))
                     (\<lambda>i s. if mn_version_major (objs s this) i = ''5.1''
                            then upd this (\<lambda>ob. ob\<lparr>mn_v51 := True\<rparr>) s else s) s;
           Some (local_result, s) })"

text \<open>\<open>INT_MAX\<close> and the running minimum.\<close>

definition lowest_step :: "mnodes \<Rightarrow> nat \<Rightarrow> string \<times> int \<Rightarrow> (string \<times> int) option" where
  "lowest_step ob i = (\<lambda>(rval, lowest).
     do { v \<leftarrow> get_int_version (mn_version ob i);
          Some (if lowest > v then (mn_version ob i, v) else (rval, lowest)) })"

definition get_lowest_version :: "env \<Rightarrow> cid \<Rightarrow> 'a sys_scheme \<Rightarrow> (string \<times> 'a sys_scheme) option" where
  "get_lowest_version E this s =
     do { (_, s) \<leftarrow> get_versions E this s;
          (rval, _) \<leftarrow> do_loopM (node_ids (objs s this)) (lowest_step (objs s this)) ('''', 2 ^ 31 - 1);
          Some (rval, s) }"

section \<open>Checking a cluster\<close>

definition read_only_sql :: string where
  "read_only_sql = ''SHOW VARIABLES LIKE '' @ quote @ ''read_only'' @ quote"

definition cluster_size_sql :: string where
  "cluster_size_sql = ''SHOW STATUS WHERE Variable_name='' @ quote @ ''wsrep_cluster_size'' @ quote @ '';''"

definition check_master_node ::
  "env \<Rightarrow> cid \<Rightarrow> conn option \<Rightarrow> 'a sys_scheme \<Rightarrow> (bool \<times> 'a sys_scheme) option" where
  "check_master_node E this c s =
     (let ob = objs s this;
          (rep1, s) = mysql_query E c ''SHOW SLAVE HOSTS'' s;
          (ok1, s) = (case rep1 of
                        QFail \<Rightarrow> (False, s)
                      | QOk r _ \<Rightarrow>
                          (case stored r of
                             None \<Rightarrow> True
                           | Some res \<Rightarrow> int (length (rows res)) = mn_N ob - 1 \<or> mn_v51 ob,
                           mysql_store c s));
          (rep2, s) = mysql_query E c ''SHOW SLAVE STATUS'' s;
          (ok2, s) = (case rep2 of
                        QFail \<Rightarrow> (False, s)
                      | QOk r _ \<Rightarrow>
                          (case stored r of None \<Rightarrow> True | Some res \<Rightarrow> rows res = [],
                           mysql_store c s))
      in do { ((_, output), s) \<leftarrow> find_field E c read_only_sql ''Value'' s;
              str \<leftarrow> output;
              Some (ok1 \<and> ok2 \<and> str = ''OFF'', s) })"

text \<open>
  \<open>for (i = 0; i < 2; i++)\<close> of \<open>bad_slave_thread_status\<close>: any state but Yes and No is
  transient and asked for again after a second.
\<close>

fun slave_thread_status ::
  "env \<Rightarrow> conn option \<Rightarrow> string \<Rightarrow> nat \<Rightarrow> string \<Rightarrow> 'a world_scheme \<Rightarrow> (string \<times> 'a world_scheme) option" where
  "slave_thread_status E c field 0 str s = Some (str, s)"
| "slave_thread_status E c field (Suc n) str s =
     do { ((ret, v), s) \<leftarrow> find_field E c ''SHOW SLAVE STATUS;'' field s;
          let str = (case v of Some x \<Rightarrow> x | None \<Rightarrow> str);
          if ret \<noteq> 0 then Some (str, s)
          else if str = ''Yes'' \<or> str = ''No'' then Some (str, s)
          else slave_thread_status E c field n str (c_sleep 1 s) }"

definition bad_slave_thread_status ::
  "env \<Rightarrow> conn option \<Rightarrow> string \<Rightarrow> 'a world_scheme \<Rightarrow> (bool \<times> 'a world_scheme) option" where
  "bad_slave_thread_status E c field s =
     do { (str, s) \<leftarrow> slave_thread_status E c field 2 '''' s;
          Some (str \<noteq> ''Yes'', s) }"

text \<open>One turn of the loop of \<open>check_replication\<close>, whose guard is \<open>i < N && res == 0\<close>.\<close>

definition check_replication_node ::
  "env \<Rightarrow> cid \<Rightarrow> nat \<Rightarrow> int \<Rightarrow> 'a sys_scheme \<Rightarrow> (int \<times> 'a sys_scheme) option" where
  "check_replication_node E this i res s =
     (if res \<noteq> 0 then Some (res, s)
      else
        let c = mn_nodes (objs s this) i in
        if i = 0
        then do { (ok, s) \<leftarrow> check_master_node E this c s; Some (if ok then 0 else 1, s) }
        else do { (bad_io, s) \<leftarrow> bad_slave_thread_status E c ''Slave_IO_Running'' s;
                  if bad_io then Some (1, s)
                  else do { (bad_sql, s) \<leftarrow> bad_slave_thread_status E c ''Slave_SQL_Running'' s;
                            Some (if bad_sql then 1 else 0, s) } })"

definition check_replication_mariadb :: "env \<Rightarrow> cid \<Rightarrow> 'a sys_scheme \<Rightarrow> (int \<times> 'a sys_scheme) option" where
  "check_replication_mariadb E this s =
     (let (failed, s) = connect E this s in
      if failed \<noteq> 0 then Some (1, s)
      else do { (res, s) \<leftarrow> get_versions E this s;
                foreachM (node_ids (objs s this)) (check_replication_node E this) res s })"

text \<open>
  One node of \<open>check_galera\<close>: the new value of \<open>res1\<close>. A text without a number leaves
  \<open>cluster_size\<close> uninitialised.
\<close>

definition check_galera_node ::
  "env \<Rightarrow> cid \<Rightarrow> nat \<Rightarrow> int \<Rightarrow> 'a sys_scheme \<Rightarrow> (int \<times> 'a sys_scheme) option" where
  "check_galera_node E this i res1 s =
     (let ob = objs s this;
          (c, s) = open_conn E (mn_port ob i) (mn_IP ob i) (mn_user_name ob) (mn_password ob) (mn_ssl ob) s
      in if c = None \<or> mysql_errno E c s \<noteq> 0 then Some (1, mysql_close c s)
         else do { ((ret, v), s) \<leftarrow> find_field E c cluster_size_sql ''Value'' s;
                   if ret \<noteq> 0 then Some (1, mysql_close c s)
                   else do { (size, _) \<leftarrow> scan_int (case v of Some x \<Rightarrow> x | None \<Rightarrow> '''');
                             Some (if size \<noteq> mn_N ob then 1 else res1, mysql_close c s) } })"

definition check_galera :: "env \<Rightarrow> cid \<Rightarrow> 'a sys_scheme \<Rightarrow> (int \<times> 'a sys_scheme) option" where
  "check_galera E this s =
     (let s = (if mn_nodes (objs s this) 0 = None then snd (connect E this s) else s) in
      do { (res1, s) \<leftarrow> get_versions E this s;
           foreachM (node_ids (objs s this)) (check_galera_node E this) res1 s })"

text \<open>The virtual \<open>check_replication\<close>.\<close>

definition check_replication :: "env \<Rightarrow> cid \<Rightarrow> 'a sys_scheme \<Rightarrow> (int \<times> 'a sys_scheme) option" where
  "check_replication E this s =
     (case mn_class (objs s this) of
        Mariadb_class \<Rightarrow> check_replication_mariadb E this s
      | Galera_class \<Rightarrow> check_galera E this s)"

section \<open>Repairing a cluster\<close>

text \<open>
  The loop \<open>while (check_replication() && attempts > 0)\<close> of \<open>fix_replication\<close>. The result
  is what the function returns: false from inside the loop, true after it. The two calls of
  virtual methods are the arguments \<open>check\<close> and \<open>start\<close>.
\<close>

definition fix_round ::
  "('a sys_scheme \<Rightarrow> int \<times> 'a sys_scheme) \<Rightarrow> env \<Rightarrow> cid \<Rightarrow> nat \<Rightarrow> 'a sys_scheme \<Rightarrow> 'a sys_scheme" where
  "fix_round start E this attempts s =
     (let s = (if attempts \<noteq> 2 then snd (stop_nodes E this s) else s);
          (_, s) = start s
      in close_connections this s)"

definition fix_cleanup ::
  "('a sys_scheme \<Rightarrow> int \<times> 'a sys_scheme) \<Rightarrow> env \<Rightarrow> cid \<Rightarrow> 'a sys_scheme \<Rightarrow> 'a sys_scheme" where
  "fix_cleanup start E this s =
     (let (_, s) = stop_nodes E this s;
          (_, s) = cleanup_db_nodes E this s;
          s = c_sleep 30 s;
          (_, s) = start s
      in c_sleep 30 s)"

function fix_loop ::
  "('a sys_scheme \<Rightarrow> (int \<times> 'a sys_scheme) option) \<Rightarrow> ('a sys_scheme \<Rightarrow> int \<times> 'a sys_scheme)
   \<Rightarrow> env \<Rightarrow> cid \<Rightarrow> nat \<Rightarrow> nat \<Rightarrow> 'a sys_scheme \<Rightarrow> (bool \<times> 'a sys_scheme) option" where
  "fix_loop check start E this attempts with_cleanup s =
     (case check s of
        None \<Rightarrow> None
      | Some (bad, s1) \<Rightarrow>
          if bad = 0 \<or> attempts = 0 then Some (True, s1)
          else if attempts - 1 \<noteq> 0
          then fix_loop check start E this (attempts - 1) with_cleanup (fix_round start E this attempts s1)
          else
            (case check (fix_round start E this attempts s1) of
               None \<Rightarrow> None
             | Some (bad, s2) \<Rightarrow>
                 if bad = 0 then fix_loop check start E this 0 with_cleanup s2
                 else if with_cleanup > 0
                 then fix_loop check start E this 2 (with_cleanup - 1) (fix_cleanup start E this s2)
                 else Some (False, s2)))"
  by pat_completeness auto
termination
  by (relation "measures [\<lambda>(c, st, E, this, a, w, s). w, \<lambda>(c, st, E, this, a, w, s). a]") auto

declare fix_loop.simps [simp del]

definition fix_replication :: "env \<Rightarrow> cid \<Rightarrow> 'a sys_scheme \<Rightarrow> (bool \<times> 'a sys_scheme) option" where
  "fix_replication E this s =
     do { (bad, s) \<leftarrow> check_replication E this s;
          if bad = 0 then Some (True, s)
          else
            let (_, s) = unblock_all_nodes E this s;
                (broken, s) = check_nodes E this s
            in if broken \<noteq> 0 then Some (False, s)
               else do { (ok, s) \<leftarrow> fix_loop (check_replication E this) (start_replication E this) E this 2 2 s;
                         if ok then do { (_, s) \<leftarrow> flush_hosts E this s; Some (True, s) }
                         else Some (False, s) } }"

section \<open>Waiting for the slaves\<close>

text \<open>
  One answer to \<open>SHOW SLAVE STATUS\<close> in \<open>wait_until_pos\<close>: the new file number and position.
  Column 6 is tested and column 5 used; a log name without a dot has no suffix to point to.
\<close>

definition suffix_number :: "string option \<Rightarrow> int option" where
  "suffix_number cell =
     do { name \<leftarrow> cell; t \<leftarrow> strchr name (CHR ''.''); Some (atoi (tl t)) }"

definition slave_position :: "rset \<Rightarrow> int \<times> int \<Rightarrow> (int \<times> int) option" where
  "slave_position r cur =
     (case stored r of
        None \<Rightarrow> Some cur
      | Some res \<Rightarrow>
          (case rows res of
             [] \<Rightarrow> Some cur
           | row # _ \<Rightarrow>
               do { c6 \<leftarrow> row_at row 6;
                    if c6 = None then Some cur
                    else do { c21 \<leftarrow> row_at row 21;
                              case c21 of
                                None \<Rightarrow> Some cur
                              | Some p \<Rightarrow> do { c5 \<leftarrow> row_at row 5;
                                               n \<leftarrow> suffix_number c5;
                                               Some (n, atoi p) } } }))"

partial_function (option) wait_loop ::
  "env \<Rightarrow> conn option \<Rightarrow> int \<Rightarrow> int \<Rightarrow> int \<times> int \<Rightarrow> 'a world_scheme \<Rightarrow> 'a world_scheme option" where
  "wait_loop E c filenum pos cur s =
     (let (rep, s) = mysql_query E c ''SHOW SLAVE STATUS'' s in
      case rep of
        QFail \<Rightarrow> Some s
      | QOk r rs \<Rightarrow>
          do { cur \<leftarrow> slave_position r cur;
               let s = mysql_store c s;
               if fst cur < filenum \<or> snd cur < pos then wait_loop E c filenum pos cur s else Some s })"

definition wait_until_pos ::
  "env \<Rightarrow> conn option \<Rightarrow> int \<Rightarrow> int \<Rightarrow> 'a world_scheme \<Rightarrow> 'a world_scheme option" where
  "wait_until_pos E c filenum pos s = wait_loop E c filenum pos (0, 0) s"

text \<open>The master's position; the file column is indexed with the node number.\<close>

definition master_position :: "nat \<Rightarrow> row \<Rightarrow> (int \<times> int) option option" where
  "master_position node row =
     do { cf \<leftarrow> row_at row node;
          if cf = None then Some None
          else do { c1 \<leftarrow> row_at row 1;
                    case c1 of
                      None \<Rightarrow> Some None
                    | Some p \<Rightarrow> do { n \<leftarrow> suffix_number cf; Some (Some (n, atoi p)) } } }"

definition sync_slaves :: "env \<Rightarrow> cid \<Rightarrow> nat \<Rightarrow> 'a sys_scheme \<Rightarrow> 'a sys_scheme option" where
  "sync_slaves E this node s =
     (let s = (if mn_nodes (objs s this) node = None then snd (connect E this s) else s);
          c = mn_nodes (objs s this) node;
          (rep, s) = mysql_query E c ''SHOW MASTER STATUS'' s
      in case rep of
           QFail \<Rightarrow> Some s
         | QOk r rs \<Rightarrow>
             (let s = mysql_store c s in
              case stored r of
                None \<Rightarrow> Some s
              | Some res \<Rightarrow>
                  (case rows res of
                     [] \<Rightarrow> Some s
                   | row # _ \<Rightarrow>
                       do { mp \<leftarrow> master_position node row;
                            case mp of
                              None \<Rightarrow> Some s
                            | Some (filenum, pos) \<Rightarrow>
                                do_loopM (node_ids (objs s this))
                                  (\<lambda>i s. if i \<noteq> node
                                         then wait_until_pos E (mn_nodes (objs s this) i) filenum pos s
                                         else Some s) s })))"

section \<open>The constructor\<close>

definition construct_fields :: "env \<Rightarrow> string \<Rightarrow> string \<Rightarrow> bool \<Rightarrow> mnodes \<Rightarrow> mnodes" where
  "construct_fields E pref test_cwd verbose ob =
     read_env E (ob\<lparr>mn_v51 := False, mn_use_ipv6 := False, mn_prefix := pref, mn_nodes := (\<lambda>_. None),
                     mn_blocked := (\<lambda>_. False), mn_no_set_pos := False, mn_verbose := verbose,
                     mn_test_dir := test_cwd\<rparr>)"

definition mariadb_nodes_init ::
  "env \<Rightarrow> cid \<Rightarrow> node_class \<Rightarrow> string \<Rightarrow> string \<Rightarrow> bool \<Rightarrow> 'a sys_scheme \<Rightarrow> 'a sys_scheme option" where
  "mariadb_nodes_init E this cls pref test_cwd verbose s =
     (let s = upd this (\<lambda>ob. construct_fields E pref test_cwd verbose (ob\<lparr>mn_class := cls\<rparr>)) s;
          (_, s) = truncate_mariadb_logs E this s
      in do { (_, s) \<leftarrow> flush_hosts E this s;
              close_active_connections E this s })"

end
