(* ===== verification/Nodes_Lemmas.thy ===== *)
theory Nodes_Lemmas
  imports Replication
begin

text \<open>
  Frame lemmas for the operations of \<open>Mariadb_nodes\<close>: what an operation on one object
  leaves alone (\<^const>\<open>node_step\<close>), and which ones only run commands (\<^const>\<open>extends\<close>).
  The locale \<open>cluster_ops\<close> is the interface of the two virtual methods, on which
  \<open>fix_replication\<close> relies; it is interpreted on the dispatching definitions.
\<close>

section \<open>Shell commands\<close>

lemma ssh_node_eq:
  "ssh_node E this node ssh sudo s =
     (let cmd = generate_ssh_cmd (objs s this) node ssh sudo; st = sh_system E (trace s) cmd
      in (if wifexited st then wexitstatus st else 256, emits [ESystem cmd] s))"
  by (simp add: ssh_node_def c_system_def emit_emits Let_def)

lemma ssh_node_range: "0 \<le> fst (ssh_node E this node ssh sudo s) \<and> fst (ssh_node E this node ssh sudo s) \<le> 256"
  using wexitstatus_range[of "sh_system E (trace s) (generate_ssh_cmd (objs s this) node ssh sudo)"]
  by (auto simp: ssh_node_eq Let_def)

lemma extends_ssh_node [log_extends]: "extends s (snd (ssh_node E this node ssh sudo s))"
  by (simp add: ssh_node_eq Let_def)

lemma extends_ssh_node_output [log_extends]: "extends s (snd (ssh_node_output E this node ssh sudo s))"
  by (auto simp: ssh_node_output_def popen_read_def emit_emits split: option.splits prod.splits)

lemma extends_copy_node [log_extends]:
  "extends s (snd (copy_to_node E this src dest i s))"
  "extends s (snd (copy_from_node E this src dest i s))"
  by (simp_all add: copy_to_node_def copy_from_node_def c_system_def Let_def)

lemma extends_start_stop [log_extends]:
  "extends s (snd (stop_node E this i s))"
  "extends s (snd (start_node E this i param s))"
  "extends s (snd (cleanup_db_node E this i s))"
  by (simp_all add: stop_node_def start_node_def cleanup_db_node_def Let_def log_extends)

lemma extends_check_node_ssh [log_extends]: "extends s (snd (check_node_ssh E this i s))"
  by (simp add: check_node_ssh_def ssh_node_eq Let_def)

lemma extends_check_nodes [log_extends]: "extends s (snd (check_nodes E this s))"
  unfolding check_nodes_def by (rule extends_sum_loop) (rule extends_check_node_ssh)

lemma extends_cleanup_db_nodes [log_extends]: "extends s (snd (cleanup_db_nodes E this s))"
  unfolding cleanup_db_nodes_def by (rule extends_sum_loop) (rule extends_start_stop)

lemma extends_query_node [log_extends]: "extends s (snd (query_node E this sql i s))"
  by (simp add: query_node_def log_extends)

text \<open>The commands that remove a node's old firewall rules, and those that set its rule.\<close>

definition iptables_cleanup :: "mnodes \<Rightarrow> nat \<Rightarrow> hist" where
  "iptables_cleanup ob node =
     map (\<lambda>(c, sudo). ESystem (generate_ssh_cmd ob node c sudo))
       [(''echo '' @ [CHR 0x22] @ ''#!/bin/bash'' @ [CHR 0x22] @ '' > clean_iptables.sh'', False),
        (clean_iptables_line ''iptables'' (mn_port ob node), False),
        (clean_iptables_line ''ip6tables'' (mn_port ob node), False),
        (''chmod a+x clean_iptables.sh'', False),
        (''./clean_iptables.sh'', True)]"

definition iptables_rule :: "mnodes \<Rightarrow> nat \<Rightarrow> string \<Rightarrow> hist" where
  "iptables_rule ob node action =
     [ESystem (generate_ssh_cmd ob node (firewall_rule ''iptables'' (mn_port ob node) action) True),
      ESystem (generate_ssh_cmd ob node (firewall_rule ''ip6tables'' (mn_port ob node) action) True)]"

lemma clean_iptables_eq:
  "snd (clean_iptables E this node s) = emits (iptables_cleanup (objs s this) node) s"
  by (simp add: clean_iptables_def iptables_cleanup_def ssh_node_eq Let_def)

lemma block_node_eq:
  "snd (block_node E this node s) =
     upd this (set_blocked node True)
       (emits (iptables_cleanup (objs s this) node @ iptables_rule (objs s this) node ''REJECT'') s)"
  using clean_iptables_eq[of E this node s]
  by (simp add: block_node_def iptables_rule_def ssh_node_eq Let_def split_def)

lemma unblock_node_eq:
  "snd (unblock_node E this node s) =
     upd this (set_blocked node False)
       (emits (iptables_cleanup (objs s this) node @ iptables_rule (objs s this) node ''ACCEPT'') s)"
  using clean_iptables_eq[of E this node s]
  by (simp add: unblock_node_def iptables_rule_def ssh_node_eq Let_def split_def)

lemma extends_clean_iptables [log_extends]: "extends s (snd (clean_iptables E this node s))"
  by (simp add: clean_iptables_eq)

section \<open>Frames of the object operations\<close>

lemma same_config_upds [simp]:
  "same_config ob (set_node i c ob)"
  "same_config ob (set_blocked i b ob)"
  "same_config ob (set_version i v ob)"
  "same_config ob (ob\<lparr>mn_v51 := x\<rparr>)"
  "same_config ob (ob\<lparr>mn_ssl := y\<rparr>)"
  by (simp_all add: same_config_def set_node_def set_blocked_def set_version_def Let_def)

lemma node_step_upds [node_config]:
  "node_step this s (upd this (set_node i c) s)"
  "node_step this s (upd this (set_blocked i b) s)"
  "node_step this s (upd this (set_version i v) s)"
  "node_step this s (upd this (\<lambda>ob. ob\<lparr>mn_v51 := x\<rparr>) s)"
  "node_step this s (upd this (\<lambda>ob. ob\<lparr>mn_ssl := y\<rparr>) s)"
  by (rule node_step_upd, simp)+

lemma node_step_connect_node [node_config]: "node_step this s (snd (connect_node E this i s))"
proof -
  obtain stale s1 where ping: "(case mn_nodes (objs s this) i of None \<Rightarrow> (True, s)
      | Some c \<Rightarrow> (let (p, s) = mysql_ping E c s in (p \<noteq> 0, s))) = (stale, s1)"
    by (cases "mn_nodes (objs s this) i") (auto simp: mysql_ping_def)
  then have e1: "extends s s1"
    by (auto simp: mysql_ping_def split: option.splits)
  define s2 where "s2 = (if mn_nodes (objs s1 this) i \<noteq> None then mysql_close (mn_nodes (objs s1 this) i) s1 else s1)"
  have e2: "extends s1 s2" by (simp add: s2_def mysql_close_def)
  obtain c s3 where op: "open_conn_db_timeout E (mn_port (objs s1 this) i) (mn_IP (objs s1 this) i) ''test''
      (mn_user_name (objs s1 this)) (mn_password (objs s1 this)) 50 (mn_ssl (objs s1 this)) s2 = (c, s3)"
    by (meson surj_pair)
  have e3: "extends s2 s3" using extends_open_conn_db_timeout op by (metis snd_conv)
  have "node_step this s s3"
    using e1 e2 e3 extends_trans node_step_extends by blast
  then have ns: "node_step this s (upd this (set_node i c) s3)"
    using node_step_trans node_step_upds(1) by blast
  have "snd (connect_node E this i s) = (if stale then upd this (set_node i c) s3 else s1)"
    using ping op by (auto simp: connect_node_def s2_def Let_def)
  with ns e1 show ?thesis by (auto intro: node_step_extends)
qed

lemma node_step_connect [node_config]: "node_step this s (snd (connect E this s))"
  unfolding connect_def by (rule node_step_sum_loop) (rule node_config)

lemma node_step_close_connections [node_config]: "node_step this s (close_connections this s)"
  unfolding close_connections_def
proof (rule node_step_do_loop)
  fix i and s :: "'a sys_scheme"
  have "node_step this s (mysql_close (mn_nodes (objs s this) i) s)"
    by (simp add: mysql_close_def node_step_extends)
  then show "node_step this s (close_connection this i s)"
    unfolding close_connection_def using node_step_trans node_step_upds(1) by force
qed

lemma connect_range:
  "0 \<le> fst (connect E this s) \<and> fst (connect E this s) \<le> int (length (node_ids (objs s this)))"
proof -
  have "0 \<le> fst (connect_node E this i t) \<and> fst (connect_node E this i t) \<le> 1" for i t
    by (auto simp: connect_node_def Let_def split: prod.splits)
  then show ?thesis unfolding connect_def using sum_loop_bounds[of _ "connect_node E this" 1] by fastforce
qed

lemma node_step_block [node_config]:
  "node_step this s (snd (block_node E this i s))"
  "node_step this s (snd (unblock_node E this i s))"
  unfolding block_node_eq unblock_node_eq
  by (meson extends_emits node_step_extends node_step_trans node_step_upds(2))+

lemma node_step_unblock_all [node_config]: "node_step this s (snd (unblock_all_nodes E this s))"
  unfolding unblock_all_nodes_def by (rule node_step_sum_loop) (rule node_config)

text \<open>Backward rules for chains of operations on an object.\<close>

lemmas log_chain = log_extends[THEN extends_trans[rotated]]
lemmas object_chain = log_extends[THEN node_step_extends, THEN node_step_trans[rotated]]
  node_config[THEN node_step_trans[rotated]]
  node_step_sum_loop_chain node_step_do_loop_chain node_step_if node_step_snd node_step_refl
  same_config_upds

lemmas unfold_lets = Let_def split_def fst_conv snd_conv

lemma node_step_stop_nodes [node_config]: "node_step this s (snd (stop_nodes E this s))"
  unfolding stop_nodes_def unfold_lets by (intro object_chain)

lemma node_step_stop_slaves [node_config]: "node_step this s (snd (stop_slaves E this s))"
  unfolding stop_slaves_def unfold_lets by (intro object_chain)

lemma node_step_set_repl_user [node_config]: "node_step this s (snd (set_repl_user E this s))"
  unfolding set_repl_user_def unfold_lets by (intro object_chain)

lemma node_step_destroy [node_config]: "node_step this s (mariadb_nodes_destroy E this s)"
  unfolding mariadb_nodes_destroy_def unfold_lets by (intro object_chain)

lemma node_step_truncate [node_config]: "node_step this s (snd (truncate_mariadb_logs E this s))"
  unfolding truncate_mariadb_logs_def unfold_lets
  by (intro node_step_sum_loop node_step_extends) (simp add: c_system_def)

lemma node_step_configure_ssl [node_config]: "node_step this s (snd (configure_ssl E this require s))"
  unfolding configure_ssl_def unfold_lets by (intro object_chain)

lemma node_step_disable_ssl [node_config]: "node_step this s (snd (disable_ssl E this s))"
  unfolding disable_ssl_def unfold_lets by (intro object_chain)

lemma node_step_start_mariadb [node_config]: "node_step this s (snd (start_replication_mariadb E this s))"
  unfolding start_replication_mariadb_def unfold_lets by (intro object_chain)

lemmas object_chain2 = object_chain node_step_stop_nodes[THEN node_step_trans[rotated]]

lemma node_step_start_galera [node_config]: "node_step this s (snd (start_galera E this s))"
  unfolding start_galera_def unfold_lets by (intro object_chain2)

lemma node_step_start_replication [node_config]: "node_step this s (snd (start_replication E this s))"
  by (simp add: start_replication_def node_config split: node_class.splits)

section \<open>Frames of the partial operations\<close>

lemma node_step_get_versions:
  assumes "get_versions E this s = Some (r, s')"
  shows "node_step this s s'"
proof -
  define s0 where "s0 = upd this (\<lambda>ob. ob\<lparr>mn_v51 := False\<rparr>) s"
  obtain r1 s1 where loop: "foreachM (node_ids (objs s0 this))
      (\<lambda>i acc s. do { ((r, v), s) \<leftarrow> find_field E (mn_nodes (objs s this) i) ''SELECT @@version'' ''@@version'' s;
                      Some (acc + r, upd this (set_version i v) s) }) 0 s0 = Some (r1, s1)"
    and s': "s' = do_loop (node_ids (objs s1 this))
        (\<lambda>i s. if mn_version_major (objs s this) i = ''5.1''
               then upd this (\<lambda>ob. ob\<lparr>mn_v51 := True\<rparr>) s else s) s1"
    using assms by (auto simp: get_versions_def s0_def[symmetric] Let_def Option.bind_eq_Some_conv)
  have "node_step this s0 s1"
  proof (rule node_step_foreachM[OF loop])
    fix i a and t :: "'a sys_scheme" and a1 t1
    assume "do { ((r, v), s) \<leftarrow> find_field E (mn_nodes (objs t this) i) ''SELECT @@version'' ''@@version'' t;
                 Some (a + r, upd this (set_version i v) s) } = Some (a1, t1)"
    then show "node_step this t t1"
      by (auto simp: Option.bind_eq_Some_conv
          intro: node_step_trans[OF node_step_extends node_step_upds(3)] extends_find_field)
  qed
  moreover have "node_step this s s0" unfolding s0_def by (rule node_step_upds(4))
  moreover have "node_step this s1 s'" unfolding s' by (intro object_chain)
  ultimately show ?thesis using node_step_trans by blast
qed

lemma extends_slave_thread_status:
  "slave_thread_status E c field n str s = Some (r, s') \<Longrightarrow> extends s s'"
proof (induction n arbitrary: str s)
  case 0
  then show ?case by simp
next
  case (Suc n)
  then obtain ret v s1 where ff: "find_field E c ''SHOW SLAVE STATUS;'' field s = Some ((ret, v), s1)"
    and rest: "s' = s1 \<or> (\<exists>str. slave_thread_status E c field n str (c_sleep 1 s1) = Some (r, s'))"
    by (auto simp: Option.bind_eq_Some_conv Let_def split: if_splits)
  from ff have "extends s s1" by (rule extends_find_field)
  moreover have "extends s1 s'"
    using rest Suc.IH extends_calls(4) extends_refl extends_trans by metis
  ultimately show ?case by (rule extends_trans)
qed

lemma extends_bad_slave_thread_status:
  "bad_slave_thread_status E c field s = Some (r, s') \<Longrightarrow> extends s s'"
  by (auto simp: bad_slave_thread_status_def Option.bind_eq_Some_conv intro: extends_slave_thread_status)

lemma extends_check_master_node:
  assumes "check_master_node E this c s = Some (r, s')"
  shows "extends s s'"
proof -
  have "\<exists>t v. extends s t \<and> find_field E c read_only_sql ''Value'' t = Some (v, s')"
  proof -
    define m1 where "m1 = emit (EQuery c ''SHOW SLAVE HOSTS'') s"
    define m2 where "m2 = (case my_query E (trace s) c ''SHOW SLAVE HOSTS'' of QFail \<Rightarrow> m1 | QOk r _ \<Rightarrow> mysql_store c m1)"
    define m3 where "m3 = emit (EQuery c ''SHOW SLAVE STATUS'') m2"
    define m4 where "m4 = (case my_query E (trace m2) c ''SHOW SLAVE STATUS'' of QFail \<Rightarrow> m3 | QOk r _ \<Rightarrow> mysql_store c m3)"
    have "extends s m4"
      by (auto simp: m4_def m3_def m2_def m1_def mysql_store_def emit_emits split: reply.splits)
    moreover have "\<exists>v. find_field E c read_only_sql ''Value'' m4 = Some (v, s')"
      using assms
      by (cases "my_query E (trace s) c ''SHOW SLAVE HOSTS''"; cases "my_query E (trace m2) c ''SHOW SLAVE STATUS''")
        (auto simp: check_master_node_def mysql_query_def m4_def m3_def m2_def m1_def Let_def Option.bind_eq_Some_conv)
    ultimately show ?thesis by blast
  qed
  then show ?thesis using extends_find_field extends_trans by blast
qed

lemma extends_check_replication_node:
  "check_replication_node E this i res s = Some (r, s') \<Longrightarrow> extends s s'"
  by (auto simp: check_replication_node_def Let_def Option.bind_eq_Some_conv split: if_splits
      dest!: extends_check_master_node extends_bad_slave_thread_status intro: extends_trans)

lemma node_step_check_mariadb:
  assumes "check_replication_mariadb E this s = Some (r, s')"
  shows "node_step this s s'"
proof -
  obtain f s1 where c: "connect E this s = (f, s1)" by (cases "connect E this s")
  have s1: "node_step this s s1" using node_step_connect[of this s E] by (simp add: c)
  consider "s' = s1"
    | v s2 where "get_versions E this s1 = Some (v, s2)"
        "foreachM (node_ids (objs s2 this)) (check_replication_node E this) v s2 = Some (r, s')"
    using assms by (auto simp: check_replication_mariadb_def c Option.bind_eq_Some_conv split: if_splits)
  then show ?thesis
  proof cases
    case 2
    have "extends s2 s'"
      using 2(2) by (rule extends_foreachM) (rule extends_check_replication_node)
    then show ?thesis
      using s1 node_step_get_versions[OF 2(1)] by (meson node_step_extends node_step_trans)
  qed (use s1 in simp)
qed

lemma extends_check_galera_node:
  assumes "check_galera_node E this i res s = Some (r, s')"
  shows "extends s s'"
proof -
  let ?ob = "objs s this"
  obtain c s1 where op: "open_conn E (mn_port ?ob i) (mn_IP ?ob i) (mn_user_name ?ob)
      (mn_password ?ob) (mn_ssl ?ob) s = (c, s1)" by (meson surj_pair)
  have e1: "extends s s1" using extends_open_conns(2) op by (metis snd_conv)
  have "\<exists>s2. extends s1 s2 \<and> s' = mysql_close c s2"
  proof (cases "c = None \<or> mysql_errno E c s1 \<noteq> 0")
    case True
    then have "s' = mysql_close c s1"
      using assms by (auto simp: check_galera_node_def op Let_def)
    then show ?thesis using extends_refl by blast
  next
    case False
    then obtain v s2 where "find_field E c cluster_size_sql ''Value'' s1 = Some (v, s2)"
        "s' = mysql_close c s2"
      using assms by (auto simp: check_galera_node_def op Let_def Option.bind_eq_Some_conv split: if_splits)
    then show ?thesis using extends_find_field by blast
  qed
  then show ?thesis using e1 by (metis extends_calls(6) extends_trans)
qed

lemma node_step_check_galera:
  assumes "check_galera E this s = Some (r, s')"
  shows "node_step this s s'"
proof -
  define s1 where "s1 = (if mn_nodes (objs s this) 0 = None then snd (connect E this s) else s)"
  have s1: "node_step this s s1" by (simp add: s1_def node_config)
  obtain v s2 where g: "get_versions E this s1 = Some (v, s2)"
    and l: "foreachM (node_ids (objs s2 this)) (check_galera_node E this) v s2 = Some (r, s')"
    using assms by (auto simp: check_galera_def s1_def[symmetric] Let_def Option.bind_eq_Some_conv)
  have "extends s2 s'" using l by (rule extends_foreachM) (rule extends_check_galera_node)
  then show ?thesis using s1 node_step_get_versions[OF g] by (meson node_step_extends node_step_trans)
qed

lemma node_step_check_replication:
  "check_replication E this s = Some (r, s') \<Longrightarrow> node_step this s s'"
  by (auto simp: check_replication_def node_step_check_mariadb node_step_check_galera
      split: node_class.splits)


lemma node_step_flush_hosts_node:
  assumes "flush_hosts_node E this i s = Some (r, s')"
  shows "extends s s'"
proof -
  define s1 where "s1 = emits [EQuery (mn_nodes (objs s this) i) ''FLUSH HOSTS'',
      EQuery (mn_nodes (objs s this) i) ''SET GLOBAL max_connections=10000'',
      EQuery (mn_nodes (objs s this) i) anonymous_users_sql] s"
  have drops: "extends t (do_loop users (\<lambda>u s. snd (mysql_query E c (''DROP USER '' @ u) s)) t)"
    for users c and t :: "'a sys_scheme"
    by (rule extends_do_loop) (rule extends_calls)
  have "extends s s1" by (simp add: s1_def)
  moreover have "s' = s1 \<or> (\<exists>c users. s' = mysql_store c s1 \<or>
      s' = do_loop users (\<lambda>u s. snd (mysql_query E c (''DROP USER '' @ u) s)) (mysql_store c s1))"
    using assms
    by (auto simp: flush_hosts_node_def mysql_query_rc_def mysql_query_def emit_emits s1_def Let_def
        Option.bind_eq_Some_conv split: reply.splits option.splits)
  moreover have "extends s1 (mysql_store c s1)" for c by (rule extends_calls)
  ultimately show ?thesis
    by (elim disjE exE; hypsubst) (assumption | rule extends_trans[OF _ drops] extends_trans | assumption)+
qed

lemma node_step_flush_hosts:
  assumes "flush_hosts E this s = Some (r, s')"
  shows "node_step this s s'"
proof -
  obtain failed s1 where c: "(if mn_nodes (objs s this) 0 = None
      then (let (r, s) = connect E this s in (r \<noteq> 0, s)) else (False, s)) = (failed, s1)"
    by (meson surj_pair)
  then have s1: "node_step this s s1"
    using node_step_connect[of this s E] by (auto simp: Let_def split_def split: if_splits)
  consider "s' = s1"
    | "foreachM (node_ids (objs s1 this))
         (\<lambda>i acc s. do { (r, s) \<leftarrow> flush_hosts_node E this i s; Some (acc + r, s) }) 0 s1 = Some (r, s')"
    using assms by (auto simp: flush_hosts_def c split: if_splits)
  then show ?thesis
  proof cases
    case 2
    then have "extends s1 s'"
      by (rule extends_foreachM)
        (auto simp: Option.bind_eq_Some_conv intro: node_step_flush_hosts_node)
    then show ?thesis using s1 node_step_extends node_step_trans by blast
  qed (use s1 in simp)
qed

section \<open>The virtual methods\<close>

text \<open>
  What \<open>fix_replication\<close> needs of \<open>check_replication\<close> and \<open>start_replication\<close>: each works on
  its own object only and keeps its configuration. The loop then keeps it too; it reports
  failure only right after a failed check; and it ends whenever the checks do.
\<close>

locale cluster_ops =
  fixes this :: cid
    and check :: "'a sys_scheme \<Rightarrow> (int \<times> 'a sys_scheme) option"
    and start :: "'a sys_scheme \<Rightarrow> int \<times> 'a sys_scheme"
  assumes check_step: "check s = Some (r, s') \<Longrightarrow> node_step this s s'"
    and start_step: "node_step this s (snd (start s))"
begin


lemma round_step: "node_step this s (fix_round start E this a s)"
  unfolding fix_round_def unfold_lets
  by (meson node_step_close_connections node_step_if node_step_refl node_step_stop_nodes
      node_step_trans start_step)

lemma cleanup_step: "node_step this s (fix_cleanup start E this s)"
  unfolding fix_cleanup_def unfold_lets
  by (meson extends_calls(4) extends_cleanup_db_nodes node_step_extends node_step_stop_nodes
      node_step_trans start_step)

lemma fix_loop_cases:
  assumes "fix_loop check start E this a w s = Some (b, s')"
  obtains (stop) bad where "check s = Some (bad, s')" "b" "bad = 0 \<or> a = 0"
    | (again) bad s1 where "check s = Some (bad, s1)" "a > 1"
        "fix_loop check start E this (a - 1) w (fix_round start E this a s1) = Some (b, s')"
    | (works) bad s1 bad2 s2 where "check s = Some (bad, s1)" "a = 1"
        "check (fix_round start E this a s1) = Some (bad2, s2)" "bad2 = 0"
        "fix_loop check start E this 0 w s2 = Some (b, s')"
    | (cleanup) bad s1 bad2 s2 where "check s = Some (bad, s1)" "a = 1"
        "check (fix_round start E this a s1) = Some (bad2, s2)" "w > 0"
        "fix_loop check start E this 2 (w - 1) (fix_cleanup start E this s2) = Some (b, s')"
    | (give_up) bad s1 bad2 where "check s = Some (bad, s1)" "a = 1"
        "check (fix_round start E this a s1) = Some (bad2, s')" "bad2 \<noteq> 0" "w = 0" "\<not> b"
proof -
  obtain bad s1 where c1: "check s = Some (bad, s1)"
    using assms by (subst (asm) fix_loop.simps) (auto split: option.splits)
  consider "bad = 0 \<or> a = 0" | "bad \<noteq> 0" "a > 1" | "bad \<noteq> 0" "a = 1" by linarith
  then show thesis
  proof cases
    case 1
    then show thesis using assms c1 by (subst (asm) fix_loop.simps) (auto intro: stop)
  next
    case 2
    then show thesis using assms c1 by (subst (asm) fix_loop.simps) (auto intro: again)
  next
    case 3
    obtain bad2 s2 where c2: "check (fix_round start E this a s1) = Some (bad2, s2)"
      using assms c1 3 by (subst (asm) fix_loop.simps) (auto split: option.splits)
    consider "bad2 = 0" | "bad2 \<noteq> 0" "w > 0" | "bad2 \<noteq> 0" "w = 0" by linarith
    then show thesis
      by cases (use assms c1 c2 3 in \<open>subst (asm) fix_loop.simps, auto intro: works cleanup give_up\<close>)+
  qed
qed

lemmas loop_wf = wf_induct[OF wf_lex_prod[OF wf_less_than wf_less_than]]

lemma fix_loop_step:
  "fix_loop check start E this a w s = Some (b, s') \<Longrightarrow> node_step this s s'"
proof (induction "(w, a)" arbitrary: w a s rule: loop_wf)
  case (1 w a)
  note IH = 1(1)[rule_format, OF _ refl]
  from 1(2) show ?case
  proof (cases rule: fix_loop_cases)
    case (again bad s1)
    have "node_step this s (fix_round start E this a s1)"
      using check_step[OF again(1)] round_step node_step_trans by blast
    moreover have "node_step this (fix_round start E this a s1) s'"
      by (rule IH[OF _ again(3)]) (use again(2) in simp)
    ultimately show ?thesis by (rule node_step_trans)
  next
    case (works bad s1 bad2 s2)
    then have "node_step this s s2" using check_step round_step node_step_trans by blast
    moreover have "node_step this s2 s'" by (rule IH[OF _ works(5)]) (use works(2) in simp)
    ultimately show ?thesis by (rule node_step_trans)
  next
    case (cleanup bad s1 bad2 s2)
    then have "node_step this s s2" using check_step round_step node_step_trans by blast
    then have "node_step this s (fix_cleanup start E this s2)"
      using cleanup_step node_step_trans by blast
    moreover have "node_step this (fix_cleanup start E this s2) s'"
      by (rule IH[OF _ cleanup(5)]) (use cleanup(4) in simp)
    ultimately show ?thesis by (rule node_step_trans)
  next
    case (give_up bad s1 bad2)
    then show ?thesis using check_step round_step node_step_trans by blast
  qed (use check_step in blast)
qed

text \<open>The loop gives up only right after a check that failed.\<close>

lemma fix_loop_False:
  "fix_loop check start E this a w s = Some (False, s') \<Longrightarrow> \<exists>t bad. check t = Some (bad, s') \<and> bad \<noteq> 0"
proof (induction "(w, a)" arbitrary: w a s rule: loop_wf)
  case (1 w a)
  note IH = 1(1)[rule_format, OF _ refl]
  from 1(2) show ?case
  proof (cases rule: fix_loop_cases)
    case (again bad s1)
    then show ?thesis using IH[OF _ again(3)] by force
  next
    case (works bad s1 bad2 s2)
    then show ?thesis using IH[OF _ works(5)] by force
  next
    case (cleanup bad s1 bad2 s2)
    then show ?thesis using IH[OF _ cleanup(5)] by force
  next
    case (give_up bad s1 bad2)
    then show ?thesis by blast
  qed simp
qed

lemma fix_loop_defined:
  assumes total: "\<And>t. check t \<noteq> None"
  shows "fix_loop check start E this a w s \<noteq> None"
proof (induction "(w, a)" arbitrary: w a s rule: loop_wf)
  case (1 w a)
  note IH = 1[rule_format, OF _ refl]
  obtain bad s1 where c1: "check s = Some (bad, s1)" using total[of s] by auto
  obtain bad2 s2 where c2: "check (fix_round start E this a s1) = Some (bad2, s2)"
    using total[of "fix_round start E this a s1"] by auto
  have "a > 1 \<Longrightarrow> fix_loop check start E this (a - 1) w (fix_round start E this a s1) \<noteq> None"
    by (rule IH) simp
  moreover have "a = 1 \<Longrightarrow> fix_loop check start E this 0 w s2 \<noteq> None"
    by (rule IH) simp
  moreover have "w > 0 \<Longrightarrow> fix_loop check start E this 2 (w - 1) (fix_cleanup start E this s2) \<noteq> None"
    by (rule IH) simp
  ultimately show ?case
    by (subst fix_loop.simps) (use c1 c2 in \<open>cases "a = 1"; simp; blast\<close>)
qed

end

interpretation ops: cluster_ops this "check_replication E this" "start_replication E this"
  by unfold_locales (simp_all add: node_step_check_replication node_step_start_replication)

lemma node_step_fix_replication:
  assumes "fix_replication E this s = Some (b, s')"
  shows "node_step this s s'"
proof -
  obtain bad s1 where c: "check_replication E this s = Some (bad, s1)"
    using assms by (auto simp: fix_replication_def Option.bind_eq_Some_conv)
  define s2 where "s2 = snd (check_nodes E this (snd (unblock_all_nodes E this s1)))"
  have "node_step this s s1" by (rule node_step_check_replication[OF c])
  moreover have "node_step this s1 s2"
    unfolding s2_def by (meson extends_check_nodes node_step_extends node_step_trans node_step_unblock_all)
  moreover have "s' = s1 \<or> s' = s2 \<or> (\<exists>ok s3 r. fix_loop (check_replication E this) (start_replication E this) E this 2 2 s2 = Some (ok, s3)
      \<and> (s' = s3 \<or> flush_hosts E this s3 = Some (r, s')))"
    using assms
    by (auto simp: fix_replication_def c s2_def Let_def split_def Option.bind_eq_Some_conv split: if_splits)
  ultimately show ?thesis
    using ops.fix_loop_step node_step_flush_hosts node_step_trans by metis
qed

end
