(* ===== verification/Nodes_Props.thy ===== *)
theory Nodes_Props
  imports Nodes_Lemmas Func_Props
begin

text \<open>
  The properties of \<open>Mariadb_nodes\<close>: what the environment configures, the safe use of
  connection handles, the commands that block and unblock a node, the buffer an ssh command
  is formatted into, the search for the master, the repair loop, and the wait for slaves.
\<close>

section \<open>Configuration\<close>

text \<open>Two objects that agree on everything \<open>read_env\<close> stores for node \<open>i\<close>.\<close>

definition agree_on :: "nat \<Rightarrow> mnodes \<Rightarrow> mnodes \<Rightarrow> bool" where
  "agree_on i a b \<longleftrightarrow>
     mn_prefix a = mn_prefix b \<and> mn_IP a i = mn_IP b i \<and> mn_IP_private a i = mn_IP_private b i \<and>
     mn_IP6 a i = mn_IP6 b i \<and> mn_port a i = mn_port b i \<and> mn_socket a i = mn_socket b i \<and>
     mn_socket_cmd a i = mn_socket_cmd b i \<and> mn_sshkey a i = mn_sshkey b i \<and>
     mn_start_db_command a i = mn_start_db_command b i \<and>
     mn_stop_db_command a i = mn_stop_db_command b i \<and>
     mn_cleanup_db_command a i = mn_cleanup_db_command b i \<and>
     mn_access_user a i = mn_access_user b i \<and> mn_access_sudo a i = mn_access_sudo b i \<and>
     mn_access_homedir a i = mn_access_homedir b i"

lemma agree_on_refl: "agree_on i a a"
  by (simp add: agree_on_def)

lemma agree_on_trans: "agree_on i a b \<Longrightarrow> agree_on i b c \<Longrightarrow> agree_on i a c"
  by (simp add: agree_on_def)

lemmas read_node_defs = read_node_env_def read_node_access_def read_node_commands_def
  read_node_socket_def read_node_address_def node_env_def node_var_def Let_def

lemma read_node_env_frame [simp]:
  "mn_prefix (read_node_env E j ob) = mn_prefix ob"
  "mn_N (read_node_env E j ob) = mn_N ob"
  by (simp_all add: read_node_defs)

text \<open>The values \<open>read_env\<close> stores for node \<open>i\<close>, each from its own variable.\<close>

definition env_ip :: "env \<Rightarrow> mnodes \<Rightarrow> nat \<Rightarrow> string" where
  "env_ip E ob i = (case node_env E ob i ''_network'' of Some v \<Rightarrow> v | None \<Rightarrow> mn_IP ob i)"

definition env_user :: "env \<Rightarrow> mnodes \<Rightarrow> nat \<Rightarrow> string" where
  "env_user E ob i = (case node_env E ob i ''_whoami'' of Some v \<Rightarrow> v | None \<Rightarrow> ''root'')"

lemma read_node_env_values:
  "mn_IP (read_node_env E i ob) i = env_ip E ob i"
  "mn_IP_private (read_node_env E i ob) i =
     (case node_env E ob i ''_private_ip'' of Some v \<Rightarrow> v | None \<Rightarrow> env_ip E ob i)"
  "mn_IP6 (read_node_env E i ob) i =
     (case node_env E ob i ''_network6'' of Some v \<Rightarrow> v | None \<Rightarrow> env_ip E ob i)"
  "mn_port (read_node_env E i ob) i = (case node_env E ob i ''_port'' of None \<Rightarrow> 3306
      | Some v \<Rightarrow> (case scan_int v of Some (p, _) \<Rightarrow> p | None \<Rightarrow> mn_port ob i))"
  "mn_start_db_command (read_node_env E i ob) i =
     (case node_env E ob i ''_stop_db_command'' of None \<Rightarrow> ''service mysql stop''
      | Some _ \<Rightarrow> (case node_env E ob i ''_start_db_command'' of Some v \<Rightarrow> v | None \<Rightarrow> ''service mysql start''))"
  "mn_stop_db_command (read_node_env E i ob) i =
     (case node_env E ob i ''_stop_db_command'' of Some v \<Rightarrow> v | None \<Rightarrow> mn_stop_db_command ob i)"
  "mn_access_user (read_node_env E i ob) i = env_user E ob i"
  "mn_access_homedir (read_node_env E i ob) i =
     (if env_user E ob i = ''root'' then ''/root/'' else ''/home/'' @ env_user E ob i @ ''/'')"
  by (simp_all add: read_node_defs env_ip_def env_user_def cong: option.case_cong)

lemma read_node_env_other:
  "i \<noteq> j \<Longrightarrow> agree_on i (read_node_env E j ob) ob"
  by (simp add: read_node_defs agree_on_def)

lemma read_node_env_cong:
  assumes "agree_on i a b"
  shows "agree_on i (read_node_env E i a) (read_node_env E i b)"
  using assms by (simp add: read_node_defs agree_on_def cong: option.case_cong)

lemma fold_read_node_env:
  assumes "distinct ids" "i \<in> set ids"
  shows "agree_on i (fold (read_node_env E) ids ob) (read_node_env E i ob)"
proof -
  have other: "agree_on i (fold (read_node_env E) js ob) ob" if "i \<notin> set js" for js ob
    using that
  proof (induction js arbitrary: ob)
    case Nil
    then show ?case by (simp add: agree_on_refl)
  next
    case (Cons j js)
    then show ?case using read_node_env_other agree_on_trans by (metis fold_simps(2) list.set_intros)
  qed
  obtain xs ys where ids: "ids = xs @ i # ys" using assms(2) by (meson split_list)
  then have "i \<notin> set xs" "i \<notin> set ys" using assms(1) by auto
  then have "agree_on i (fold (read_node_env E) xs ob) ob"
    "agree_on i (fold (read_node_env E) ids ob) (read_node_env E i (fold (read_node_env E) xs ob))"
    using other by (simp_all add: ids)
  then show ?thesis using agree_on_trans read_node_env_cong by blast
qed


definition blank_nodes :: mnodes where
  "blank_nodes = \<lparr>mn_class = Mariadb_class, mn_nodes = (\<lambda>_. None), mn_IP = (\<lambda>_. []),
     mn_IP_private = (\<lambda>_. []), mn_IP6 = (\<lambda>_. []), mn_use_ipv6 = False, mn_port = (\<lambda>_. 0),
     mn_socket = (\<lambda>_. []), mn_socket_cmd = (\<lambda>_. []), mn_sshkey = (\<lambda>_. []), mn_N = 0,
     mn_user_name = [], mn_password = [], mn_prefix = ''node'', mn_start_db_command = (\<lambda>_. []),
     mn_stop_db_command = (\<lambda>_. []), mn_cleanup_db_command = (\<lambda>_. []), mn_ssl = False,
     mn_access_user = (\<lambda>_. []), mn_access_sudo = (\<lambda>_. []), mn_access_homedir = (\<lambda>_. []),
     mn_no_set_pos = False, mn_verbose = False, mn_version = (\<lambda>_. []), mn_version_major = (\<lambda>_. []),
     mn_version_number = (\<lambda>_. []), mn_v51 = False, mn_test_dir = [], mn_blocked = (\<lambda>_. False)\<rparr>"

definition two_node_env :: env where
  "two_node_env = dead_env\<lparr>env_get := (\<lambda>v. if v = ''node_N'' then Some ''2''
     else if v = ''node_001_network'' then Some ''10.0.0.2''
     else if v = ''node_001_start_db_command'' then Some ''start.sh'' else None)\<rparr>"


section \<open>Connection handles\<close>

text \<open>
  The handles that are open after a history, and the histories in which every call is given
  a handle that is open: no use after close, no double close.
\<close>

definition handle_step :: "conn set \<Rightarrow> event \<Rightarrow> conn set" where
  "handle_step L e = (case e of EInit (Some c) \<Rightarrow> insert c L | EClose (Some c) \<Rightarrow> L - {c} | _ \<Rightarrow> L)"

definition handle_ok :: "conn set \<Rightarrow> event \<Rightarrow> bool" where
  "handle_ok L e \<longleftrightarrow>
     (case e of
        EInit (Some c) \<Rightarrow> c \<notin> L
      | EOption c _ _ \<Rightarrow> c \<in> L | ESslSet c _ _ _ \<Rightarrow> c \<in> L | EConnect c _ _ _ _ _ _ \<Rightarrow> c \<in> L
      | EPing c \<Rightarrow> c \<in> L | EQuery (Some c) _ \<Rightarrow> c \<in> L | EStore (Some c) \<Rightarrow> c \<in> L
      | ENext (Some c) \<Rightarrow> c \<in> L | EClose (Some c) \<Rightarrow> c \<in> L
      | _ \<Rightarrow> True)"

fun safe_from :: "conn set \<Rightarrow> hist \<Rightarrow> bool" where
  "safe_from L [] = True"
| "safe_from L (e # es) \<longleftrightarrow> handle_ok L e \<and> safe_from (handle_step L e) es"

definition live :: "hist \<Rightarrow> conn set" where
  "live h = fold (\<lambda>e L. handle_step L e) h {}"

definition safe :: "hist \<Rightarrow> bool" where
  "safe h \<longleftrightarrow> safe_from {} h"

lemma safe_from_append:
  "safe_from L (xs @ ys) \<longleftrightarrow> safe_from L xs \<and> safe_from (fold (\<lambda>e L. handle_step L e) xs L) ys"
  by (induction xs arbitrary: L) auto

lemma live_snoc [simp]: "live (h @ [e]) = handle_step (live h) e"
  by (simp add: live_def)

lemma live_append: "live (h @ es) = fold (\<lambda>e L. handle_step L e) es (live h)"
  by (simp add: live_def)

lemma safe_snoc [simp]: "safe (h @ [e]) \<longleftrightarrow> safe h \<and> handle_ok (live h) e"
  by (simp add: safe_def safe_from_append live_def)

text \<open>\<open>mysql_init\<close> allocates: it never returns a handle that is in use.\<close>

definition fresh_handles :: "env \<Rightarrow> bool" where
  "fresh_handles E \<longleftrightarrow> (\<forall>h c. my_init E h = Some c \<longrightarrow> c \<notin> live h)"

text \<open>The object's handles are open and no two nodes share one.\<close>

definition slots_ok :: "conn set \<Rightarrow> nat set \<Rightarrow> (nat \<Rightarrow> conn option) \<Rightarrow> bool" where
  "slots_ok L I f \<longleftrightarrow>
     (\<forall>i \<in> I. \<forall>c. f i = Some c \<longrightarrow> c \<in> L) \<and>
     (\<forall>i \<in> I. \<forall>j \<in> I. i \<noteq> j \<longrightarrow> f i = f j \<longrightarrow> f i = None)"

definition handles_ok :: "cid \<Rightarrow> 'a sys_scheme \<Rightarrow> bool" where
  "handles_ok this s \<longleftrightarrow>
     safe (trace s) \<and>
     slots_ok (live (trace s)) (set (node_ids (objs s this))) (mn_nodes (objs s this))"

text \<open>The same without slot \<open>i\<close>.\<close>

definition handles_except :: "nat \<Rightarrow> cid \<Rightarrow> 'a sys_scheme \<Rightarrow> bool" where
  "handles_except i this s \<longleftrightarrow>
     safe (trace s) \<and>
     slots_ok (live (trace s)) (set (node_ids (objs s this))) ((mn_nodes (objs s this))(i := None))"

lemma slots_live: "slots_ok L I f \<Longrightarrow> i \<in> I \<Longrightarrow> f i = Some c \<Longrightarrow> c \<in> L"
  by (simp add: slots_ok_def)

lemma slots_forget: "slots_ok L I f \<Longrightarrow> slots_ok L I (f(i := None))"
  unfolding slots_ok_def by (metis fun_upd_apply option.distinct(1))

lemma slots_close:
  assumes "slots_ok L I f" "i \<in> I" "f i = Some c"
  shows "slots_ok (L - {c}) I (f(i := None))"
proof -
  have "f j \<noteq> Some c" if "j \<in> I" "j \<noteq> i" for j
    using assms that unfolding slots_ok_def by (metis option.distinct(1))
  then show ?thesis using slots_forget[OF assms(1), of i] by (auto simp: slots_ok_def)
qed

lemma slots_open:
  assumes "slots_ok L I (f(i := None))" "c \<notin> L"
  shows "slots_ok (insert c L) I (f(i := Some c))"
proof -
  have "f j \<noteq> Some c" if "j \<in> I" "j \<noteq> i" for j
    using assms that unfolding slots_ok_def by (metis fun_upd_other)
  then show ?thesis using assms(1) unfolding slots_ok_def
    by (metis fun_upd_other fun_upd_same insertCI option.inject)
qed

text \<open>Events on an open handle that do not close it keep everything.\<close>

definition uses_only :: "conn \<Rightarrow> event \<Rightarrow> bool" where
  "uses_only c e \<longleftrightarrow>
     (case e of EOption d _ _ \<Rightarrow> d = c | ESslSet d _ _ _ \<Rightarrow> d = c | EConnect d _ _ _ _ _ _ \<Rightarrow> d = c
      | EPing d \<Rightarrow> d = c | EQuery d _ \<Rightarrow> d = Some c | EStore d \<Rightarrow> d = Some c | ENext d \<Rightarrow> d = Some c
      | ESystem _ \<Rightarrow> True | ESleep _ \<Rightarrow> True | _ \<Rightarrow> False)"

lemma uses_only_event:
  assumes "uses_only c e" "c \<in> L"
  shows "handle_step L e = L" "handle_ok L e"
  using assms
  by (cases e; auto simp: uses_only_def handle_step_def handle_ok_def)+

lemma uses_only_history:
  assumes "\<forall>e \<in> set es. uses_only c e" "c \<in> live h"
  shows "live (h @ es) = live h \<and> (safe h \<longrightarrow> safe (h @ es))"
  using assms(1)
proof (induction es rule: rev_induct)
  case (snoc e es)
  then have "live (h @ es) = live h \<and> (safe h \<longrightarrow> safe (h @ es))" by simp
  then show ?case
    using uses_only_event[of c e "live h"] snoc.prems assms(2)
    by (simp flip: append_assoc)
qed simp

lemma uses_only_fetch: "\<forall>e \<in> set (fetch_events (Some c) n). uses_only c e"
  by (auto simp: fetch_events_def uses_only_def)

text \<open>A new connection: the events after \<open>mysql_init\<close> use the new handle only.\<close>

lemma open_conn_db_timeout_events:
  "\<exists>es. snd (open_conn_db_timeout E port ip db user pw t ssl s) =
       emits (EInit (my_init E (trace s)) # es) s \<and>
     fst (open_conn_db_timeout E port ip db user pw t ssl s) = my_init E (trace s) \<and>
     (case my_init E (trace s) of None \<Rightarrow> es = [] | Some c \<Rightarrow> \<forall>e \<in> set es. uses_only c e)"
proof (cases "my_init E (trace s)")
  case None
  then show ?thesis by (simp add: open_conn_db_timeout_def mysql_init_def emit_emits)
next
  case (Some c)
  define dir where "dir = (case env_get E ''test_dir'' of None \<Rightarrow> ''.'' | Some d \<Rightarrow> d)"
  have dir': "(case env_get E ''test_dir'' of None \<Rightarrow> ''.'' | Some d \<Rightarrow> d) = dir"
    by (simp add: dir_def)
  show ?thesis
    by (rule exI[of _ "[EOption c OptConnectTimeout (t mod 2 ^ 32), EOption c OptReadTimeout (t mod 2 ^ 32),
           EOption c OptWriteTimeout (t mod 2 ^ 32)] @
         (if ssl then [ESslSet c (dir @ ''/ssl-cert/client-key.pem'') (dir @ ''/ssl-cert/client-cert.pem'')
            (dir @ ''/ssl-cert/ca.pem'')] else []) @
         [EConnect c ip user pw (Some db) port CLIENT_MULTI_STATEMENTS]"])
      (simp add: open_conn_db_timeout_def mysql_init_def Some Let_def real_connect_def set_ssl_def
        emit_emits uses_only_def dir')
qed

lemma open_conn_live:
  assumes "fresh_handles E" "open_conn_db_timeout E port ip db user pw t ssl s = (co, s')"
  shows "live (trace s') = (case co of None \<Rightarrow> live (trace s) | Some c \<Rightarrow> insert c (live (trace s)))"
    "safe (trace s) \<Longrightarrow> safe (trace s')" "\<And>c. co = Some c \<Longrightarrow> c \<notin> live (trace s)" "objs s' = objs s"
proof -
  obtain es where es: "s' = emits (EInit co # es) s" "co = my_init E (trace s)"
    "case co of None \<Rightarrow> es = [] | Some c \<Rightarrow> \<forall>e \<in> set es. uses_only c e"
    using open_conn_db_timeout_events[of E port ip db user pw t ssl s] assms(2) by auto
  show fresh: "\<And>c. co = Some c \<Longrightarrow> c \<notin> live (trace s)"
    using assms(1) es(2) by (auto simp: fresh_handles_def)
  show "objs s' = objs s" using es(1) by simp
  have *: "live (trace s') = (case co of None \<Rightarrow> live (trace s) | Some c \<Rightarrow> insert c (live (trace s))) \<and>
      (safe (trace s) \<longrightarrow> safe (trace s'))"
  proof (cases co)
    case None
    with es show ?thesis by (simp add: handle_step_def handle_ok_def)
  next
    case (Some c)
    have "case Some c of None \<Rightarrow> es = [] | Some c \<Rightarrow> \<forall>e \<in> set es. uses_only c e"
      using es(3) Some by metis
    then have es': "\<forall>e \<in> set es. uses_only c e" "s' = emits (EInit (Some c) # es) s"
      using es(1) Some by simp_all
    have "safe (trace s) \<longrightarrow> safe (trace s @ [EInit (Some c)])"
      using fresh Some by (simp add: handle_ok_def)
    moreover have l: "live (trace s @ [EInit (Some c)]) = insert c (live (trace s))"
      by (simp add: handle_step_def)
    ultimately show ?thesis
      using uses_only_history[of es c "trace s @ [EInit (Some c)]"] es'(1) by (simp add: Some es'(2))
  qed
  then show "live (trace s') = (case co of None \<Rightarrow> live (trace s) | Some c \<Rightarrow> insert c (live (trace s)))"
    "safe (trace s) \<Longrightarrow> safe (trace s')" by simp_all
qed

lemma set_node_fields [simp]:
  "node_ids (set_node i c ob) = node_ids ob"
  "mn_nodes (set_node i c ob) = (mn_nodes ob)(i := c)"
  "set_node i c (set_node i d ob) = set_node i c ob"
  by (simp_all add: set_node_def node_ids_def)

text \<open>Closing a node's handle and forgetting it; storing a new handle in an empty slot.\<close>

lemma handles_except_close:
  assumes "handles_ok this s" "i \<in> set (node_ids (objs s this))" "mn_nodes (objs s this) i = Some c"
  shows "handles_except i this (mysql_close (Some c) s)"
  using assms slots_live[of "live (trace s)" "set (node_ids (objs s this))" "mn_nodes (objs s this)" i c]
    slots_close[of "live (trace s)" "set (node_ids (objs s this))" "mn_nodes (objs s this)" i c]
  by (simp add: handles_except_def handles_ok_def mysql_close_def handle_step_def handle_ok_def)

lemma handles_except_None:
  "handles_ok this s \<Longrightarrow> handles_except i this s"
  by (simp add: handles_except_def handles_ok_def slots_forget)

lemma handles_ok_open:
  assumes "handles_except i this s"
    and new: "live (trace s') = (case co of None \<Rightarrow> live (trace s) | Some c \<Rightarrow> insert c (live (trace s)))"
      "safe (trace s')" "\<And>c. co = Some c \<Longrightarrow> c \<notin> live (trace s)" "objs s' = objs s"
  shows "handles_ok this (upd this (set_node i co) s')"
  using assms slots_open[of "live (trace s)" "set (node_ids (objs s this))" "mn_nodes (objs s this)" i]
  by (cases co) (simp_all add: handles_except_def handles_ok_def)

lemma handles_ok_use:
  assumes ok: "handles_ok this s" and i: "i \<in> set (node_ids (objs s this))" "mn_nodes (objs s this) i = Some c"
    and es: "\<forall>e \<in> set es. uses_only c e"
  shows "handles_ok this (emits es s)"
proof -
  have "c \<in> live (trace s)" using ok i by (auto simp: handles_ok_def intro: slots_live)
  then show ?thesis using ok uses_only_history[OF es] by (simp add: handles_ok_def)
qed

lemma handles_ok_connect_node:
  assumes E: "fresh_handles E" and ok: "handles_ok this s" and i: "i \<in> set (node_ids (objs s this))"
  shows "handles_ok this (snd (connect_node E this i s))"
proof -
  have reopen: "handles_ok this (upd this (set_node i co) s2)"
    if "handles_except i this s1" and op: "open_conn_db_timeout E p ip db u w n ssl s1 = (co, s2)"
    for s1 s2 :: "'a sys_scheme" and p ip db u w n ssl co
  proof (rule handles_ok_open[OF that(1)])
    show "safe (trace s2)"
      by (rule open_conn_live(2)[OF E op]) (use that(1) in \<open>simp add: handles_except_def handles_ok_def\<close>)
  qed (fact open_conn_live[OF E op])+
  show ?thesis
  proof (cases "mn_nodes (objs s this) i")
    case None
    obtain co s2 where op: "open_conn_db_timeout E (mn_port (objs s this) i) (mn_IP (objs s this) i) ''test''
        (mn_user_name (objs s this)) (mn_password (objs s this)) 50 (mn_ssl (objs s this)) s = (co, s2)"
      by (meson surj_pair)
    have "snd (connect_node E this i s) = upd this (set_node i co) s2"
      by (simp add: connect_node_def None op Let_def)
    then show ?thesis using reopen[OF handles_except_None[OF ok] op] by simp
  next
    case (Some c)
    define s1 where "s1 = emits [EPing c] s"
    have s1: "handles_ok this s1"
      using handles_ok_use[OF ok i Some, of "[EPing c]"] by (simp add: s1_def uses_only_def)
    have o1: "objs s1 = objs s" by (simp add: s1_def)
    have Some': "mn_nodes (objs s1 this) i = Some c" "i \<in> set (node_ids (objs s1 this))"
      using Some i o1 by simp_all
    define s2 where "s2 = mysql_close (Some c) s1"
    obtain co s3 where op: "open_conn_db_timeout E (mn_port (objs s1 this) i) (mn_IP (objs s1 this) i) ''test''
        (mn_user_name (objs s1 this)) (mn_password (objs s1 this)) 50 (mn_ssl (objs s1 this)) s2 = (co, s3)"
      by (meson surj_pair)
    have "snd (connect_node E this i s) =
        (if my_ping E (trace s) c \<noteq> 0 then upd this (set_node i co) s3 else s1)"
      using op by (simp add: connect_node_def Some mysql_ping_def emit_emits s1_def s2_def Let_def)
    moreover have "handles_except i this s2"
      unfolding s2_def by (rule handles_except_close[OF s1 Some'(2,1)])
    ultimately show ?thesis using s1 reopen[OF _ op] by simp
  qed
qed

lemma handles_ok_sum_loop:
  assumes "handles_ok this s" "I = set (node_ids (objs s this))" "set ids \<subseteq> I"
    and step: "\<And>i s. i \<in> I \<Longrightarrow> I = set (node_ids (objs s this)) \<Longrightarrow> handles_ok this s \<Longrightarrow>
      handles_ok this (snd (f i s)) \<and> node_step this s (snd (f i s))"
  shows "handles_ok this (snd (sum_loop ids f s)) \<and> I = set (node_ids (objs (snd (sum_loop ids f s)) this))"
proof (rule sum_loop_inv[where I = "\<lambda>t. handles_ok this t \<and> I = set (node_ids (objs t this))"])
  fix i and t :: "'a sys_scheme"
  assume "i \<in> set ids" "handles_ok this t \<and> I = set (node_ids (objs t this))"
  then show "handles_ok this (snd (f i t)) \<and> I = set (node_ids (objs (snd (f i t)) this))"
    using step[of i t] assms(3) node_step_node_ids by (metis subsetD)
qed (use assms in simp)

lemma handles_ok_connect:
  assumes "fresh_handles E" "handles_ok this s"
  shows "handles_ok this (snd (connect E this s))"
  unfolding connect_def
  using handles_ok_sum_loop[OF assms(2) refl subset_refl, of "connect_node E this"]
    handles_ok_connect_node[OF assms(1)] node_step_connect_node by metis

lemma handles_ok_close_connection:
  assumes "handles_ok this s" "i \<in> set (node_ids (objs s this))"
  shows "handles_ok this (close_connection this i s)"
proof (cases "mn_nodes (objs s this) i")
  case None
  with assms show ?thesis by (simp add: close_connection_def)
next
  case (Some c)
  then show ?thesis
    using handles_except_close[OF assms Some]
    by (simp add: close_connection_def handles_except_def handles_ok_def mysql_close_def)
qed

lemma handles_ok_close_connections:
  assumes "handles_ok this s"
  shows "handles_ok this (close_connections this s)"
proof -
  have ids: "node_ids (objs (close_connection this i t) this) = node_ids (objs t this)"
    for i and t :: "'a sys_scheme"
    by (simp add: close_connection_def mysql_close_def)
  have "handles_ok this (close_connections this s) \<and>
      node_ids (objs (close_connections this s) this) = node_ids (objs s this)"
    unfolding close_connections_def
    by (rule do_loop_inv[where I = "\<lambda>t. handles_ok this t \<and> node_ids (objs t this) = node_ids (objs s this)"])
      (simp_all add: assms handles_ok_close_connection ids)
  then show ?thesis by simp
qed

lemma handles_ok_query_node:
  assumes "handles_ok this s" "i \<in> set (node_ids (objs s this))"
  shows "handles_ok this (snd (query_node E this sql i s))"
proof (cases "mn_nodes (objs s this) i")
  case None
  with assms show ?thesis by (simp add: query_node_def execute_query_def execute_query1_eq)
next
  case (Some c)
  have "\<exists>es. snd (query_node E this sql i s) = emits es s \<and> (\<forall>e \<in> set es. uses_only c e)"
  proof (cases "my_query E (trace s) (Some c) sql")
    case QFail
    then show ?thesis
      by (intro exI[of _ "[EQuery (Some c) sql]"])
        (simp add: query_node_def execute_query_def execute_query1_eq Some uses_only_def)
  next
    case (QOk r rs)
    then show ?thesis
      using uses_only_fetch[of c "Suc (length rs)"]
      by (intro exI[of _ "EQuery (Some c) sql # fetch_events (Some c) (Suc (length rs))"])
        (simp add: query_node_def execute_query_def execute_query1_eq Some, simp add: uses_only_def)
  qed
  then show ?thesis using handles_ok_use[OF assms Some] by auto
qed

lemma handles_ok_query_nodes:
  assumes "handles_ok this s"
  shows "handles_ok this (snd (sum_loop (node_ids (objs s this)) (query_node E this sql) s))"
  using handles_ok_sum_loop[OF assms refl subset_refl, of "query_node E this sql"]
    handles_ok_query_node extends_query_node node_step_extends by metis

lemma close_connections_all:
  "i \<in> set (node_ids (objs s this)) \<Longrightarrow> mn_nodes (objs (close_connections this s) this) i = None"
proof -
  have "(\<forall>j. mn_nodes (objs s this) j = None \<longrightarrow> mn_nodes (objs (do_loop ids (close_connection this) s) this) j = None)
      \<and> (i \<in> set ids \<longrightarrow> mn_nodes (objs (do_loop ids (close_connection this) s) this) i = None)" for ids i
  proof (induction ids arbitrary: s)
    case (Cons k ids)
    let ?s = "close_connection this k s"
    have "mn_nodes (objs ?s this) j = (if j = k then None else mn_nodes (objs s this) j)" for j
      by (auto simp: close_connection_def mysql_close_def)
    then show ?case using Cons[of ?s] by auto
  qed simp
  then show "i \<in> set (node_ids (objs s this)) \<Longrightarrow> ?thesis"
    unfolding close_connections_def by blast
qed

text \<open>
  C1. Connection handles are used safely: if the client library never hands out a handle that is
  still open, then \<open>connect\<close>, a statement on every node, \<open>close_connections\<close>, \<open>stop_slaves\<close>
  and \<open>set_repl_user\<close> only ever pass open handles to the library (no use after close, no
  double close), and afterwards the object's handles are open and not shared between nodes.
\<close>

theorem handles_safe:
  assumes "fresh_handles E" "handles_ok this s"
  shows "handles_ok this (snd (connect E this s)) \<and>
    handles_ok this (close_connections this s) \<and>
    handles_ok this (snd (stop_slaves E this s)) \<and>
    handles_ok this (snd (set_repl_user E this s))"
  using assms
  by (simp_all add: stop_slaves_def set_repl_user_def split_def Let_def handles_ok_connect
      handles_ok_close_connections handles_ok_query_nodes)

text \<open>
  After \<open>close_connections\<close> no node of the object has a handle, and configuration, other
  objects and earlier log are as they were.
\<close>

theorem close_connections_closes:
  "(\<forall>i. int i < mn_N (objs s this) \<longrightarrow> mn_nodes (objs (close_connections this s) this) i = None)
   \<and> node_step this s (close_connections this s)"
  using close_connections_all[of _ s this] node_step_close_connections[of this s]
  by (simp add: node_ids_def)

text \<open>A concrete world whose handles are numbered upwards.\<close>

definition handle_number :: "event \<Rightarrow> nat" where
  "handle_number e = (case e of EInit (Some c) \<Rightarrow> c | _ \<Rightarrow> 0)"

definition counting_env :: env where
  "counting_env = dead_env\<lparr>my_init := (\<lambda>h. Some (Suc (sum_list (map handle_number h))))\<rparr>"

definition one_node :: mnodes where
  "one_node = blank_nodes\<lparr>mn_N := 1\<rparr>"

definition one_node_sys :: "mnodes \<Rightarrow> sys" where
  "one_node_sys ob = \<lparr>trace = [EInit (Some 5)], objs = (\<lambda>_. ob)\<rparr>"

lemma live_opened: "c \<in> fold (\<lambda>e L. handle_step L e) h L \<Longrightarrow> c \<in> L \<or> EInit (Some c) \<in> set h"
proof (induction h arbitrary: L)
  case (Cons e h)
  have "c \<in> handle_step L e \<Longrightarrow> c \<in> L \<or> e = EInit (Some c)"
    by (auto simp: handle_step_def split: event.splits option.splits)
  with Cons.IH[of "handle_step L e"] Cons.prems show ?case by auto
qed simp

lemma fresh_counting_env: "fresh_handles counting_env"
proof -
  have "c \<le> sum_list (map handle_number h)" if "c \<in> live h" for c h
  proof -
    have "EInit (Some c) \<in> set h" using that live_opened[of c h "{}"] by (simp add: live_def)
    then have "handle_number (EInit (Some c)) \<in> set (map handle_number h)" by (metis image_eqI set_map)
    then show ?thesis using member_le_sum_list[of c "map handle_number h"] by (simp add: handle_number_def)
  qed
  then show ?thesis by (fastforce simp: fresh_handles_def counting_env_def)
qed

lemma handles_ok_one_node: "handles_ok this (one_node_sys (set_node 0 (Some 5) one_node))"
  by (simp add: handles_ok_def one_node_sys_def safe_def live_def handle_step_def handle_ok_def slots_ok_def
      one_node_def blank_nodes_def node_ids_def set_node_def)

theorem handles_safe_witness:
  "handles_ok 0 (snd (stop_slaves counting_env 0 (one_node_sys (set_node 0 (Some 5) one_node))))"
  using handles_safe[OF fresh_counting_env handles_ok_one_node] by blast

theorem close_connections_closes_witness:
  "mn_nodes (objs (close_connections 0 (one_node_sys (set_node 0 (Some 5) one_node))) 0) 0 = None"
  using close_connections_closes[of "one_node_sys (set_node 0 (Some 5) one_node)" 0]
  by (simp add: one_node_sys_def one_node_def set_node_def)

section \<open>Blocking\<close>

lemma destroy_unblocks:
  "distinct ids \<Longrightarrow>
   mn_blocked (objs (do_loop ids (\<lambda>i s. if mn_blocked (objs s this) i then snd (unblock_node E this i s) else s) s) this) k =
     (mn_blocked (objs s this) k \<and> k \<notin> set ids)"
  by (induction ids arbitrary: s) (auto simp: unblock_node_eq set_blocked_def)

text \<open>
  \<open>block_node\<close> and \<open>unblock_node\<close> on a node: five commands that remove its old firewall
  rules, then one rule each for IPv4 and IPv6 (reject or accept, for the node's port), all on
  that node; only the node's \<open>blocked\<close> flag changes. An object that is destroyed leaves no
  node blocked.
\<close>

theorem block_and_unblock:
  "snd (block_node E this node s) =
      upd this (set_blocked node True)
        (emits (iptables_cleanup (objs s this) node @ iptables_rule (objs s this) node ''REJECT'') s) \<and>
   snd (unblock_node E this node s) =
      upd this (set_blocked node False)
        (emits (iptables_cleanup (objs s this) node @ iptables_rule (objs s this) node ''ACCEPT'') s) \<and>
   mn_blocked (objs (mariadb_nodes_destroy E this s) this) k =
     (mn_blocked (objs s this) k \<and> \<not> int k < mn_N (objs s this))"
  unfolding mariadb_nodes_destroy_def
  by (simp add: block_node_eq unblock_node_eq destroy_unblocks node_ids_def zless_nat_eq_int_zless)

text \<open>
  The command \<open>generate_ssh_cmd\<close> prints fits, with its terminator, the buffer of
  \<open>strlen(ssh) + 1024\<close> bytes its callers pass, when key file, user, address and sudo prefix of
  the node have at most 900 characters together.
\<close>

theorem generate_ssh_cmd_fits:
  assumes "length (mn_sshkey ob node) + length (mn_access_user ob node) + length (mn_IP ob node)
      + length (mn_access_sudo ob node) \<le> 900"
  shows "length (generate_ssh_cmd ob node ssh sudo) + 1 \<le> length ssh + 1024"
  using assms by (simp add: generate_ssh_cmd_def ssh_prefix_def quote_def)

theorem generate_ssh_cmd_fits_witness:
  "length (generate_ssh_cmd blank_nodes 0 ''ls'' True) + 1 \<le> 1026"
  using generate_ssh_cmd_fits[of blank_nodes 0 "''ls''" True] by (simp add: blank_nodes_def)

section \<open>Repairing replication\<close>

text \<open>The world in which every call fails, for concrete runs of the repair.\<close>

lemma foreachM_defined:
  assumes "\<And>i a s. i \<in> set ids \<Longrightarrow> f i a s \<noteq> None"
  shows "foreachM ids f a s \<noteq> None"
  using assms
proof (induction ids arbitrary: a s)
  case (Cons i ids)
  obtain a' s' where "f i a s = Some (a', s')" using Cons.prems[of i a s] by auto
  with Cons show ?case by simp
qed simp

lemma dead_query [simp]: "my_query dead_env h c q = QFail"
  and dead_init [simp]: "my_init dead_env h = None"
  and dead_system [simp]: "sh_system dead_env h cmd = 256"
  by (simp_all add: dead_env_def)

lemma dead_find_field: "\<exists>s'. find_field dead_env c q f s = Some ((1, None), s')"
  by (cases c) (simp_all add: find_field_def mysql_query_def)

lemma dead_get_versions:
  "\<exists>s'. get_versions dead_env this s = Some (int (length (node_ids (objs s this))), s')"
proof -
  have "\<exists>s'. foreachM ids (\<lambda>i acc s. do { ((r, v), s) \<leftarrow> find_field dead_env (mn_nodes (objs s this) i)
        ''SELECT @@version'' ''@@version'' s; Some (acc + r, upd this (set_version i v) s) }) a s
      = Some (a + int (length ids), s')" for ids a and s :: "'b sys_scheme"
  proof (induction ids arbitrary: a s)
    case (Cons i ids)
    obtain s1 where "find_field dead_env (mn_nodes (objs s this) i) ''SELECT @@version'' ''@@version'' s = Some ((1, None), s1)"
      using dead_find_field by blast
    then show ?case using Cons.IH[of "a + 1" "upd this (set_version i None) s1"] by (simp add: algebra_simps)
  qed simp
  from this[of "node_ids (objs s this)" 0 "upd this (\<lambda>ob. ob\<lparr>mn_v51 := False\<rparr>) s"]
  show ?thesis by (auto simp: get_versions_def node_ids_def Let_def)
qed

lemma dead_check_defined: "check_replication dead_env this s \<noteq> None"
proof (cases "mn_class (objs s this)")
  case Mariadb_class
  obtain s2 where v: "get_versions dead_env this (snd (connect dead_env this s)) =
      Some (int (length (node_ids (objs (snd (connect dead_env this s)) this))), s2)"
    using dead_get_versions by blast
  have ids: "node_ids (objs s2 this) = node_ids (objs (snd (connect dead_env this s)) this)"
    by (rule node_step_node_ids[OF node_step_get_versions[OF v]])
  have "foreachM ids (check_replication_node dead_env this) (int (length ids)) t \<noteq> None" for ids t
  proof -
    have "foreachM ids (check_replication_node dead_env this) r t \<noteq> None" if "r \<noteq> 0 \<or> ids = []" for r
      using that by (induction ids) (auto simp: check_replication_node_def)
    then show ?thesis by simp
  qed
  from this[of "node_ids (objs (snd (connect dead_env this s)) this)" s2] show ?thesis
    using v ids by (simp add: check_replication_def Mariadb_class check_replication_mariadb_def split_def Let_def)
next
  case Galera_class
  have "check_galera_node dead_env this i r t \<noteq> None" for i r t
    by (simp add: check_galera_node_def open_conn_def open_conn_db_def open_conn_db_flags_def mysql_init_def Let_def)
  then have loop: "foreachM ids (check_galera_node dead_env this) r t \<noteq> None" for ids r t
    by (intro foreachM_defined)
  define s1 where "s1 = (if mn_nodes (objs s this) 0 = None then snd (connect dead_env this s) else s)"
  obtain r s2 where "get_versions dead_env this s1 = Some (r, s2)" using dead_get_versions by blast
  then show ?thesis
    using loop[of "node_ids (objs s2 this)" r s2]
    by (simp add: check_replication_def Galera_class check_galera_def flip: s1_def)
qed

lemma dead_check_fails:
  assumes "mn_class (objs s this) = Mariadb_class" "node_ids (objs s this) \<noteq> []"
  shows "\<exists>bad s'. check_replication dead_env this s = Some (bad, s') \<and> bad \<noteq> 0"
proof -
  define s1 where "s1 = snd (connect dead_env this s)"
  obtain s2 where v: "get_versions dead_env this s1 = Some (int (length (node_ids (objs s1 this))), s2)"
    using dead_get_versions by blast
  have ids: "node_ids (objs s2 this) = node_ids (objs s1 this)" "node_ids (objs s1 this) = node_ids (objs s this)"
    using node_step_node_ids[OF node_step_get_versions[OF v]] node_step_node_ids[OF node_step_connect[of this s dead_env]]
    by (simp_all add: s1_def)
  have "foreachM ids (check_replication_node dead_env this) r t = Some (r, t)" if "r \<noteq> 0" for ids r t
    using that by (induction ids) (auto simp: check_replication_node_def)
  from this[of "int (length (node_ids (objs s this)))" "node_ids (objs s this)" s2] show ?thesis
    using v ids assms by (simp add: check_replication_def check_replication_mariadb_def split_def Let_def flip: s1_def)
qed

lemma fix_replication_False:
  assumes "fix_replication E this s = Some (False, s')"
  shows "(\<exists>t bad. check_replication E this t = Some (bad, s') \<and> bad \<noteq> 0) \<or>
         (\<exists>t n. check_nodes E this t = (n, s') \<and> n \<noteq> 0)"
proof -
  obtain bad s1 where c: "check_replication E this s = Some (bad, s1)"
    using assms by (auto simp: fix_replication_def Option.bind_eq_Some_conv)
  obtain n s2 where n: "check_nodes E this (snd (unblock_all_nodes E this s1)) = (n, s2)"
    by (meson surj_pair)
  have "(n \<noteq> 0 \<and> s' = s2) \<or>
      fix_loop (check_replication E this) (start_replication E this) E this 2 2 s2 = Some (False, s')"
    using assms n by (auto simp: fix_replication_def c Let_def split_def Option.bind_eq_Some_conv split: if_splits)
  then show ?thesis using n ops.fix_loop_False by metis
qed

text \<open>
  C6. \<open>fix_replication\<close> works on its own object only and keeps its configuration; it reports
  failure only when a node could not be reached over ssh or directly after a failed check of
  the cluster.
\<close>

theorem fix_replication_gives_up:
  assumes "fix_replication E this s = Some (b, s')"
  shows "node_step this s s' \<and>
    (\<not> b \<longrightarrow> (\<exists>t bad. check_replication E this t = Some (bad, s') \<and> bad \<noteq> 0) \<or>
             (\<exists>t n. check_nodes E this t = (n, s') \<and> n \<noteq> 0))"
  using node_step_fix_replication[OF assms] fix_replication_False[of E this s s'] assms by (cases b) simp_all

theorem fix_replication_gives_up_witness:
  "\<exists>b s'. fix_replication dead_env 0 (one_node_sys one_node) = Some (b, s') \<and> \<not> b \<and>
     node_step 0 (one_node_sys one_node) s'"
proof -
  let ?s = "one_node_sys one_node"
  obtain bad s1 where c: "check_replication dead_env 0 ?s = Some (bad, s1)" "bad \<noteq> 0"
    using dead_check_fails[of ?s 0] by (auto simp: one_node_sys_def one_node_def blank_nodes_def node_ids_def)
  define t where "t = snd (unblock_all_nodes dead_env 0 s1)"
  have "node_step 0 ?s t"
    unfolding t_def using node_step_check_replication[OF c(1)] node_step_unblock_all node_step_trans by blast
  then have "node_ids (objs t 0) = [0]"
    using node_step_node_ids[of 0 ?s t] by (simp add: one_node_sys_def one_node_def node_ids_def)
  then have "fst (check_nodes dead_env 0 t) = 1"
    by (simp add: check_nodes_def check_node_ssh_def ssh_node_eq dead_env_def wifexited_def wexitstatus_def Let_def)
  then obtain s2 where "fix_replication dead_env 0 ?s = Some (False, s2)"
    using c by (auto simp: fix_replication_def t_def Let_def split_def)
  then show ?thesis using fix_replication_gives_up by blast
qed

text \<open>
  C7. The repair ends whenever the checks do: the loop of \<open>fix_replication\<close>, with the virtual
  methods of either class, has a result for any number of attempts and cleanups if every
  check has one. And once the attempts are used up it returns true whatever the last check
  said.
\<close>

theorem fix_loop_ends:
  fixes s :: "'a sys_scheme"
  assumes "\<And>t :: 'a sys_scheme. check_replication E this t \<noteq> None"
  shows "fix_loop (check_replication E this) (start_replication E this) E this a w s \<noteq> None \<and>
    fix_loop (check_replication E this) (start_replication E this) E this 0 w s =
      map_option (\<lambda>(bad, s). (True, s)) (check_replication E this s)"
  using ops.fix_loop_defined[OF assms] assms[of s]
  by (subst (2) fix_loop.simps) (auto split: option.splits)

theorem fix_loop_ends_witness:
  "fix_loop (check_replication dead_env 0) (start_replication dead_env 0) dead_env 0 2 2 (one_node_sys one_node) \<noteq> None"
  using fix_loop_ends[OF dead_check_defined] by blast

section \<open>Waiting for the slaves\<close>

text \<open>One turn of the polling loop, and the position known after \<open>n\<close> turns.\<close>

definition poll :: "conn option \<Rightarrow> 'a world_scheme \<Rightarrow> 'a world_scheme" where
  "poll c s = mysql_store c (emit (EQuery c ''SHOW SLAVE STATUS'') s)"

definition reported :: "env \<Rightarrow> conn option \<Rightarrow> int \<times> int \<Rightarrow> 'a world_scheme \<Rightarrow> (int \<times> int) option" where
  "reported E c cur s =
     (case my_query E (trace s) c ''SHOW SLAVE STATUS'' of QFail \<Rightarrow> None | QOk r _ \<Rightarrow> slave_position r cur)"

definition behind :: "int \<Rightarrow> int \<Rightarrow> int \<times> int \<Rightarrow> bool" where
  "behind filenum pos cur \<longleftrightarrow> fst cur < filenum \<or> snd cur < pos"

lemma wait_loop_step:
  assumes "reported E c cur s = Some cur'"
  shows "wait_loop E c filenum pos cur s =
    (if behind filenum pos cur' then wait_loop E c filenum pos cur' (poll c s) else Some (poll c s))"
  using assms
  by (subst wait_loop.simps)
    (auto simp: reported_def mysql_query_def poll_def behind_def Let_def split: reply.splits)

lemma wait_loop_behind:
  assumes "\<forall>k < n. reported E c (p k) ((poll c ^^ k) s) = Some (p (Suc k)) \<and> behind filenum pos (p (Suc k))"
  shows "wait_loop E c filenum pos (p 0) s = wait_loop E c filenum pos (p n) ((poll c ^^ n) s)"
  using assms
proof (induction n)
  case (Suc n)
  then have "wait_loop E c filenum pos (p 0) s = wait_loop E c filenum pos (p n) ((poll c ^^ n) s)" by simp
  also have "\<dots> = wait_loop E c filenum pos (p (Suc n)) (poll c ((poll c ^^ n) s))"
    using Suc.prems wait_loop_step[of E c "p n" "(poll c ^^ n) s" "p (Suc n)"] by simp
  finally show ?case by simp
qed simp

text \<open>
  \<open>wait_until_pos\<close> returns after \<open>n + 1\<close> polls if the slave reports a position behind the
  master's \<open>n\<close> times (in the file number or in the position, compared separately) and then
  one that has reached it.
\<close>

theorem wait_until_pos_returns:
  assumes "p 0 = (0, 0)"
    and "\<forall>k < n. reported E c (p k) ((poll c ^^ k) s) = Some (p (Suc k)) \<and> behind filenum pos (p (Suc k))"
    and "reported E c (p n) ((poll c ^^ n) s) = Some cur" "\<not> behind filenum pos cur"
  shows "wait_until_pos E c filenum pos s = Some ((poll c ^^ Suc n) s)"
proof -
  have "wait_until_pos E c filenum pos s = wait_loop E c filenum pos (p n) ((poll c ^^ n) s)"
    using wait_loop_behind[where p = p, OF assms(2)] assms(1) by (simp add: wait_until_pos_def)
  then show ?thesis using wait_loop_step[OF assms(3)] assms(4) by simp
qed

text \<open>A slave status row: the log file in column 5 (and, tested only, 6), the position in 21.\<close>

definition slave_row :: "string \<Rightarrow> string \<Rightarrow> reply" where
  "slave_row file pos = QOk \<lparr>stored = Some \<lparr>field_names = [],
     rows = [replicate 5 None @ [Some file, Some ''1''] @ replicate 14 None @ [Some pos]]\<rparr>, affected = 0\<rparr> []"

lemma slave_row_position:
  "reported (dead_env\<lparr>my_query := q\<rparr>) c cur s =
     (case q (trace s) c ''SHOW SLAVE STATUS'' of QFail \<Rightarrow> None | QOk r _ \<Rightarrow> slave_position r cur)"
  by (simp add: reported_def)

lemma atoi_digits:
  "atoi (nat_str n) = int n"
  using atoi_int_str[of "int n"] by (simp add: int_str_def)

lemma slave_position_row:
  "(case slave_row (''bin.'' @ nat_str f) (nat_str p) of QFail \<Rightarrow> None | QOk r _ \<Rightarrow> slave_position r cur) =
     Some (int f, int p)"
  by (simp add: slave_row_def slave_position_def row_at_def suffix_number_def nth_append atoi_digits)

text \<open>A slave in file 2 that advances with every call, and one that stays in file 1.\<close>

definition moving_slave :: env where
  "moving_slave = dead_env\<lparr>my_query := (\<lambda>h _ _. slave_row (''bin.'' @ nat_str 2) (nat_str (length h)))\<rparr>"

definition stuck_slave :: env where
  "stuck_slave = dead_env\<lparr>my_query := (\<lambda>_ _ _. slave_row (''bin.'' @ nat_str 1) (nat_str 7))\<rparr>"

theorem wait_until_pos_returns_witness:
  "wait_until_pos moving_slave (Some 0) 2 2 start_world = Some ((poll (Some 0) ^^ 2) start_world)"
proof -
  let ?p = "\<lambda>k :: nat. if k = 0 then (0, 0) else (2 :: int, 2 * int (k - 1))"
  have r: "reported moving_slave (Some 0) cur s = Some (2, int (length (trace s)))" for cur and s :: world
    unfolding moving_slave_def slave_row_position by (simp only: slave_position_row) simp
  have "wait_until_pos moving_slave (Some 0) 2 2 start_world = Some ((poll (Some 0) ^^ Suc 1) start_world)"
    by (rule wait_until_pos_returns[where p = ?p and n = 1 and cur = "(2, 2)"])
      (simp_all add: r behind_def start_world_def poll_def mysql_store_def)
  then show ?thesis by (simp add: numeral_2_eq_2)
qed

text \<open>
  C13. While the slave keeps reporting positions behind the master's, \<open>wait_until_pos\<close> does not
  return: it has no bound on the number of polls.
\<close>

theorem wait_until_pos_diverges:
  fixes s :: "'a world_scheme"
  assumes "\<And>cur (s :: 'a world_scheme). \<exists>cur'. reported E c cur s = Some cur' \<and> behind filenum pos cur'"
  shows "wait_until_pos E c filenum pos s = None"
proof -
  have "(\<forall>cur (s :: 'a world_scheme). \<exists>cur'. reported E c cur s = Some cur' \<and> behind filenum pos cur') \<longrightarrow> False"
    if "wait_loop E c filenum pos cur s = Some t" for cur t and s :: "'a world_scheme"
  proof (rule wait_loop.raw_induct[OF _ that, where P = "\<lambda>E c filenum pos _ _ _.
      (\<forall>cur (s :: 'a world_scheme). \<exists>cur'. reported E c cur s = Some cur' \<and> behind filenum pos cur') \<longrightarrow> False"],
      rule impI)
    fix f and E c filenum pos cur and s t :: "'a world_scheme"
    assume IH: "\<And>E c filenum pos cur (s :: 'a world_scheme) t. f E c filenum pos cur s = Some t \<Longrightarrow>
        (\<forall>cur (s :: 'a world_scheme). \<exists>cur'. reported E c cur s = Some cur' \<and> behind filenum pos cur') \<longrightarrow> False"
      and body: "(let (rep, s) = mysql_query E c ''SHOW SLAVE STATUS'' s in
        case rep of QFail \<Rightarrow> Some s
        | QOk r rs \<Rightarrow> do { cur \<leftarrow> slave_position r cur; let s = mysql_store c s;
            if fst cur < filenum \<or> snd cur < pos then f E c filenum pos cur s else Some s }) = Some t"
      and all: "\<forall>cur (s :: 'a world_scheme). \<exists>cur'. reported E c cur s = Some cur' \<and> behind filenum pos cur'"
    obtain cur' where r: "reported E c cur s = Some cur'" and b: "behind filenum pos cur'"
      using all by blast
    then obtain q qs where "my_query E (trace s) c ''SHOW SLAVE STATUS'' = QOk q qs" "slave_position q cur = Some cur'"
      by (auto simp: reported_def split: reply.splits)
    then have "f E c filenum pos cur' (mysql_store c (emit (EQuery c ''SHOW SLAVE STATUS'') s)) = Some t"
      using body b by (simp add: mysql_query_def behind_def)
    then show False using IH all by blast
  qed
  then have never: "wait_loop E c filenum pos cur s \<noteq> Some t" for cur t and s :: "'a world_scheme"
    using assms by blast
  then show ?thesis by (cases "wait_until_pos E c filenum pos s") (auto simp: wait_until_pos_def)
qed

theorem wait_until_pos_diverges_witness:
  "wait_until_pos stuck_slave (Some 0) 2 0 start_world = None"
proof (rule wait_until_pos_diverges)
  fix cur and s :: world
  show "\<exists>cur'. reported stuck_slave (Some 0) cur s = Some cur' \<and> behind 2 0 cur'"
    unfolding stuck_slave_def slave_row_position by (simp only: slave_position_row) (simp add: behind_def)
qed

section \<open>Finding the master, versions, checks\<close>

lemma find_Some_iff_index:
  "find P [0..<n] = Some i \<longleftrightarrow> i < n \<and> P i \<and> (\<forall>j < i. \<not> P j)"
proof -
  have "find P [0..<n] = Some i \<longleftrightarrow> (\<exists>k < n. P ([0..<n] ! k) \<and> i = [0..<n] ! k \<and> (\<forall>j < k. \<not> P ([0..<n] ! j)))"
    by (simp add: find_Some_iff)
  then show ?thesis by auto
qed

lemma find_master_host_objs:
  "find_master_host E this ids s = Some (h, s') \<Longrightarrow> extends s s'"
proof (induction ids arbitrary: s)
  case (Cons i ids)
  then obtain ret v s1 where f: "find_field E (mn_nodes (objs s this) i) ''show slave status;'' ''Master_Host'' s = Some ((ret, v), s1)"
    and r: "s' = s1 \<or> find_master_host E this ids s1 = Some (h, s')"
    by (auto simp: Option.bind_eq_Some_conv split: if_splits)
  from r Cons.IH extends_find_field[OF f] show ?case using extends_trans by blast
qed simp

text \<open>
  \<open>find_master\<close> returns the first node whose address is the master host that the first
  node with an answer reports, and 255 when no node reports one or no node has that address.
\<close>

theorem find_master_node:
  assumes "find_master_host E this (node_ids (objs s this)) s = Some (h, s')"
  shows "\<exists>r. find_master E this s = Some (r, s') \<and>
    (h = None \<longrightarrow> r = 255) \<and>
    (\<forall>host. h = Some host \<longrightarrow>
      (\<forall>i. int i < mn_N (objs s this) \<and> mn_IP (objs s this) i = host \<and>
           (\<forall>j < i. mn_IP (objs s this) j \<noteq> host) \<longrightarrow> r = int i) \<and>
      ((\<forall>i. int i < mn_N (objs s this) \<longrightarrow> mn_IP (objs s this) i \<noteq> host) \<longrightarrow> r = 255))"
proof -
  have o: "objs s' = objs s" using find_master_host_objs[OF assms] extends_objs by blast
  have "find (\<lambda>i. mn_IP (objs s this) i = host) (node_ids (objs s this)) = Some i"
    if "int i < mn_N (objs s this)" "mn_IP (objs s this) i = host" "\<forall>j < i. mn_IP (objs s this) j \<noteq> host" for i host
    using that by (simp add: node_ids_def find_Some_iff_index)
  moreover have "find (\<lambda>i. mn_IP (objs s this) i = host) (node_ids (objs s this)) = None"
    if "\<forall>i. int i < mn_N (objs s this) \<longrightarrow> mn_IP (objs s this) i \<noteq> host" for host
    using that by (simp add: node_ids_def find_None_iff)
  ultimately show ?thesis
    using assms o by (cases h) (auto simp: find_master_def)
qed

definition slave_of_first :: "string \<Rightarrow> reply" where
  "slave_of_first host = QOk \<lparr>stored = Some \<lparr>field_names = [''Master_Host''], rows = [[Some host]]\<rparr>, affected = 0\<rparr> []"

definition three_nodes :: sys where
  "three_nodes = \<lparr>trace = [], objs = (\<lambda>_. blank_nodes\<lparr>mn_N := 3, mn_nodes := (\<lambda>i. Some i),
      mn_IP := (\<lambda>i. ''10.0.0.'' @ nat_str i)\<rparr>)\<rparr>"

theorem find_master_node_witness:
  "map_option fst (find_master (dead_env\<lparr>my_query := (\<lambda>_ _ _. slave_of_first (''10.0.0.'' @ nat_str 2))\<rparr>) 0 three_nodes) = Some 2"
proof -
  let ?E = "dead_env\<lparr>my_query := (\<lambda>_ _ _. slave_of_first (''10.0.0.'' @ nat_str 2))\<rparr>"
  have host: "\<exists>s'. find_master_host ?E 0 (node_ids (objs three_nodes 0)) three_nodes = Some (Some (''10.0.0.'' @ nat_str 2), s')"
    by (simp add: three_nodes_def node_ids_def upt_rec slave_of_first_def find_field_def mysql_query_def
        find_in_result_def row_at_def Let_def)
  then obtain s' where h: "find_master_host ?E 0 (node_ids (objs three_nodes 0)) three_nodes = Some (Some (''10.0.0.'' @ nat_str 2), s')"
    by blast
  have inj: "nat_str i = nat_str j \<longleftrightarrow> i = j" for i j by (metis atoi_digits of_nat_eq_iff)
  show ?thesis using find_master_node[OF h] by (auto simp: three_nodes_def inj)
qed

lemma check_nodes_all_good:
  fixes s :: "'a sys_scheme"
  assumes "foreachM ids (check_replication_node E this) a s = Some (0, s')"
  shows "a = 0 \<and> (\<forall>i \<in> set ids. \<exists>t t' :: 'a sys_scheme. check_replication_node E this i 0 t = Some (0, t'))"
  using assms
proof (induction ids arbitrary: a s)
  case (Cons i ids)
  then obtain a1 s1 where c: "check_replication_node E this i a s = Some (a1, s1)"
    and r: "foreachM ids (check_replication_node E this) a1 s1 = Some (0, s')"
    by (auto simp: Option.bind_eq_Some_conv)
  from Cons.IH[OF r] have "a1 = 0" and rest: "\<forall>i \<in> set ids. \<exists>t t' :: 'a sys_scheme. check_replication_node E this i 0 t = Some (0, t')"
    by simp_all
  moreover have "a = 0" using c \<open>a1 = 0\<close> by (auto simp: check_replication_node_def split: if_splits)
  ultimately show ?case using c by auto
qed simp


definition good_master :: env where
  "good_master = dead_env\<lparr>my_init := (\<lambda>_. Some 1), my_connect := (\<lambda>_ _. True), my_errno := (\<lambda>_ _. 0),
     my_query := (\<lambda>_ _ q. if q = ''SHOW SLAVE HOSTS'' \<or> q = ''SHOW SLAVE STATUS''
        then QOk \<lparr>stored = Some \<lparr>field_names = [''Server_id''], rows = []\<rparr>, affected = 0\<rparr> []
        else QOk \<lparr>stored = Some \<lparr>field_names = [''@@version Value''], rows = [[Some ''OFF'']]\<rparr>, affected = 0\<rparr> [])\<rparr>"

lemma good_master_calls [simp]:
  "my_init good_master h = Some 1" "my_errno good_master h c = 0" "env_get good_master v = None"
  "my_query good_master h c q = (if q = ''SHOW SLAVE HOSTS'' \<or> q = ''SHOW SLAVE STATUS''
        then QOk \<lparr>stored = Some \<lparr>field_names = [''Server_id''], rows = []\<rparr>, affected = 0\<rparr> []
        else QOk \<lparr>stored = Some \<lparr>field_names = [''@@version Value''], rows = [[Some ''OFF'']]\<rparr>, affected = 0\<rparr> [])"
  by (simp_all add: good_master_def dead_env_def)

lemma good_master_find:
  assumes "q \<noteq> ''SHOW SLAVE HOSTS''" "q \<noteq> ''SHOW SLAVE STATUS''" "sublist f ''@@version Value''"
  shows "\<exists>es. find_field good_master (Some c) q f s = Some ((0, Some ''OFF''), emits es s)"
proof -
  obtain t where "strstr ''@@version Value'' f = Some t" using assms(3) strstr_ex by metis
  then show ?thesis using assms(1,2)
    by (simp add: find_field_def mysql_query_def mysql_store_def find_in_result_def row_at_def drain_emits
        emit_emits Let_def) blast
qed

lemma one_node_fields [simp]:
  "objs (one_node_sys ob) c = ob" "trace (one_node_sys ob) = [EInit (Some 5)]"
  "mn_N one_node = 1" "mn_nodes one_node = (\<lambda>_. None)" "node_ids one_node = [0]"
  "mn_class one_node = Mariadb_class" "mn_version_major one_node = (\<lambda>_. [])"
  by (simp_all add: one_node_sys_def one_node_def blank_nodes_def node_ids_def)

lemma good_master_check:
  "\<exists>s'. check_replication good_master 0 (one_node_sys one_node) = Some (0, s')"
proof -
  define s1 where "s1 = snd (connect good_master 0 (one_node_sys one_node))"

  have conn: "connect good_master 0 (one_node_sys one_node) = (0, s1)"
    "mn_nodes (objs s1 0) 0 = Some 1" "mn_N (objs s1 0) = 1" "mn_version_major (objs s1 0) 0 = []"
    by (simp_all add: s1_def connect_def connect_node_def open_conn_db_timeout_def mysql_init_def
        real_connect_def mysql_errno_def set_node_def set_ssl_def Let_def)
  have subl: "sublist ''@@version'' ''@@version Value''" "sublist ''Value'' ''@@version Value''"
    unfolding strstr_iff_sublist[symmetric] by simp_all
  define s0 where "s0 = upd 0 (\<lambda>ob. ob\<lparr>mn_v51 := False\<rparr>) s1"
  have c0: "mn_nodes (objs s0 0) 0 = Some 1" "node_ids (objs s0 0) = [0]"
    using conn by (simp_all add: s0_def node_ids_def)
  obtain es where es: "find_field good_master (Some 1) ''SELECT @@version'' ''@@version'' s0 = Some ((0, Some ''OFF''), emits es s0)"
    using good_master_find[OF _ _ subl(1), of "''SELECT @@version''" 1 s0] by auto
  define s2 where "s2 = upd 0 (set_version 0 (Some ''OFF'')) (emits es s0)"
  have mj: "mn_version_major (objs s2 0) 0 \<noteq> ''5.1''" "mn_nodes (objs s2 0) 0 = Some 1" "mn_N (objs s2 0) = 1"
      "node_ids (objs s2 0) = [0]"
    using c0 conn(3)
    by (simp_all add: s2_def set_version_def cut_at_def major_of_def starts_with_def s0_def node_ids_def Let_def)
  have v: "get_versions good_master 0 s1 = Some (0, s2)"
    using es c0 mj by (simp add: get_versions_def flip: s0_def s2_def)
  define s3 where "s3 = emits [EQuery (Some 1) ''SHOW SLAVE HOSTS'', EStore (Some 1),
      EQuery (Some 1) ''SHOW SLAVE STATUS'', EStore (Some 1)] s2"
  obtain es3 where "find_field good_master (Some 1) read_only_sql ''Value'' s3 = Some ((0, Some ''OFF''), emits es3 s3)"
    using good_master_find[OF _ _ subl(2), of read_only_sql 1 s3] by (auto simp: read_only_sql_def)
  then have "check_master_node good_master 0 (Some 1) s2 = Some (True, emits es3 s3)"
    using mj(3) by (simp add: check_master_node_def mysql_query_def mysql_store_def emit_emits s3_def Let_def)
  then show ?thesis
    using conn v mj(2,4)
    by (simp add: check_replication_def check_replication_mariadb_def check_replication_node_def)
qed


text \<open>
  \<open>stop_slaves\<close> sends one statement per node and returns the number of nodes on which it
  failed, between 0 and the number of nodes; it leaves no connection of the object open.
\<close>

theorem stop_slaves_counts:
  "0 \<le> fst (stop_slaves E this s) \<and>
   fst (stop_slaves E this s) \<le> int (length (node_ids (objs s this))) \<and>
   (\<forall>i \<in> set (node_ids (objs s this)). mn_nodes (objs (snd (stop_slaves E this s)) this) i = None)"
proof -
  define s1 where "s1 = snd (connect E this s)"
  define s2 where "s2 = snd (sum_loop (node_ids (objs s1 this)) (query_node E this ''stop slave;'') s1)"
  have q: "\<exists>c q. query_node E this ''stop slave;'' i t = execute_query E c q t" for i and t :: "'a sys_scheme"
    by (auto simp: query_node_def)
  have ids: "node_ids (objs s1 this) = node_ids (objs s this)"
    unfolding s1_def by (rule node_step_node_ids[OF node_step_connect])
  have ids2: "node_ids (objs s2 this) = node_ids (objs s1 this)"
    unfolding s2_def
    by (rule node_step_node_ids, rule node_step_sum_loop, rule node_step_extends, rule extends_query_node)
  have "stop_slaves E this s =
      (fst (sum_loop (node_ids (objs s1 this)) (query_node E this ''stop slave;'') s1), close_connections this s2)"
    by (simp add: stop_slaves_def s1_def s2_def split_def Let_def)
  then show ?thesis
    using eq.count_failures[where f = "query_node E this ''stop slave;''", OF q] close_connections_all ids ids2
    by (metis fst_conv snd_conv)
qed

theorem stop_slaves_counts_witness:
  "mn_nodes (objs (snd (stop_slaves counting_env 0 (one_node_sys one_node))) 0) 0 = None"
  using stop_slaves_counts[of counting_env 0 "one_node_sys one_node"] by simp

lemma one_node_get_versions:
  assumes "node_ids (objs s this) = [0]"
    and "find_field E (mn_nodes (objs s this) 0) ''SELECT @@version'' ''@@version''
          (upd this (\<lambda>ob. ob\<lparr>mn_v51 := False\<rparr>) s)
        = Some ((r, v), emits es (upd this (\<lambda>ob. ob\<lparr>mn_v51 := False\<rparr>) s))"
    and "\<And>ob. mn_version_major (set_version 0 v ob) 0 \<noteq> ''5.1''"
  shows "get_versions E this s =
    Some (r, upd this (set_version 0 v) (emits es (upd this (\<lambda>ob. ob\<lparr>mn_v51 := False\<rparr>) s)))"
proof -
  have "node_ids ((objs s this)\<lparr>mn_v51 := False\<rparr>) = [0]"
      "node_ids (set_version 0 v ((objs s this)\<lparr>mn_v51 := False\<rparr>)) = [0]"
    using assms(1) by (simp_all add: node_ids_def set_version_def Let_def)
  then show ?thesis using assms by (simp add: get_versions_def)
qed

lemma lowest_loop:
  assumes "do_loopM ids (lowest_step ob) (str, low) = Some (str', low')"
  shows "low' \<le> low \<and> (low' = low \<longrightarrow> str' = str) \<and> (\<forall>i \<in> set ids. \<forall>v. get_int_version (mn_version ob i) = Some v \<longrightarrow> low' \<le> v) \<and>
    (low' < low \<longrightarrow> (\<exists>i \<in> set ids. str' = mn_version ob i \<and> get_int_version (mn_version ob i) = Some low'))"
  using assms
proof (induction ids arbitrary: str low)
  case (Cons i ids)
  then obtain x where x: "lowest_step ob i (str, low) = Some x" "do_loopM ids (lowest_step ob) x = Some (str', low')"
    by (auto simp: Option.bind_eq_Some_conv)
  obtain t1 l1 where x': "x = (t1, l1)" by (cases x)
  note r = x(2)[unfolded x']
  obtain v where v: "get_int_version (mn_version ob i) = Some v"
    and st: "(t1, l1) = (if low > v then (mn_version ob i, v) else (str, low))"
    using x(1) x' by (auto simp: lowest_step_def Option.bind_eq_Some_conv)
  show ?case
  proof (cases "low > v")
    case True
    with st have "t1 = mn_version ob i" "l1 = v" by auto
    with Cons.IH[OF r] v True show ?thesis by (cases "low' < v") auto
  next
    case False
    with st have "t1 = str" "l1 = low" by auto
    with Cons.IH[OF r] v False show ?thesis by auto
  qed
qed simp

text \<open>
  \<open>get_lowest_version\<close> returns the version text of a node whose version number is the
  smallest of all nodes, as long as some node's number is below the largest \<open>int\<close>.
\<close>

theorem get_lowest_version_minimal:
  assumes "get_lowest_version E this s = Some (str, s')"
    and "i \<in> set (node_ids (objs s' this))" "get_int_version (mn_version (objs s' this) i) = Some v" "v < 2 ^ 31 - 1"
  shows "\<exists>k \<in> set (node_ids (objs s' this)). \<exists>low. str = mn_version (objs s' this) k \<and>
    get_int_version str = Some low \<and>
    (\<forall>j \<in> set (node_ids (objs s' this)). \<forall>w. get_int_version (mn_version (objs s' this) j) = Some w \<longrightarrow> low \<le> w)"
proof -
  obtain low where l: "do_loopM (node_ids (objs s' this)) (lowest_step (objs s' this)) ('''', 2 ^ 31 - 1) = Some (str, low)"
    using assms(1) by (auto simp: get_lowest_version_def Option.bind_eq_Some_conv)
  then show ?thesis using lowest_loop[OF l] assms(2-4) by fastforce
qed

theorem get_lowest_version_minimal_witness:
  "fst (the (get_lowest_version (dead_env\<lparr>my_query := (\<lambda>_ _ _. QOk \<lparr>stored = Some
      \<lparr>field_names = [''@@version''], rows = [[Some (version_text 10 1 9 '''')]]\<rparr>, affected = 0\<rparr> [])\<rparr>) 0
     (one_node_sys (set_node 0 (Some 1) one_node)))) = version_text 10 1 9 ''''"
proof -
  let ?v = "version_text 10 1 9 ''''"
  let ?E = "dead_env\<lparr>my_query := (\<lambda>_ _ _. QOk \<lparr>stored = Some
      \<lparr>field_names = [''@@version''], rows = [[Some ?v]]\<rparr>, affected = 0\<rparr> [])\<rparr>"
  let ?s = "one_node_sys (set_node 0 (Some 1) one_node)"
  have val: "get_int_version ?v = Some 100109"
    using get_int_version_value[of 10 1 9 "''''"] by (simp add: ends_number_def)
  have major: "mn_version_major (set_version 0 (Some ?v) ob) 0 \<noteq> ''5.1''" for ob
  proof -
    have "hd (major_of (cut_at ?v (CHR ''-''))) = CHR ''1''"
      by code_simp
    then show ?thesis by (auto simp: set_version_def Let_def)
  qed
  have "\<exists>es. find_field ?E (Some 1) ''SELECT @@version'' ''@@version'' (upd 0 (\<lambda>ob. ob\<lparr>mn_v51 := False\<rparr>) ?s)
      = Some ((0, Some ?v), emits es (upd 0 (\<lambda>ob. ob\<lparr>mn_v51 := False\<rparr>) ?s))"
    by (simp add: find_field_def mysql_query_def mysql_store_def find_in_result_def row_at_def
        mysql_next_def emit_emits Let_def) blast
  then obtain es where "get_versions ?E 0 ?s =
      Some (0, upd 0 (set_version 0 (Some ?v)) (emits es (upd 0 (\<lambda>ob. ob\<lparr>mn_v51 := False\<rparr>) ?s)))"
    using one_node_get_versions[of ?s 0 ?E 0 "Some ?v", OF _ _ major] by auto
  then obtain s' where g: "get_versions ?E 0 ?s = Some (0, s')" "mn_version (objs s' 0) 0 = ?v" "node_ids (objs s' 0) = [0]"
    by (auto simp: set_version_def node_ids_def one_node_def set_node_def Let_def)
  then have "get_lowest_version ?E 0 ?s = Some (?v, s')"
    by (simp add: get_lowest_version_def lowest_step_def val[unfolded One_nat_def])
  from get_lowest_version_minimal[OF this, of 0 100109] this g val show ?thesis by simp
qed

end
