(* ===== verification/Sql_T1.thy ===== *)
theory Sql_T1
  imports Nodes_State Func_Lemmas
begin

text \<open>
  \<open>sql_t1.cpp\<close> (the test table \<open>t1\<close>: building, sending and checking its rows) and
  \<open>get_com_select_insert.cpp\<close> (statement counters of the backends). The static array \<open>sql\<close>
  of cached INSERT texts is the field \<open>t1_sql\<close> of the state; the mutex around it is not
  modelled, the calls are atomic. Row numbers in the generated text are machine integers:
  \<open>x *= 16\<close> overflows a signed \<open>int\<close>, which has no result.
\<close>

record t1w = sys +
  t1_sql :: "nat \<Rightarrow> string option"

section \<open>Checking a SELECT\<close>

text \<open>\<open>sscanf(s, "%llu", &x)\<close>: 64 bits, a minus sign negates.\<close>

definition scan_u64 :: "string \<Rightarrow> int option" where
  "scan_u64 t = map_option (\<lambda>(i, _). i mod 2 ^ 64) (scan_int t)"

text \<open>
  The \<open>for\<close> loop over one row: \<open>int_res\<close> is \<^const>\<open>None\<close> until a number was read; comparing it
  before that, or scanning a SQL NULL, has no result.
\<close>

fun check_fields :: "nat \<Rightarrow> int \<Rightarrow> string option list \<Rightarrow> int option \<Rightarrow> bool \<Rightarrow> (int option \<times> bool) option" where
  "check_fields i row_i [] int_res bad = Some (int_res, bad)"
| "check_fields i row_i (f # fs) int_res bad =
     do { t \<leftarrow> f;
          let int_res = (case scan_u64 t of Some v \<Rightarrow> Some v | None \<Rightarrow> int_res);
          bad \<leftarrow> (if i = 0 then map_option (\<lambda>v. bad \<or> v \<noteq> row_i) int_res else Some bad);
          check_fields (Suc i) row_i fs int_res bad }"

fun check_rows :: "nat \<Rightarrow> int \<Rightarrow> row list \<Rightarrow> int option \<Rightarrow> bool \<Rightarrow> bool option" where
  "check_rows nf row_i [] int_res bad = Some bad"
| "check_rows nf row_i (r # rs) int_res bad =
     (if length r < nf then None
      else do { (int_res, bad) \<leftarrow> check_fields 0 row_i (take nf r) int_res bad;
                check_rows nf (row_i + 1) rs int_res bad })"

text \<open>
  The polling loop, at most 100 turns. The result: the set with the wanted number of rows, if
  one came, and whether some answer had no result set.
\<close>

fun select_poll ::
  "env \<Rightarrow> conn option \<Rightarrow> string \<Rightarrow> nat \<Rightarrow> nat \<Rightarrow> bool \<Rightarrow> 'a world_scheme
   \<Rightarrow> (mysql_res option \<times> bool) \<times> 'a world_scheme" where
  "select_poll E c sql rows_wanted 0 bad s = ((None, bad), s)"
| "select_poll E c sql rows_wanted (Suc n) bad s =
     (let (rep, s) = mysql_query E c sql s;
          s = mysql_store c s
      in case rep of
           QOk r _ \<Rightarrow>
             (case stored r of
                Some res \<Rightarrow>
                  if length (rows res) = rows_wanted then ((Some res, bad), s)
                  else select_poll E c sql rows_wanted n bad (c_sleep 1 s)
              | None \<Rightarrow> select_poll E c sql rows_wanted n True (c_sleep 1 s))
         | QFail \<Rightarrow> select_poll E c sql rows_wanted n True (c_sleep 1 s))"

text \<open>With no rows wanted the loop is skipped and an uninitialised pointer is read.\<close>

definition execute_select_query_and_check ::
  "env \<Rightarrow> conn option \<Rightarrow> string \<Rightarrow> nat \<Rightarrow> 'a world_scheme \<Rightarrow> (int \<times> 'a world_scheme) option" where
  "execute_select_query_and_check E c sql rows_wanted s =
     (case c of
        None \<Rightarrow> Some (1, s)
      | Some _ \<Rightarrow>
          if rows_wanted = 0 then None
          else
            (let ((found, bad), s) = select_poll E c sql rows_wanted 100 False s in
             case found of
               None \<Rightarrow> Some (1, s)
             | Some res \<Rightarrow>
                 (let nf = length (field_names res) in
                  do { bad \<leftarrow> check_rows nf 0 (rows res) None (bad \<or> nf \<noteq> 2);
                       Some (if bad then 1 else 0, s) })))"

section \<open>Creating and filling the table\<close>

definition create_t1 :: "env \<Rightarrow> conn option \<Rightarrow> 'a world_scheme \<Rightarrow> int \<times> 'a world_scheme" where
  "create_t1 E c s =
     (let (r1, s) = execute_query E c ''DROP TABLE IF EXISTS t1;'' s;
          (r2, s) = execute_query E c ''CREATE TABLE t1 (x1 int, fl int);'' s
      in (r1 + r2, s))"

definition create_t2 :: "env \<Rightarrow> conn option \<Rightarrow> 'a world_scheme \<Rightarrow> int \<times> 'a world_scheme" where
  "create_t2 E c s =
     (let (r1, s) = execute_query E c ''DROP TABLE IF EXISTS t2;'' s;
          (r2, s) = execute_query E c ''CREATE TABLE t2 (x1 int, fl int);'' s
      in (r1 + r2, s))"

definition ins1 :: string where
  "ins1 = ''INSERT INTO t1 (x1, fl) VALUES ''"

definition tuple_text :: "int \<Rightarrow> int \<Rightarrow> string" where
  "tuple_text i fl = ''('' @ int_str i @ '', '' @ int_str fl @ ''),''"

text \<open>\<open>*strrchr(s, ',')\<close> and what follows are replaced.\<close>

definition before_last_comma :: "string \<Rightarrow> string" where
  "before_last_comma t = rev (tl (dropWhile (\<lambda>c. c \<noteq> CHR '','') (rev t)))"

definition create_insert_string :: "int \<Rightarrow> int \<Rightarrow> string" where
  "create_insert_string N fl =
     before_last_comma (ins1 @ concat (map (\<lambda>i. tuple_text (int i) fl) [0..<nat N])) @ '';''"

text \<open>
  The cache has 16 slots; an index outside uses the last. A slot that was filled is reused
  whatever \<open>N\<close> it was filled for.
\<close>

definition insert_slot :: "int \<Rightarrow> nat" where
  "insert_slot fl = (if fl < 0 \<or> 16 \<le> fl then 15 else nat fl)"

definition allocate_insert_string :: "int \<Rightarrow> int \<Rightarrow> 'a t1w_scheme \<Rightarrow> string \<times> 'a t1w_scheme" where
  "allocate_insert_string fl N s =
     (let k = insert_slot fl in
      case t1_sql s k of
        Some text \<Rightarrow> (text, s)
      | None \<Rightarrow> (let text = create_insert_string N (int k)
                 in (text, s\<lparr>t1_sql := (t1_sql s)(k := Some text)\<rparr>)))"

text \<open>The bytes \<open>malloc\<close> is asked for.\<close>

definition insert_buffer_size :: "int \<Rightarrow> int \<Rightarrow> int" where
  "insert_buffer_size N fl = int (length ins1) + 1 + N * int (length (tuple_text N fl)) + 60"

fun insert_loop ::
  "env \<Rightarrow> conn option \<Rightarrow> nat list \<Rightarrow> int \<Rightarrow> int \<Rightarrow> 'a t1w_scheme \<Rightarrow> (int \<times> 'a t1w_scheme) option" where
  "insert_loop E c [] x result s = Some (result, s)"
| "insert_loop E c (i # ids) x result s =
     (let (sqlstr, s) = allocate_insert_string (int i) x s in
      do { (r, s) \<leftarrow> execute_query_fmt E c sqlstr s;
           x \<leftarrow> mul32 x 16;
           insert_loop E c ids x (result + r) s })"

definition insert_into_t1 ::
  "env \<Rightarrow> conn option \<Rightarrow> int \<Rightarrow> 'a t1w_scheme \<Rightarrow> (int \<times> 'a t1w_scheme) option" where
  "insert_into_t1 E c N s = insert_loop E c [0..<nat N] 16 0 s"

definition select_fl :: "nat \<Rightarrow> string" where
  "select_fl i = ''select * from t1 where fl='' @ int_str (int i) @ '';''"

fun select_loop ::
  "env \<Rightarrow> conn option \<Rightarrow> nat list \<Rightarrow> int \<Rightarrow> int \<Rightarrow> 'a world_scheme \<Rightarrow> (int \<times> 'a world_scheme) option" where
  "select_loop E c [] x result s = Some (result, s)"
| "select_loop E c (i # ids) x result s =
     do { (r, s) \<leftarrow> execute_select_query_and_check E c (select_fl i) (nat x) s;
          x \<leftarrow> mul32 x 16;
          select_loop E c ids x (result + r) s }"

definition select_from_t1 ::
  "env \<Rightarrow> conn option \<Rightarrow> int \<Rightarrow> 'a world_scheme \<Rightarrow> (int \<times> 'a world_scheme) option" where
  "select_from_t1 E c N s = select_loop E c [0..<nat N] 16 0 s"

text \<open>1 if a row of \<open>show tables\<close> starts with \<open>t1\<close>, -1 without a connection or result set.\<close>

fun has_t1 :: "row list \<Rightarrow> int \<Rightarrow> int option" where
  "has_t1 [] t1 = Some t1"
| "has_t1 (r # rs) t1 = do { f \<leftarrow> row_at r 0; has_t1 rs (if f = Some ''t1'' then 1 else t1) }"

definition check_if_t1_exists ::
  "env \<Rightarrow> conn option \<Rightarrow> 'a world_scheme \<Rightarrow> (int \<times> 'a world_scheme) option" where
  "check_if_t1_exists E c s =
     (case c of
        None \<Rightarrow> Some (- 1, s)
      | Some _ \<Rightarrow>
          (let (rep, s) = mysql_query E c ''show tables;'' s in
           case rep of
             QFail \<Rightarrow> Some (0, s)
           | QOk r _ \<Rightarrow>
               (let s = mysql_store c s in
                case stored r of
                  None \<Rightarrow> Some (- 1, s)
                | Some res \<Rightarrow> do { t1 \<leftarrow> has_t1 (rows res) 0; Some (t1, s) })))"

section \<open>Statement counters\<close>

fun drain_next :: "conn option \<Rightarrow> rset list \<Rightarrow> 'a world_scheme \<Rightarrow> 'a world_scheme" where
  "drain_next c [] s = mysql_next c s"
| "drain_next c (r # rs) s = drain_next c rs (mysql_store c (mysql_next c s))"

text \<open>\<open>sscanf(row[1], "%ld", &x)\<close> for every row: the last number read, or the old value.\<close>

fun scan_column1 :: "row list \<Rightarrow> int \<Rightarrow> int option" where
  "scan_column1 [] x = Some x"
| "scan_column1 (r # rs) x =
     do { f \<leftarrow> row_at r 1; t \<leftarrow> f;
          scan_column1 rs (case scan_int t of Some (v, _) \<Rightarrow> v | None \<Rightarrow> x) }"

definition com_select_sql :: string where
  "com_select_sql = ''show global status like '' @ [char_of (39 :: nat)] @ ''COM_SELECT'' @ [char_of (39 :: nat)] @ '';''"

definition com_insert_sql :: string where
  "com_insert_sql = ''show global status like '' @ [char_of (39 :: nat)] @ ''COM_INSERT'' @ [char_of (39 :: nat)] @ '';''"

text \<open>
  One connected node: \<^term>\<open>Inl ()\<close> is the early \<open>return 1\<close>. The second query has no such return, so
  a failure there hands a null result to \<open>mysql_num_rows\<close>.
\<close>

definition global_status_node ::
  "env \<Rightarrow> conn \<Rightarrow> int \<Rightarrow> int \<Rightarrow> 'a world_scheme \<Rightarrow> ((unit + int \<times> int) \<times> 'a world_scheme) option" where
  "global_status_node E k sel ins s =
     (let c = Some k; (rep, s) = mysql_query E c com_select_sql s in
      case rep of
        QFail \<Rightarrow> Some (Inl (), s)
      | QOk r rs \<Rightarrow>
          (let s = mysql_store c s in
           case stored r of
             None \<Rightarrow> Some (Inl (), s)
           | Some res \<Rightarrow>
               do { sel \<leftarrow> scan_column1 (rows res) sel;
                    let s = drain_next c rs s;
                    let (rep, s) = mysql_query E c com_insert_sql s;
                    let s = mysql_store c s;
                    case rep of
                      QFail \<Rightarrow> None
                    | QOk r rs \<Rightarrow>
                        do { res \<leftarrow> stored r;
                             ins \<leftarrow> scan_column1 (rows res) ins;
                             Some (Inr (sel, ins), drain_next c rs s) } }))"

fun global_status_loop ::
  "env \<Rightarrow> (nat \<Rightarrow> conn option) \<Rightarrow> nat list \<Rightarrow> (nat \<Rightarrow> int) \<Rightarrow> (nat \<Rightarrow> int) \<Rightarrow> 'a world_scheme
   \<Rightarrow> ((int \<times> (nat \<Rightarrow> int) \<times> (nat \<Rightarrow> int)) \<times> 'a world_scheme) option" where
  "global_status_loop E conns [] sel ins s = Some ((0, sel, ins), s)"
| "global_status_loop E conns (i # ids) sel ins s =
     (case conns i of
        None \<Rightarrow> global_status_loop E conns ids (sel(i := 0)) (ins(i := 0)) s
      | Some k \<Rightarrow>
          do { (r, s) \<leftarrow> global_status_node E k (sel i) (ins i) s;
               case r of
                 Inl _ \<Rightarrow> Some ((1, sel, ins), s)
               | Inr (a, b) \<Rightarrow> global_status_loop E conns ids (sel(i := a)) (ins(i := b)) s })"

definition get_global_status_allnodes ::
  "env \<Rightarrow> (nat \<Rightarrow> int) \<Rightarrow> (nat \<Rightarrow> int) \<Rightarrow> cid \<Rightarrow> 'a sys_scheme
   \<Rightarrow> ((int \<times> (nat \<Rightarrow> int) \<times> (nat \<Rightarrow> int)) \<times> 'a sys_scheme) option" where
  "get_global_status_allnodes E sel ins nodes s =
     global_status_loop E (mn_nodes (objs s nodes)) (node_ids (objs s nodes)) sel ins s"

end
