(* ===== verification/Sql_Props.thy ===== *)
theory Sql_Props
  imports Sql_T1 Func_Props
begin

text \<open>
  The properties of \<open>sql_t1.cpp\<close>: the text of the generated INSERT and the size of its buffer,
  how many statements \<open>insert_into_t1\<close> can send before its row counter overflows, and what
  the checked SELECT verifies.
\<close>

section \<open>The INSERT text\<close>

definition tuple_body :: "int \<Rightarrow> int \<Rightarrow> string" where
  "tuple_body i fl = ''('' @ int_str i @ '', '' @ int_str fl @ '')''"

lemma tuple_text_body: "tuple_text i fl = tuple_body i fl @ '',''"
  by (simp add: tuple_text_def tuple_body_def)

lemma before_last_comma_snoc: "before_last_comma (u @ '','') = u"
  by (simp add: before_last_comma_def)

lemma length_nat_str_mono: "m \<le> n \<Longrightarrow> length (nat_str m) \<le> length (nat_str n)"
proof (induction n arbitrary: m rule: nat_str.induct)
  case (1 n)
  show ?case
  proof (cases "n < 10")
    case True
    with 1 have "m < 10" by simp
    with True show ?thesis by (simp add: nat_str.simps)
  next
    case False
    have "length (nat_str (m div 10)) \<le> length (nat_str (n div 10))"
      by (rule "1.IH"[OF False]) (use "1.prems" div_le_mono in blast)
    with False show ?thesis
      by (subst (1 2) nat_str.simps) (auto simp: Suc_le_eq)
  qed
qed

lemma length_tuples:
  assumes "n \<le> N"
  shows "length (concat (map (\<lambda>i. tuple_text (int i) fl) [0..<n])) \<le> n * length (tuple_text (int N) fl)"
  using assms
proof (induction n)
  case (Suc n)
  have "length (int_str (int n)) \<le> length (int_str (int N))"
    using length_nat_str_mono[of n N] Suc.prems by (simp add: int_str_def)
  then have "length (tuple_text (int n) fl) \<le> length (tuple_text (int N) fl)"
    by (simp add: tuple_text_def)
  with Suc show ?case by simp
qed simp

text \<open>
  For at least one row, \<open>create_insert_string\<close> builds the INSERT with the rows
  \<open>(0, fl) ... (N-1, fl)\<close>, separated by commas and ended by a semicolon; while it is being
  built the text never exceeds the buffer \<open>allocate_insert_string\<close> allocates for it.
\<close>

theorem create_insert_string_text:
  "create_insert_string (int (Suc n)) fl =
     ins1 @ concat (map (\<lambda>i. tuple_body (int i) fl @ '','') [0..<n]) @ tuple_body (int n) fl @ '';'' \<and>
   int (length (ins1 @ concat (map (\<lambda>i. tuple_text (int i) fl) [0..<Suc n]))) + 1
     \<le> insert_buffer_size (int (Suc n)) fl"
proof
  have "create_insert_string (int (Suc n)) fl =
     before_last_comma ((ins1 @ concat (map (\<lambda>i. tuple_text (int i) fl) [0..<n]) @ tuple_body (int n) fl) @ '','') @ '';''"
    by (simp add: create_insert_string_def tuple_text_body nat_add_distrib)
  then show "create_insert_string (int (Suc n)) fl =
     ins1 @ concat (map (\<lambda>i. tuple_body (int i) fl @ '','') [0..<n]) @ tuple_body (int n) fl @ '';''"
    unfolding before_last_comma_snoc by (simp add: tuple_text_body)
  have "int (length (concat (map (\<lambda>i. tuple_text (int i) fl) [0..<Suc n])))
      \<le> int (Suc n) * int (length (tuple_text (int (Suc n)) fl))"
    using length_tuples[of "Suc n" "Suc n" fl] by (metis le_refl of_nat_le_iff of_nat_mult)
  then show "int (length (ins1 @ concat (map (\<lambda>i. tuple_text (int i) fl) [0..<Suc n]))) + 1
     \<le> insert_buffer_size (int (Suc n)) fl"
    unfolding insert_buffer_size_def length_append by linarith
qed

section \<open>Filling the table\<close>

lemma digits_no_percent: "CHR ''%'' \<notin> set (nat_str n)"
  using nat_str_digits[of n] by (auto simp: is_digit_def)

lemma insert_no_percent: "CHR ''%'' \<notin> set (create_insert_string N fl)"
proof -
  have i: "CHR ''%'' \<notin> set (int_str i)" for i
    using digits_no_percent by (simp add: int_str_def)
  have "set (before_last_comma t) \<subseteq> set t" for t
  proof -
    have "set (tl xs) \<subseteq> set xs" for xs :: string by (cases xs) auto
    then have "set (tl (dropWhile (\<lambda>c. c \<noteq> CHR '','') (rev t))) \<subseteq> set (rev t)"
      by (meson set_dropWhileD subset_iff)
    then show ?thesis by (simp add: before_last_comma_def)
  qed
  moreover have "CHR ''%'' \<notin> set (ins1 @ concat (map (\<lambda>i. tuple_text (int i) fl) [0..<nat N]))"
    using i by (auto simp: ins1_def tuple_text_def)
  ultimately have "CHR ''%'' \<notin> set (before_last_comma (ins1 @ concat (map (\<lambda>i. tuple_text (int i) fl) [0..<nat N])))"
    by blast
  then show ?thesis unfolding create_insert_string_def by simp
qed

text \<open>The cache holds what \<open>insert_into_t1\<close> puts into it.\<close>

definition cache_ok :: "'a t1w_scheme \<Rightarrow> bool" where
  "cache_ok s \<longleftrightarrow> (\<forall>k text. t1_sql s k = Some text \<longrightarrow> text = create_insert_string (16 ^ Suc k) (int k))"

lemma execute_query_trace:
  assumes "trace s = trace t"
  shows "fst (execute_query E c q s) = fst (execute_query E c q t)"
    "trace (snd (execute_query E c q s)) = trace (snd (execute_query E c q t))"
  using assms by (auto simp: execute_query_def execute_query1_eq split: option.splits reply.splits)

text \<open>The statements \<open>insert_into_t1\<close> is to send.\<close>

definition insert_rows :: "env \<Rightarrow> conn option \<Rightarrow> nat \<Rightarrow> 'a world_scheme \<Rightarrow> int \<times> 'a world_scheme" where
  "insert_rows E c i s = execute_query E c (create_insert_string (16 ^ Suc i) (int i)) s"

lemma allocate_text:
  assumes "cache_ok s" "k < 16"
  obtains s' where "allocate_insert_string (int k) (16 ^ Suc k) s = (create_insert_string (16 ^ Suc k) (int k), s')"
    "cache_ok s'" "trace s' = trace s"
proof -
  have slot: "insert_slot (int k) = k" using assms(2) by (simp add: insert_slot_def)
  show thesis
  proof (cases "t1_sql s k")
    case None
    show thesis
    proof (rule that)
      show "allocate_insert_string (int k) (16 ^ Suc k) s = (create_insert_string (16 ^ Suc k) (int k),
          s\<lparr>t1_sql := (t1_sql s)(k := Some (create_insert_string (16 ^ Suc k) (int k)))\<rparr>)"
        using None by (simp add: allocate_insert_string_def slot Let_def)
    qed (use assms in \<open>simp_all add: cache_ok_def\<close>)
  next
    case (Some q)
    then have "q = create_insert_string (16 ^ Suc k) (int k)" using assms(1) by (simp add: cache_ok_def)
    with Some show thesis
      by (intro that[of s]) (use assms in \<open>simp_all add: allocate_insert_string_def slot\<close>)
  qed
qed

lemma mul32_power: "mul32 (16 ^ Suc k) 16 = (if k \<le> 5 then Some (16 ^ Suc (Suc k)) else None)"
proof (cases "k \<le> 5")
  case True
  then consider "k = 0" | "k = 1" | "k = 2" | "k = 3" | "k = 4" | "k = 5" by linarith
  then show ?thesis by cases (simp_all add: mul32_def int32_ok_def)
next
  case False
  then have "(16 :: int) ^ 8 \<le> 16 ^ Suc (Suc k)" by (intro power_increasing) auto
  then have "\<not> int32_ok (16 ^ Suc k * 16)"
    by (simp add: int32_ok_def)
  with False show ?thesis by (simp add: mul32_def)
qed

lemma cache_ok_emits: "cache_ok (emits es s) = cache_ok s"
  by (simp add: cache_ok_def emits_def)

lemma cache_ok_query: "cache_ok (snd (execute_query E c q s)) = cache_ok s"
  by (auto simp: execute_query_def execute_query1_eq cache_ok_emits split: option.splits reply.splits)

lemma fmt_plain:
  "CHR ''%'' \<notin> set q \<Longrightarrow> execute_query_fmt E c q s = Some (execute_query E c q s)"
  by (simp add: execute_query_fmt_def execute_query_def c_format0_plain)

lemma insert_loop_spec:
  fixes s :: "'a t1w_scheme" and t :: "'b world_scheme"
  assumes "cache_ok s" "trace s = trace t" "k + n \<le> 6"
  shows "\<exists>s'. insert_loop E c [k..<k + n] (16 ^ Suc k) a s =
      Some (a + fst (sum_loop [k..<k + n] (insert_rows E c) t), s') \<and>
      trace s' = trace (snd (sum_loop [k..<k + n] (insert_rows E c) t)) \<and> cache_ok s'"
  using assms
proof (induction n arbitrary: k a s t)
  case (Suc n)
  have ids: "[k..<k + Suc n] = k # [Suc k..<Suc k + n]" by (simp add: upt_conv_Cons)
  obtain s1 where al: "allocate_insert_string (int k) (16 ^ Suc k) s = (create_insert_string (16 ^ Suc k) (int k), s1)"
    "cache_ok s1" "trace s1 = trace s"
    using allocate_text[OF Suc.prems(1), of k] Suc.prems(3) by auto
  obtain r s2 where q: "execute_query E c (create_insert_string (16 ^ Suc k) (int k)) s1 = (r, s2)"
    by (meson surj_pair)
  have r: "fst (insert_rows E c k t) = r" "trace s2 = trace (snd (insert_rows E c k t))"
    using execute_query_trace[of s1 t E c "create_insert_string (16 ^ Suc k) (int k)"] al(3) Suc.prems(2) q
    by (simp_all add: insert_rows_def)
  have ok2: "cache_ok s2" using cache_ok_query[of E c _ s1] q al(2) by (metis snd_conv)
  have step: "insert_loop E c [k..<k + Suc n] (16 ^ Suc k) a s =
      insert_loop E c [Suc k..<Suc k + n] (16 ^ Suc (Suc k)) (a + r) s2"
    unfolding ids insert_loop.simps al(1) Let_def prod.case fmt_plain[OF insert_no_percent] q mul32_power
    using Suc.prems(3) by simp
  obtain s' where "insert_loop E c [Suc k..<Suc k + n] (16 ^ Suc (Suc k)) (a + r) s2 =
      Some (a + r + fst (sum_loop [Suc k..<Suc k + n] (insert_rows E c) (snd (insert_rows E c k t))), s')"
    "trace s' = trace (snd (sum_loop [Suc k..<Suc k + n] (insert_rows E c) (snd (insert_rows E c k t))))" "cache_ok s'"
    using Suc.IH[OF ok2 r(2), of "Suc k" "a + r"] Suc.prems(3) by auto
  then show ?case
    unfolding step unfolding ids sum_loop.simps using r(1) by (simp add: split_def Let_def)
qed simp

lemma insert_loop_step:
  assumes "cache_ok s" "k < N" "k < 16"
  obtains r s' where "cache_ok s'"
    "insert_loop E c [k..<N] (16 ^ Suc k) a s =
      (if k \<le> 5 then insert_loop E c [Suc k..<N] (16 ^ Suc (Suc k)) (a + r) s' else None)"
proof -
  have ids: "[k..<N] = k # [Suc k..<N]" using assms(2) by (simp add: upt_conv_Cons)
  obtain s1 where al: "allocate_insert_string (int k) (16 ^ Suc k) s = (create_insert_string (16 ^ Suc k) (int k), s1)"
    "cache_ok s1"
    using allocate_text[OF assms(1,3)] by auto
  obtain r s2 where q: "execute_query E c (create_insert_string (16 ^ Suc k) (int k)) s1 = (r, s2)"
    by (meson surj_pair)
  have "cache_ok s2" using cache_ok_query[of E c _ s1] q al(2) by (metis snd_conv)
  then show thesis
    using that[of s2 r]
    unfolding ids insert_loop.simps al(1) Let_def prod.case fmt_plain[OF insert_no_percent] q mul32_power
    by simp
qed

lemma insert_loop_overflows:
  assumes "cache_ok s" "k \<le> 6" "6 < N"
  shows "insert_loop E c [k..<N] (16 ^ Suc k) a s = None"
  using assms
proof (induction "6 - k" arbitrary: k a s)
  case 0
  then show ?case using insert_loop_step[of s k N E c a] by auto
next
  case (Suc n)
  have k: "k < N" "k < 16" "k \<le> 5" "n = 6 - Suc k" "Suc k \<le> 6" using Suc.hyps(2) Suc.prems by auto
  obtain r s' where s': "cache_ok s'" and step: "insert_loop E c [k..<N] (16 ^ Suc k) a s =
      (if k \<le> 5 then insert_loop E c [Suc k..<N] (16 ^ Suc (Suc k)) (a + r) s' else None)"
    by (rule insert_loop_step[OF Suc.prems(1) k(1,2)])
  show ?case
    unfolding step if_P[OF k(3)] by (rule Suc.hyps(1)[OF k(4) s' k(5) Suc.prems(3)])
qed

text \<open>
  C39. With the cache it fills itself, \<open>insert_into_t1\<close> has a defined result exactly for
  \<open>N \<le> 6\<close> (the row counter overflows in the seventh turn); then it sends, in order, one
  INSERT of \<open>16 ^ (i + 1)\<close> rows with \<open>fl = i\<close> for each \<open>i < N\<close> and returns the number that
  failed.
\<close>

theorem insert_into_t1_defined:
  fixes s :: "'a t1w_scheme"
  assumes "cache_ok s"
  shows "(insert_into_t1 E c N s \<noteq> None \<longleftrightarrow> N \<le> 6) \<and>
    (N \<le> 6 \<longrightarrow> (\<exists>s'. insert_into_t1 E c N s = Some (fst (sum_loop [0..<nat N] (insert_rows E c) s), s') \<and>
        trace s' = trace (snd (sum_loop [0..<nat N] (insert_rows E c) s)) \<and> cache_ok s') \<and>
      0 \<le> fst (sum_loop [0..<nat N] (insert_rows E c) s) \<and>
      fst (sum_loop [0..<nat N] (insert_rows E c) s) \<le> int (nat N))"
proof (cases "N \<le> 6")
  case True
  then have "0 + nat N \<le> 6" by simp
  have f: "\<exists>c' q. insert_rows E c i t = execute_query E c' q t" for i and t :: "'a t1w_scheme"
    unfolding insert_rows_def by blast
  from insert_loop_spec[OF assms refl \<open>0 + nat N \<le> 6\<close>, of E c 0]
    eq.count_failures[where f = "insert_rows E c" and ids = "[0..<nat N]", OF f] True
  show ?thesis by (auto simp: insert_into_t1_def)
next
  case False
  then have "6 < nat N" by simp
  with insert_loop_overflows[OF assms, of 0 "nat N" E c 0] False show ?thesis
    by (simp add: insert_into_t1_def)
qed

definition empty_t1w :: t1w where
  "empty_t1w = \<lparr>trace = [], objs = (\<lambda>_. undefined), t1_sql = (\<lambda>_. None)\<rparr>"

theorem insert_into_t1_defined_witness:
  "insert_into_t1 dead_env (Some 0) 7 empty_t1w = None \<and> insert_into_t1 dead_env (Some 0) 4 empty_t1w \<noteq> None"
proof -
  have "cache_ok empty_t1w" by (simp add: cache_ok_def empty_t1w_def)
  note w = insert_into_t1_defined[OF this, of dead_env "Some 0"]
  have "insert_into_t1 dead_env (Some 0) 7 empty_t1w = None"
    using w[of 7] by (cases "insert_into_t1 dead_env (Some 0) 7 empty_t1w") simp_all
  with w[of 4] show ?thesis by simp
qed

section \<open>The checked SELECT\<close>

lemma select_poll_spec:
  "select_poll E c sql k n bad s = ((found, bad'), s') \<Longrightarrow>
   (\<exists>es. trace s' = trace s @ es \<and> queries_sent es \<le> n) \<and>
   (\<forall>res. found = Some res \<longrightarrow> length (rows res) = k \<and>
      (\<exists>h q qs. my_query E h c sql = QOk q qs \<and> stored q = Some res)) \<and>
   (bad \<longrightarrow> bad')"
proof (induction n arbitrary: bad s)
  case (Suc n)
  define s1 where "s1 = mysql_store c (emit (EQuery c sql) s)"
  have t1: "trace s1 = trace s @ [EQuery c sql, EStore c]" by (simp add: s1_def mysql_store_def)
  have again: ?case if "select_poll E c sql k n b (c_sleep 1 s1) = ((found, bad'), s')" "bad \<longrightarrow> b" for b
  proof -
    from Suc.IH[OF that(1)] obtain es where "trace s' = trace (c_sleep 1 s1) @ es" "queries_sent es \<le> n" by blast
    then have "trace s' = trace s @ ([EQuery c sql, EStore c, ESleep 1] @ es)"
      "queries_sent ([EQuery c sql, EStore c, ESleep 1] @ es) \<le> Suc n"
      by (simp_all add: c_sleep_def t1 queries_sent_def)
    then show ?thesis using Suc.IH[OF that(1)] that(2) by blast
  qed
  consider "my_query E (trace s) c sql = QFail"
    | q qs where "my_query E (trace s) c sql = QOk q qs" "stored q = None"
    | q qs res where "my_query E (trace s) c sql = QOk q qs" "stored q = Some res"
    by (cases "my_query E (trace s) c sql") auto
  then show ?case
  proof cases
    case 1
    with Suc.prems again[of True] show ?thesis by (simp add: mysql_query_def s1_def)
  next
    case 2
    with Suc.prems again[of True] show ?thesis by (simp add: mysql_query_def s1_def)
  next
    case 3
    show ?thesis
    proof (cases "length (rows res) = k")
      case True
      then have "found = Some res" "bad' = bad" "s' = s1"
        using Suc.prems 3 by (auto simp: mysql_query_def s1_def)
      moreover have "trace s1 = trace s @ [EQuery c sql, EStore c]" "queries_sent [EQuery c sql, EStore c] \<le> Suc n"
        by (simp_all add: t1 queries_sent_def)
      ultimately show ?thesis using True 3 by blast
    next
      case False
      with 3 Suc.prems again[of bad] show ?thesis by (simp add: mysql_query_def s1_def)
    qed
  qed
qed auto

lemma check_fields_first:
  assumes "check_fields 0 k (f # fs) v bad = Some (v', bad')"
  shows "\<exists>t. f = Some t \<and> (\<not> bad' \<longrightarrow> \<not> bad \<and> (case scan_u64 t of Some n \<Rightarrow> n = k | None \<Rightarrow> v = Some k))"
proof -
  have keep: "check_fields (Suc i) k fs v bad = Some (v', bad') \<Longrightarrow> bad' = bad" for i fs v bad
    by (induction fs arbitrary: i v) (auto simp: Option.bind_eq_Some_conv)
  obtain t where t: "f = Some t" using assms by (cases f) auto
  show ?thesis
  proof (cases "scan_u64 t")
    case None
    then obtain n where "v = Some n" "check_fields (Suc 0) k fs (Some n) (bad \<or> n \<noteq> k) = Some (v', bad')"
      using assms t by (cases v) auto
    with keep[OF this(2)] None t show ?thesis by auto
  next
    case (Some n)
    then have "check_fields (Suc 0) k fs (Some n) (bad \<or> n \<noteq> k) = Some (v', bad')"
      using assms t by simp
    from keep[OF this] Some t show ?thesis by auto
  qed
qed

lemma check_rows_good:
  assumes "check_rows nf k rs v bad = Some False" "0 < nf"
  shows "\<not> bad \<and> (\<forall>j < length rs. \<exists>t. hd (rs ! j) = Some t \<and>
    (\<forall>n. scan_u64 t = Some n \<longrightarrow> n = k + int j))"
  using assms
proof (induction rs arbitrary: k v bad)
  case (Cons r rs)
  then obtain v' bad' where cf: "check_fields 0 k (take nf r) v bad = Some (v', bad')"
    and rest: "check_rows nf (k + 1) rs v' bad' = Some False" and len: "nf \<le> length r"
    by (auto simp: Option.bind_eq_Some_conv split: if_splits)
  obtain f fs where take: "take nf r = f # fs" "hd r = f"
    using len Cons.prems(2) by (cases r; cases nf) auto
  from Cons.IH[OF rest Cons.prems(2)] have nb: "\<not> bad'" and
    IH: "\<forall>j < length rs. \<exists>t. hd (rs ! j) = Some t \<and> (\<forall>n. scan_u64 t = Some n \<longrightarrow> n = k + 1 + int j)"
    by simp_all
  obtain t where t: "f = Some t" "\<not> bad" "case scan_u64 t of Some n \<Rightarrow> n = k | None \<Rightarrow> v = Some k"
    using check_fields_first[OF cf[unfolded take(1)]] nb by auto
  have "\<exists>t. hd ((r # rs) ! j) = Some t \<and> (\<forall>n. scan_u64 t = Some n \<longrightarrow> n = k + int j)"
    if "j < length (r # rs)" for j
    using that t take(2) IH by (cases j) (auto simp: algebra_simps split: option.splits)
  with t(2) show ?case by blast
qed simp

lemma check_rows_keeps_bad: "check_rows nf k rs v True \<noteq> Some False"
proof (induction rs arbitrary: k v)
  case (Cons r rs)
  have keep: "check_fields i k fs v True = Some (v', b) \<Longrightarrow> b = True" for i k fs v v' b
    by (induction fs arbitrary: i v) (auto simp: Option.bind_eq_Some_conv split: if_splits option.splits)
  show ?case
  proof
    assume "check_rows nf k (r # rs) v True = Some False"
    then obtain v' b where "check_fields 0 k (take nf r) v True = Some (v', b)"
      "check_rows nf (k + 1) rs v' b = Some False"
      by (auto simp: Option.bind_eq_Some_conv split: if_splits)
    with keep Cons.IH show False by metis
  qed
qed simp

text \<open>
  \<open>execute_select_query_and_check\<close> asks at most 100 times and returns 0 only if the server
  once answered with exactly the wanted number of rows, in two columns, whose first fields
  are not NULL and count up from 0 where they are numbers.
\<close>

theorem select_check_sound:
  assumes "execute_select_query_and_check E (Some c) sql k s = Some (r, s')"
  shows "(\<exists>es. trace s' = trace s @ es \<and> queries_sent es \<le> 100) \<and>
    (r = 0 \<longrightarrow> (\<exists>h q qs res. my_query E h (Some c) sql = QOk q qs \<and> stored q = Some res \<and>
       length (rows res) = k \<and> length (field_names res) = 2 \<and>
       (\<forall>j < k. \<exists>t. hd (rows res ! j) = Some t \<and> (\<forall>n. scan_u64 t = Some n \<longrightarrow> n = int j))))"
proof -
  obtain found bad s1 where p: "select_poll E (Some c) sql k 100 False s = ((found, bad), s1)"
    by (metis surj_pair)
  have "k \<noteq> 0" and s1: "s' = s1"
    using assms p by (auto simp: execute_select_query_and_check_def Option.bind_eq_Some_conv Let_def
        split: if_splits option.splits)
  note spec = select_poll_spec[OF p]
  have "\<exists>h q qs res. my_query E h (Some c) sql = QOk q qs \<and> stored q = Some res \<and>
       length (rows res) = k \<and> length (field_names res) = 2 \<and>
       (\<forall>j < k. \<exists>t. hd (rows res ! j) = Some t \<and> (\<forall>n. scan_u64 t = Some n \<longrightarrow> n = int j))"
    if r0: "r = 0"
  proof -
    obtain res where res: "found = Some res"
      using assms p r0 \<open>k \<noteq> 0\<close> by (auto simp: execute_select_query_and_check_def split: option.splits)
    have cr: "check_rows (length (field_names res)) 0 (rows res) None (bad \<or> length (field_names res) \<noteq> 2) = Some False"
      using assms p r0 res \<open>k \<noteq> 0\<close>
      by (auto simp: execute_select_query_and_check_def Option.bind_eq_Some_conv Let_def split: if_splits)
    then have "\<not> (bad \<or> length (field_names res) \<noteq> 2)"
      using check_rows_keeps_bad by (metis (full_types))
    then have "check_rows 2 0 (rows res) None False = Some False" "length (field_names res) = 2"
      using cr by simp_all
    then show ?thesis
      using check_rows_good[of 2 0 "rows res" None False] spec res by auto
  qed
  then show ?thesis using spec s1 by blast
qed

definition counted_rows :: "nat \<Rightarrow> reply" where
  "counted_rows n = QOk \<lparr>stored = Some \<lparr>field_names = [''x1'', ''fl''],
     rows = map (\<lambda>i. [Some (nat_str i), Some ''0'']) [0..<n]\<rparr>, affected = 0\<rparr> []"

lemma select_check_first_answer:
  assumes "my_query E (trace s) (Some c) sql = QOk q qs" "stored q = Some res" "length (rows res) = k" "0 < k"
    and "length (field_names res) = 2" "check_rows 2 0 (rows res) None False = Some False"
  shows "\<exists>s'. execute_select_query_and_check E (Some c) sql k s = Some (0, s')"
proof -
  have "select_poll E (Some c) sql k (Suc 99) False s = ((Some res, False), mysql_store (Some c) (emit (EQuery (Some c) sql) s))"
    unfolding select_poll.simps using assms by (simp add: mysql_query_def)
  then show ?thesis using assms by (simp add: execute_select_query_and_check_def)
qed

theorem select_check_sound_witness:
  "\<exists>s' es. execute_select_query_and_check (dead_env\<lparr>my_query := (\<lambda>_ _ _. counted_rows 2)\<rparr>) (Some 0) ''q'' 2 start_world
     = Some (0, s') \<and> trace s' = trace start_world @ es \<and> queries_sent es \<le> 100"
proof -
  have u: "scan_u64 (nat_str 0) = Some 0" "scan_u64 (nat_str 1) = Some 1"
    using scan_int_int_str[of "[]" 0] scan_int_int_str[of "[]" 1] by (simp_all add: scan_u64_def int_str_def)
  have "check_rows 2 0 (map (\<lambda>i. [Some (nat_str i), Some ''0'']) [0..<2]) None False = Some False"
    by (simp add: upt_rec u[unfolded One_nat_def] numeral_2_eq_2 scan_u64_def[of "''0''"] scan_int_def
        is_digit_def is_space_def digit_val_def)
  then have "\<exists>s'. execute_select_query_and_check (dead_env\<lparr>my_query := (\<lambda>_ _ _. counted_rows 2)\<rparr>) (Some 0) ''q'' 2 start_world
     = Some (0, s')"
    by (intro select_check_first_answer[OF _ rset.select_convs(1), where res = "\<lparr>field_names = [''x1'', ''fl''],
        rows = map (\<lambda>i. [Some (nat_str i), Some ''0'']) [0..<2]\<rparr>"]) (simp_all add: counted_rows_def del: upt_rec_numeral)
  then show ?thesis using select_check_sound by blast
qed

lemma has_t1_any:
  assumes "\<forall>r \<in> set rs. r \<noteq> []"
  shows "has_t1 rs a = Some (if \<exists>r \<in> set rs. hd r = Some ''t1'' then 1 else a)"
  using assms
proof (induction rs arbitrary: a)
  case (Cons r rs)
  then have "row_at r 0 = Some (hd r)" by (cases r) (auto simp: row_at_def)
  with Cons show ?case by simp
qed simp

text \<open>
  \<open>check_if_t1_exists\<close> on a connection whose \<open>show tables\<close> returns rows: 1 exactly when some
  row's first column is \<open>t1\<close>, otherwise 0; and -1 without a connection.
\<close>

theorem check_if_t1_exists_value:
  assumes "my_query E (trace s) (Some c) ''show tables;'' = QOk q qs" "stored q = Some res"
    and "\<forall>r \<in> set (rows res). r \<noteq> []"
  shows "map_option fst (check_if_t1_exists E (Some c) s) =
      Some (if \<exists>r \<in> set (rows res). hd r = Some ''t1'' then 1 else 0) \<and>
    check_if_t1_exists E None s = Some (-1, s)"
  using assms by (simp add: check_if_t1_exists_def mysql_query_def has_t1_any Let_def)

theorem check_if_t1_exists_value_witness:
  "map_option fst (check_if_t1_exists (dead_env\<lparr>my_query := (\<lambda>_ _ _. process_list [[Some ''t1'']])\<rparr>) (Some 0) start_world) = Some 1"
  using check_if_t1_exists_value[of "dead_env\<lparr>my_query := (\<lambda>_ _ _. process_list [[Some ''t1'']])\<rparr>" start_world 0
      _ _ "\<lparr>field_names = [''Id'', ''User'', ''Host'', ''db''], rows = [[Some ''t1'']]\<rparr>"]
  by (simp add: process_list_def)

end
