(* ===== verification/Test_Core.thy ===== *)
theory Test_Core
  imports Replication Sql_T1
begin

text \<open>
  The \<open>TestConnections\<close> object (\<open>testconnections.h\<close>, \<open>testconnections.cpp\<close>): its fields, its
  configuration from the environment, the timeout, the collected result, commands on the
  MaxScale machine, the configuration file, starting and stopping MaxScale, and the
  connections to its three services. There is one such object in a test program, so its
  fields extend the state; \<open>tc_repl\<close> and \<open>tc_galera\<close> point into the heap of node objects and
  may be the same object. The static variables of namespace \<open>maxscale\<close> are fields too.
\<close>

record tc = t1w +
  tc_global_result :: int
  tc_test_name :: string
  tc_rwsplit_port :: int
  tc_readconn_master_port :: int
  tc_readconn_slave_port :: int
  tc_binlog_port :: int
  tc_conn_rwsplit :: "conn option"
  tc_conn_master :: "conn option"
  tc_conn_slave :: "conn option"
  tc_routers :: "nat \<Rightarrow> conn option"
  tc_galera :: cid
  tc_repl :: cid
  tc_maxscale_IP :: string
  tc_maxscale_IP6 :: string
  tc_use_ipv6 :: bool
  tc_maxscale_hostname :: string
  tc_maxscale_user :: string
  tc_maxscale_password :: string
  tc_maxadmin_password :: string
  tc_maxscale_keyfile :: string
  tc_get_logs_command :: string
  tc_take_snapshot_command :: string
  tc_revert_snapshot_command :: string
  tc_use_snapshots :: bool
  tc_sysbench_dir :: string
  tc_maxscale_cnf :: string
  tc_maxscale_log_dir :: string
  tc_maxscale_binlog_dir :: string
  tc_access_user :: string
  tc_access_homedir :: string
  tc_access_sudo :: string
  tc_no_backend_log_copy :: bool
  tc_verbose :: bool
  tc_smoke :: bool
  tc_binlog_cmd_option :: int
  tc_ssl :: bool
  tc_backend_ssl :: bool
  tc_no_galera :: bool
  tc_threads :: int
  tc_enable_timeouts :: bool
  tc_timeout :: int
  tc_log_copy_interval :: int
  tc_log_copy_to_go :: int
  ms_start :: bool
  ms_check_nodes :: bool
  ms_required_repl_version :: string
  ms_required_galera_version :: string

text \<open>The objects behind the two pointers.\<close>

definition repl :: "'a tc_scheme \<Rightarrow> mnodes" where
  "repl s = objs s (tc_repl s)"

definition galera :: "'a tc_scheme \<Rightarrow> mnodes" where
  "galera s = objs s (tc_galera s)"

section \<open>Static settings\<close>

definition tc_check_nodes :: "bool \<Rightarrow> 'a tc_scheme \<Rightarrow> 'a tc_scheme" where
  "tc_check_nodes value s = s\<lparr>ms_check_nodes := value\<rparr>"

definition skip_maxscale_start :: "bool \<Rightarrow> 'a tc_scheme \<Rightarrow> 'a tc_scheme" where
  "skip_maxscale_start value s = s\<lparr>ms_start := \<not> value\<rparr>"

definition require_repl_version :: "string \<Rightarrow> 'a tc_scheme \<Rightarrow> 'a tc_scheme" where
  "require_repl_version version s = s\<lparr>ms_required_repl_version := version\<rparr>"

definition require_galera_version :: "string \<Rightarrow> 'a tc_scheme \<Rightarrow> 'a tc_scheme" where
  "require_galera_version version s = s\<lparr>ms_required_galera_version := version\<rparr>"

section \<open>Result and timeout\<close>

text \<open>\<open>add_result\<close>; a nonzero result also prints a message.\<close>

definition add_result :: "int \<Rightarrow> 'a tc_scheme \<Rightarrow> 'a tc_scheme" where
  "add_result result s =
     (if result \<noteq> 0 then s\<lparr>tc_global_result := tc_global_result s + result\<rparr> else s)"

definition set_timeout :: "int \<Rightarrow> 'a tc_scheme \<Rightarrow> 'a tc_scheme" where
  "set_timeout seconds s = (if tc_enable_timeouts s then s\<lparr>tc_timeout := seconds\<rparr> else s)"

definition stop_timeout :: "'a tc_scheme \<Rightarrow> 'a tc_scheme" where
  "stop_timeout s = s\<lparr>tc_timeout := 999999999\<rparr>"

definition set_log_copy_interval :: "int \<Rightarrow> 'a tc_scheme \<Rightarrow> 'a tc_scheme" where
  "set_log_copy_interval seconds s = s\<lparr>tc_log_copy_to_go := seconds, tc_log_copy_interval := seconds\<rparr>"

section \<open>Reading the environment\<close>

text \<open>\<open>if (env != NULL) sprintf(field, "%s", env);\<close> with the field as it was otherwise.\<close>

definition env_keep :: "env \<Rightarrow> string \<Rightarrow> string \<Rightarrow> string" where
  "env_keep E name old = env_or E name old"

definition tc_read_access :: "env \<Rightarrow> 'a tc_scheme \<Rightarrow> 'a tc_scheme" where
  "tc_read_access E s =
     s\<lparr>tc_maxscale_IP := env_keep E ''maxscale_IP'' (tc_maxscale_IP s),
       tc_maxscale_IP6 := env_keep E ''maxscale_network6'' (tc_maxscale_IP6 s),
       tc_maxscale_user := env_or E ''maxscale_user'' ''skysql'',
       tc_maxscale_password := env_or E ''maxscale_password'' ''skysql'',
       tc_maxadmin_password := env_or E ''maxadmin_password'' ''mariadb'',
       tc_maxscale_keyfile := env_or E ''maxscale_keyfile'' ''skysql'',
       tc_sysbench_dir := env_keep E ''sysbench_dir'' (tc_sysbench_dir s),
       tc_maxscale_cnf := env_or E ''maxscale_cnf'' ''/etc/maxscale.cnf'',
       tc_maxscale_log_dir := env_or E ''maxscale_log_dir'' ''/var/log/maxscale/'',
       tc_maxscale_binlog_dir := env_or E ''maxscale_binlog_dir'' ''/var/lib/maxscale/Binlog_Service/'',
       tc_access_user := env_keep E ''maxscale_whoami'' (tc_access_user s),
       tc_access_sudo := env_keep E ''maxscale_access_sudo'' (tc_access_sudo s)\<rparr>"

definition tc_read_flags :: "env \<Rightarrow> 'a tc_scheme \<Rightarrow> 'a tc_scheme" where
  "tc_read_flags E s =
     s\<lparr>tc_ssl := env_yes E ''ssl'',
       ms_check_nodes := (ms_check_nodes s \<and> \<not> env_yes E ''mysql51_only'' \<and> \<not> env_yes E ''no_nodes_check''),
       tc_no_backend_log_copy := (tc_no_backend_log_copy s \<or> env_yes E ''no_backend_log_copy''),
       tc_use_ipv6 := (tc_use_ipv6 s \<or> env_yes E ''use_ipv6''),
       tc_maxscale_hostname := env_or E ''maxscale_hostname'' (tc_maxscale_IP s),
       tc_backend_ssl := env_yes E ''backend_ssl'',
       tc_access_homedir := (if tc_access_user s = ''root'' then ''/'' @ tc_access_user s @ ''/''
                             else ''/home/'' @ tc_access_user s @ ''/''),
       tc_smoke := env_yes E ''smoke'',
       tc_threads := (case env_get E ''threads'' of
                        Some v \<Rightarrow> (case scan_int v of Some (n, _) \<Rightarrow> n | None \<Rightarrow> tc_threads s)
                      | None \<Rightarrow> 4),
       tc_use_snapshots := env_yes E ''use_snapshots'',
       tc_take_snapshot_command := env_or E ''take_snapshot_command'' ''exit 1'',
       tc_revert_snapshot_command := env_or E ''revert_snapshot_command'' ''exit 1'',
       ms_start := (ms_start s \<and> \<not> env_yes E ''no_maxscale_start'')\<rparr>"

definition tc_read_env :: "env \<Rightarrow> 'a tc_scheme \<Rightarrow> 'a tc_scheme" where
  "tc_read_env E s = tc_read_flags E (tc_read_access E s)"

section \<open>Commands on the MaxScale machine\<close>

definition maxscale_ip :: "'a tc_scheme \<Rightarrow> string" where
  "maxscale_ip s = (if tc_use_ipv6 s then tc_maxscale_IP6 s else tc_maxscale_IP s)"

definition tc_ssh_prefix :: "'a tc_scheme \<Rightarrow> string" where
  "tc_ssh_prefix s =
     ''ssh -i '' @ tc_maxscale_keyfile s @
     '' -o UserKnownHostsFile=/dev/null -o StrictHostKeyChecking=no -o LogLevel=quiet '' @
     tc_access_user s @ ''@'' @ tc_maxscale_IP s"

definition tc_generate_ssh_cmd :: "'a tc_scheme \<Rightarrow> string \<Rightarrow> bool \<Rightarrow> string" where
  "tc_generate_ssh_cmd s ssh sudo =
     (if tc_maxscale_IP s = ''127.0.0.1''
      then (if sudo then tc_access_sudo s @ '' '' @ ssh else ssh)
      else (if sudo then tc_ssh_prefix s @ '' '' @ quote @ tc_access_sudo s @ '' '' @ ssh @ quote
            else tc_ssh_prefix s @ '' '' @ quote @ ssh @ quote))"

text \<open>The argument is the formatted command. A null pointer is returned when \<open>popen\<close> fails.\<close>

definition ssh_maxscale_output ::
  "env \<Rightarrow> bool \<Rightarrow> string \<Rightarrow> 'a tc_scheme \<Rightarrow> string option \<times> 'a tc_scheme" where
  "ssh_maxscale_output E sudo sys s =
     (let (r, s) = popen_read E (tc_generate_ssh_cmd s sys sudo) s in (map_option fst r, s))"

definition ssh_maxscale_input :: "'a tc_scheme \<Rightarrow> bool \<Rightarrow> string \<Rightarrow> string" where
  "ssh_maxscale_input s sudo sys =
     (if sudo then ''sudo su -'' @ [newline] @ ''cd /home/'' @ tc_access_user s @ [newline] else []) @
     sys @ [newline]"

text \<open>The result is the wait status of the shell, 1 if it could not be started.\<close>

definition ssh_maxscale :: "env \<Rightarrow> bool \<Rightarrow> string \<Rightarrow> 'a tc_scheme \<Rightarrow> int \<times> 'a tc_scheme" where
  "ssh_maxscale E sudo sys s =
     (let cmd = (if tc_maxscale_IP s = ''127.0.0.1'' then ''bash''
                 else tc_ssh_prefix s @ (if tc_verbose s then '''' else '' > /dev/null''));
          (r, s) = popen_write E cmd (ssh_maxscale_input s sudo sys) s
      in (case r of Some rc \<Rightarrow> rc | None \<Rightarrow> 1, s))"

definition copy_to_maxscale :: "env \<Rightarrow> string \<Rightarrow> string \<Rightarrow> 'a tc_scheme \<Rightarrow> int \<times> 'a tc_scheme" where
  "copy_to_maxscale E src dest s =
     (if tc_maxscale_IP s = ''127.0.0.1''
      then c_system E (''cp '' @ src @ '' '' @ dest) s
      else c_system E (''scp -q -i '' @ tc_maxscale_keyfile s @
             '' -o UserKnownHostsFile=/dev/null -o StrictHostKeyChecking=no -o LogLevel=quiet '' @
             src @ '' '' @ tc_access_user s @ ''@'' @ tc_maxscale_IP s @ '':'' @ dest) s)"

definition copy_from_maxscale :: "env \<Rightarrow> string \<Rightarrow> string \<Rightarrow> 'a tc_scheme \<Rightarrow> int \<times> 'a tc_scheme" where
  "copy_from_maxscale E src dest s =
     (if tc_maxscale_IP s = ''127.0.0.1''
      then c_system E (''cp '' @ src @ '' '' @ dest) s
      else c_system E (''scp -i '' @ tc_maxscale_keyfile s @
             '' -o UserKnownHostsFile=/dev/null -o StrictHostKeyChecking=no -o LogLevel=quiet '' @
             tc_access_user s @ ''@'' @ tc_maxscale_IP s @ '':'' @ src @ '' '' @ dest) s)"

section \<open>Statements\<close>

text \<open>\<open>try_query\<close> with its formatted text.\<close>

definition try_query :: "env \<Rightarrow> conn option \<Rightarrow> string \<Rightarrow> 'a tc_scheme \<Rightarrow> int \<times> 'a tc_scheme" where
  "try_query E c sql s =
     (let (res, s) = execute_query1 E c sql False s in (res, add_result res s))"

definition try_query_fmt :: "env \<Rightarrow> conn option \<Rightarrow> string \<Rightarrow> 'a tc_scheme \<Rightarrow> (int \<times> 'a tc_scheme) option" where
  "try_query_fmt E c format s = do { sql \<leftarrow> c_format0 format; Some (try_query E c sql s) }"

text \<open>
  The three calls are operands of \<open>+\<close>, whose order of evaluation is unspecified; they are
  taken from left to right.
\<close>

definition try_query_all :: "env \<Rightarrow> string \<Rightarrow> 'a tc_scheme \<Rightarrow> (int \<times> 'a tc_scheme) option" where
  "try_query_all E sql s =
     do { (r1, s) \<leftarrow> try_query_fmt E (tc_conn_rwsplit s) sql s;
          (r2, s) \<leftarrow> try_query_fmt E (tc_conn_master s) sql s;
          (r3, s) \<leftarrow> try_query_fmt E (tc_conn_slave s) sql s;
          Some (r1 + r2 + r3, s) }"

section \<open>Connections to MaxScale\<close>

definition connect_rwsplit :: "env \<Rightarrow> 'a tc_scheme \<Rightarrow> int \<times> 'a tc_scheme" where
  "connect_rwsplit E s =
     (let (c, s) = open_conn E (tc_rwsplit_port s) (maxscale_ip s) (tc_maxscale_user s)
                     (tc_maxscale_password s) (tc_ssl s) s;
          s = s\<lparr>tc_conn_rwsplit := c\<rparr>;
          s = s\<lparr>tc_routers := (tc_routers s)(0 := c)\<rparr>
      in (int (mysql_errno E c s), s))"

definition connect_readconn_master :: "env \<Rightarrow> 'a tc_scheme \<Rightarrow> int \<times> 'a tc_scheme" where
  "connect_readconn_master E s =
     (let (c, s) = open_conn E (tc_readconn_master_port s) (maxscale_ip s) (tc_maxscale_user s)
                     (tc_maxscale_password s) (tc_ssl s) s;
          s = s\<lparr>tc_conn_master := c\<rparr>;
          s = s\<lparr>tc_routers := (tc_routers s)(1 := c)\<rparr>
      in (int (mysql_errno E c s), s))"

definition connect_readconn_slave :: "env \<Rightarrow> 'a tc_scheme \<Rightarrow> int \<times> 'a tc_scheme" where
  "connect_readconn_slave E s =
     (let (c, s) = open_conn E (tc_readconn_slave_port s) (maxscale_ip s) (tc_maxscale_user s)
                     (tc_maxscale_password s) (tc_ssl s) s;
          s = s\<lparr>tc_conn_slave := c\<rparr>;
          s = s\<lparr>tc_routers := (tc_routers s)(2 := c)\<rparr>
      in (int (mysql_errno E c s), s))"

definition connect_maxscale :: "env \<Rightarrow> 'a tc_scheme \<Rightarrow> int \<times> 'a tc_scheme" where
  "connect_maxscale E s =
     (let (r1, s) = connect_rwsplit E s;
          (r2, s) = connect_readconn_master E s;
          (r3, s) = connect_readconn_slave E s
      in (r1 + r2 + r3, s))"

text \<open>The pointers keep their values.\<close>

definition close_maxscale_connections :: "'a tc_scheme \<Rightarrow> 'a tc_scheme" where
  "close_maxscale_connections s =
     (let s = mysql_close (tc_conn_master s) s;
          s = mysql_close (tc_conn_slave s) s
      in mysql_close (tc_conn_rwsplit s) s)"

definition close_rwsplit :: "'a tc_scheme \<Rightarrow> 'a tc_scheme" where
  "close_rwsplit s = (mysql_close (tc_conn_rwsplit s) s)\<lparr>tc_conn_rwsplit := None\<rparr>"

definition close_readconn_master :: "'a tc_scheme \<Rightarrow> 'a tc_scheme" where
  "close_readconn_master s = (mysql_close (tc_conn_master s) s)\<lparr>tc_conn_master := None\<rparr>"

definition close_readconn_slave :: "'a tc_scheme \<Rightarrow> 'a tc_scheme" where
  "close_readconn_slave s = (mysql_close (tc_conn_slave s) s)\<lparr>tc_conn_slave := None\<rparr>"

definition open_service :: "env \<Rightarrow> int \<Rightarrow> 'a tc_scheme \<Rightarrow> conn option \<times> 'a tc_scheme" where
  "open_service E port s =
     open_conn E port (tc_maxscale_IP s) (tc_maxscale_user s) (tc_maxscale_password s) (tc_ssl s) s"

definition open_rwsplit_connection :: "env \<Rightarrow> 'a tc_scheme \<Rightarrow> conn option \<times> 'a tc_scheme" where
  "open_rwsplit_connection E s = open_service E (tc_rwsplit_port s) s"

definition open_readconn_master_connection :: "env \<Rightarrow> 'a tc_scheme \<Rightarrow> conn option \<times> 'a tc_scheme" where
  "open_readconn_master_connection E s = open_service E (tc_readconn_master_port s) s"

definition open_readconn_slave_connection :: "env \<Rightarrow> 'a tc_scheme \<Rightarrow> conn option \<times> 'a tc_scheme" where
  "open_readconn_slave_connection E s = open_service E (tc_readconn_slave_port s) s"

section \<open>Running MaxScale\<close>

text \<open>
  \<open>check_maxscale_processes\<close>: a null pointer in the second reading goes to \<open>atoi\<close>.
\<close>

definition ps_maxscale :: string where
  "ps_maxscale = ''ps -C maxscale | grep maxscale | wc -l''"

definition check_maxscale_processes ::
  "env \<Rightarrow> int \<Rightarrow> 'a tc_scheme \<Rightarrow> (int \<times> 'a tc_scheme) option" where
  "check_maxscale_processes E expected s =
     (let (out, s) = ssh_maxscale_output E False ps_maxscale s in
      case out of
        None \<Rightarrow> Some (- 1, s)
      | Some num \<Rightarrow>
          if atoi (cut_at num newline) \<noteq> expected
          then (let s = c_sleep 5 s;
                    (out, s) = ssh_maxscale_output E False ps_maxscale s
                in do { num \<leftarrow> out;
                        Some (0, if atoi num \<noteq> expected then add_result 1 s else s) })
          else Some (0, s))"

definition restart_maxscale :: "env \<Rightarrow> 'a tc_scheme \<Rightarrow> int \<times> 'a tc_scheme" where
  "restart_maxscale E s =
     (let s = c_sleep 15 s;
          (res, s) = ssh_maxscale E True ''service maxscale restart'' s
      in (res, c_sleep 10 s))"

definition start_maxscale :: "env \<Rightarrow> 'a tc_scheme \<Rightarrow> int \<times> 'a tc_scheme" where
  "start_maxscale E s =
     (let s = c_sleep 15 s;
          (res, s) = ssh_maxscale E True ''service maxscale start'' s
      in (res, c_sleep 10 s))"

definition stop_maxscale :: "env \<Rightarrow> 'a tc_scheme \<Rightarrow> (int \<times> 'a tc_scheme) option" where
  "stop_maxscale E s =
     (let (res, s) = ssh_maxscale E True ''service maxscale stop'' s in
      do { (_, s) \<leftarrow> check_maxscale_processes E 0 s; Some (res, s) })"

definition check_maxscale_alive :: "env \<Rightarrow> 'a tc_scheme \<Rightarrow> (int \<times> 'a tc_scheme) option" where
  "check_maxscale_alive E s =
     (let gr = tc_global_result s;
          s = set_timeout 10 s;
          (r, s) = connect_maxscale E s;
          s = add_result r s;
          s = set_timeout 10 s;
          (_, s) = try_query E (tc_conn_rwsplit s) ''show databases;'' s;
          s = set_timeout 10 s;
          (_, s) = try_query E (tc_conn_master s) ''show databases;'' s;
          s = set_timeout 10 s;
          (_, s) = try_query E (tc_conn_slave s) ''show databases;'' s;
          s = set_timeout 10 s;
          s = close_maxscale_connections s;
          s = add_result (tc_global_result s - gr) s;
          s = stop_timeout s
      in do { (_, s) \<leftarrow> check_maxscale_processes E 1 s;
              Some (tc_global_result s - gr, s) })"

section \<open>The configuration file\<close>

definition sed_cmd :: "string \<Rightarrow> string" where
  "sed_cmd script = ''sed -i '' @ dq @ script @ dq @ '' maxscale.cnf''"

definition ssl_sed_script :: string where
  "ssl_sed_script =
     (let nl = char_of (92 :: nat) # ''n'' in
      ''s|type=server|type=server'' @ nl @ ''ssl=required'' @ nl @
      ''ssl_cert=/###access_homedir###/certs/client-cert.pem'' @ nl @
      ''ssl_key=/###access_homedir###/certs/client-key.pem'' @ nl @
      ''ssl_ca_cert=/###access_homedir###/certs/ca.pem|g'')"

definition get_template_name :: "env \<Rightarrow> string \<Rightarrow> string" where
  "get_template_name E name =
     (case cf_template E name of Some t \<Rightarrow> t | None \<Rightarrow> cf_default_template E)"

definition sed_server :: "env \<Rightarrow> cid \<Rightarrow> nat \<Rightarrow> 'a tc_scheme \<Rightarrow> 'a tc_scheme" where
  "sed_server E obj i s =
     (let ob = objs s obj;
          IPcnf = (if mn_use_ipv6 ob then mn_IP6 ob i else mn_IP ob i);
          (_, s) = c_system E (sed_cmd (''s/###'' @ mn_prefix ob @ ''_server_IP_'' @ int_str (int i + 1) @
                      ''###/'' @ IPcnf @ ''/'')) s;
          (_, s) = c_system E (sed_cmd (''s/###'' @ mn_prefix ob @ ''_server_port_'' @ int_str (int i + 1) @
                      ''###/'' @ int_str (mn_port ob i) @ ''/'')) s
      in s)"

definition sed_cluster :: "env \<Rightarrow> cid \<Rightarrow> 'a tc_scheme \<Rightarrow> 'a tc_scheme" where
  "sed_cluster E obj s =
     (let s = do_loop (node_ids (objs s obj)) (sed_server E obj) s;
          (_, s) = connect E obj s;
          (_, s) = query_node E obj ''CREATE DATABASE IF NOT EXISTS test'' 0 s
      in close_connections obj s)"

definition threads_sed :: "int \<Rightarrow> string" where
  "threads_sed n = ''sed -i '' @ dq @ ''s/###threads###/'' @ int_str n @ ''/'' @ dq @ ''  maxscale.cnf''"

definition process_template :: "env \<Rightarrow> string \<Rightarrow> string \<Rightarrow> 'a tc_scheme \<Rightarrow> 'a tc_scheme" where
  "process_template E template_name dest s =
     (let (rc, s) = c_system E (''cp '' @ cf_test_dir E @ ''/cnf/maxscale.cnf.template.'' @ template_name @
                      '' maxscale.cnf'') s
      in if rc \<noteq> 0 then s
         else
           let s = (if tc_backend_ssl s then snd (c_system E (sed_cmd ssl_sed_script) s) else s);
               (_, s) = c_system E (threads_sed (tc_threads s)) s;
               s = sed_cluster E (tc_repl s) s;
               s = sed_cluster E (tc_galera s) s;
               (_, s) = c_system E (sed_cmd (''s/###access_user###/'' @ tc_access_user s @ ''/g'')) s;
               (_, s) = c_system E (sed_cmd (''s|###access_homedir###|'' @ tc_access_homedir s @ ''|g'')) s;
               s = (if mn_v51 (repl s)
                    then snd (c_system E (sed_cmd ''s/###repl51###/mysql51_replication=true/g'') s) else s)
           in snd (copy_to_maxscale E ''maxscale.cnf'' dest s))"

text \<open>\<open>for (waits = 0; waits < 15; waits++)\<close> until \<open>maxadmin\<close> answers.\<close>

definition maxadmin_help :: string where
  "maxadmin_help = ''/bin/sh -c '' @ dq @ ''maxadmin help > /dev/null || exit 1'' @ dq"

fun wait_for_maxadmin :: "env \<Rightarrow> nat \<Rightarrow> 'a tc_scheme \<Rightarrow> 'a tc_scheme" where
  "wait_for_maxadmin E 0 s = s"
| "wait_for_maxadmin E (Suc n) s =
     (let (rc, s) = ssh_maxscale E True maxadmin_help s in
      if rc = 0 then s else wait_for_maxadmin E n (c_sleep 1 s))"

definition init_maxscale :: "env \<Rightarrow> 'a tc_scheme \<Rightarrow> 'a tc_scheme" where
  "init_maxscale E s =
     (let home = tc_access_homedir s;
          s = process_template E (get_template_name E (tc_test_name s)) home s;
          (_, s) = ssh_maxscale E True (''cp maxscale.cnf '' @ tc_maxscale_cnf s @ '';rm -rf '' @ home @
                     ''/certs;mkdir -m a+wrx '' @ home @ ''/certs;'') s;
          (_, s) = copy_to_maxscale E (cf_test_dir E @ ''/ssl-cert/*'') (home @ ''/certs/'') s;
          (_, s) = c_system E (''cp '' @ cf_test_dir E @ ''/ssl-cert/* .'') s;
          (_, s) = ssh_maxscale E True
            (''chown maxscale:maxscale -R '' @ home @ ''/certs;'' @
             ''chmod 664 '' @ home @ ''/certs/*.pem;'' @
             '' chmod a+x '' @ home @ '';'' @
             (if ms_start s then ''killall -9 maxscale;'' else '''') @
             ''iptables -I INPUT -p tcp --dport 4001 -j ACCEPT;'' @
             ''rm -f '' @ tc_maxscale_log_dir s @ ''/maxscale.log '' @ tc_maxscale_log_dir s @ ''/maxscale1.log;'' @
             ''rm -rf /tmp/core* /dev/shm/* /var/lib/maxscale/maxscale.cnf.d/ /var/lib/maxscale/*;'' @
             (if ms_start s then ''service maxscale restart'' else '''')) s
      in if ms_start s then wait_for_maxadmin E 15 s else s)"

end
