(* ===== verification/Test_Ops.thy ===== *)
theory Test_Ops
  imports Test_Core
begin

text \<open>
  The test steps of \<open>TestConnections\<close>: collecting logs, setting up the binlog router and
  multi-master, looking into the log, finding the connected slave, trying the services,
  the checks on table \<open>t1\<close>, reading values from maxadmin's output, snapshots.
\<close>

section \<open>Logs\<close>

text \<open>One backend's log: a null pointer from \<open>ssh_node_output\<close> goes to \<open>strlen\<close>.\<close>

definition copy_mariadb_log ::
  "env \<Rightarrow> cid \<Rightarrow> string \<Rightarrow> nat \<Rightarrow> int \<Rightarrow> 'a tc_scheme \<Rightarrow> (int \<times> 'a tc_scheme) option" where
  "copy_mariadb_log E obj pref i local_result s =
     (if mn_IP (objs s obj) i = ''127.0.0.1'' then Some (local_result, s)
      else
        let (out, s) = ssh_node_output E obj i ''cat /var/lib/mysql/*.err'' True s;
            file = ''LOGS/'' @ tc_test_name s @ ''/'' @ pref @ int_str (int i) @ ''_mariadb_log''
        in if fs_write E (trace s) file
           then do { (content, _) \<leftarrow> out; Some (local_result, emit (EWriteFile file content) s) }
           else Some (1, s))"

definition copy_mariadb_logs ::
  "env \<Rightarrow> cid \<Rightarrow> string \<Rightarrow> 'a tc_scheme \<Rightarrow> (int \<times> 'a tc_scheme) option" where
  "copy_mariadb_logs E obj pref s =
     (let (_, s) = c_system E (''mkdir -p LOGS/'' @ tc_test_name s) s
      in foreachM (node_ids (objs s obj)) (copy_mariadb_log E obj pref) 0 s)"

definition copy_all_logs :: "env \<Rightarrow> 'a tc_scheme \<Rightarrow> (int \<times> 'a tc_scheme) option" where
  "copy_all_logs E s =
     (let s = set_timeout 300 s in
      do { s \<leftarrow> (if tc_no_backend_log_copy s then Some s
                  else do { (_, s) \<leftarrow> copy_mariadb_logs E (tc_repl s) ''node'' s;
                            (_, s) \<leftarrow> copy_mariadb_logs E (tc_galera s) ''galera'' s;
                            Some s });
           let (rc, s) = c_system E (cf_test_dir E @ ''/copy_logs.sh '' @ tc_test_name s) s;
           Some (if rc \<noteq> 0 then 1 else 0, s) })"

definition copy_all_logs_periodic :: "env \<Rightarrow> 'a tc_scheme \<Rightarrow> int \<times> 'a tc_scheme" where
  "copy_all_logs_periodic E s =
     (let (rc, s) = c_system E (cf_test_dir E @ ''/copy_logs.sh '' @ tc_test_name s @ '' '' @ clock E (trace s)) s
      in (if rc \<noteq> 0 then 1 else 0, s))"

definition check_log_err :: "env \<Rightarrow> string \<Rightarrow> bool \<Rightarrow> 'a tc_scheme \<Rightarrow> 'a tc_scheme" where
  "check_log_err E err_msg expected s =
     (let s = set_timeout 100 s;
          (_, s) = c_system E (''rm -f *.log; '' @ tc_get_logs_command s @ '' '' @ tc_maxscale_IP s) s;
          s = set_timeout 50 s;
          ((rc, content), s) = read_log E ''maxscale.log'' s;
          (content, s) =
            (if rc \<noteq> 0 \<or> (case content of Some t \<Rightarrow> length t < 2 | None \<Rightarrow> True)
             then (let ((rc, content), s) = read_log E ''maxscale1.log'' s
                   in (content, if rc \<noteq> 0 then add_result 1 s else s))
             else (content, s))
      in case content of
           None \<Rightarrow> s
         | Some log \<Rightarrow>
             if expected then (if strstr log err_msg = None then add_result 1 s else s)
             else (if strstr log err_msg \<noteq> None then add_result 1 s else s))"

section \<open>Binlog router and multi-master\<close>

definition find_maxscale10 :: "string \<Rightarrow> bool" where
  "find_maxscale10 v \<longleftrightarrow> strstr v ''10.0'' \<noteq> None \<or> strstr v ''10.1'' \<noteq> None \<or> strstr v ''10.2'' \<noteq> None"

text \<open>Printing the version reads the buffer: without an answer it is uninitialised.\<close>

definition prepare_binlog :: "env \<Rightarrow> 'a tc_scheme \<Rightarrow> (int \<times> 'a tc_scheme) option" where
  "prepare_binlog E s =
     do { ((_, v), s) \<leftarrow> find_field E (mn_nodes (repl s) 0) ''SELECT @@VERSION'' ''@@version'' s;
          version_str \<leftarrow> v;
          let s = (if find_maxscale10 version_str then s
                   else (let (r, s) = ssh_maxscale E True
                               (''sed -i '' @ dq @ ''s/,mariadb10-compatibility=1//'' @ dq @ '' '' @ tc_maxscale_cnf s) s
                         in add_result r s));
          let (r, s) = ssh_maxscale E True (''rm -rf '' @ tc_maxscale_binlog_dir s) s;
          let s = add_result r s;
          let (r, s) = ssh_maxscale E True (''mkdir -p '' @ tc_maxscale_binlog_dir s) s;
          let s = add_result r s;
          let (r, s) = ssh_maxscale E False
               (tc_access_sudo s @ '' mkdir -p '' @ tc_maxscale_binlog_dir s @ ''; '' @
                tc_access_sudo s @ '' chown maxscale:maxscale -R '' @ tc_maxscale_binlog_dir s) s;
          Some (0, add_result r s) }"

definition binlog_cmd_opt :: "int \<Rightarrow> string" where
  "binlog_cmd_opt opt =
     (if opt = 1 then ''--binlog-checksum=CRC32''
      else if opt = 2 then ''--binlog-checksum=NONE'' else '' '')"

definition set_no_set_pos :: "bool \<Rightarrow> 'a tc_scheme \<Rightarrow> 'a tc_scheme" where
  "set_no_set_pos b s = upd (tc_repl s) (\<lambda>ob. ob\<lparr>mn_no_set_pos := b\<rparr>) s"

definition open_binlog :: "env \<Rightarrow> 'a tc_scheme \<Rightarrow> conn option \<times> 'a tc_scheme" where
  "open_binlog E s =
     open_conn_no_db E (tc_binlog_port s) (tc_maxscale_IP s) (mn_user_name (repl s)) (mn_password (repl s)) (tc_ssl s) s"

text \<open>The master's log file and position; what a query does not deliver keeps its value.\<close>

definition master_log_pos ::
  "env \<Rightarrow> conn option \<Rightarrow> string option \<times> string option \<Rightarrow> 'a world_scheme
   \<Rightarrow> ((string option \<times> string option) \<times> 'a world_scheme) option" where
  "master_log_pos E c old s =
     do { ((_, f), s) \<leftarrow> find_field E c ''show master status'' ''File'' s;
          ((_, p), s) \<leftarrow> find_field E c ''show master status'' ''Position'' s;
          Some ((case f of Some x \<Rightarrow> Some x | None \<Rightarrow> fst old,
                 case p of Some x \<Rightarrow> Some x | None \<Rightarrow> snd old), s) }"

definition reset_replication :: "env \<Rightarrow> conn option \<Rightarrow> 'a world_scheme \<Rightarrow> 'a world_scheme" where
  "reset_replication E c s =
     (let (_, s) = execute_query E c ''stop slave'' s;
          (_, s) = execute_query E c ''reset slave all'' s;
          (_, s) = execute_query E c ''reset master'' s
      in s)"

text \<open>The first half: everything is stopped, reset and the nodes are started again.\<close>

definition start_binlog_reset :: "env \<Rightarrow> 'a tc_scheme \<Rightarrow> 'a tc_scheme option" where
  "start_binlog_reset E s =
     (let cmd_opt = binlog_cmd_opt (tc_binlog_cmd_option s);
          (_, s) = stop_nodes E (tc_repl s) s;
          (binlog, s) = open_binlog E s;
          s = reset_replication E binlog s;
          s = mysql_close binlog s
      in do { (r, s) \<leftarrow> stop_maxscale E s;
              let s = add_result r s;
              let s = do_loop (node_ids (repl s)) (\<lambda>i s. snd (start_node E (tc_repl s) i cmd_opt s)) s;
              let s = c_sleep 5 s;
              let (_, s) = connect E (tc_repl s) s;
              let s = do_loop (node_ids (repl s)) (\<lambda>i s. reset_replication E (mn_nodes (repl s) i) s) s;
              (_, s) \<leftarrow> prepare_binlog E s;
              let (r, s) = ssh_maxscale E True (''ls -la '' @ tc_maxscale_binlog_dir s @ ''/'') s;
              Some (add_result r s) })"

definition master_ssl_sql :: "string \<Rightarrow> string" where
  "master_ssl_sql home =
     ''CHANGE MASTER TO master_ssl_cert='' @ quote @ home @ ''/certs/client-cert.pem'' @ quote @
     '', master_ssl_ca='' @ quote @ home @ ''/certs/ca.pem'' @ quote @
     '', master_ssl=1, master_ssl_key='' @ quote @ home @ ''/certs/client-key.pem'' @ quote"

definition start_binlog_finish :: "env \<Rightarrow> conn option \<Rightarrow> bool \<Rightarrow> 'a tc_scheme \<Rightarrow> 'a tc_scheme" where
  "start_binlog_finish E binlog no_pos s =
     (let s = close_connections (tc_repl s) s;
          (_, s) = try_query E binlog ''show slave status'' s;
          s = mysql_close binlog s
      in set_no_set_pos no_pos s)"

text \<open>
  The second half: node 1 follows the real master, MaxScale follows the real master, the
  other nodes follow MaxScale.
\<close>

definition start_binlog_connect :: "env \<Rightarrow> bool \<Rightarrow> 'a tc_scheme \<Rightarrow> 'a tc_scheme option" where
  "start_binlog_connect E no_pos s =
     do { ((f, p), s) \<leftarrow> master_log_pos E (mn_nodes (repl s) 0) (None, None) s;
          log_file \<leftarrow> f; log_pos \<leftarrow> p;
          let (_, s) = try_query E (mn_nodes (repl s) 1) ''stop slave;'' s;
          let s = set_no_set_pos False s;
          (_, s) \<leftarrow> set_slave E (tc_repl s) (mn_nodes (repl s) 1) (mn_IP (repl s) 0) (mn_port (repl s) 0) log_file log_pos s;
          let (r, s) = start_maxscale E s;
          let s = add_result r s;
          let (binlog, s) = open_binlog E s;
          let s = add_result (int (mysql_errno E binlog s)) s;
          let s = set_no_set_pos True s;
          (_, s) \<leftarrow> set_slave E (tc_repl s) binlog (mn_IP (repl s) 0) (mn_port (repl s) 0) log_file log_pos s;
          s \<leftarrow> (if tc_backend_ssl s
                 then do { (_, s) \<leftarrow> try_query_fmt E binlog (master_ssl_sql (tc_access_homedir s)) s; Some s }
                 else Some s);
          let (_, s) = try_query E binlog ''start slave'' s;
          let (_, s) = try_query E binlog ''show slave status'' s;
          let s = set_no_set_pos False s;
          ((f, p), s) \<leftarrow> master_log_pos E binlog (Some log_file, Some log_pos) s;
          log_file \<leftarrow> f; log_pos \<leftarrow> p;
          s \<leftarrow> do_loopM [2..<nat (mn_N (repl s))]
                 (\<lambda>i s. do { let (_, s) = try_query E (mn_nodes (repl s) i) ''stop slave;'' s;
                             (_, s) \<leftarrow> set_slave E (tc_repl s) (mn_nodes (repl s) i) (tc_maxscale_IP s)
                                         (tc_binlog_port s) log_file log_pos s;
                             Some s }) s;
          Some (start_binlog_finish E binlog no_pos s) }"

text \<open>A local variable hides the member \<open>global_result\<close>: the function returns 0.\<close>

definition start_binlog :: "env \<Rightarrow> 'a tc_scheme \<Rightarrow> (int \<times> 'a tc_scheme) option" where
  "start_binlog E s =
     (let no_pos = mn_no_set_pos (repl s) in
      do { s \<leftarrow> start_binlog_reset E s;
           s \<leftarrow> start_binlog_connect E no_pos s;
           Some (0, s) })"

definition start_mm :: "env \<Rightarrow> 'a tc_scheme \<Rightarrow> (int \<times> 'a tc_scheme) option" where
  "start_mm E s =
     do { (r0, s) \<leftarrow> stop_maxscale E s;
          let (r1, s) = stop_nodes E (tc_repl s) s;
          let (r2, s) = sum_loop [0, 1] (\<lambda>i s. start_node E (tc_repl s) i '''' s) s;
          let (_, s) = connect E (tc_repl s) s;
          let s = do_loop [0, 1] (\<lambda>i s. let (_, s) = query_node E (tc_repl s) ''stop slave'' i s;
                                           (_, s) = query_node E (tc_repl s) ''reset master'' i s in s) s;
          let (_, s) = query_node E (tc_repl s) ''SET GLOBAL READ_ONLY=ON'' 0 s;
          ((f1, p1), s) \<leftarrow> master_log_pos E (mn_nodes (repl s) 0) (None, None) s;
          ((f2, p2), s) \<leftarrow> master_log_pos E (mn_nodes (repl s) 1) (None, None) s;
          log_file2 \<leftarrow> f2; log_pos2 \<leftarrow> p2;
          (_, s) \<leftarrow> set_slave E (tc_repl s) (mn_nodes (repl s) 0) (mn_IP (repl s) 1) (mn_port (repl s) 1) log_file2 log_pos2 s;
          log_file1 \<leftarrow> f1; log_pos1 \<leftarrow> p1;
          (_, s) \<leftarrow> set_slave E (tc_repl s) (mn_nodes (repl s) 1) (mn_IP (repl s) 0) (mn_port (repl s) 0) log_file1 log_pos1 s;
          let s = close_connections (tc_repl s) s;
          let (r3, s) = start_maxscale E s;
          Some (r0 + r1 + r2 + r3, s) }"

end
