(* ===== verification/Test_Checks.thy ===== *)
theory Test_Checks
  imports Test_Ops
begin

text \<open>
  The checks of \<open>TestConnections\<close> a test is written with: which slave has a connection,
  whether the services answer, many connections at once, the client's own address, table
  \<open>t1\<close> through every route, values from maxadmin, snapshots and bad configurations.
\<close>

section \<open>Connections of the backends\<close>

text \<open>
  The loop of \<open>find_connected_slave\<close>: the sum of the connections, the last slave with one, and
  the caller's result code, set when the master has not exactly one.
\<close>

definition connected_step ::
  "env \<Rightarrow> nat \<Rightarrow> int \<times> int \<times> int \<Rightarrow> 'a tc_scheme \<Rightarrow> ((int \<times> int \<times> int) \<times> 'a tc_scheme) option" where
  "connected_step E i = (\<lambda>(all_conn, current_slave, gr) s.
     do { (conn_num, s) \<leftarrow> get_conn_num E (mn_nodes (repl s) i) (maxscale_ip s) (tc_maxscale_hostname s) ''test'' s;
          let gr = (if i = 0 \<and> conn_num \<noteq> 1 then 1 else gr);
          Some ((all_conn + conn_num, if i \<noteq> 0 \<and> conn_num \<noteq> 0 then int i else current_slave, gr), s) })"

text \<open>Printing \<open>IP[current_slave]\<close> reads outside the array when no slave has a connection.\<close>

definition find_connected_slave ::
  "env \<Rightarrow> int \<Rightarrow> 'a tc_scheme \<Rightarrow> ((int \<times> int) \<times> 'a tc_scheme) option" where
  "find_connected_slave E gr s =
     (let (_, s) = connect E (tc_repl s) s in
      do { ((all_conn, current_slave, gr), s) \<leftarrow> foreachM (node_ids (repl s)) (connected_step E) (0, - 1, gr) s;
           let gr = (if all_conn \<noteq> 2 then 1 else gr);
           if current_slave < 0 then None
           else Some ((current_slave, gr), close_connections (tc_repl s) s) })"

definition find_connected_slave1 :: "env \<Rightarrow> 'a tc_scheme \<Rightarrow> (int \<times> 'a tc_scheme) option" where
  "find_connected_slave1 E s =
     (let (_, s) = connect E (tc_repl s) s in
      do { ((_, current_slave, _), s) \<leftarrow> foreachM (node_ids (repl s)) (connected_step E) (0, - 1, 0) s;
           if current_slave < 0 then None
           else Some (current_slave, close_connections (tc_repl s) s) })"

section \<open>Services\<close>

definition service_mismatch :: "env \<Rightarrow> conn option \<Rightarrow> bool \<Rightarrow> 'a tc_scheme \<Rightarrow> int \<times> 'a tc_scheme" where
  "service_mismatch E c expected s =
     (let (rc, s) = execute_query E c ''select 1'' s
      in (if (rc = 0) \<noteq> expected then 1 else 0, s))"

definition test_maxscale_connections ::
  "env \<Rightarrow> bool \<Rightarrow> bool \<Rightarrow> bool \<Rightarrow> 'a tc_scheme \<Rightarrow> int \<times> 'a tc_scheme" where
  "test_maxscale_connections E rw_split rc_master rc_slave s =
     (let (r1, s) = service_mismatch E (tc_conn_rwsplit s) rw_split s;
          (r2, s) = service_mismatch E (tc_conn_master s) rc_master s;
          (r3, s) = service_mismatch E (tc_conn_slave s) rc_slave s
      in (r1 + r2 + r3, s))"

text \<open>
  \<open>create_connections\<close>: four arrays of connections, indexed by service (0 read/write split,
  1 master, 2 slave, 3 Galera) and number. Only the first service is checked for a null
  pointer, the others for an error code.
\<close>

definition service_kinds :: "bool \<Rightarrow> bool \<Rightarrow> bool \<Rightarrow> bool \<Rightarrow> nat list" where
  "service_kinds rw m sl g =
     (if rw then [0] else []) @ (if m then [1] else []) @ (if sl then [2] else []) @ (if g then [3] else [])"

definition service_port :: "nat \<Rightarrow> 'a tc_scheme \<Rightarrow> int" where
  "service_port k s =
     (if k = 0 then tc_rwsplit_port s else if k = 1 then tc_readconn_master_port s
      else if k = 2 then tc_readconn_slave_port s else 4016)"

definition open_one ::
  "env \<Rightarrow> nat \<Rightarrow> nat \<Rightarrow> int \<times> (nat \<Rightarrow> nat \<Rightarrow> conn option) \<Rightarrow> 'a tc_scheme
   \<Rightarrow> (int \<times> (nat \<Rightarrow> nat \<Rightarrow> conn option)) \<times> 'a tc_scheme" where
  "open_one E i k = (\<lambda>(r, conns) s.
     let (c, s) = open_service E (service_port k s) s;
         failed = (if k = 0 then c = None else mysql_errno E c s \<noteq> 0)
     in ((if failed then r + 1 else r, conns(k := (conns k)(i := c))), s))"

definition create_connections ::
  "env \<Rightarrow> nat \<Rightarrow> bool \<Rightarrow> bool \<Rightarrow> bool \<Rightarrow> bool \<Rightarrow> 'a tc_scheme \<Rightarrow> int \<times> 'a tc_scheme" where
  "create_connections E conn_N rwsplit_flag master_flag slave_flag galera_flag s =
     (let kinds = service_kinds rwsplit_flag master_flag slave_flag galera_flag;
          ((r1, conns), s) = foreach [0..<conn_N]
             (\<lambda>i acc s. foreach kinds (open_one E i) acc (set_timeout 20 s)) (0, \<lambda>_ _. None) s;
          (r2, s) = sum_loop [0..<conn_N]
             (\<lambda>i s. sum_loop kinds (\<lambda>k s. execute_query E (conns k i) ''select 1;'' s) (set_timeout 20 s)) s;
          s = do_loop [0..<conn_N]
             (\<lambda>i s. do_loop kinds (\<lambda>k s. mysql_close (conns k i) s) (set_timeout 20 s)) s
      in (r1 + r2, stop_timeout s))"

text \<open>The host of the last process-list row with the test database.\<close>

fun client_host :: "row list \<Rightarrow> string option \<Rightarrow> string option option" where
  "client_host [] ip = Some ip"
| "client_host (r # rs) ip =
     do { h \<leftarrow> row_at r 2; d \<leftarrow> row_at r 3;
          client_host rs (case (h, d) of
             (Some host, Some db) \<Rightarrow> if strstr db ''db_to_check_clent_ip'' \<noteq> None then Some host else ip
           | _ \<Rightarrow> ip) }"

definition get_client_ip ::
  "env \<Rightarrow> 'a tc_scheme \<Rightarrow> ((int \<times> string option) \<times> 'a tc_scheme) option" where
  "get_client_ip E s =
     (let (_, s) = connect_rwsplit E s;
          (rc, s) = execute_query E (tc_conn_rwsplit s) ''CREATE DATABASE IF NOT EXISTS db_to_check_clent_ip'' s
      in if rc \<noteq> 0 then Some ((1, None), s)
         else
           let s = close_rwsplit s;
               (c, s) = open_conn_db E (tc_rwsplit_port s) (tc_maxscale_IP s) ''db_to_check_clent_ip''
                          (tc_maxscale_user s) (tc_maxscale_password s) (tc_ssl s) s
           in do { (ip, s) \<leftarrow>
                     (case c of
                        None \<Rightarrow> Some (None, s)
                      | Some _ \<Rightarrow>
                          (let (rep, s) = mysql_query E c ''show processlist;'' s in
                           case rep of
                             QFail \<Rightarrow> Some (None, s)
                           | QOk r _ \<Rightarrow>
                               (let s = mysql_store c s in
                                case stored r of
                                  None \<Rightarrow> Some (None, s)
                                | Some res \<Rightarrow> do { ip \<leftarrow> client_host (rows res) None; Some (ip, s) })));
                   let s = mysql_close c s;
                   Some ((if ip = None then 1 else 0, ip), s) })"

section \<open>Table t1 through every route\<close>

definition insert_select :: "env \<Rightarrow> int \<Rightarrow> 'a tc_scheme \<Rightarrow> (int \<times> 'a tc_scheme) option" where
  "insert_select E N s =
     (let s = set_timeout 30 s;
          (_, s) = create_t1 E (tc_conn_rwsplit s) s;
          s = set_timeout (N * 16 + 30) s
      in do { (_, s) \<leftarrow> insert_into_t1 E (tc_conn_rwsplit s) N s;
              let s = stop_timeout s;
              s \<leftarrow> sync_slaves E (tc_repl s) 0 s;
              let s = set_timeout 30 s;
              (r1, s) \<leftarrow> select_from_t1 E (tc_conn_rwsplit s) N s;
              let s = set_timeout 30 s;
              (r2, s) \<leftarrow> select_from_t1 E (tc_conn_master s) N s;
              let s = set_timeout 30 s;
              (r3, s) \<leftarrow> select_from_t1 E (tc_conn_slave s) N s;
              Some (r1 + r2 + r3, s) })"

definition use_db :: "env \<Rightarrow> string \<Rightarrow> 'a tc_scheme \<Rightarrow> (int \<times> 'a tc_scheme) option" where
  "use_db E db s =
     (let sql = ''USE '' @ db @ '';''; s = set_timeout 20 s in
      do { (r1, s) \<leftarrow> execute_query_fmt E (tc_conn_rwsplit s) sql s;
           (r2, s) \<leftarrow> execute_query_fmt E (tc_conn_slave s) sql s;
           (r3, s) \<leftarrow> execute_query_fmt E (tc_conn_master s) sql s;
           foreachM (node_ids (repl s))
             (\<lambda>i acc s. do { (r, s) \<leftarrow> execute_query_fmt E (mn_nodes (repl s) i) sql s; Some (acc + r, s) })
             (r1 + r2 + r3) s })"

definition check_t1_on ::
  "env \<Rightarrow> bool \<Rightarrow> ('a tc_scheme \<Rightarrow> conn option) \<Rightarrow> 'a tc_scheme \<Rightarrow> 'a tc_scheme option" where
  "check_t1_on E presence c s =
     (let s = set_timeout 30 s in
      do { (exists, s) \<leftarrow> check_if_t1_exists E (c s) s;
           Some (if exists = (if presence then 1 else 0) then s else add_result 1 s) })"

definition check_t1_table :: "env \<Rightarrow> bool \<Rightarrow> string \<Rightarrow> 'a tc_scheme \<Rightarrow> (int \<times> 'a tc_scheme) option" where
  "check_t1_table E presence db s =
     (let start_result = tc_global_result s in
      do { (r, s) \<leftarrow> use_db E db s;
           let s = stop_timeout (add_result r s);
           s \<leftarrow> sync_slaves E (tc_repl s) 0 s;
           s \<leftarrow> check_t1_on E presence tc_conn_rwsplit s;
           s \<leftarrow> check_t1_on E presence tc_conn_master s;
           s \<leftarrow> check_t1_on E presence tc_conn_slave s;
           s \<leftarrow> do_loopM (node_ids (repl s)) (\<lambda>i. check_t1_on E presence (\<lambda>s. mn_nodes (repl s) i)) s;
           let s = stop_timeout s;
           Some (tc_global_result s - start_result, s) })"

section \<open>Values from maxadmin\<close>

text \<open>
  The text after the parameter's name, on its line: both skipping loops run over characters
  that are not blank, the line's trailing blanks are cut. Running past the end of the output
  has no result; neither has a cut that runs past its start.
\<close>

definition maxadmin_value :: "string \<Rightarrow> string \<Rightarrow> string option option" where
  "maxadmin_value buf param =
     (case strstr buf param of
        None \<Rightarrow> Some None
      | Some x \<Rightarrow>
          (let x = dropWhile (\<lambda>c. \<not> is_space c) (drop (length param) x);
               line = cut_at x newline;
               before = take (length buf - length x) buf @ line
           in if x = [] \<or> strchr x newline = None \<or> (\<forall>c \<in> set before. is_space c) then None
              else Some (Some (rev (dropWhile is_space (rev line))))))"

definition get_maxadmin_param ::
  "env \<Rightarrow> string \<Rightarrow> string \<Rightarrow> 'a tc_scheme \<Rightarrow> ((int \<times> string option) \<times> 'a tc_scheme) option" where
  "get_maxadmin_param E command param s =
     (let (out, s) = ssh_maxscale_output E True (''maxadmin '' @ command) s in
      do { buf \<leftarrow> out;
           v \<leftarrow> maxadmin_value buf param;
           Some (case v of None \<Rightarrow> (1, None) | Some r \<Rightarrow> (0, Some r), s) })"

text \<open>An empty value makes the trimming loop run past the start of the buffer.\<close>

definition check_maxadmin_param ::
  "env \<Rightarrow> string \<Rightarrow> string \<Rightarrow> string \<Rightarrow> 'a tc_scheme \<Rightarrow> (int \<times> 'a tc_scheme) option" where
  "check_maxadmin_param E command param expected s =
     do { ((rc, v), s) \<leftarrow> get_maxadmin_param E command param s;
          if rc = 0
          then do { result \<leftarrow> v;
                    t \<leftarrow> trim_end result;
                    Some (if dropWhile is_space t = expected then 0 else 1, s) }
          else Some (1, s) }"

definition show_server :: "nat \<Rightarrow> string" where
  "show_server i = ''show server server'' @ int_str (int i + 1)"

text \<open>The loop state is \<open>found\<close> and \<open>master\<close>; an unset buffer goes to \<open>strstr\<close>.\<close>

definition master_step ::
  "env \<Rightarrow> nat \<Rightarrow> bool \<times> int \<Rightarrow> 'a tc_scheme \<Rightarrow> ((bool \<times> int) \<times> 'a tc_scheme) option" where
  "master_step E i = (\<lambda>(found, master) s.
     do { ((_, v), s) \<leftarrow> get_maxadmin_param E (show_server i) ''Status'' s;
          res \<leftarrow> v;
          Some (if strstr res ''Master'' \<noteq> None
                then (if found then (found, - 1) else (True, int i))
                else (found, master), s) })"

definition find_master_maxadmin :: "env \<Rightarrow> cid \<Rightarrow> 'a tc_scheme \<Rightarrow> (int \<times> 'a tc_scheme) option" where
  "find_master_maxadmin E nodes s =
     do { ((_, master), s) \<leftarrow> foreachM (node_ids (objs s nodes)) (master_step E) (False, - 1) s;
          Some (master, s) }"

definition slave_step :: "env \<Rightarrow> nat \<Rightarrow> int \<Rightarrow> 'a tc_scheme \<Rightarrow> (int \<times> 'a tc_scheme) option" where
  "slave_step E i slave s =
     do { ((_, v), s) \<leftarrow> get_maxadmin_param E (show_server i) ''Status'' s;
          res \<leftarrow> v;
          Some (if strstr res ''Slave'' \<noteq> None then int i else slave, s) }"

definition find_slave_maxadmin :: "env \<Rightarrow> cid \<Rightarrow> 'a tc_scheme \<Rightarrow> (int \<times> 'a tc_scheme) option" where
  "find_slave_maxadmin E nodes s = foreachM (node_ids (objs s nodes)) (slave_step E) (- 1) s"

definition execute_maxadmin_command :: "env \<Rightarrow> string \<Rightarrow> 'a tc_scheme \<Rightarrow> int \<times> 'a tc_scheme" where
  "execute_maxadmin_command E cmd s = ssh_maxscale E True (''maxadmin '' @ cmd) s"

definition execute_maxadmin_command_print :: "env \<Rightarrow> string \<Rightarrow> 'a tc_scheme \<Rightarrow> int \<times> 'a tc_scheme" where
  "execute_maxadmin_command_print E cmd s =
     (let (_, s) = ssh_maxscale_output E True (''maxadmin '' @ cmd) s in (0, s))"

definition check_current ::
  "env \<Rightarrow> string \<Rightarrow> int \<Rightarrow> 'a tc_scheme \<Rightarrow> 'a tc_scheme option" where
  "check_current E param val s =
     do_loopM (node_ids (repl s))
       (\<lambda>i s. do { (r, s) \<leftarrow> check_maxadmin_param E (show_server i) param (int_str val) s;
                   Some (add_result r s) }) s"

definition check_current_operations :: "env \<Rightarrow> int \<Rightarrow> 'a tc_scheme \<Rightarrow> 'a tc_scheme option" where
  "check_current_operations E val s = check_current E ''Current no. of operations:'' val s"

definition check_current_connections :: "env \<Rightarrow> int \<Rightarrow> 'a tc_scheme \<Rightarrow> 'a tc_scheme option" where
  "check_current_connections E val s = check_current E ''Current no. of conns:'' val s"

text \<open>\<open>sscanf(ps_out, "%d %lu", &pid, &mem)\<close>\<close>

definition get_maxscale_memsize :: "env \<Rightarrow> 'a tc_scheme \<Rightarrow> (int \<times> 'a tc_scheme) option" where
  "get_maxscale_memsize E s =
     (let (out, s) = ssh_maxscale_output E False ''ps -e -o pid,vsz,comm= | grep maxscale'' s in
      do { ps_out \<leftarrow> out;
           Some (case scan_int ps_out of
                   None \<Rightarrow> 0
                 | Some (_, rest) \<Rightarrow> (case scan_int rest of None \<Rightarrow> 0 | Some (mem, _) \<Rightarrow> mem mod 2 ^ 64), s) })"

section \<open>Directories, snapshots, bad configurations\<close>

definition list_dirs :: "env \<Rightarrow> 'a tc_scheme \<Rightarrow> int \<times> 'a tc_scheme" where
  "list_dirs E s =
     (let s = do_loop (node_ids (repl s)) (\<lambda>i s. snd (ssh_node E (tc_repl s) i ''ls -la /var/lib/mysql'' True s)) s;
          (_, s) = ssh_maxscale E True ''ls -la /var/lib/maxscale/'' s
      in (0, s))"

definition take_snapshot :: "env \<Rightarrow> string \<Rightarrow> 'a tc_scheme \<Rightarrow> int \<times> 'a tc_scheme" where
  "take_snapshot E name s = c_system E (tc_take_snapshot_command s @ '' '' @ name) s"

definition revert_snapshot :: "env \<Rightarrow> string \<Rightarrow> 'a tc_scheme \<Rightarrow> int \<times> 'a tc_scheme" where
  "revert_snapshot E name s = c_system E (tc_revert_snapshot_command s @ '' '' @ name) s"

definition bad_config_cmd :: string where
  "bad_config_cmd =
     ''cp maxscale.cnf /etc/maxscale.cnf; service maxscale stop; '' @
     ''maxscale -U maxscale -lstdout &> /dev/null && sleep 1 && pkill -9 maxscale''"

definition test_bad_config :: "env \<Rightarrow> string \<Rightarrow> 'a tc_scheme \<Rightarrow> bool \<times> 'a tc_scheme" where
  "test_bad_config E config s =
     (let s = process_template E config ''./'' s;
          s = set_timeout 20 s;
          (rc, s) = ssh_maxscale E True bad_config_cmd s
      in (rc = 0, s))"

end
