(* ===== verification/Test_Ctor.thy ===== *)
theory Test_Ctor
  imports Test_Checks
begin

text \<open>
  The constructor and the destructor of \<open>TestConnections\<close>. \<open>getopt_long\<close> is part of the C
  library: the constructor's argument is what it delivered, the sequence of option
  characters, the first operand and the program name. The result is \<^const>\<open>Inl\<close> with the exit
  code when the process exits, \<^const>\<open>Inr\<close> when the object is ready; \<^const>\<open>None\<close> is undefined
  behaviour of one of the calls. The two node objects get the addresses \<open>a\<close> and \<open>b\<close>.
  \<open>chdir\<close>, \<open>setenv\<close> and the start of the two threads (theory \<open>Watchdog\<close>) change nothing
  that is modelled here.
\<close>

text \<open>The option loop: the flags \<open>maxscale_init\<close> and \<open>restart_galera\<close>, and the exit of \<open>-h\<close>.\<close>

fun read_options :: "string \<Rightarrow> bool \<times> bool \<Rightarrow> 'a tc_scheme \<Rightarrow> (int + bool \<times> bool) \<times> 'a tc_scheme" where
  "read_options [] fl s = (Inr fl, s)"
| "read_options (c # cs) (init, restart) s =
     (if c = CHR ''v'' then read_options cs (init, restart) (s\<lparr>tc_verbose := True\<rparr>)
      else if c = CHR ''n'' then read_options cs (init, restart) (s\<lparr>tc_verbose := False\<rparr>)
      else if c = CHR ''h'' then (Inl 0, s)
      else if c = CHR ''s'' then read_options cs (init, restart) (s\<lparr>ms_start := False\<rparr>)
      else if c = CHR ''i'' then read_options cs (False, restart) s
      else if c = CHR ''r'' then read_options cs (init, restart) (s\<lparr>ms_check_nodes := False\<rparr>)
      else if c = CHR ''g'' then read_options cs (init, True) s
      else if c = CHR ''z'' then read_options cs (init, restart) (s\<lparr>tc_enable_timeouts := False\<rparr>)
      else if c = CHR ''y'' then read_options cs (init, restart) (s\<lparr>tc_no_galera := True\<rparr>)
      else read_options cs (init, restart) s)"

definition basename :: "string \<Rightarrow> string" where
  "basename path = rev (takeWhile (\<lambda>c. c \<noteq> CHR ''/'') (rev path))"

text \<open>The initialisers, \<open>read_env\<close>, and the switch that turns Galera off.\<close>

definition construct_tc :: "env \<Rightarrow> 'a tc_scheme \<Rightarrow> 'a tc_scheme" where
  "construct_tc E s =
     (let s = s\<lparr>tc_no_backend_log_copy := False, tc_use_snapshots := False, tc_verbose := False,
                tc_rwsplit_port := 4006, tc_readconn_master_port := 4008, tc_readconn_slave_port := 4009,
                tc_binlog_port := 5306, tc_global_result := 0, tc_binlog_cmd_option := 0,
                tc_enable_timeouts := True, tc_use_ipv6 := False, tc_no_galera := False\<rparr>;
          s = tc_read_env E s
      in if env_or E ''galera_000_network'' '''' = '''' then s\<lparr>tc_no_galera := True\<rparr> else s)"

text \<open>\<open>repl = new Mariadb_nodes\<close>; \<open>galera\<close> is a second object or the same one.\<close>

definition new_node_objects :: "env \<Rightarrow> cid \<Rightarrow> cid \<Rightarrow> 'a tc_scheme \<Rightarrow> 'a tc_scheme option" where
  "new_node_objects E a b s =
     do { s \<leftarrow> mariadb_nodes_init E a Mariadb_class ''node'' (cf_test_dir E) (tc_verbose s) s;
          let s = s\<lparr>tc_repl := a\<rparr>;
          s \<leftarrow> (if \<not> tc_no_galera s
                then do { s \<leftarrow> mariadb_nodes_init E b Galera_class ''galera'' (cf_test_dir E) (tc_verbose s) s;
                          Some (upd b (\<lambda>ob. ob\<lparr>mn_use_ipv6 := False\<rparr>) (s\<lparr>tc_galera := b\<rparr>)) }
                else Some (s\<lparr>tc_galera := a\<rparr>));
          Some (upd (tc_repl s) (\<lambda>ob. ob\<lparr>mn_use_ipv6 := tc_use_ipv6 s\<rparr>) s) }"

text \<open>The version requirement of one cluster: false if the test is to be skipped.\<close>

definition version_suffices :: "env \<Rightarrow> string \<Rightarrow> cid \<Rightarrow> 'a tc_scheme \<Rightarrow> (bool \<times> 'a tc_scheme) option" where
  "version_suffices E required obj s =
     (if required = '''' then Some (True, s)
      else do { ver_required \<leftarrow> get_int_version required;
                (ver, s) \<leftarrow> get_lowest_version E obj s;
                int_ver \<leftarrow> get_int_version ver;
                Some (\<not> int_ver < ver_required, s) })"

text \<open>
  Snapshot or repair: true if the process is to exit with 200. The exit status of the
  snapshot command is taken as a truth value, so failing to revert skips the repair.
\<close>

definition prepare_backends :: "env \<Rightarrow> 'a tc_scheme \<Rightarrow> (bool \<times> 'a tc_scheme) option" where
  "prepare_backends E s =
     (let (snapshot_reverted, s) =
            (if tc_use_snapshots s then (let (rc, s) = revert_snapshot E ''clean'' s in (rc \<noteq> 0, s))
             else (False, s))
      in if \<not> snapshot_reverted \<and> ms_check_nodes s
         then do { (ok, s) \<leftarrow> fix_replication E (tc_repl s) s;
                   if \<not> ok then Some (True, s)
                   else if \<not> tc_no_galera s
                   then do { (ok, s) \<leftarrow> fix_replication E (tc_galera s) s; Some (\<not> ok, s) }
                   else Some (False, s) }
         else Some (False, s))"

definition configure_backend_ssl :: "env \<Rightarrow> 'a tc_scheme \<Rightarrow> 'a tc_scheme" where
  "configure_backend_ssl E s =
     (let (_, s) = configure_ssl E (tc_repl s) True s
      in if \<not> tc_no_galera s
         then (let (_, s) = configure_ssl E (tc_galera s) False s;
                   (_, s) = start_replication E (tc_galera s) s
               in s)
         else s)"

text \<open>What the constructor does once the versions are known to suffice.\<close>

definition prepare_test ::
  "env \<Rightarrow> bool \<Rightarrow> bool \<Rightarrow> 'a tc_scheme \<Rightarrow> ((int + unit) \<times> 'a tc_scheme) option" where
  "prepare_test E maxscale_init restart_galera s =
     (let s = (if restart_galera \<and> \<not> tc_no_galera s
               then (let (_, s) = stop_nodes E (tc_galera s) s;
                         (_, s) = start_replication E (tc_galera s) s in s)
               else s)
      in do { (broken, s) \<leftarrow> prepare_backends E s;
              if broken then Some (Inl 200, s)
              else do {
                let s = (if maxscale_init then init_maxscale E s else s);
                let s = (if tc_backend_ssl s then configure_backend_ssl E s else s);
                let (_, s) = c_system E (''mkdir -p LOGS/'' @ tc_test_name s) s;
                let s = s\<lparr>tc_timeout := 999999999\<rparr>;
                Some (Inr (), set_log_copy_interval 999999999 s) } })"

definition test_connections_init ::
  "env \<Rightarrow> cid \<Rightarrow> cid \<Rightarrow> string \<Rightarrow> string option \<Rightarrow> string \<Rightarrow> 'a tc_scheme
   \<Rightarrow> ((int + unit) \<times> 'a tc_scheme) option" where
  "test_connections_init E a b opts operand argv0 s =
     (let (fl, s) = read_options opts (True, False) (construct_tc E s) in
      case fl of
        Inl code \<Rightarrow> Some (Inl code, s)
      | Inr (maxscale_init, restart_galera) \<Rightarrow>
          (let s = s\<lparr>tc_test_name := (case operand of Some n \<Rightarrow> n | None \<Rightarrow> basename argv0)\<rparr>;
               s = s\<lparr>tc_get_logs_command := cf_test_dir E @ ''/get_logs.sh''\<rparr>
           in do { s \<leftarrow> new_node_objects E a b s;
                   (ok, s) \<leftarrow> version_suffices E (ms_required_repl_version s) (tc_repl s) s;
                   if \<not> ok then Some (Inl 0, s)
                   else do { (ok, s) \<leftarrow> version_suffices E (ms_required_galera_version s) (tc_galera s) s;
                   if \<not> ok then Some (Inl 0, s)
                   else prepare_test E maxscale_init restart_galera s } }))"

definition test_connections_destroy :: "env \<Rightarrow> 'a tc_scheme \<Rightarrow> 'a tc_scheme option" where
  "test_connections_destroy E s =
     (let s = (if tc_backend_ssl s then snd (disable_ssl E (tc_repl s) s) else s) in
      do { (_, s) \<leftarrow> copy_all_logs E s;
           let s = (if tc_global_result s \<noteq> 0 then snd (revert_snapshot E ''clean'' s) else s);
           let s = mariadb_nodes_destroy E (tc_repl s) s;
           Some (if \<not> tc_no_galera s then mariadb_nodes_destroy E (tc_galera s) s else s) })"

end
