(* ===== verification/Watchdog.thy ===== *)
theory Watchdog
  imports Test_Ctor
begin

text \<open>
  The two threads the constructor starts: \<open>timeout_thread\<close> counts \<open>timeout\<close> down once a second
  and ends the process with exit code 250 when it is used up, \<open>log_copy_thread\<close> copies the
  logs each time its own counter runs out. They share the counters with the main thread, which
  sets them at any moment. The state machine below interleaves the three: a step is one
  access of one thread to the shared counters, taken as atomic.
\<close>

text \<open>Where a counting thread is: at its loop test, or in \<open>nanosleep\<close>.\<close>

datatype pc = At_test | Sleeping

record watch =
  w_enable :: bool
  w_timeout :: int
  w_pc :: pc
  w_exit :: "int option"
  w_interval :: int
  w_to_go :: int
  w_log_pc :: pc
  w_copies :: nat

text \<open>The counters of the object, as the constructor leaves them when it starts the threads.\<close>

definition watch_of :: "'a tc_scheme \<Rightarrow> watch" where
  "watch_of s = \<lparr>w_enable = tc_enable_timeouts s, w_timeout = tc_timeout s, w_pc = At_test,
     w_exit = None, w_interval = tc_log_copy_interval s, w_to_go = tc_log_copy_to_go s,
     w_log_pc = At_test, w_copies = 0\<rparr>"

text \<open>
  The steps: the main thread's \<open>set_timeout(n)\<close>, \<open>stop_timeout\<close>, \<open>set_log_copy_interval(n)\<close>;
  the timeout thread's test and its decrement after the sleep; the same for the log thread.
\<close>

datatype action =
    Set_timeout int | Stop_timeout | Set_interval int
  | Timer_test | Timer_tick | Log_test | Log_tick

fun watch_next :: "watch \<Rightarrow> action \<Rightarrow> watch option" where
  "watch_next w (Set_timeout n) = Some (if w_enable w then w\<lparr>w_timeout := n\<rparr> else w)"
| "watch_next w Stop_timeout = Some (w\<lparr>w_timeout := 999999999\<rparr>)"
| "watch_next w (Set_interval n) = Some (w\<lparr>w_to_go := n, w_interval := n\<rparr>)"
| "watch_next w Timer_test =
     (if w_pc w \<noteq> At_test then None
      else if 0 < w_timeout w then Some (w\<lparr>w_pc := Sleeping\<rparr>)
      else Some (w\<lparr>w_exit := Some 250\<rparr>))"
| "watch_next w Timer_tick =
     (if w_pc w \<noteq> Sleeping then None
      else Some (w\<lparr>w_timeout := w_timeout w - 1, w_pc := At_test\<rparr>))"
| "watch_next w Log_test =
     (if w_log_pc w \<noteq> At_test then None
      else if 0 < w_to_go w then Some (w\<lparr>w_log_pc := Sleeping\<rparr>)
      else Some (w\<lparr>w_to_go := w_interval w, w_copies := Suc (w_copies w)\<rparr>))"
| "watch_next w Log_tick =
     (if w_log_pc w \<noteq> Sleeping then None
      else Some (w\<lparr>w_to_go := w_to_go w - 1, w_log_pc := At_test\<rparr>))"

text \<open>A run: no step after the process has exited.\<close>

inductive watch_run :: "watch \<Rightarrow> action list \<Rightarrow> watch \<Rightarrow> bool" where
  start: "watch_run w [] w"
| step: "watch_run w as u \<Longrightarrow> w_exit u = None \<Longrightarrow> watch_next u a = Some v \<Longrightarrow> watch_run w (as @ [a]) v"

inductive_cases watch_runE: "watch_run w as v"

text \<open>
  The budget of a run: what the last effective \<open>set_timeout\<close> or \<open>stop_timeout\<close> set (the initial
  value before any), less the ticks since.
\<close>

fun budget_step :: "bool \<Rightarrow> int \<Rightarrow> action \<Rightarrow> int" where
  "budget_step en b (Set_timeout n) = (if en then n else b)"
| "budget_step en b Stop_timeout = 999999999"
| "budget_step en b Timer_tick = b - 1"
| "budget_step en b _ = b"

definition budget :: "bool \<Rightarrow> int \<Rightarrow> action list \<Rightarrow> int" where
  "budget en b as = foldl (budget_step en) b as"

definition ticks :: "action list \<Rightarrow> nat" where
  "ticks as = length (filter (\<lambda>a. a = Timer_tick) as)"

lemma budget_snoc [simp]: "budget en b (as @ [a]) = budget_step en (budget en b as) a"
  by (simp add: budget_def)

text \<open>The counter is the budget, and the process has exited only if the budget is used up.\<close>

lemma watch_invariant:
  "watch_run w as v \<Longrightarrow> w_exit w = None \<Longrightarrow>
     w_enable v = w_enable w \<and> w_timeout v = budget (w_enable w) (w_timeout w) as \<and>
     (w_exit v \<noteq> None \<longrightarrow> w_exit v = Some 250 \<and> w_timeout v \<le> 0)"
proof (induction rule: watch_run.induct)
  case (start w)
  then show ?case by (simp add: budget_def)
next
  case (step w as u a v)
  then show ?case by (cases a) (auto split: if_splits)
qed

lemma budget_since_set:
  assumes "\<forall>a \<in> set as. a \<noteq> Stop_timeout \<and> (\<forall>n. a \<noteq> Set_timeout n)"
  shows "budget en b as = b - int (ticks as)"
  using assms
proof (induction as rule: rev_induct)
  case Nil
  then show ?case by (simp add: budget_def ticks_def)
next
  case (snoc a as)
  then show ?case by (cases a) (auto simp: ticks_def)
qed

lemma watch_run_split:
  "watch_run w (as @ bs) v \<Longrightarrow> \<exists>u. watch_run w as u \<and> watch_run u bs v"
proof (induction bs arbitrary: v rule: rev_induct)
  case Nil
  then show ?case using watch_run.start by auto
next
  case (snoc b bs)
  from snoc.prems obtain t where "watch_run w (as @ bs) t" "w_exit t = None" "watch_next t b = Some v"
    by (cases rule: watch_runE) (auto simp flip: append_assoc)
  with snoc.IH show ?case using watch_run.step by blast
qed

end
