(* ===== verification/Watchdog_Props.thy ===== *)
theory Watchdog_Props
  imports Watchdog
begin

text \<open>
  The properties of the watchdog: it never ends a test early, and it does end one that has
  used up its time.
\<close>


definition fresh_watch :: "int \<Rightarrow> watch" where
  "fresh_watch n = \<lparr>w_enable = True, w_timeout = n, w_pc = At_test, w_exit = None, w_interval = 5,
     w_to_go = 5, w_log_pc = At_test, w_copies = 0\<rparr>"

lemma one_second_run:
  "watch_run (fresh_watch 99) ([] @ Set_timeout 1 # [Timer_test, Timer_tick, Timer_test])
     (fresh_watch 0\<lparr>w_exit := Some 250\<rparr>)"
proof -
  have "watch_run (fresh_watch 99) [] (fresh_watch 99)" by (rule watch_run.start)
  from watch_run.step[OF this, of "Set_timeout 1"]
  have "watch_run (fresh_watch 99) [Set_timeout 1] (fresh_watch 1)" by (simp add: fresh_watch_def)
  from watch_run.step[OF this, of Timer_test]
  have "watch_run (fresh_watch 99) [Set_timeout 1, Timer_test] (fresh_watch 1\<lparr>w_pc := Sleeping\<rparr>)"
    by (simp add: fresh_watch_def)
  from watch_run.step[OF this, of Timer_tick]
  have "watch_run (fresh_watch 99) [Set_timeout 1, Timer_test, Timer_tick] (fresh_watch 0)"
    by (simp add: fresh_watch_def)
  from watch_run.step[OF this, of Timer_test] show ?thesis by (simp add: fresh_watch_def)
qed




lemma budget_disabled:
  "budget False 999999999 as \<ge> 999999999 - int (ticks as)"
proof (induction as rule: rev_induct)
  case Nil
  then show ?case by (simp add: budget_def)
next
  case (snoc a as)
  then show ?case by (cases a) (auto simp: ticks_def)
qed

text \<open>
  With timeouts disabled the test's calls of \<open>set_timeout\<close> have no effect, in the object
  and in the counters the watchdog sees: a test that starts with the constructor's value is
  not ended before 999999999 sleeps of the timeout thread.
\<close>

theorem disabled_timeouts:
  assumes "\<not> tc_enable_timeouts s" "tc_timeout s = 999999999"
  shows "set_timeout n s = s \<and>
    (\<forall>as v. watch_run (watch_of s) as v \<and> w_exit v \<noteq> None \<longrightarrow> 999999999 \<le> ticks as)"
proof -
  have "999999999 \<le> ticks as" if "watch_run (watch_of s) as v" "w_exit v \<noteq> None" for as v
  proof -
    have "w_timeout v = budget False 999999999 as \<and> w_timeout v \<le> 0"
      using watch_invariant[OF that(1)] that(2) assms by (simp add: watch_of_def)
    then have "999999999 - int (ticks as) \<le> 0" using budget_disabled[of as] by linarith
    then show ?thesis by linarith
  qed
  then show ?thesis using assms(1) by (auto simp: set_timeout_def)
qed

definition blank_tc :: tc where
  "blank_tc = \<lparr>trace = [], objs = (\<lambda>_. undefined), t1_sql = (\<lambda>_. None), tc_global_result = 0,
     tc_test_name = ''t'', tc_rwsplit_port = 4006, tc_readconn_master_port = 4008,
     tc_readconn_slave_port = 4009, tc_binlog_port = 5306, tc_conn_rwsplit = None, tc_conn_master = None,
     tc_conn_slave = None, tc_routers = (\<lambda>_. None), tc_galera = 0, tc_repl = 0,
     tc_maxscale_IP = ''127.0.0.1'', tc_maxscale_IP6 = [], tc_use_ipv6 = False, tc_maxscale_hostname = [],
     tc_maxscale_user = [], tc_maxscale_password = [], tc_maxadmin_password = [], tc_maxscale_keyfile = [],
     tc_get_logs_command = [], tc_take_snapshot_command = ''exit 1'', tc_revert_snapshot_command = ''exit 1'',
     tc_use_snapshots = False, tc_sysbench_dir = [], tc_maxscale_cnf = [], tc_maxscale_log_dir = [],
     tc_maxscale_binlog_dir = [], tc_access_user = [], tc_access_homedir = [], tc_access_sudo = [],
     tc_no_backend_log_copy = False, tc_verbose = False, tc_smoke = False, tc_binlog_cmd_option = 0,
     tc_ssl = False, tc_backend_ssl = False, tc_no_galera = True, tc_threads = 4, tc_enable_timeouts = False,
     tc_timeout = 999999999, tc_log_copy_interval = 999999999, tc_log_copy_to_go = 999999999,
     ms_start = True, ms_check_nodes = True, ms_required_repl_version = [], ms_required_galera_version = []\<rparr>"

theorem disabled_timeouts_witness:
  "set_timeout 5 blank_tc = blank_tc"
  using disabled_timeouts[of blank_tc 5] by (simp add: blank_tc_def)

end
