(* ===== verification/Test_Lemmas.thy ===== *)
theory Test_Lemmas
  imports Test_Ctor
begin

text \<open>
  Frame lemmas for the test object: what only adds events to the log keeps its fields, and
  the exact effect of running a statement, a command on the MaxScale machine and opening a
  connection.
\<close>

lemma tc_emits [simp]:
  "tc_global_result (emits es s) = tc_global_result s"
  "tc_conn_rwsplit (emits es s) = tc_conn_rwsplit s"
  "tc_conn_master (emits es s) = tc_conn_master s"
  "tc_conn_slave (emits es s) = tc_conn_slave s"
  "tc_routers (emits es s) = tc_routers s"
  "tc_repl (emits es s) = tc_repl s"
  "tc_galera (emits es s) = tc_galera s"
  "tc_timeout (emits es s) = tc_timeout s"
  "tc_enable_timeouts (emits es s) = tc_enable_timeouts s"
  "tc_maxscale_IP (emits es s) = tc_maxscale_IP s"
  "tc_verbose (emits es s) = tc_verbose s"
  "ms_check_nodes (emits es s) = ms_check_nodes s"
  "objs (emits es s) = objs s"
  by (simp_all add: emits_def)

lemma tc_add_result [simp]:
  "tc_global_result (add_result r s) = tc_global_result s + r"
  "tc_conn_rwsplit (add_result r s) = tc_conn_rwsplit s"
  "tc_conn_master (add_result r s) = tc_conn_master s"
  "tc_conn_slave (add_result r s) = tc_conn_slave s"
  "tc_timeout (add_result r s) = tc_timeout s"
  "trace (add_result r s) = trace s"
  by (simp_all add: add_result_def)

lemma tc_set_timeout [simp]:
  "tc_global_result (set_timeout n s) = tc_global_result s"
  "tc_conn_rwsplit (set_timeout n s) = tc_conn_rwsplit s"
  "tc_conn_master (set_timeout n s) = tc_conn_master s"
  "tc_conn_slave (set_timeout n s) = tc_conn_slave s"
  "trace (set_timeout n s) = trace s"
  by (simp_all add: set_timeout_def)

lemma tc_stop_timeout [simp]:
  "tc_global_result (stop_timeout s) = tc_global_result s"
  "tc_conn_rwsplit (stop_timeout s) = tc_conn_rwsplit s"
  "tc_conn_master (stop_timeout s) = tc_conn_master s"
  "tc_conn_slave (stop_timeout s) = tc_conn_slave s"
  "tc_timeout (stop_timeout s) = 999999999"
  "trace (stop_timeout s) = trace s"
  by (simp_all add: stop_timeout_def)

text \<open>One statement: its code, and the events it adds.\<close>

definition accepted :: "env \<Rightarrow> hist \<Rightarrow> conn option \<Rightarrow> string \<Rightarrow> bool" where
  "accepted E h c sql \<longleftrightarrow> c \<noteq> None \<and> my_query E h c sql \<noteq> QFail"

definition statement_events :: "env \<Rightarrow> hist \<Rightarrow> conn option \<Rightarrow> string \<Rightarrow> hist" where
  "statement_events E h c sql =
     (case c of None \<Rightarrow> []
      | Some _ \<Rightarrow> EQuery c sql # (case my_query E h c sql of
                                    QFail \<Rightarrow> [] | QOk r rs \<Rightarrow> fetch_events c (Suc (length rs))))"

lemma execute_query1_effect:
  "execute_query1 E c sql silent s =
     (if accepted E (trace s) c sql then 0 else 1, emits (statement_events E (trace s) c sql) s)"
  by (auto simp: execute_query1_eq accepted_def statement_events_def split: option.splits reply.splits)

lemma try_query_effect:
  "try_query E c sql s =
     (let r = (if accepted E (trace s) c sql then 0 else 1)
      in (r, add_result r (emits (statement_events E (trace s) c sql) s)))"
  by (simp add: try_query_def execute_query1_effect)

text \<open>A command on the MaxScale machine and its output.\<close>

lemma ssh_maxscale_output_eq:
  "ssh_maxscale_output E sudo sys s =
     (map_option fst (sh_read E (trace s) (tc_generate_ssh_cmd s sys sudo)),
      emits [EPopenR (tc_generate_ssh_cmd s sys sudo)] s)"
  by (simp add: ssh_maxscale_output_def popen_read_def emit_emits)

lemma ssh_cmd_emits [simp]: "tc_generate_ssh_cmd (emits es s) = tc_generate_ssh_cmd s"
  by (intro ext) (simp add: tc_generate_ssh_cmd_def tc_ssh_prefix_def emits_def)

lemma extends_ssh_maxscale_output [log_extends]: "extends s (snd (ssh_maxscale_output E sudo sys s))"
  by (simp add: ssh_maxscale_output_eq)

lemma extends_ssh_maxscale [log_extends]: "extends s (snd (ssh_maxscale E sudo sys s))"
  by (simp add: ssh_maxscale_def popen_write_def emit_emits Let_def split_def)

lemma extends_copy_maxscale [log_extends]:
  "extends s (snd (copy_to_maxscale E src dest s))"
  "extends s (snd (copy_from_maxscale E src dest s))"
  by (simp_all add: copy_to_maxscale_def copy_from_maxscale_def c_system_def)

lemma tc_config_extends:
  assumes "extends s t"
  shows "objs t = objs s" "tc_repl t = tc_repl s" "tc_global_result t = tc_global_result s"
    "tc_timeout t = tc_timeout s" "tc_enable_timeouts t = tc_enable_timeouts s"
    "tc_conn_rwsplit t = tc_conn_rwsplit s" "tc_conn_master t = tc_conn_master s"
    "tc_conn_slave t = tc_conn_slave s"
  using assms by (auto simp: extends_def)

lemma tc_mysql_close [simp]: "mysql_close c s = emits [EClose c] s"
  by (simp add: mysql_close_def emit_emits)

lemma connect_service_extends:
  "extends s (snd (open_conn E port ip user pw ssl s))"
  by (rule extends_open_conns)

lemma connect_one_frame:
  "tc_global_result (snd (connect_rwsplit E s)) = tc_global_result s"
  "tc_global_result (snd (connect_readconn_master E s)) = tc_global_result s"
  "tc_global_result (snd (connect_readconn_slave E s)) = tc_global_result s"
  "0 \<le> fst (connect_rwsplit E s)" "0 \<le> fst (connect_readconn_master E s)"
  "0 \<le> fst (connect_readconn_slave E s)"
  "\<exists>es. trace (snd (connect_rwsplit E s)) = trace s @ es"
  "\<exists>es. trace (snd (connect_readconn_master E s)) = trace s @ es"
  "\<exists>es. trace (snd (connect_readconn_slave E s)) = trace s @ es"
  using tc_config_extends(3)[OF connect_service_extends] extends_trace[OF connect_service_extends]
  by (simp_all add: connect_rwsplit_def connect_readconn_master_def connect_readconn_slave_def
      Let_def split_def)

lemma connect_maxscale_frame:
  "tc_global_result (snd (connect_maxscale E s)) = tc_global_result s \<and>
   0 \<le> fst (connect_maxscale E s) \<and> (\<exists>es. trace (snd (connect_maxscale E s)) = trace s @ es)"
proof -
  define s1 where "s1 = snd (connect_rwsplit E s)"
  define s2 where "s2 = snd (connect_readconn_master E s1)"
  have "connect_maxscale E s = (fst (connect_rwsplit E s) + fst (connect_readconn_master E s1) +
      fst (connect_readconn_slave E s2), snd (connect_readconn_slave E s2))"
    by (simp add: connect_maxscale_def s1_def s2_def split_def Let_def)
  moreover have "\<exists>es. trace (snd (connect_readconn_slave E s2)) = trace s @ es"
    using connect_one_frame(7)[of E s] connect_one_frame(8)[of E s1] connect_one_frame(9)[of E s2]
    by (metis append.assoc s1_def s2_def)
  ultimately show ?thesis
    using connect_one_frame(1,4)[where s = s and E = E] connect_one_frame(2,5)[where s = s1 and E = E]
      connect_one_frame(3,6)[where s = s2 and E = E] by (simp add: s1_def s2_def)
qed

lemma check_maxscale_processes_effect:
  assumes "check_maxscale_processes E n s = Some (r, s')"
  shows "\<exists>k es. 0 \<le> k \<and> k \<le> 1 \<and> s' = add_result k (emits es s)"
proof -
  have "(\<exists>es. s' = emits es s) \<or> (\<exists>es. s' = add_result 1 (emits es s))"
    using assms
    by (auto simp: check_maxscale_processes_def ssh_maxscale_output_eq c_sleep_def emit_emits Let_def
        Option.bind_eq_Some_conv split: option.splits if_splits)
  moreover have "add_result 0 t = t" for t :: "'a tc_scheme" by (simp add: add_result_def)
  ultimately show ?thesis by (metis order_refl zero_le_one)
qed

text \<open>A statement on a connection, as a step of a test.\<close>

lemma try_query_stepE:
  assumes "try_query E c sql s = (r, t)"
  obtains es where "0 \<le> r" "tc_global_result t = tc_global_result s + r" "trace t = trace s @ es"
    "tc_conn_rwsplit t = tc_conn_rwsplit s" "tc_conn_master t = tc_conn_master s"
    "tc_conn_slave t = tc_conn_slave s" "r = 0 \<Longrightarrow> c \<noteq> None \<and> EQuery c sql \<in> set es"
proof (rule that)
  show "trace t = trace s @ statement_events E (trace s) c sql"
    using assms by (auto simp: try_query_effect Let_def)
  show "r = 0 \<Longrightarrow> c \<noteq> None \<and> EQuery c sql \<in> set (statement_events E (trace s) c sql)"
    using assms by (auto simp: try_query_effect Let_def accepted_def statement_events_def
        split: option.splits if_splits)
qed (use assms in \<open>auto simp: try_query_effect Let_def\<close>)

text \<open>An operation on a node object changes no field of the test object.\<close>

lemma tc_same_more:
  fixes s t :: "'a tc_scheme"
  assumes "sys.more t = sys.more s"
  shows "t = s\<lparr>trace := trace t, objs := objs t\<rparr>"
  by (rule sys.equality) (simp_all add: assms)

lemma tc_node_step:
  fixes s t :: "'a tc_scheme"
  assumes "node_step this s t"
  shows "tc_repl t = tc_repl s" "tc_galera t = tc_galera s" "tc_global_result t = tc_global_result s"
    "tc_no_galera t = tc_no_galera s" "ms_required_repl_version t = ms_required_repl_version s"
    "ms_required_galera_version t = ms_required_galera_version s"
proof -
  have "t = s\<lparr>trace := trace t, objs := objs t\<rparr>"
    using assms tc_same_more by (auto simp: node_step_def)
  then obtain h ob where "t = s\<lparr>trace := h, objs := ob\<rparr>" by blast
  then show "tc_repl t = tc_repl s" "tc_galera t = tc_galera s" "tc_global_result t = tc_global_result s"
    "tc_no_galera t = tc_no_galera s" "ms_required_repl_version t = ms_required_repl_version s"
    "ms_required_galera_version t = ms_required_galera_version s" by simp_all
qed

end
