(* ===== verification/Test_Props.thy ===== *)
theory Test_Props
  imports Test_Lemmas Watchdog_Props Nodes_Props "HOL-Library.Multiset"
begin

text \<open>
  The properties of the test object: how failures reach the test's result, what is read from
  maxadmin, waiting for MaxScale, mass connections, setting up the binlog router and the
  outcome of the constructor.
\<close>

section \<open>The result of a test\<close>

text \<open>
  \<open>try_query_all\<close> runs the statement on the three services and has a result whenever the
  text contains no percent sign. It returns the number of services that did not accept the
  statement and adds exactly this number to the test's result; it returns 0 only if each of
  the three connections exists and was sent the statement.
\<close>

theorem try_query_all_accounts:
  assumes "CHR ''%'' \<notin> set sql"
  shows "\<exists>r s' es. try_query_all E sql s = Some (r, s') \<and> 0 \<le> r \<and> r \<le> 3 \<and>
    tc_global_result s' = tc_global_result s + r \<and> trace s' = trace s @ es \<and>
    (r = 0 \<longrightarrow> (\<forall>c \<in> {tc_conn_rwsplit s, tc_conn_master s, tc_conn_slave s}. c \<noteq> None \<and> EQuery c sql \<in> set es))"
  using assms
  by (auto simp: try_query_all_def try_query_fmt_def c_format0_plain try_query_effect Let_def
      accepted_def statement_events_def split: option.splits)

theorem try_query_all_accounts_witness:
  "\<exists>r s' es. try_query_all dead_env ''SELECT 1'' blank_tc = Some (r, s') \<and> tc_global_result s' = tc_global_result blank_tc + r \<and> trace s' = trace blank_tc @ es"
  using try_query_all_accounts[of "''SELECT 1''" dead_env blank_tc] by auto

text \<open>The three statements of \<open>check_maxscale_alive\<close> and the closing of the connections.\<close>

lemma alive_statements:
  assumes q2: "try_query E (tc_conn_rwsplit s1) sql (set_timeout 10 (add_result r1 s1)) = (r2, s2)"
    and q3: "try_query E (tc_conn_master s2) sql (set_timeout 10 s2) = (r3, s3)"
    and q4: "try_query E (tc_conn_slave s3) sql (set_timeout 10 s3) = (r4, s4)"
  shows "\<exists>es. let s5 = close_maxscale_connections (set_timeout 10 s4) in
    trace s5 = trace s1 @ es \<and> 0 \<le> r2 + r3 + r4 \<and>
    tc_global_result s4 = tc_global_result s1 + (r1 + r2 + r3 + r4) \<and> tc_global_result s5 = tc_global_result s4 \<and>
    (r2 + r3 + r4 = 0 \<longrightarrow> (\<forall>c \<in> {tc_conn_rwsplit s5, tc_conn_master s5, tc_conn_slave s5}.
       c \<noteq> None \<and> EQuery c sql \<in> set es \<and> EClose c \<in> set es))"
proof -
  obtain e2 where e2: "0 \<le> r2" "tc_global_result s2 = tc_global_result s1 + r1 + r2" "trace s2 = trace s1 @ e2"
      "tc_conn_rwsplit s2 = tc_conn_rwsplit s1" "tc_conn_master s2 = tc_conn_master s1" "tc_conn_slave s2 = tc_conn_slave s1"
      "r2 = 0 \<Longrightarrow> tc_conn_rwsplit s1 \<noteq> None \<and> EQuery (tc_conn_rwsplit s1) sql \<in> set e2"
    using q2 by (rule try_query_stepE) simp
  obtain e3 where e3: "0 \<le> r3" "tc_global_result s3 = tc_global_result s2 + r3" "trace s3 = trace s2 @ e3"
      "tc_conn_rwsplit s3 = tc_conn_rwsplit s2" "tc_conn_master s3 = tc_conn_master s2" "tc_conn_slave s3 = tc_conn_slave s2"
      "r3 = 0 \<Longrightarrow> tc_conn_master s2 \<noteq> None \<and> EQuery (tc_conn_master s2) sql \<in> set e3"
    using q3 by (rule try_query_stepE) simp
  obtain e4 where e4: "0 \<le> r4" "tc_global_result s4 = tc_global_result s3 + r4" "trace s4 = trace s3 @ e4"
      "tc_conn_rwsplit s4 = tc_conn_rwsplit s3" "tc_conn_master s4 = tc_conn_master s3" "tc_conn_slave s4 = tc_conn_slave s3"
      "r4 = 0 \<Longrightarrow> tc_conn_slave s3 \<noteq> None \<and> EQuery (tc_conn_slave s3) sql \<in> set e4"
    using q4 by (rule try_query_stepE) simp
  let ?es = "e2 @ e3 @ e4 @ [EClose (tc_conn_master s1), EClose (tc_conn_slave s1), EClose (tc_conn_rwsplit s1)]"
  define s5 where "s5 = close_maxscale_connections (set_timeout 10 s4)"
  have s5: "tc_global_result s5 = tc_global_result s4" "trace s5 = trace s1 @ ?es"
      "tc_conn_rwsplit s5 = tc_conn_rwsplit s1" "tc_conn_master s5 = tc_conn_master s1" "tc_conn_slave s5 = tc_conn_slave s1"
    by (simp_all add: s5_def close_maxscale_connections_def e2(3-6) e3(3-6) e4(3-6))
  have "c \<noteq> None \<and> EQuery c sql \<in> set ?es \<and> EClose c \<in> set ?es"
    if "r2 + r3 + r4 = 0" and c: "c \<in> {tc_conn_rwsplit s5, tc_conn_master s5, tc_conn_slave s5}" for c
  proof -
    have z: "r2 = 0" "r3 = 0" "r4 = 0" using that(1) e2(1) e3(1) e4(1) by linarith+
    note q = e2(7)[OF z(1)] e3(7)[OF z(2), unfolded e2(5)] e4(7)[OF z(3), unfolded e3(6) e2(6)]
    show ?thesis using c q unfolding s5(3-5) by (auto simp del: not_None_eq)
  qed
  moreover have "0 \<le> r2 + r3 + r4" using e2(1) e3(1) e4(1) by linarith
  ultimately show ?thesis
    using s5(1,2) e2(2) e3(2) e4(2) unfolding s5_def[symmetric] Let_def by (intro exI[of _ ?es]) auto
qed



section \<open>Reading from maxadmin\<close>

text \<open>The loops over the servers when maxadmin answers for each of them.\<close>

definition role_step :: "nat \<Rightarrow> bool \<times> int \<Rightarrow> bool \<times> int" where
  "role_step i a = (if fst a then (True, - 1) else (True, int i))"

lemma get_maxadmin_param_answered:
  assumes "\<forall>h. \<exists>code. sh_read E h (tc_generate_ssh_cmd s (''maxadmin '' @ cmd) True) = Some (out, code)"
    and "maxadmin_value out param = Some (Some v)"
  shows "\<exists>es. get_maxadmin_param E cmd param s = Some ((0, Some v), emits es s)"
  using assms(1)[rule_format, of "trace s"] assms(2)
  by (auto simp: get_maxadmin_param_def ssh_maxscale_output_eq)

lemma master_loop:
  assumes "\<forall>i \<in> set ids. \<forall>h. \<exists>code. sh_read E h (tc_generate_ssh_cmd s (''maxadmin '' @ show_server i) True) = Some (out i, code)"
    and "\<forall>i \<in> set ids. maxadmin_value (out i) ''Status'' = Some (Some (status i))"
  shows "\<exists>es. foreachM ids (master_step E) a s =
    Some (fold role_step (filter (\<lambda>i. sublist ''Master'' (status i)) ids) a, emits es s)"
  using assms
proof (induction ids arbitrary: a s)
  case Nil
  then show ?case by (auto intro: exI[of _ "[]"])
next
  case (Cons i ids)
  obtain d where d: "get_maxadmin_param E (show_server i) ''Status'' s = Some ((0, Some (status i)), emits d s)"
    using get_maxadmin_param_answered[of E s "show_server i" "out i" "''Status''" "status i"] Cons.prems by auto
  define b where "b = (if sublist ''Master'' (status i) then role_step i a else a)"
  obtain es where "foreachM ids (master_step E) b (emits d s) =
      Some (fold role_step (filter (\<lambda>i. sublist ''Master'' (status i)) ids) b, emits es (emits d s))"
    using Cons.IH[where s = "emits d s" and a = b] Cons.prems by auto
  moreover have "master_step E i a s = Some (b, emits d s)"
    by (cases a) (auto simp: master_step_def d b_def role_step_def strstr_ex)
  ultimately have "foreachM (i # ids) (master_step E) a s =
      Some (fold role_step (filter (\<lambda>i. sublist ''Master'' (status i)) (i # ids)) a, emits (d @ es) s)"
    by (auto simp: b_def)
  then show ?case by blast
qed

lemma role_fold: "snd (fold role_step ids (False, - 1)) = (case ids of [i] \<Rightarrow> int i | _ \<Rightarrow> - 1)"
proof -
  have more: "fst (fold role_step js (True, m)) \<and> snd (fold role_step js (True, m)) = (if js = [] then m else - 1)" for js m
    by (induction js arbitrary: m) (auto simp: role_step_def)
  show ?thesis using more by (cases ids) (auto simp: role_step_def split: list.splits)
qed

text \<open>
  When maxadmin answers for every server, \<open>find_master_maxadmin\<close> returns the number of the
  server whose status contains "Master" if there is exactly one, and -1 if there is none or
  more than one, however many.
\<close>

theorem find_master_maxadmin_unique:
  assumes "\<forall>i \<in> set (node_ids (objs s nodes)). \<forall>h. \<exists>code.
      sh_read E h (tc_generate_ssh_cmd s (''maxadmin '' @ show_server i) True) = Some (out i, code)"
    and "\<forall>i \<in> set (node_ids (objs s nodes)). maxadmin_value (out i) ''Status'' = Some (Some (status i))"
  shows "map_option fst (find_master_maxadmin E nodes s) =
    Some (case filter (\<lambda>i. sublist ''Master'' (status i)) (node_ids (objs s nodes)) of
            [i] \<Rightarrow> int i | _ \<Rightarrow> - 1)"
  using master_loop[OF assms, of "(False, - 1)"] role_fold[of "filter (\<lambda>i. sublist ''Master'' (status i)) (node_ids (objs s nodes))"]
  by (auto simp: find_master_maxadmin_def split_def)

text \<open>Two servers, the second of which is the master.\<close>

definition two_servers :: tc where
  "two_servers = blank_tc\<lparr>objs := (\<lambda>_. blank_nodes\<lparr>mn_N := 2\<rparr>)\<rparr>"

definition server_status :: "nat \<Rightarrow> string" where
  "server_status i = (if i = 1 then '' Master, Running'' else '' Slave, Running'')"

definition server_output :: "nat \<Rightarrow> string" where
  "server_output i = ''Status:'' @ server_status i @ [newline]"

definition two_servers_env :: env where
  "two_servers_env = dead_env\<lparr>sh_read := (\<lambda>h cmd.
     Some (if cmd = tc_generate_ssh_cmd two_servers (''maxadmin '' @ show_server 1) True
           then server_output 1 else server_output 0, 0))\<rparr>"

lemma server_output_value: "maxadmin_value (server_output i) ''Status'' = Some (Some (server_status i))"
  by (simp add: maxadmin_value_def server_output_def server_status_def newline_code is_space_def
      cut_at_def Let_def)

lemma two_servers_answers:
  assumes "i < 2"
  shows "sh_read two_servers_env h (tc_generate_ssh_cmd two_servers (''maxadmin '' @ show_server i) True) =
    Some (server_output i, 0)"
proof -
  have "i = 0 \<or> i = 1" using assms by linarith
  then show ?thesis
    by (auto simp: two_servers_env_def tc_generate_ssh_cmd_def show_server_def)
qed

theorem find_master_maxadmin_unique_witness:
  "map_option fst (find_master_maxadmin two_servers_env 0 two_servers) = Some 1"
proof -
  have ids: "node_ids (objs two_servers 0) = [0, 1]"
    by (simp add: two_servers_def node_ids_def upt_rec)
  have "\<forall>i \<in> set (node_ids (objs two_servers 0)). \<forall>h. \<exists>code. sh_read two_servers_env h
      (tc_generate_ssh_cmd two_servers (''maxadmin '' @ show_server i) True) = Some (server_output i, code)"
    using two_servers_answers by (auto simp: ids)
  from find_master_maxadmin_unique[OF this, of server_status]
  have "map_option fst (find_master_maxadmin two_servers_env 0 two_servers) =
      Some (case filter (\<lambda>i. sublist ''Master'' (server_status i)) [0, 1] of [i] \<Rightarrow> int i | _ \<Rightarrow> - 1)"
    using server_output_value ids by metis
  moreover have "filter (\<lambda>i. sublist ''Master'' (server_status i)) [0, 1] = [1]"
    by (simp add: server_status_def flip: strstr_iff_sublist)
  ultimately show ?thesis by simp
qed

lemma cut_at_first: "c \<notin> set u \<Longrightarrow> cut_at (u @ c # t) c = u"
  by (induction u) (auto simp: cut_at_def)

lemma trim_trailing:
  assumes "u \<noteq> []" "\<not> is_space (last u)"
  shows "rev (dropWhile is_space (rev u)) = u"
proof -
  have "dropWhile is_space (rev u) = rev u"
    using assms by (simp add: dropWhile_eq_self_iff hd_rev)
  then show ?thesis by simp
qed

lemma trim_trailing_blanks:
  assumes "u \<noteq> []" "\<not> is_space (last u)" "\<forall>c \<in> set w. is_space c"
  shows "rev (dropWhile is_space (rev (u @ w))) = u"
proof -
  have "dropWhile is_space (rev w @ rev u) = dropWhile is_space (rev u)"
    using assms(3) by (intro dropWhile_append2) auto
  then show ?thesis using trim_trailing[OF assms(1,2)] by simp
qed

lemma maxadmin_value_line:
  assumes "strstr buf param = Some (param @ tail @ ws @ v @ ws2 @ newline # rest)"
    and "\<forall>c \<in> set tail. \<not> is_space c" "ws \<noteq> []" "\<forall>c \<in> set (ws @ ws2). is_space c \<and> c \<noteq> newline"
    and "v \<noteq> []" "\<not> is_space (hd v)" "\<not> is_space (last v)" "newline \<notin> set v"
  shows "maxadmin_value buf param = Some (Some (ws @ v))"
proof -
  let ?x = "ws @ v @ ws2 @ newline # rest"
  have x: "dropWhile (\<lambda>c. \<not> is_space c) (tail @ ?x) = ?x"
    using assms(2-4) by (cases ws) (auto simp: dropWhile_append2)
  have line: "cut_at ?x newline = ws @ v @ ws2"
    using cut_at_first[of newline "ws @ v @ ws2" rest] assms(4,8) by auto
  have nl: "strchr ?x newline \<noteq> None" by (simp add: strchr_None_iff)
  have trimmed: "rev (dropWhile is_space (rev (ws @ v @ ws2))) = ws @ v"
    using trim_trailing_blanks[of "ws @ v" ws2] assms(4,5,7) by simp
  have "hd v \<in> set v" using assms(5) by simp
  then show ?thesis
    unfolding maxadmin_value_def using assms(1,3,6) x line nl trimmed by (auto simp: Let_def)
qed

text \<open>
  A value of maxadmin's output is compared as it should be: if the first occurrence of the
  parameter is followed by the rest of its name, blanks, a value that neither starts nor ends
  with a blank, blanks and a newline, then \<open>check_maxadmin_param\<close> returns 0 if the value is the
  expected one and 1 if not; \<open>get_maxadmin_param\<close> gives it with the blanks in front of it.
\<close>

theorem check_maxadmin_param_compares:
  assumes "\<forall>h. \<exists>code. sh_read E h (tc_generate_ssh_cmd s (''maxadmin '' @ command) True) = Some (buf, code)"
    and "strstr buf param = Some (param @ tail @ ws @ v @ ws2 @ newline # rest)"
    and "\<forall>c \<in> set tail. \<not> is_space c" "ws \<noteq> []" "\<forall>c \<in> set (ws @ ws2). is_space c \<and> c \<noteq> newline"
    and "v \<noteq> []" "\<not> is_space (hd v)" "\<not> is_space (last v)" "newline \<notin> set v"
  shows "\<exists>es. get_maxadmin_param E command param s = Some ((0, Some (ws @ v)), emits es s) \<and>
    check_maxadmin_param E command param expected s = Some (if v = expected then 0 else 1, emits es s)"
proof -
  obtain es where g: "get_maxadmin_param E command param s = Some ((0, Some (ws @ v)), emits es s)"
    using get_maxadmin_param_answered[OF assms(1) maxadmin_value_line[OF assms(2-9)]] by blast
  have "trim_end (ws @ v) = Some (ws @ v)"
    using assms(6,8) trim_trailing[of "ws @ v"] by (auto simp: trim_end_def intro: last_in_set)
  moreover have "dropWhile is_space (ws @ v) = v"
    using assms(5-7) by (simp add: dropWhile_append2) (metis dropWhile_eq_self_iff)
  ultimately have "check_maxadmin_param E command param expected s = Some (if v = expected then 0 else 1, emits es s)"
    by (simp add: check_maxadmin_param_def g)
  with g show ?thesis by blast
qed

theorem check_maxadmin_param_compares_witness:
  "map_option fst (check_maxadmin_param two_servers_env (show_server 1) ''Status'' ''Master, Running'' two_servers) = Some 0"
proof -
  have "\<forall>h. \<exists>code. sh_read two_servers_env h (tc_generate_ssh_cmd two_servers (''maxadmin '' @ show_server 1) True)
      = Some (server_output 1, code)"
    using two_servers_answers[of 1] by simp
  from check_maxadmin_param_compares[OF this, of "''Status''" "'':''" "'' ''" "''Master, Running''" "[]" "[]" "''Master, Running''"]
  show ?thesis
    by (auto simp: server_output_def server_status_def is_space_def newline_code)
qed

section \<open>Waiting for MaxScale\<close>

definition maxadmin_try :: "env \<Rightarrow> hist \<Rightarrow> 'a tc_scheme \<Rightarrow> int option" where
  "maxadmin_try E h s = sh_write E h
     (if tc_maxscale_IP s = ''127.0.0.1'' then ''bash''
      else tc_ssh_prefix s @ (if tc_verbose s then '''' else '' > /dev/null''))
     (ssh_maxscale_input s True maxadmin_help)"

lemma ssh_maxscale_try:
  "\<exists>e. (\<forall>n. e \<noteq> ESleep n) \<and> ssh_maxscale E True maxadmin_help s =
     (case maxadmin_try E (trace s) s of Some rc \<Rightarrow> rc | None \<Rightarrow> 1, emits [e] s)"
  by (auto simp: ssh_maxscale_def maxadmin_try_def popen_write_def emit_emits Let_def split: option.splits)

lemma maxadmin_try_emits [simp]: "maxadmin_try E h (emits es s) = maxadmin_try E h s"
  by (simp add: maxadmin_try_def tc_ssh_prefix_def ssh_maxscale_input_def emits_def)

text \<open>
  Waiting for MaxScale to answer is bounded: \<open>wait_for_maxadmin\<close> sleeps at most as many
  seconds as it was given turns, and if it stops earlier the last command it sent was
  successful. It changes nothing of the test object.
\<close>

theorem wait_for_maxadmin_bounded:
  "\<exists>es. wait_for_maxadmin E n s = emits es s \<and> length (filter (\<lambda>e. e = ESleep 1) es) \<le> n \<and>
     (length (filter (\<lambda>e. e = ESleep 1) es) < n \<longrightarrow>
        es \<noteq> [] \<and> maxadmin_try E (trace s @ butlast es) s = Some 0)"
proof (induction n arbitrary: s)
  case 0
  then show ?case by (auto intro: exI[of _ "[]"])
next
  case (Suc n)
  obtain e where e: "\<forall>n. e \<noteq> ESleep n" "ssh_maxscale E True maxadmin_help s =
     (case maxadmin_try E (trace s) s of Some rc \<Rightarrow> rc | None \<Rightarrow> 1, emits [e] s)"
    using ssh_maxscale_try by blast
  show ?case
  proof (cases "maxadmin_try E (trace s) s = Some 0")
    case True
    then show ?thesis using e by (intro exI[of _ "[e]"]) auto
  next
    case False
    obtain es where es: "wait_for_maxadmin E n (emits [e, ESleep 1] s) = emits es (emits [e, ESleep 1] s)"
        "length (filter (\<lambda>e. e = ESleep 1) es) \<le> n"
        "length (filter (\<lambda>e. e = ESleep 1) es) < n \<longrightarrow>
          es \<noteq> [] \<and> maxadmin_try E (trace s @ e # ESleep 1 # butlast es) s = Some 0"
      using Suc[of "emits [e, ESleep 1] s"] by auto
    have "wait_for_maxadmin E (Suc n) s = emits (e # ESleep 1 # es) s"
      using False e es(1) by (auto simp: c_sleep_def emit_emits Let_def split: option.splits)
    then show ?thesis
      using es(2,3) e(1) by (intro exI[of _ "e # ESleep 1 # es"]) auto
  qed
qed

theorem wait_for_maxadmin_bounded_witness:
  "\<exists>es. wait_for_maxadmin dead_env 15 blank_tc = emits es blank_tc \<and> length (filter (\<lambda>e. e = ESleep 1) es) = 15"
proof -
  have "maxadmin_try dead_env h blank_tc = None" for h by (simp add: maxadmin_try_def dead_env_def)
  then show ?thesis using wait_for_maxadmin_bounded[of dead_env 15 blank_tc] by force
qed

section \<open>Many connections\<close>

definition opened :: "hist \<Rightarrow> conn option multiset" where
  "opened es = mset (concat (map (\<lambda>e. case e of EInit c \<Rightarrow> [c] | _ \<Rightarrow> []) es))"

definition closed :: "hist \<Rightarrow> conn option multiset" where
  "closed es = mset (concat (map (\<lambda>e. case e of EClose c \<Rightarrow> [c] | _ \<Rightarrow> []) es))"

lemma opened_simps [simp]:
  "opened [] = {#}" "opened (es @ ds) = opened es + opened ds" "opened (EInit c # es) = add_mset c (opened es)"
  "opened (EQuery d q # es) = opened es" "opened (EStore d # es) = opened es" "opened (ENext d # es) = opened es"
  "opened (ESslSet f k1 k2 k3 # es) = opened es" "opened (EConnect f i u w b p fl # es) = opened es"
  "opened (EClose d # es) = opened es"
  by (simp_all add: opened_def)

lemma closed_simps [simp]:
  "closed [] = {#}" "closed (es @ ds) = closed es + closed ds" "closed (EClose c # es) = add_mset c (closed es)"
  "closed (EQuery d q # es) = closed es" "closed (EStore d # es) = closed es" "closed (ENext d # es) = closed es"
  "closed (ESslSet f k1 k2 k3 # es) = closed es" "closed (EConnect f i u w b p fl # es) = closed es"
  "closed (EInit d # es) = closed es"
  by (simp_all add: closed_def)

lemma fetch_neither [simp]: "opened (fetch_events c n) = {#}" "closed (fetch_events c n) = {#}"
  by (induction n) (simp_all add: fetch_events_Suc, simp_all add: fetch_events_def)

lemma open_service_effect:
  "open_service E p s = (c, s') \<Longrightarrow> \<exists>es. s' = emits es s \<and> opened es = {#c#} \<and> closed es = {#}"
  by (auto simp: open_service_def open_conn_def open_conn_db_def open_conn_db_flags_def mysql_init_def
      Let_def real_connect_def set_ssl_def emit_emits split: option.splits if_splits)

lemma open_loop:
  assumes "distinct ks" "foreach ks (open_one E i) (r, conns) s = ((r', conns'), s')"
  shows "\<exists>es. trace s' = trace s @ es \<and> closed es = {#} \<and> opened es = mset (map (\<lambda>k. conns' k i) ks) \<and>
    r \<le> r' \<and> (\<forall>k j. k \<notin> set ks \<or> j \<noteq> i \<longrightarrow> conns' k j = conns k j)"
  using assms
proof (induction ks arbitrary: r conns s)
  case Nil
  then show ?case by (auto intro: exI[of _ "[]"])
next
  case (Cons k ks)
  obtain c s1 where o: "open_service E (service_port k s) s = (c, s1)" by (meson surj_pair)
  obtain d where d: "s1 = emits d s" "opened d = {#c#}" "closed d = {#}"
    using open_service_effect[OF o] by blast
  define r1 where "r1 = (if (if k = 0 then c = None else mysql_errno E c s1 \<noteq> 0) then r + 1 else r)"
  have "open_one E i k (r, conns) s = ((r1, conns(k := (conns k)(i := c))), s1)"
    by (simp add: open_one_def o r1_def Let_def)
  then have "foreach ks (open_one E i) (r1, conns(k := (conns k)(i := c))) s1 = ((r', conns'), s')"
    using Cons.prems(2) by simp
  then obtain es where es: "trace s' = trace s1 @ es" "closed es = {#}" "opened es = mset (map (\<lambda>k. conns' k i) ks)"
      "r1 \<le> r'" "\<forall>k' j. k' \<notin> set ks \<or> j \<noteq> i \<longrightarrow> conns' k' j = (conns(k := (conns k)(i := c))) k' j"
    using Cons.IH Cons.prems(1) by fastforce
  have "conns' k i = c" using es(5) Cons.prems(1) by auto
  moreover have "r \<le> r'" using es(4) by (auto simp: r1_def split: if_splits)
  ultimately show ?case
    using es d by (intro exI[of _ "d @ es"]) auto
qed

lemma open_all:
  assumes "distinct ks" "distinct ids"
    "foreach ids (\<lambda>i acc s. foreach ks (open_one E i) acc (set_timeout n s)) (r, conns) s = ((r', conns'), s')"
  shows "\<exists>es. trace s' = trace s @ es \<and> closed es = {#} \<and>
    opened es = mset (concat (map (\<lambda>i. map (\<lambda>k. conns' k i) ks) ids)) \<and>
    r \<le> r' \<and> (\<forall>k j. j \<notin> set ids \<longrightarrow> conns' k j = conns k j)"
  using assms(2,3)
proof (induction ids arbitrary: r conns s)
  case Nil
  then show ?case by (auto intro: exI[of _ "[]"])
next
  case (Cons i ids)
  obtain r1 c1 s1 where f: "foreach ks (open_one E i) (r, conns) (set_timeout n s) = ((r1, c1), s1)"
    by (metis surj_pair)
  obtain d where d: "trace s1 = trace s @ d" "closed d = {#}" "opened d = mset (map (\<lambda>k. c1 k i) ks)" "r \<le> r1"
      "\<forall>k j. k \<notin> set ks \<or> j \<noteq> i \<longrightarrow> c1 k j = conns k j"
    using open_loop[OF assms(1) f] by auto
  have "foreach ids (\<lambda>i acc s. foreach ks (open_one E i) acc (set_timeout n s)) (r1, c1) s1 = ((r', conns'), s')"
    using Cons.prems(2) f by simp
  then obtain es where es: "trace s' = trace s1 @ es" "closed es = {#}"
      "opened es = mset (concat (map (\<lambda>i. map (\<lambda>k. conns' k i) ks) ids))" "r1 \<le> r'"
      "\<forall>k j. j \<notin> set ids \<longrightarrow> conns' k j = c1 k j"
    using Cons.IH Cons.prems(1) by fastforce
  have "\<forall>k. conns' k i = c1 k i" using es(5) Cons.prems(1) by auto
  then show ?case using es d by (intro exI[of _ "d @ es"]) auto
qed

lemma query_each:
  "\<exists>es. trace (snd (sum_loop ks (\<lambda>k s. execute_query E (f k) q s) s)) = trace s @ es \<and> closed es = {#} \<and> opened es = {#} \<and>
     0 \<le> fst (sum_loop ks (\<lambda>k s. execute_query E (f k) q s) s) \<and>
     (fst (sum_loop ks (\<lambda>k s. execute_query E (f k) q s) s) = 0 \<longrightarrow> (\<forall>k \<in> set ks. f k \<noteq> None))"
proof (induction ks arbitrary: s)
  case Nil
  then show ?case by (auto intro: exI[of _ "[]"])
next
  case (Cons k ks)
  obtain r s1 where x: "execute_query E (f k) q s = (r, s1)" by (meson surj_pair)
  then obtain d where d: "trace s1 = trace s @ d" "closed d = {#}" "opened d = {#}" "0 \<le> r" "r = 0 \<longrightarrow> f k \<noteq> None"
    by (auto simp: execute_query_def execute_query1_eq split: option.splits reply.splits)
  obtain es where es: "trace (snd (sum_loop ks (\<lambda>k s. execute_query E (f k) q s) s1)) = trace s1 @ es" "closed es = {#}"
      "opened es = {#}" "0 \<le> fst (sum_loop ks (\<lambda>k s. execute_query E (f k) q s) s1)"
      "fst (sum_loop ks (\<lambda>k s. execute_query E (f k) q s) s1) = 0 \<longrightarrow> (\<forall>k \<in> set ks. f k \<noteq> None)"
    using Cons[of s1] by blast
  have "r + fst (sum_loop ks (\<lambda>k s. execute_query E (f k) q s) s1) = 0 \<longrightarrow> (\<forall>k \<in> set (k # ks). f k \<noteq> None)"
    using d(4,5) es(4,5) by auto
  then show ?case using d es x by (intro exI[of _ "d @ es"]) (simp add: split_def Let_def)
qed

lemma close_each:
  "trace (do_loop ks (\<lambda>k s. mysql_close (f k) s) s) = trace s @ map (\<lambda>k. EClose (f k)) ks"
  by (induction ks arbitrary: s) auto

lemma closed_map [simp]: "closed (map (\<lambda>k. EClose (f k)) ks) = mset (map f ks)"
  "opened (map (\<lambda>k. EClose (f k)) ks) = {#}"
  by (induction ks) auto

lemma query_all_conns:
  "\<exists>es. trace (snd (sum_loop ids (\<lambda>i s. sum_loop ks (\<lambda>k s. execute_query E (f k i) q s) (set_timeout n s)) s)) = trace s @ es \<and>
     closed es = {#} \<and> opened es = {#} \<and>
     0 \<le> fst (sum_loop ids (\<lambda>i s. sum_loop ks (\<lambda>k s. execute_query E (f k i) q s) (set_timeout n s)) s) \<and>
     (fst (sum_loop ids (\<lambda>i s. sum_loop ks (\<lambda>k s. execute_query E (f k i) q s) (set_timeout n s)) s) = 0 \<longrightarrow>
        (\<forall>i \<in> set ids. \<forall>k \<in> set ks. f k i \<noteq> None))"
proof (induction ids arbitrary: s)
  case Nil
  then show ?case by (auto intro: exI[of _ "[]"])
next
  case (Cons i ids)
  let ?one = "sum_loop ks (\<lambda>k s. execute_query E (f k i) q s) (set_timeout n s)"
  let ?rest = "sum_loop ids (\<lambda>i s. sum_loop ks (\<lambda>k s. execute_query E (f k i) q s) (set_timeout n s)) (snd ?one)"
  obtain d where d: "trace (snd ?one) = trace s @ d" "closed d = {#}" "opened d = {#}" "0 \<le> fst ?one"
      "fst ?one = 0 \<longrightarrow> (\<forall>k \<in> set ks. f k i \<noteq> None)"
    using query_each[of ks E "\<lambda>k. f k i" q "set_timeout n s"] by auto
  obtain es where es: "trace (snd ?rest) = trace (snd ?one) @ es" "closed es = {#}" "opened es = {#}" "0 \<le> fst ?rest"
      "fst ?rest = 0 \<longrightarrow> (\<forall>i \<in> set ids. \<forall>k \<in> set ks. f k i \<noteq> None)"
    using Cons[of "snd ?one"] by blast
  have "fst ?one + fst ?rest = 0 \<longrightarrow> (\<forall>j \<in> set (i # ids). \<forall>k \<in> set ks. f k j \<noteq> None)"
    using d(4,5) es(4,5) by auto
  moreover have "trace (snd ?rest) = trace s @ d @ es" using d(1) es(1) by simp
  ultimately show ?case using d es by (intro exI[of _ "d @ es"]) (simp add: split_def Let_def)
qed

lemma close_all_conns:
  "trace (do_loop ids (\<lambda>i s. do_loop ks (\<lambda>k s. mysql_close (f k i) s) (set_timeout n s)) s) =
     trace s @ concat (map (\<lambda>i. map (\<lambda>k. EClose (f k i)) ks) ids)"
proof (induction ids arbitrary: s)
  case (Cons i ids)
  show ?case using Cons close_each[of ks "\<lambda>k. f k i" "set_timeout n s"] by simp
qed simp

lemma closed_concat:
  "closed (concat (map (\<lambda>i. map (\<lambda>k. EClose (f k i)) ks) ids)) = mset (concat (map (\<lambda>i. map (\<lambda>k. f k i) ks) ids))"
  "opened (concat (map (\<lambda>i. map (\<lambda>k. EClose (f k i)) ks) ids)) = {#}"
  using closed_map[of "\<lambda>k. f k _" ks] by (induction ids) auto

text \<open>
  \<open>create_connections\<close> opens \<open>conn_N\<close> connections for every selected service and closes
  exactly the handles it was given, each once. It returns 0 only if every one of them exists,
  and it leaves the timeout off.
\<close>

theorem create_connections_balanced:
  assumes "create_connections E n rw m sl g s = (r, s')"
  shows "\<exists>es. trace s' = trace s @ es \<and> opened es = closed es \<and>
    size (opened es) = n * length (service_kinds rw m sl g) \<and> 0 \<le> r \<and>
    (r = 0 \<longrightarrow> None \<notin># opened es) \<and> tc_timeout s' = 999999999"
proof -
  let ?ks = "service_kinds rw m sl g"
  have dis: "distinct ?ks" by (auto simp: service_kinds_def)
  obtain r1 conns s1 where f: "foreach [0..<n] (\<lambda>i acc s. foreach ?ks (open_one E i) acc (set_timeout 20 s)) (0, \<lambda>_ _. None) s
      = ((r1, conns), s1)"
    by (metis surj_pair)
  let ?q = "sum_loop [0..<n] (\<lambda>i s. sum_loop ?ks (\<lambda>k s. execute_query E (conns k i) ''select 1;'' s) (set_timeout 20 s)) s1"
  let ?c = "do_loop [0..<n] (\<lambda>i s. do_loop ?ks (\<lambda>k s. mysql_close (conns k i) s) (set_timeout 20 s)) (snd ?q)"
  let ?hs = "concat (map (\<lambda>i. map (\<lambda>k. conns k i) ?ks) [0..<n])"
  have s': "r = r1 + fst ?q" "s' = stop_timeout ?c"
    using assms f by (simp_all add: create_connections_def Let_def split_def)
  obtain d where d: "trace s1 = trace s @ d" "closed d = {#}" "opened d = mset ?hs" "0 \<le> r1"
    using open_all[OF dis distinct_upt f] by auto
  obtain es where es: "trace (snd ?q) = trace s1 @ es" "closed es = {#}" "opened es = {#}" "0 \<le> fst ?q"
      "fst ?q = 0 \<longrightarrow> (\<forall>i \<in> set [0..<n]. \<forall>k \<in> set ?ks. conns k i \<noteq> None)"
    using query_all_conns[of "[0..<n]" ?ks E conns "''select 1;''" 20 s1] by blast
  let ?es = "d @ es @ concat (map (\<lambda>i. map (\<lambda>k. EClose (conns k i)) ?ks) [0..<n])"
  have "trace s' = trace s @ ?es" unfolding s' by (simp add: close_all_conns es(1) d(1))
  moreover have "opened ?es = mset ?hs" "closed ?es = mset ?hs"
    using d(2,3) es(2,3) closed_concat[of conns ?ks "[0..<n]"] by simp_all
  moreover have "length ?hs = n * length ?ks" by (simp add: length_concat o_def sum_list_triv)
  moreover have "r = 0 \<longrightarrow> fst ?q = 0" using s'(1) d(4) es(4) by linarith
  then have "r = 0 \<longrightarrow> None \<notin> set ?hs" using es(5) by fastforce
  then have "r = 0 \<longrightarrow> None \<notin># mset ?hs" by simp
  moreover have "0 \<le> r" using s'(1) d(4) es(4) by simp
  ultimately show ?thesis using s'(2) by (metis size_mset tc_stop_timeout(5))
qed

theorem create_connections_balanced_witness:
  "\<exists>r s' es. create_connections counting_env 2 True True False False blank_tc = (r, s') \<and>
     trace s' = es \<and> opened es = closed es \<and> size (opened es) = 4"
proof -
  obtain r s' where "create_connections counting_env 2 True True False False blank_tc = (r, s')"
    by (meson surj_pair)
  from create_connections_balanced[OF this] this show ?thesis
    by (auto simp: service_kinds_def blank_tc_def)
qed

section \<open>Setting up the binlog router\<close>

lemma repl_set_no_set_pos [simp]:
  "repl (set_no_set_pos b s) = (repl s)\<lparr>mn_no_set_pos := b\<rparr>"
  by (simp add: repl_def set_no_set_pos_def upd_def)

lemma repl_close_connections:
  "repl (close_connections (tc_repl s) s) = objs (close_connections (tc_repl s) s) (tc_repl s)"
  by (simp add: repl_def tc_node_step(1)[OF node_step_close_connections])

lemma start_binlog_connect_ends:
  assumes "start_binlog_connect E p s = Some s'"
  shows "\<exists>binlog u. s' = start_binlog_finish E binlog p u"
  using assms unfolding start_binlog_connect_def by (elim returns_elims) blast

lemma start_binlog_finish_closes:
  "mn_no_set_pos (repl (start_binlog_finish E b p u)) = p \<and>
   (\<forall>i. int i < mn_N (repl (start_binlog_finish E b p u)) \<longrightarrow>
      mn_nodes (repl (start_binlog_finish E b p u)) i = None)"
proof -
  let ?c = "close_connections (tc_repl u) u"
  define v where "v = snd (try_query E b ''show slave status'' ?c)"
  have "repl (start_binlog_finish E b p u) = (repl v)\<lparr>mn_no_set_pos := p\<rparr>"
    by (simp add: start_binlog_finish_def v_def Let_def split_def) (simp add: repl_def emits_def)
  moreover have "repl v = repl ?c"
    by (simp add: v_def try_query_effect Let_def repl_def emits_def add_result_def)
  moreover have "int i < mn_N (repl ?c) \<longrightarrow> mn_nodes (repl ?c) i = None" for i
  proof
    assume "int i < mn_N (repl ?c)"
    then have "i \<in> set (node_ids (repl ?c))" by (simp add: node_ids_def)
    then have "i \<in> set (node_ids (objs u (tc_repl u)))"
      by (simp add: repl_close_connections node_step_node_ids[OF node_step_close_connections])
    then show "mn_nodes (repl ?c) i = None"
      by (simp add: repl_close_connections close_connections_all)
  qed
  ultimately show ?thesis by simp
qed


text \<open>A master that answers every question with one row, and an object without nodes.\<close>

definition answering_master :: env where
  "answering_master = dead_env\<lparr>my_init := (\<lambda>_. Some 7), my_query := (\<lambda>_ _ _.
     QOk \<lparr>stored = Some \<lparr>field_names = [''File'', ''Position'', ''@@version''],
                          rows = [[Some ''mar-bin.000001'', Some ''4'', Some ''10.0.1'']]\<rparr>, affected = 0\<rparr> [])\<rparr>"

definition detached_tc :: tc where
  "detached_tc = blank_tc\<lparr>objs := (\<lambda>_. blank_nodes\<lparr>mn_N := 0, mn_nodes := (\<lambda>_. Some 5)\<rparr>)\<rparr>"

lemma answering_find:
  "find_field answering_master (Some c) q ''File'' s = Some ((0, Some ''mar-bin.000001''), emits (EQuery (Some c) q # EStore (Some c) # fetch_events (Some c) (Suc 0)) s)"
  "find_field answering_master (Some c) q ''Position'' s = Some ((0, Some ''4''), emits (EQuery (Some c) q # EStore (Some c) # fetch_events (Some c) (Suc 0)) s)"
  "find_field answering_master (Some c) q ''@@version'' s =
     Some ((0, Some ''10.0.1''), emits (EQuery (Some c) q # EStore (Some c) # fetch_events (Some c) (Suc 0)) s)"
  by (simp_all add: find_field_def mysql_query_def mysql_store_def answering_master_def find_in_result_def row_at_def
      drain_emits emit_emits Let_def)

definition idle :: "tc \<Rightarrow> bool" where
  "idle s \<longleftrightarrow> mn_N (repl s) = 0 \<and> mn_nodes (repl s) = (\<lambda>_. Some 5) \<and> mn_IP (repl s) = (\<lambda>_. []) \<and>
     mn_port (repl s) = (\<lambda>_. 0) \<and> \<not> tc_backend_ssl s"

lemma idle_extends:
  assumes "idle s" "extends s t"
  shows "idle t"
  using assms by (auto simp: idle_def repl_def extends_def emits_def)

lemma idle_more [simp]:
  "idle (add_result r s) = idle s" "idle (set_no_set_pos b s) = idle s" "idle (emits es s) = idle s"
  by (simp_all add: idle_def add_result_def repl_def set_no_set_pos_def upd_def emits_def)

lemma idle_ids: "idle s \<Longrightarrow> node_ids (repl s) = [] \<and> node_ids (objs s (tc_repl s)) = [] \<and> mn_nodes (repl s) i = Some 5
    \<and> nat (mn_N (repl s)) = 0"
  by (simp add: idle_def node_ids_def repl_def)

lemma idle_ssh: "idle s \<Longrightarrow> \<exists>r t. ssh_maxscale answering_master b sys s = (r, t) \<and> idle t"
  by (metis extends_ssh_maxscale idle_extends surj_pair snd_conv)

lemma idle_try: "idle s \<Longrightarrow> \<exists>r t. try_query answering_master c q s = (r, t) \<and> idle t"
  by (simp add: try_query_effect Let_def)

lemma idle_binlog: "idle s \<Longrightarrow> \<exists>t. open_binlog answering_master s = (Some 7, t) \<and> idle t"
proof -
  assume i: "idle s"
  have "fst (open_binlog answering_master s) = Some 7"
    by (simp add: open_binlog_def open_conn_no_db_def open_conn_db_flags_def mysql_init_def answering_master_def
        real_connect_def Let_def)
  moreover have "extends s (snd (open_binlog answering_master s))" by (simp add: open_binlog_def log_extends)
  ultimately show ?thesis using i idle_extends by (metis prod.collapse)
qed

lemma idle_reset: "idle s \<Longrightarrow> idle (reset_replication answering_master c s)"
  by (simp add: reset_replication_def execute_query_def execute_query1_effect Let_def)

lemma idle_stop: "idle s \<Longrightarrow> \<exists>r t. stop_maxscale answering_master s = Some (r, t) \<and> idle t"
proof -
  assume "idle s"
  then obtain r t where t: "ssh_maxscale answering_master True ''service maxscale stop'' s = (r, t)" "idle t"
    using idle_ssh by blast
  then show ?thesis
    by (simp add: stop_maxscale_def check_maxscale_processes_def ssh_maxscale_output_eq answering_master_def dead_env_def)
qed

lemma idle_start: "idle s \<Longrightarrow> \<exists>r t. start_maxscale answering_master s = (r, t) \<and> idle t"
proof -
  assume "idle s"
  then obtain r t where t: "ssh_maxscale answering_master True ''service maxscale start'' (c_sleep 15 s) = (r, t)" "idle t"
    using idle_ssh idle_extends extends_calls(4) by metis
  then show ?thesis by (simp add: start_maxscale_def c_sleep_def emit_emits)
qed

lemma idle_prepare: "idle s \<Longrightarrow> \<exists>r t. prepare_binlog answering_master s = Some (r, t) \<and> idle t"
proof -
  assume i: "idle s"
  have v: "find_maxscale10 ''10.0.1''" by (simp add: find_maxscale10_def)
  let ?s0 = "emits (EQuery (Some 5) ''SELECT @@VERSION'' # EStore (Some 5) # fetch_events (Some 5) (Suc 0)) s"
  obtain r1 t1 where t1: "ssh_maxscale answering_master True (''rm -rf '' @ tc_maxscale_binlog_dir ?s0) ?s0 = (r1, t1)" "idle t1"
    using idle_ssh[of ?s0] i idle_more(3) by blast
  let ?s1 = "add_result r1 t1"
  obtain r2 t2 where t2: "ssh_maxscale answering_master True (''mkdir -p '' @ tc_maxscale_binlog_dir ?s1) ?s1 = (r2, t2)" "idle t2"
    using idle_ssh[of ?s1] t1(2) idle_more(1) by blast
  let ?s2 = "add_result r2 t2"
  obtain r3 t3 where t3: "ssh_maxscale answering_master False
      (tc_access_sudo ?s2 @ '' mkdir -p '' @ tc_maxscale_binlog_dir ?s2 @ ''; '' @
       tc_access_sudo ?s2 @ '' chown maxscale:maxscale -R '' @ tc_maxscale_binlog_dir ?s2) ?s2 = (r3, t3)" "idle t3"
    using idle_ssh[of ?s2] t2(2) idle_more(1) by blast
  show ?thesis
    using i t1 t2 t3 by (simp add: prepare_binlog_def idle_ids answering_find v)
qed

lemma idle_set_slave:
  "idle s \<Longrightarrow> f \<in> {''mar-bin.000001''} \<Longrightarrow> l \<in> {''4''} \<Longrightarrow>
   \<exists>r t. set_slave answering_master this c (mn_IP (repl s) 0) (mn_port (repl s) 0) f l s = Some (r, t) \<and> idle t"
proof -
  assume i: "idle s" and f: "f \<in> {''mar-bin.000001''}" "l \<in> {''4''}"
  have z: "int_str 0 = ''0''" by (simp add: int_str_def nat_str.simps digit_char_def char_of_def bit_0)
  have "CHR ''%'' \<notin> set (setup_slave [] ''mar-bin.000001'' ''4'' 0) \<and> CHR ''%'' \<notin> set (setup_slave_no_pos [] 0)"
    by (simp add: setup_slave_def setup_slave_no_pos_def quote_def z char_of_def bit_0)
  moreover have "mn_IP (repl s) 0 = []" "mn_port (repl s) 0 = 0" using i by (simp_all add: idle_def)
  ultimately show ?thesis using i f
    by (simp add: set_slave_def execute_query_fmt_def execute_query1_effect c_format0_plain Let_def)
qed

lemma idle_reset_half: "idle s \<Longrightarrow> \<exists>t. start_binlog_reset answering_master s = Some t \<and> idle t"
proof -
  assume i: "idle s"
  then have stop: "stop_nodes answering_master (tc_repl s) s = (0, s)"
    by (simp add: stop_nodes_def connect_def idle_ids)
  obtain s1 where s1: "open_binlog answering_master s = (Some 7, s1)" "idle s1" using idle_binlog[OF i] by blast
  define s2 where "s2 = mysql_close (Some 7) (reset_replication answering_master (Some 7) s1)"
  have "idle s2" using s1(2) by (simp add: s2_def idle_reset)
  then obtain r s3 where s3: "stop_maxscale answering_master s2 = Some (r, s3)" "idle s3" using idle_stop by blast
  define s4 where "s4 = c_sleep 5 (add_result r s3)"
  have s4: "idle s4" using s3(2) by (simp add: s4_def c_sleep_def emit_emits)
  then have con: "connect answering_master (tc_repl s4) s4 = (0, s4)" by (simp add: connect_def idle_ids)
  obtain r5 s5 where s5: "prepare_binlog answering_master s4 = Some (r5, s5)" "idle s5" using idle_prepare[OF s4] by blast
  obtain r6 s6 where s6: "ssh_maxscale answering_master True (''ls -la '' @ tc_maxscale_binlog_dir s5 @ ''/'') s5 = (r6, s6)" "idle s6"
    using idle_ssh[OF s5(2)] by blast
  have "start_binlog_reset answering_master s = Some (add_result r6 s6)"
    unfolding start_binlog_reset_def Let_def stop s1(1) prod.case s2_def[symmetric] s3(1) Option.bind.bind_lunit
    using s3(2) s4 con s5(1) s6(1) by (simp add: idle_ids s4_def[symmetric])
  then show ?thesis using s6(2) by simp
qed

lemma idle_log_pos:
  "idle s \<Longrightarrow> \<exists>t. master_log_pos answering_master (Some c) old s = Some ((Some ''mar-bin.000001'', Some ''4''), t) \<and> idle t"
  by (cases old) (simp add: master_log_pos_def answering_find)

lemma idle_connect_half: "idle s \<Longrightarrow> \<exists>t. start_binlog_connect answering_master p s = Some t"
proof -
  assume i: "idle s"
  obtain s1 where s1: "master_log_pos answering_master (mn_nodes (repl s) 0) (None, None) s =
      Some ((Some ''mar-bin.000001'', Some ''4''), s1)" "idle s1"
    using idle_log_pos[OF i, of 5 "(None, None)"] idle_ids[OF i, of 0] by metis
  obtain r2 s2 where s2: "try_query answering_master (mn_nodes (repl s1) 1) ''stop slave;'' s1 = (r2, s2)" "idle s2"
    using idle_try[OF s1(2)] by blast
  let ?t2 = "set_no_set_pos False s2"
  have t2: "idle ?t2" using s2(2) by simp
  obtain r3 s3 where s3: "set_slave answering_master (tc_repl ?t2) (mn_nodes (repl ?t2) 1) (mn_IP (repl ?t2) 0)
      (mn_port (repl ?t2) 0) ''mar-bin.000001'' ''4'' ?t2 = Some (r3, s3)" "idle s3"
    using idle_set_slave[OF t2] by blast
  obtain r4 s4 where s4: "start_maxscale answering_master s3 = (r4, s4)" "idle s4" using idle_start[OF s3(2)] by blast
  obtain s5 where s5: "open_binlog answering_master (add_result r4 s4) = (Some 7, s5)" "idle s5"
    using idle_binlog[of "add_result r4 s4"] s4(2) by auto
  let ?t5 = "set_no_set_pos True (add_result (int (mysql_errno answering_master (Some 7) s5)) s5)"
  have t5: "idle ?t5" using s5(2) by simp
  obtain r6 s6 where s6: "set_slave answering_master (tc_repl ?t5) (Some 7) (mn_IP (repl ?t5) 0)
      (mn_port (repl ?t5) 0) ''mar-bin.000001'' ''4'' ?t5 = Some (r6, s6)" "idle s6"
    using idle_set_slave[OF t5] by blast
  obtain r7 s7 where s7: "try_query answering_master (Some 7) ''start slave'' s6 = (r7, s7)" "idle s7"
    using idle_try[OF s6(2)] by blast
  obtain r8 s8 where s8: "try_query answering_master (Some 7) ''show slave status'' s7 = (r8, s8)" "idle s8"
    using idle_try[OF s7(2)] by blast
  obtain s9 where s9: "master_log_pos answering_master (Some 7) (Some ''mar-bin.000001'', Some ''4'') (set_no_set_pos False s8) =
      Some ((Some ''mar-bin.000001'', Some ''4''), s9)" "idle s9"
    using idle_log_pos[of "set_no_set_pos False s8"] s8(2) idle_more(2) by blast
  have loop: "[2..<nat (mn_N (repl s9))] = []" using idle_ids[OF s9(2)] by simp
  have ssl: "\<not> tc_backend_ssl s6" using s6(2) by (simp add: idle_def)
  show ?thesis
    by (simp only: start_binlog_connect_def s1(1) s2(1) s3(1) s4(1) s5(1) s6(1) s7(1) s8(1) s9(1) loop ssl Let_def
        prod.case Option.bind.bind_lunit do_loopM.simps if_False option.inject ex_simps simp_thms)
qed


section \<open>The constructor\<close>

lemma if_member: "(b \<Longrightarrow> x \<in> S) \<Longrightarrow> (\<not> b \<Longrightarrow> y \<in> S) \<Longrightarrow> (if b then x else y) \<in> S"
  by simp

lemma read_options_step:
  "read_options (c # cs) (init, restart) s \<in>
     {r. (c = CHR ''h'' \<and> r = (Inl 0, s)) \<or> (\<exists>fl t. r = read_options cs fl t)}"
  unfolding read_options.simps(2) by (intro if_member) blast+

lemma read_options_exit:
  "read_options opts fl s = (Inl code, s') \<Longrightarrow> code = 0 \<and> CHR ''h'' \<in> set opts"
proof (induction opts arbitrary: fl s)
  case (Cons c cs)
  obtain init restart where fl: "fl = (init, restart)" by (cases fl) auto
  from read_options_step[of c cs init restart s]
  consider "c = CHR ''h''" "read_options (c # cs) fl s = (Inl 0, s)"
    | fl' t where "read_options (c # cs) fl s = read_options cs fl' t"
    unfolding fl by blast
  then show ?case
  proof cases
    case 1
    then show ?thesis using Cons.prems by simp
  next
    case 2
    then show ?thesis using Cons.prems Cons.IH[of fl' t] by simp
  qed
qed simp

definition backends_broken :: "env \<Rightarrow> 'a tc_scheme \<Rightarrow> bool" where
  "backends_broken E s \<longleftrightarrow> (\<exists>obj t bad. check_replication E obj t = Some (bad, s) \<and> bad \<noteq> 0) \<or>
     (\<exists>obj t n. check_nodes E obj t = (n, s) \<and> n \<noteq> 0)"

lemma prepare_backends_broken:
  assumes "prepare_backends E s = Some (True, s')"
  shows "backends_broken E s'"
proof -
  obtain obj t where "fix_replication E obj t = Some (False, s')"
    using assms unfolding prepare_backends_def
    by (auto simp: Let_def split_def Option.bind_eq_Some_conv split: if_splits)
  then show ?thesis using fix_replication_False unfolding backends_broken_def by blast
qed

lemma version_suffices_False:
  assumes "version_suffices E required obj s = Some (False, s')"
  shows "required \<noteq> [] \<and> ms_required_repl_version s' = ms_required_repl_version s \<and>
    ms_required_galera_version s' = ms_required_galera_version s"
proof -
  have "required \<noteq> []" using assms by (auto simp: version_suffices_def)
  moreover obtain v r where "get_versions E obj s = Some (v, s')"
    using assms \<open>required \<noteq> []\<close>
    by (auto simp: version_suffices_def get_lowest_version_def Option.bind_eq_Some_conv)
  ultimately show ?thesis using tc_node_step(5,6)[OF node_step_get_versions] by metis
qed

lemma prepare_test_outcome:
  assumes "prepare_test E init restart s = Some (outcome, s')"
  shows "(outcome = Inl 200 \<and> backends_broken E s') \<or>
    (outcome = Inr () \<and> tc_timeout s' = 999999999 \<and> tc_log_copy_to_go s' = 999999999 \<and> tc_log_copy_interval s' = 999999999)"
proof -
  obtain t broken u where b: "prepare_backends E t = Some (broken, u)"
    and r: "(if broken then Some (Inl 200, u)
       else (let s = (if init then init_maxscale E u else u);
                 s = (if tc_backend_ssl s then configure_backend_ssl E s else s);
                 (_, s) = c_system E (''mkdir -p LOGS/'' @ tc_test_name s) s;
                 s = s\<lparr>tc_timeout := 999999999\<rparr>
             in Some (Inr (), set_log_copy_interval 999999999 s))) = Some (outcome, s')"
    using assms unfolding prepare_test_def by (elim returns_elims) blast
  show ?thesis
  proof (cases broken)
    case True
    with b r prepare_backends_broken show ?thesis by auto
  next
    case False
    with r show ?thesis by (auto simp: Let_def split_def set_log_copy_interval_def)
  qed
qed

text \<open>
  C14. The constructor ends the process only with exit code 0, when it was asked for help or a
  required backend version is set, or with exit code 200, directly after the backends failed
  a check. When it returns the object instead, the timeout is disarmed and so is the
  periodic copying of logs.
\<close>

theorem constructor_outcome:
  assumes "test_connections_init E a b opts operand argv0 s = Some (outcome, s')"
  shows "case outcome of
      Inl code \<Rightarrow> (code = 0 \<and> (CHR ''h'' \<in> set opts \<or> ms_required_repl_version s' \<noteq> [] \<or> ms_required_galera_version s' \<noteq> []))
         \<or> (code = 200 \<and> backends_broken E s')
    | Inr _ \<Rightarrow> tc_timeout s' = 999999999 \<and> tc_log_copy_to_go s' = 999999999 \<and> tc_log_copy_interval s' = 999999999"
proof -
  obtain fl s1 where o: "read_options opts (True, False) (construct_tc E s) = (fl, s1)" by (meson surj_pair)
  show ?thesis
  proof (cases fl)
    case (Inl code)
    then show ?thesis using assms o read_options_exit[of opts "(True, False)" "construct_tc E s" code s1]
      by (auto simp: test_connections_init_def)
  next
    case (Inr flags)
    then obtain init restart where fl: "fl = Inr (init, restart)" by (cases flags) auto
    obtain s3 ok4 s4 where v4: "version_suffices E (ms_required_repl_version s3) (tc_repl s3) s3 = Some (ok4, s4)"
      and r4: "(if \<not> ok4 then Some (Inl 0, s4) else
        do { (ok, s) \<leftarrow> version_suffices E (ms_required_galera_version s4) (tc_galera s4) s4;
             if \<not> ok then Some (Inl 0, s) else prepare_test E init restart s }) = Some (outcome, s')"
      using assms unfolding test_connections_init_def o fl Let_def prod.case sum.case by (elim returns_elims) blast
    show ?thesis
    proof (cases ok4)
      case False
      then show ?thesis
        using r4 v4 version_suffices_False[of E "ms_required_repl_version s3" "tc_repl s3" s3 s4] by auto
    next
      case True
      then obtain ok5 s5 where v5: "version_suffices E (ms_required_galera_version s4) (tc_galera s4) s4 = Some (ok5, s5)"
        and r5: "(if \<not> ok5 then Some (Inl 0, s5) else prepare_test E init restart s5) = Some (outcome, s')"
        using r4 by (auto simp: Option.bind_eq_Some_conv)
      show ?thesis using v5 r5 version_suffices_False prepare_test_outcome by (cases ok5) fastforce+
    qed
  qed
qed

theorem constructor_outcome_witness:
  "\<exists>outcome s'. test_connections_init dead_env 0 1 ''h'' None ''t'' blank_tc = Some (outcome, s') \<and> outcome = Inl 0"
proof -
  obtain outcome s' where "test_connections_init dead_env 0 1 ''h'' None ''t'' blank_tc = Some (outcome, s')"
    by (simp add: test_connections_init_def)
  moreover from constructor_outcome[OF this] this have "outcome = Inl 0"
    by (auto simp: test_connections_init_def split: sum.splits)
  ultimately show ?thesis by blast
qed

end
