(* ===== verification/Sockets.thy ===== *)
theory Sockets
  imports Mariadb_Func "HOL-Library.Sublist"
begin

text \<open>
  Reading from and writing to a socket, shared by the MaxAdmin, MaxInfo and CDC clients. A
  read delivers at most as many bytes as it was asked for; \<^const>\<open>None\<close> is the return value
  -1 and the empty text the end of the stream. \<open>reads\<close> is the sequence of pieces a client has
  received, and the locale \<open>accumulator\<close> says what every client's treatment of single bytes
  has in common: no byte is lost and none is invented.
\<close>

definition sock_read :: "env \<Rightarrow> sockfd \<Rightarrow> nat \<Rightarrow> 'a world_scheme \<Rightarrow> string option \<times> 'a world_scheme" where
  "sock_read E so n s = (map_option (take n) (sk_recv E (trace s) so n), emit (ERecv so n) s)"

definition sock_write :: "env \<Rightarrow> sockfd \<Rightarrow> string \<Rightarrow> 'a world_scheme \<Rightarrow> int \<times> 'a world_scheme" where
  "sock_write E so data s = (sk_send E (trace s) so data, emit (ESend so data) s)"

definition sock_close :: "sockfd \<Rightarrow> 'a world_scheme \<Rightarrow> 'a world_scheme" where
  "sock_close so s = emit (ECloseSock so) s"

definition sock_open :: "env \<Rightarrow> 'a world_scheme \<Rightarrow> sockfd \<times> 'a world_scheme" where
  "sock_open E s = (let so = sk_open E (trace s) in (so, emit (ESocket so) s))"

definition sock_connect :: "env \<Rightarrow> sockfd \<Rightarrow> string \<Rightarrow> int \<Rightarrow> 'a world_scheme \<Rightarrow> int \<times> 'a world_scheme" where
  "sock_connect E so ip port s = (sk_connect E (trace s) so ip port, emit (EConnectSock so ip port) s)"

lemmas sock_defs = sock_read_def sock_write_def sock_close_def sock_open_def sock_connect_def

text \<open>The pieces, none of them empty, that successive reads of up to \<open>n\<close> bytes deliver.\<close>

fun reads :: "env \<Rightarrow> sockfd \<Rightarrow> nat \<Rightarrow> 'a world_scheme \<Rightarrow> string list \<Rightarrow> 'a world_scheme \<Rightarrow> bool" where
  "reads E so n s [] t \<longleftrightarrow> s = t"
| "reads E so n s (c # cs) t \<longleftrightarrow>
     c \<noteq> [] \<and> fst (sock_read E so n s) = Some c \<and> reads E so n (snd (sock_read E so n s)) cs t"

lemma reads_append:
  "reads E so n s (cs @ ds) t \<longleftrightarrow> (\<exists>u. reads E so n s cs u \<and> reads E so n u ds t)"
  by (induction cs arbitrary: s) auto

lemma reads_trace:
  "reads E so n s cs t \<Longrightarrow> t = emits (replicate (length cs) (ERecv so n)) s"
proof (induction cs arbitrary: s)
  case (Cons c cs)
  then have "t = emits (replicate (length cs) (ERecv so n)) (snd (sock_read E so n s))" by simp
  then show ?case by (simp add: sock_read_def emit_emits)
qed simp

lemma reads_pieces: "reads E so n s cs t \<Longrightarrow> \<forall>c \<in> set cs. c \<noteq> [] \<and> length c \<le> n"
  by (induction cs arbitrary: s) (auto simp: sock_read_def)

section \<open>Calls that are repeated\<close>

text \<open>
  A call that adds one event to the log whatever it returns. Repeating it while it was
  interrupted leaves that event several times, and the value is that of the last call.
\<close>

locale logged_call =
  fixes call :: "'a world_scheme \<Rightarrow> 'r \<times> 'a world_scheme" and ev :: event
  assumes logs: "snd (call s) = emit ev s"
begin

lemma repeat_now: "\<not> again (fst (call s)) (snd (call s)) \<Longrightarrow> repeat_while call again s = Some (call s)"
  by (subst repeat_while.simps) (simp add: split_def Let_def)

lemma repeat_while_Some:
  assumes "repeat_while call again s = Some r"
  shows "\<exists>k. snd r = emits (replicate (Suc k) ev) s \<and> fst r = fst (call (emits (replicate k ev) s))"
proof -
  define Q where "Q = (\<lambda>s r. \<exists>k. snd r = emits (replicate (Suc k) ev) s \<and> fst r = fst (call (emits (replicate k ev) s)))"
  have "call = call \<longrightarrow> Q s r"
  proof (rule repeat_while.raw_induct[OF _ assms, where P = "\<lambda>c again s r. c = call \<longrightarrow> Q s r"], rule impI)
    fix f c again' u y
    assume IH: "\<And>c a u y. f c a u = Some y \<Longrightarrow> c = call \<longrightarrow> Q u y" and c: "c = call"
      and step: "(let (r, s) = c u in if again' r s then f c again' s else Some (r, s)) = Some y"
    show "Q u y"
    proof (cases "again' (fst (call u)) (snd (call u))")
      case True
      with step c have "f call again' (emit ev u) = Some y" by (simp add: split_def Let_def logs)
      with IH have "Q (emit ev u) y" by blast
      then obtain k where "snd y = emits (replicate (Suc (Suc k)) ev) u" "fst y = fst (call (emits (replicate (Suc k) ev) u))"
        by (auto simp: Q_def emit_emits)
      then show ?thesis unfolding Q_def by blast
    next
      case False
      with step c have "y = call u" by (simp add: split_def Let_def)
      then show ?thesis unfolding Q_def by (intro exI[of _ 0]) (simp add: logs emit_emits)
    qed
  qed
  then show ?thesis by (simp add: Q_def)
qed

end

interpretation reading: logged_call "sock_read E so n" "ERecv so n" for E so n
  by unfold_locales (simp add: sock_read_def)

interpretation writing: logged_call "sock_write E so data" "ESend so data" for E so data
  by unfold_locales (simp add: sock_write_def)

section \<open>Accumulating bytes\<close>

locale accumulator =
  fixes content :: "'st \<Rightarrow> string" and step :: "'st \<Rightarrow> char \<Rightarrow> 'st"
  assumes content_step: "content (step st c) = content st @ [c]"
begin

lemma content_foldl: "content (foldl step st cs) = content st @ cs"
  by (induction cs arbitrary: st) (simp_all add: content_step)

lemma content_pieces: "content (foldl (foldl step) st css) = content st @ concat css"
  by (induction css arbitrary: st) (simp_all add: content_foldl)

lemma piecewise: "foldl (foldl step) st css = foldl step st (concat css)"
  by (induction css arbitrary: st) simp_all

end

section \<open>Sending everything\<close>

text \<open>
  The loop \<open>while (sent < strlen(data)) { tmpres = send(...); if (tmpres == -1) ...; sent += tmpres; }\<close>
  on the bytes that remain. A \<open>send\<close> that accepts nothing is repeated.
\<close>

partial_function (option) send_all ::
  "env \<Rightarrow> sockfd \<Rightarrow> string \<Rightarrow> 'a world_scheme \<Rightarrow> (bool \<times> 'a world_scheme) option" where
  "send_all E so data s =
     (if data = [] then Some (True, s)
      else let (r, s) = sock_write E so data s in
           if r = -1 then Some (False, s) else send_all E so (drop (nat r) data) s)"

declare send_all.simps [code]

text \<open>The texts passed to \<open>send\<close>, when each call accepts between one byte and all of them.\<close>

fun sends_all :: "env \<Rightarrow> sockfd \<Rightarrow> nat list \<Rightarrow> string \<Rightarrow> 'a world_scheme \<Rightarrow> bool" where
  "sends_all E so [] data s \<longleftrightarrow> data = []"
| "sends_all E so (k # ks) data s \<longleftrightarrow>
     data \<noteq> [] \<and> fst (sock_write E so data s) = int k \<and> k \<le> length data \<and>
     sends_all E so ks (drop k data) (snd (sock_write E so data s))"

lemma send_all_completes:
  "sends_all E so ks data s \<Longrightarrow> \<exists>t. send_all E so data s = Some (True, t) \<and> extends s t \<and> sum_list ks = length data"
proof (induction ks arbitrary: data s)
  case Nil
  then show ?case by (simp add: send_all.simps)
next
  case (Cons k ks)
  then have "sends_all E so ks (drop k data) (snd (sock_write E so data s))" by simp
  from Cons.IH[OF this] obtain t where "send_all E so (drop k data) (snd (sock_write E so data s)) = Some (True, t)"
      "extends (snd (sock_write E so data s)) t" "sum_list ks = length (drop k data)" by blast
  moreover have "extends s (snd (sock_write E so data s))" by (simp add: sock_write_def)
  ultimately show ?case using Cons.prems extends_trans
    by (subst send_all.simps) (auto simp: split_def Let_def)
qed

end
