(* ===== verification/Maxadmin_Tcp.thy ===== *)
theory Maxadmin_Tcp
  imports Sockets
begin

text \<open>
  \<open>maxadmin_operations.cpp\<close>: the MaxAdmin client over TCP. The reply of a command ends with
  \<open>OK\<close> at the start of a line, as the last bytes of a read. \<open>sendCommand\<close> does not terminate the
  buffer it fills, so what follows in it is uninitialised; a search that runs past the
  received text has no result here, nor has a reply of more than the 10240 bytes of the buffer.
\<close>

section \<open>Connecting\<close>

text \<open>
  \<open>setipaddress\<close> with \<open>getaddrinfo\<close> (\<open>__USE_POSIX\<close>): the return code and the address, which stays
  all zero when the name is not resolved.
\<close>

definition setipaddress :: "env \<Rightarrow> string \<Rightarrow> 'a world_scheme \<Rightarrow> int \<times> string" where
  "setipaddress E p s =
     (case net_lookup E (trace s) p of None \<Rightarrow> (0, ''0.0.0.0'') | Some a \<Rightarrow> (1, a))"

definition connectMaxScale :: "env \<Rightarrow> string \<Rightarrow> string \<Rightarrow> 'a world_scheme \<Rightarrow> int \<times> 'a world_scheme" where
  "connectMaxScale E hostname port s =
     (let (so, s) = sock_open E s in
      if so < 0 then (- 1, s)
      else
        let (_, ip) = setipaddress E hostname s;
            (rc, s) = sock_connect E so ip (atoi port mod 2 ^ 16) s
        in if rc < 0 then (- 1, sock_close so s)
           else (so, emit (ESetOpt so) s))"

text \<open>
  \<open>authMaxScale\<close>: true stands for the nonzero result of \<open>strncmp\<close>. Each prompt must come in one
  read of exactly its length; what the writes return is ignored.
\<close>

definition read_exactly :: "nat \<Rightarrow> string option \<Rightarrow> bool" where
  "read_exactly n r = (case r of None \<Rightarrow> False | Some b \<Rightarrow> length b = n)"

definition authMaxScale :: "env \<Rightarrow> sockfd \<Rightarrow> string \<Rightarrow> string \<Rightarrow> 'a world_scheme \<Rightarrow> bool \<times> 'a world_scheme" where
  "authMaxScale E so user password s =
     (let (r, s) = sock_read E so 4 s in
      if \<not> read_exactly 4 r then (False, s)
      else
        let (_, s) = sock_write E so user s;
            (r, s) = sock_read E so 8 s
        in if \<not> read_exactly 8 r then (False, s)
           else
             let (_, s) = sock_write E so password s;
                 (r, s) = sock_read E so 6 s
             in (read_exactly 6 r \<and> r \<noteq> Some ''FAILED'', s))"

section \<open>The reply of a command\<close>

text \<open>The variable \<open>newline\<close>: 0 inside a line, 1 at its start, 2 after an \<open>O\<close> at its start.\<close>

datatype line_pos = Inside | At_start | After_O

type_synonym reply_state = "line_pos \<times> string"

text \<open>One byte that does not end the reply.\<close>

definition reply_step :: "reply_state \<Rightarrow> char \<Rightarrow> reply_state" where
  "reply_step st c =
     (let (nl, buf) = st in
      if nl = At_start \<and> c = CHR ''O'' then (After_O, buf)
      else if nl = After_O then (Inside, buf @ [CHR ''O'', c])
      else if c = newline \<or> c = char_of (13 :: nat) then (At_start, buf @ [c])
      else (Inside, buf @ [c]))"

text \<open>The bytes of one read; \<^const>\<open>Inl\<close> when \<open>K\<close> after \<open>O\<close> is the last of them.\<close>

fun reply_piece :: "reply_state \<Rightarrow> string \<Rightarrow> string + reply_state" where
  "reply_piece st [] = Inr st"
| "reply_piece st (c # cs) =
     (if fst st = After_O \<and> c = CHR ''K'' \<and> cs = [] then Inl (snd st)
      else reply_piece (reply_step st c) cs)"

partial_function (option) reply_loop ::
  "env \<Rightarrow> sockfd \<Rightarrow> reply_state \<Rightarrow> 'a world_scheme \<Rightarrow> ((int \<times> string) \<times> 'a world_scheme) option" where
  "reply_loop E so st s =
     (let (r, s) = sock_read E so 80 s in
      case r of
        None \<Rightarrow> Some ((0, snd st), s)
      | Some b \<Rightarrow>
          if b = [] then Some ((0, snd st), s)
          else (case reply_piece st b of
                  Inl buf \<Rightarrow> Some ((1, buf), s)
                | Inr st' \<Rightarrow> reply_loop E so st' s))"

text \<open>The code and the text written to the buffer.\<close>

definition sendCommand ::
  "env \<Rightarrow> sockfd \<Rightarrow> string \<Rightarrow> 'a world_scheme \<Rightarrow> ((int \<times> string) \<times> 'a world_scheme) option" where
  "sendCommand E so cmd s =
     (let (r, s) = sock_write E so cmd s in
      if r = - 1 then Some ((0, []), s) else reply_loop E so (At_start, []) s)"

section \<open>The three commands\<close>

text \<open>
  \<open>sendCommand\<close> into an array of 10240 bytes. The text only grows while it is received, so it has
  left the array at some point exactly if it is too long at the end.
\<close>

definition send_into_buf ::
  "env \<Rightarrow> sockfd \<Rightarrow> string \<Rightarrow> 'a world_scheme \<Rightarrow> ((int \<times> string) \<times> 'a world_scheme) option" where
  "send_into_buf E so cmd s =
     do { (r, s) \<leftarrow> sendCommand E so cmd s;
          if length (snd r) \<le> 10240 then Some (r, s) else None }"

definition open_maxadmin ::
  "env \<Rightarrow> string \<Rightarrow> string \<Rightarrow> string \<Rightarrow> 'a world_scheme \<Rightarrow> sockfd option \<times> 'a world_scheme" where
  "open_maxadmin E hostname user password s =
     (let (so, s) = connectMaxScale E hostname ''6603'' s in
      if so = - 1 then (None, s)
      else let (ok, s) = authMaxScale E so user password s in
           if \<not> ok then (None, sock_close so s) else (Some so, s))"

text \<open>
  The value is the rest of the line after the first occurrence of the parameter. The socket is
  closed only when the parameter was found.
\<close>

definition get_maxadmin_param_tcp ::
  "env \<Rightarrow> string \<Rightarrow> string \<Rightarrow> string \<Rightarrow> string \<Rightarrow> string \<Rightarrow> 'a world_scheme
   \<Rightarrow> ((int \<times> string option) \<times> 'a world_scheme) option" where
  "get_maxadmin_param_tcp E hostname user password cmd param s =
     (let (conn, s) = open_maxadmin E hostname user password s in
      case conn of
        None \<Rightarrow> Some ((1, None), s)
      | Some so \<Rightarrow>
          do { ((_, buf), s) \<leftarrow> send_into_buf E so cmd s;
               x \<leftarrow> strstr buf param;
               let r = drop (length param) x;
               if newline \<in> set r then Some ((0, Some (cut_at r newline)), sock_close so s) else None })"

definition execute_maxadmin_command_tcp ::
  "env \<Rightarrow> string \<Rightarrow> string \<Rightarrow> string \<Rightarrow> string \<Rightarrow> 'a world_scheme \<Rightarrow> (int \<times> 'a world_scheme) option" where
  "execute_maxadmin_command_tcp E hostname user password cmd s =
     (let (conn, s) = open_maxadmin E hostname user password s in
      case conn of
        None \<Rightarrow> Some (1, s)
      | Some so \<Rightarrow> do { (_, s) \<leftarrow> send_into_buf E so cmd s; Some (0, sock_close so s) })"

text \<open>Printing the buffer runs into its uninitialised part.\<close>

definition execute_maxadmin_command_print_tcp ::
  "env \<Rightarrow> string \<Rightarrow> string \<Rightarrow> string \<Rightarrow> string \<Rightarrow> 'a world_scheme \<Rightarrow> (int \<times> 'a world_scheme) option" where
  "execute_maxadmin_command_print_tcp E hostname user password cmd s =
     (let (conn, s) = open_maxadmin E hostname user password s in
      case conn of
        None \<Rightarrow> Some (1, s)
      | Some so \<Rightarrow> do { (_, s) \<leftarrow> send_into_buf E so cmd s; None })"

end
