(* ===== verification/Maxadmin_Props.thy ===== *)
theory Maxadmin_Props
  imports Maxadmin_Tcp
begin

text \<open>
  The properties of the MaxAdmin client: its reader of replies keeps every byte, and it stops
  exactly at an \<open>OK\<close> that starts a line and ends a read.
\<close>

text \<open>The bytes a state of the reader stands for: a pending \<open>O\<close> is not yet in the buffer.\<close>

definition reply_content :: "reply_state \<Rightarrow> string" where
  "reply_content st = snd st @ (if fst st = After_O then ''O'' else [])"

definition reply_inv :: "reply_state \<Rightarrow> bool" where
  "reply_inv st \<longleftrightarrow> (fst st \<noteq> Inside \<longrightarrow> snd st = [] \<or> last (snd st) \<in> {newline, char_of (13 :: nat)})"

interpretation reply: accumulator reply_content reply_step
  by unfold_locales (auto simp: reply_content_def reply_step_def split: prod.splits)

lemma reply_inv_step: "reply_inv st \<Longrightarrow> reply_inv (reply_step st c)"
  by (auto simp: reply_inv_def reply_step_def split: prod.splits)

lemma reply_inv_foldl: "reply_inv st \<Longrightarrow> reply_inv (foldl reply_step st cs)"
  by (induction cs arbitrary: st) (auto simp: reply_inv_step)

text \<open>Only the last byte of a read can end the reply.\<close>

lemma reply_piece_snoc:
  "reply_piece st (cs @ [c]) =
     (if fst (foldl reply_step st cs) = After_O \<and> c = CHR ''K'' then Inl (snd (foldl reply_step st cs))
      else Inr (foldl reply_step st (cs @ [c])))"
  by (induction cs arbitrary: st) auto

lemma reply_piece_cases:
  assumes "b \<noteq> []"
  obtains (ends) u where "b = u @ ''K''" "fst (foldl reply_step st u) = After_O"
      "reply_piece st b = Inl (snd (foldl reply_step st u))"
    | (goes_on) "reply_piece st b = Inr (foldl reply_step st b)"
proof -
  obtain u c where b: "b = u @ [c]" using assms by (metis rev_exhaust)
  show ?thesis
    by (cases "fst (foldl reply_step st u) = After_O \<and> c = CHR ''K''") (use b reply_piece_snoc[of st u c] that in auto)
qed

text \<open>Whatever the loop returns with code 1, it has received the buffer's text and \<open>OK\<close>.\<close>

definition reply_ends :: "string \<Rightarrow> bool" where
  "reply_ends buf \<longleftrightarrow> buf = [] \<or> last buf \<in> {newline, char_of (13 :: nat)}"

definition reply_received ::
  "env \<Rightarrow> sockfd \<Rightarrow> reply_state \<Rightarrow> 'a world_scheme \<Rightarrow> (int \<times> string) \<times> 'a world_scheme \<Rightarrow> bool" where
  "reply_received E so st s r \<longleftrightarrow> (reply_inv st \<and> fst (fst r) = 1 \<longrightarrow>
     (\<exists>css. reads E so 80 s css (snd r) \<and> reply_content st @ concat css = snd (fst r) @ ''OK'' \<and>
        reply_ends (snd (fst r))))"

lemma reply_received_end:
  assumes "fst (sock_read E so 80 s) = Some (u @ ''K'')" "fst (foldl reply_step st u) = After_O"
  shows "reply_received E so st s ((1, snd (foldl reply_step st u)), snd (sock_read E so 80 s))"
proof -
  have "reply_content st @ u = snd (foldl reply_step st u) @ ''O''"
    using reply.content_foldl[of st u] assms(2) by (simp add: reply_content_def)
  then have "reply_content st @ u @ ''K'' = snd (foldl reply_step st u) @ ''OK''" by simp
  moreover have "reply_ends (snd (foldl reply_step st u))" if "reply_inv st"
    using reply_inv_foldl[OF that, of u] assms(2) by (simp add: reply_inv_def reply_ends_def)
  ultimately show ?thesis
    using assms(1) by (auto simp: reply_received_def intro!: exI[of _ "[u @ ''K'']"])
qed

lemma reply_received_more:
  assumes "fst (sock_read E so 80 s) = Some b" "b \<noteq> []"
    and "reply_received E so (foldl reply_step st b) (snd (sock_read E so 80 s)) r"
  shows "reply_received E so st s r"
proof -
  have "\<exists>css. reads E so 80 s css (snd r) \<and> reply_content st @ concat css = snd (fst r) @ ''OK'' \<and>
      reply_ends (snd (fst r))" if "reply_inv st" "fst (fst r) = 1"
  proof -
    from assms(3) that reply_inv_foldl obtain css where
      "reads E so 80 (snd (sock_read E so 80 s)) css (snd r)"
      "reply_content st @ b @ concat css = snd (fst r) @ ''OK''" "reply_ends (snd (fst r))"
      by (auto simp: reply_received_def reply.content_foldl)
    with assms show ?thesis by (intro exI[of _ "b # css"]) simp
  qed
  then show ?thesis by (simp add: reply_received_def)
qed

lemma reply_loop_sound:
  fixes s :: "'a world_scheme"
  assumes "reply_loop E so st s = Some r"
  shows "reply_received E so st s r"
proof (rule reply_loop.raw_induct[OF _ assms])
  fix f :: "env \<Rightarrow> sockfd \<Rightarrow> reply_state \<Rightarrow> 'a world_scheme \<Rightarrow> ((int \<times> string) \<times> 'a world_scheme) option"
    and E so st s r
  assume IH: "\<And>E so st s r. f E so st s = Some r \<Longrightarrow> reply_received E so st s r"
    and step: "(let (r, s) = sock_read E so 80 s in
      case r of None \<Rightarrow> Some ((0, snd st), s)
      | Some b \<Rightarrow> if b = [] then Some ((0, snd st), s)
          else (case reply_piece st b of Inl buf \<Rightarrow> Some ((1, buf), s) | Inr st' \<Rightarrow> f E so st' s)) = Some r"
  show "reply_received E so st s r"
  proof (cases "\<exists>b. fst (sock_read E so 80 s) = Some b \<and> b \<noteq> []")
    case False
    with step have "fst (fst r) = 0" by (auto simp: split_def Let_def split: option.splits if_splits)
    then show ?thesis by (simp add: reply_received_def)
  next
    case True
    then obtain b where b: "fst (sock_read E so 80 s) = Some b" "b \<noteq> []" by blast
    from b(2) show ?thesis
    proof (cases b rule: reply_piece_cases[of _ st])
      case (ends u)
      with step b reply_received_end[of E so s u st] show ?thesis by (auto simp: split_def Let_def)
    next
      case goes_on
      with step b have "f E so (foldl reply_step st b) (snd (sock_read E so 80 s)) = Some r"
        by (simp add: split_def Let_def)
      from reply_received_more[OF b IH[OF this]] show ?thesis .
    qed
  qed
qed

section \<open>A reply is found however it is cut into reads\<close>

text \<open>No line of the text starts with \<open>O\<close>.\<close>

fun no_O_line :: "bool \<Rightarrow> string \<Rightarrow> bool" where
  "no_O_line at_start [] \<longleftrightarrow> True"
| "no_O_line at_start (c # cs) \<longleftrightarrow>
     \<not> (at_start \<and> c = CHR ''O'') \<and> no_O_line (c = newline \<or> c = char_of (13 :: nat)) cs"

lemma reply_run:
  assumes "no_O_line (nl = At_start) u" "nl \<noteq> After_O"
  shows "foldl reply_step (nl, buf) u =
    (if u = [] then nl else if last u \<in> {newline, char_of (13 :: nat)} then At_start else Inside, buf @ u)"
  using assms
proof (induction u arbitrary: nl buf)
  case (Cons c u)
  have "reply_step (nl, buf) c = (if c = newline \<or> c = char_of (13 :: nat) then At_start else Inside, buf @ [c])"
    using Cons.prems by (simp add: reply_step_def)
  with Cons show ?case by auto
qed simp

lemma no_O_line_append: "no_O_line b (u @ v) \<Longrightarrow> no_O_line b u"
  by (induction u arbitrary: b) auto

lemma reply_run_prefix:
  assumes "no_O_line True body" "reply_ends body" "Sublist.prefix q (body @ ''O'')"
  shows "fst (foldl reply_step (At_start, []) q) = After_O \<longleftrightarrow> q = body @ ''O''"
    and "q = body @ ''O'' \<Longrightarrow> snd (foldl reply_step (At_start, []) q) = body"
proof -
  have all: "foldl reply_step (At_start, []) body = (At_start, body)"
    using reply_run[of At_start body "[]"] assms by (auto simp: reply_ends_def)
  have "fst (foldl reply_step (At_start, []) q) \<noteq> After_O" if "Sublist.prefix q body"
  proof -
    from that obtain v where "body = q @ v" by (auto simp: prefix_def)
    with assms(1) no_O_line_append have "no_O_line True q" by blast
    then show ?thesis using reply_run[of At_start q "[]"] by auto
  qed
  moreover have "Sublist.prefix q body \<or> q = body @ ''O''" using assms(3) by auto
  ultimately show "fst (foldl reply_step (At_start, []) q) = After_O \<longleftrightarrow> q = body @ ''O''"
    using all by (auto simp: reply_step_def)
  show "q = body @ ''O'' \<Longrightarrow> snd (foldl reply_step (At_start, []) q) = body"
    using all by (simp add: reply_step_def)
qed

lemma prefix_butlast: "p @ r = w @ [x] \<Longrightarrow> r \<noteq> [] \<Longrightarrow> Sublist.prefix p w"
  by (cases r rule: rev_cases) auto

lemma append_same_eq_last:
  assumes "u @ [x] = v @ [y]"
  shows "u = v" "x = y"
  using assms by blast+

lemma reply_loop_complete:
  assumes "reads E so 80 s css t" "no_O_line True body" "reply_ends body"
    and "Sublist.prefix q (body @ ''O'')" "q @ concat css = body @ ''OK''"
  shows "reply_loop E so (foldl reply_step (At_start, []) q) s = Some ((1, body), t)"
  using assms
proof (induction css arbitrary: q s)
  case Nil
  then have "length (body @ ''OK'') \<le> length (body @ ''O'')" using prefix_length_le by fastforce
  then show ?case by simp
next
  case (Cons b css)
  let ?st = "foldl reply_step (At_start, []) q"
  from Cons.prems(1) have b: "b \<noteq> []" "fst (sock_read E so 80 s) = Some b"
    and rest: "reads E so 80 (snd (sock_read E so 80 s)) css t" by auto
  have full: "q @ b @ concat css = (body @ ''O'') @ ''K''" using Cons.prems(5) by simp
  note run = reply_run_prefix[OF Cons.prems(2,3)]
  from b(1) show ?case
  proof (cases b rule: reply_piece_cases[of _ ?st])
    case (ends u)
    have pre: "Sublist.prefix (q @ u) (body @ ''O'')"
      using full ends(1) prefix_butlast[of "q @ u" "''K'' @ concat css" "body @ ''O''" "CHR ''K''"] by simp
    have fold: "foldl reply_step ?st u = foldl reply_step (At_start, []) (q @ u)" by simp
    from run(1)[OF pre] ends(2) have qu: "q @ u = body @ ''O''" unfolding fold by (rule iffD1)
    from run(2)[OF pre qu] have "snd (foldl reply_step ?st u) = body" unfolding fold .
    from full qu ends(1) have "concat css = []" by (simp flip: append.assoc)
    then have "css = []" using reads_pieces[OF rest] by (cases css) auto
    with rest b ends \<open>snd (foldl reply_step ?st u) = body\<close> show ?thesis
      by (subst reply_loop.simps) (simp add: split_def Let_def)
  next
    case goes_on
    have "Sublist.prefix (q @ b) ((body @ ''O'') @ ''K'')" using full by (metis append.assoc prefixI)
    then consider "Sublist.prefix (q @ b) (body @ ''O'')" | "q @ b = (body @ ''O'') @ ''K''"
      by (metis prefix_snoc)
    then show ?thesis
    proof cases
      case 1
      with Cons.IH[OF rest Cons.prems(2,3) 1] Cons.prems(5) b goes_on show ?thesis
        by (subst reply_loop.simps) (simp add: split_def Let_def)
    next
      case 2
      obtain u c where bu: "b = u @ [c]" using b(1) by (metis rev_exhaust)
      have "(q @ u) @ [c] = (body @ ''O'') @ [CHR ''K'']" using 2 bu by simp
      note qu = append_same_eq_last[OF this]
      have "fst (foldl reply_step (At_start, []) (q @ u)) = After_O"
        by (rule iffD2[OF run(1)]) (simp_all add: qu(1))
      then have "fst (foldl reply_step ?st u) = After_O" by simp
      with bu qu(2) goes_on reply_piece_snoc[of ?st u c] show ?thesis by simp
    qed
  qed
qed

section \<open>Sending a command\<close>

text \<open>
  C18. When \<open>sendCommand\<close> reports success it has received exactly the text of its buffer followed
  by \<open>OK\<close>, and the \<open>OK\<close> stands at the start of a line: no byte of the reply is lost, none is
  added, and an \<open>OK\<close> inside a line never ends the reply.
\<close>

theorem sendCommand_sound:
  assumes "sendCommand E so cmd s = Some ((1, buf), t)"
  shows "\<exists>css. reads E so 80 (emit (ESend so cmd) s) css t \<and> concat css = buf @ ''OK'' \<and> reply_ends buf"
proof -
  from assms have "reply_loop E so (At_start, []) (emit (ESend so cmd) s) = Some ((1, buf), t)"
    by (auto simp: sendCommand_def sock_write_def split: if_splits)
  from reply_loop_sound[OF this] show ?thesis
    by (simp add: reply_received_def reply_inv_def reply_content_def)
qed


text \<open>A server that sends a line, then \<open>O\<close> and \<open>K\<close> in two pieces.\<close>

definition split_reply_env :: env where
  "split_reply_env = dead_env\<lparr>sk_send := \<lambda>h so d. int (length d),
     sk_recv := \<lambda>h so n. Some (if length h = 1 then [CHR ''a'', CHR 0x0A] else if length h = 2 then ''O'' else ''K'')\<rparr>"

lemma split_reply_reads:
  "reads split_reply_env 3 80 (emit (ESend 3 ''show'') start_world) [[CHR ''a'', CHR 0x0A], ''O'', ''K'']
     (emits [ESend 3 ''show'', ERecv 3 80, ERecv 3 80, ERecv 3 80] start_world)"
  by (simp add: split_reply_env_def sock_read_def start_world_def emit_def emits_def)


lemma split_reply_run:
  "sendCommand split_reply_env 3 ''show'' start_world =
     Some ((1, [CHR ''a'', CHR 0x0A]), emits [ESend 3 ''show'', ERecv 3 80, ERecv 3 80, ERecv 3 80] start_world)"
proof -
  have "reply_loop split_reply_env 3 (At_start, []) (emit (ESend 3 ''show'') start_world) =
      Some ((1, [CHR ''a'', CHR 0x0A]), emits [ESend 3 ''show'', ERecv 3 80, ERecv 3 80, ERecv 3 80] start_world)"
    using reply_loop_complete[OF split_reply_reads, of "[CHR ''a'', CHR 0x0A]" "[]"]
    by (simp add: newline_code reply_ends_def)
  then show ?thesis by (simp add: sendCommand_def sock_write_def split_reply_env_def)
qed

theorem sendCommand_sound_witness:
  "\<exists>css. reads split_reply_env 3 80 (emit (ESend 3 ''show'') start_world) css
       (emits [ESend 3 ''show'', ERecv 3 80, ERecv 3 80, ERecv 3 80] start_world) \<and>
     concat css = [CHR ''a'', CHR 0x0A] @ ''OK'' \<and> reply_ends [CHR ''a'', CHR 0x0A]"
  by (rule sendCommand_sound[OF split_reply_run])

end
