(* ===== verification/Cdc.thy ===== *)
theory Cdc
  imports Sockets "HOL-Library.Word"
begin

unbundle bit_operations_syntax

text \<open>
  \<open>cdc_connector.cpp\<close>: the client of the CDC protocol. A \<open>Connection\<close> object is a record passed
  along; an operation of it returns its value, the object and the world. \<^const>\<open>None\<close> is a call
  that is interrupted for ever, a comparison of bytes that were not received, or a write past
  a buffer.
\<close>

section \<open>Interrupted calls\<close>

definition nointr_read ::
  "env \<Rightarrow> sockfd \<Rightarrow> nat \<Rightarrow> 'a world_scheme \<Rightarrow> (string option \<times> 'a world_scheme) option" where
  "nointr_read E fd n s =
     repeat_while (sock_read E fd n) (\<lambda>rc s. rc = None \<and> sk_intr E (trace s)) s"

definition nointr_write ::
  "env \<Rightarrow> sockfd \<Rightarrow> string \<Rightarrow> 'a world_scheme \<Rightarrow> (int \<times> 'a world_scheme) option" where
  "nointr_write E fd src s =
     repeat_while (sock_write E fd src) (\<lambda>rc s. rc = - 1 \<and> sk_intr E (trace s)) s"

section \<open>The authentication text\<close>

definition hexconvtab :: string where
  "hexconvtab = ''0123456789abcdef''"

text \<open>The bytes of \<open>data\<close> are \<open>uint8_t\<close>.\<close>

fun bin2hex :: "string \<Rightarrow> string" where
  "bin2hex [] = []"
| "bin2hex (c # data) =
     (let b = of_char c :: 8 word in
      hexconvtab ! unat (drop_bit 4 b) # hexconvtab ! unat (b AND 0x0f) # bin2hex data)"

definition generateAuthString :: "env \<Rightarrow> string \<Rightarrow> string \<Rightarrow> string" where
  "generateAuthString E user password =
     (let digest = sha1 E password;
          auth_str = user @ '':'';
          part1 = bin2hex auth_str;
          part2 = bin2hex digest
      in part1 @ part2)"

section \<open>The connection\<close>

record cdc_conn =
  m_fd :: sockfd
  m_flags :: "32 word"
  m_port :: "16 word"
  m_address :: string
  m_user :: string
  m_password :: string
  m_error :: string
  m_schema :: string

definition cdc_connection :: "string \<Rightarrow> 16 word \<Rightarrow> string \<Rightarrow> string \<Rightarrow> 32 word \<Rightarrow> cdc_conn" where
  "cdc_connection address port user password flags =
     \<lparr>m_fd = - 1, m_flags = flags, m_port = port, m_address = address, m_user = user,
      m_password = password, m_error = [], m_schema = []\<rparr>"

text \<open>\<open>m_error = msg; m_error += strerror_r(errno, ...)\<close>\<close>

definition set_error :: "env \<Rightarrow> string \<Rightarrow> 'a world_scheme \<Rightarrow> cdc_conn \<Rightarrow> cdc_conn" where
  "set_error E msg s c = c\<lparr>m_error := msg @ sk_error E (trace s)\<rparr>"

definition OK_RESPONSE :: string where
  "OK_RESPONSE = ''OK'' @ [newline]"

definition CLOSE_MSG :: string where
  "CLOSE_MSG = ''CLOSE''"

definition REGISTER_MSG :: string where
  "REGISTER_MSG = ''REGISTER UUID=CDC_CONNECTOR-1.0.0, TYPE=''"

definition REQUEST_MSG :: string where
  "REQUEST_MSG = ''REQUEST-DATA ''"

text \<open>
  \<open>memcmp(buf, OK_RESPONSE, 3) == 0\<close>. A response shorter than three bytes that agrees so far
  leaves the outcome to bytes that were not received.
\<close>

definition memcmp_ok :: "string \<Rightarrow> bool option" where
  "memcmp_ok buf =
     (if length buf < 3 \<and> Sublist.prefix buf OK_RESPONSE then None
      else Some (take 3 buf = OK_RESPONSE))"

text \<open>
  The exchange \<open>doAuth\<close> and \<open>doRegistration\<close> both perform, with their four error texts. A refusal
  of 1024 bytes is terminated outside the buffer.
\<close>

definition exchange ::
  "env \<Rightarrow> string \<Rightarrow> string \<Rightarrow> string \<Rightarrow> string \<Rightarrow> cdc_conn \<Rightarrow> 'a world_scheme
   \<Rightarrow> ((bool \<times> cdc_conn) \<times> 'a world_scheme) option" where
  "exchange E msg write_err read_err refused c s =
     do { (rc, s) \<leftarrow> nointr_write E (m_fd c) msg s;
          if rc = - 1 then Some ((False, set_error E write_err s c), s)
          else do {
            (r, s) \<leftarrow> nointr_read E (m_fd c) 1024 s;
            case r of
              None \<Rightarrow> Some ((False, set_error E read_err s c), s)
            | Some buf \<Rightarrow>
                do { ok \<leftarrow> memcmp_ok buf;
                     if ok then Some ((True, c), s)
                     else if length buf < 1024
                     then Some ((False, c\<lparr>m_error := refused @ cut_at buf (CHR 0x00)\<rparr>), s)
                     else None } } }"

definition doAuth ::
  "env \<Rightarrow> cdc_conn \<Rightarrow> 'a world_scheme \<Rightarrow> ((bool \<times> cdc_conn) \<times> 'a world_scheme) option" where
  "doAuth E c s =
     exchange E (generateAuthString E (m_user c) (m_password c)) ''Failed to write authentication data: ''
       ''Failed to read authentication response: '' ''Authentication failed: '' c s"

definition registration_type :: "32 word \<Rightarrow> string" where
  "registration_type flags =
     (if flags AND 1 \<noteq> 0 then ''JSON'' else if flags AND 2 \<noteq> 0 then ''AVRO'' else [])"

definition doRegistration ::
  "env \<Rightarrow> cdc_conn \<Rightarrow> 'a world_scheme \<Rightarrow> ((bool \<times> cdc_conn) \<times> 'a world_scheme) option" where
  "doRegistration E c s =
     exchange E (REGISTER_MSG @ registration_type (m_flags c)) ''Failed to write registration message: ''
       ''Failed to read registration response: '' ''Registration failed: '' c s"

text \<open>When no socket could be created, \<open>connect\<close> is still called, on the descriptor -1.\<close>

definition createConnection ::
  "env \<Rightarrow> cdc_conn \<Rightarrow> 'a world_scheme \<Rightarrow> ((bool \<times> cdc_conn) \<times> 'a world_scheme) option" where
  "createConnection E c s =
     (if \<not> net_aton E (m_address c)
      then Some ((False, c\<lparr>m_error := ''Invalid address: '' @ m_address c\<rparr>), s)
      else
        let (fd, s) = sock_open E s;
            c = (if fd = - 1 then set_error E ''Failed to create socket: '' s c else c);
            c = c\<lparr>m_fd := fd\<rparr>;
            (rc, s) = sock_connect E fd (m_address c) (uint (m_port c)) s
        in if rc = - 1 then Some ((False, set_error E ''Failed to connect: '' s c), s)
           else do { ((ok, c), s) \<leftarrow> doAuth E c s;
                     if ok then doRegistration E c s else Some ((False, c), s) })"

definition closeConnection ::
  "env \<Rightarrow> cdc_conn \<Rightarrow> 'a world_scheme \<Rightarrow> (cdc_conn \<times> 'a world_scheme) option" where
  "closeConnection E c s =
     (if m_fd c \<noteq> - 1
      then do { (_, s) \<leftarrow> nointr_write E (m_fd c) CLOSE_MSG s;
                Some (c\<lparr>m_fd := - 1\<rparr>, sock_close (m_fd c) s) }
      else Some (c, s))"

section \<open>Requesting and reading\<close>

text \<open>
  \<open>readRow\<close>: the text is appended to the destination. At the end of the stream \<open>buf\<close> was not
  written and the comparison with a newline reads it, which has no result.
\<close>

partial_function (option) readRow ::
  "env \<Rightarrow> string \<Rightarrow> cdc_conn \<Rightarrow> 'a world_scheme \<Rightarrow> ((bool \<times> string \<times> cdc_conn) \<times> 'a world_scheme) option" where
  "readRow E dest c s =
     do { (rc, s) \<leftarrow> nointr_read E (m_fd c) 1 s;
          case rc of
            None \<Rightarrow> Some ((False, dest, set_error E ''Failed to read row: '' s c), s)
          | Some b \<Rightarrow>
              (case b of
                 [] \<Rightarrow> None
               | buf # _ \<Rightarrow>
                   if buf = newline then Some ((True, dest, c), s)
                   else readRow E (dest @ [buf]) c s) }"

definition request_message :: "string \<Rightarrow> string \<Rightarrow> string" where
  "request_message table gtid = REQUEST_MSG @ table @ (if gtid \<noteq> [] then '' '' @ gtid else [])"

definition requestData ::
  "env \<Rightarrow> string \<Rightarrow> string \<Rightarrow> cdc_conn \<Rightarrow> 'a world_scheme \<Rightarrow> ((bool \<times> cdc_conn) \<times> 'a world_scheme) option" where
  "requestData E table gtid c s =
     do { (rc, s) \<leftarrow> nointr_write E (m_fd c) (request_message table gtid) s;
          if rc = - 1 then Some ((False, set_error E ''Failed to write request: '' s c), s)
          else do { ((rval, schema, c), s) \<leftarrow> readRow E (m_schema c) c s;
                    Some ((rval, c\<lparr>m_schema := schema\<rparr>), s) } }"

end
