(* ===== verification/Cdc_Props.thy ===== *)
theory Cdc_Props
  imports Cdc
begin

text \<open>
  The properties of the CDC client: the authentication text can be read back, a connection that
  is established has performed the two exchanges in their order, and rows are cut at newlines.
\<close>

section \<open>Reading hexadecimal text back\<close>

definition hex_val :: "char \<Rightarrow> nat" where
  "hex_val c = (if is_digit c then digit_val c else of_char c - 87)"

fun hex2bin :: "string \<Rightarrow> string option" where
  "hex2bin [] = Some []"
| "hex2bin [_] = None"
| "hex2bin (a # b # cs) = map_option (Cons (char_of (16 * hex_val a + hex_val b))) (hex2bin cs)"

lemma hex_val_tab:
  assumes "n < 16"
  shows "hex_val (hexconvtab ! n) = n"
proof -
  have "\<forall>n \<in> set [0 ..< 16]. hex_val (hexconvtab ! n) = n" by code_simp
  with assms show ?thesis by simp
qed

lemma byte_less: "(of_char c :: nat) < 256"
  using of_char_mod_256[of c, where 'a = nat] by (metis mod_less_divisor zero_less_numeral)

lemma unat_char: "unat (of_char c :: 8 word) = of_char c"
proof -
  have "unat (of_nat (of_char c) :: 8 word) = of_char c mod 256" by (simp add: unat_of_nat)
  then show ?thesis by (simp add: of_nat_of_char)
qed

lemma unat_nibbles:
  "unat (drop_bit 4 (b :: 8 word)) = unat b div 16" "unat (b AND 0x0f) = unat b mod 16"
proof -
  have "b AND 0x0f = take_bit 4 b" by (simp add: take_bit_eq_mask mask_eq_decr_exp)
  then show "unat (b AND 0x0f) = unat b mod 16" by (simp only: unsigned_take_bit_eq) (simp add: take_bit_eq_mod)
  show "unat (drop_bit 4 b) = unat b div 16" by (simp only: unat_drop_bit_eq) (simp add: drop_bit_eq_div)
qed

lemma hex2bin_bin2hex: "hex2bin (bin2hex data) = Some data"
proof (induction data)
  case (Cons c data)
  have "of_char c div 16 < (16 :: nat)" using byte_less[of c] by (simp add: less_mult_imp_div_less)
  then show ?case using Cons by (simp add: Let_def unat_nibbles unat_char hex_val_tab)
qed simp

lemma length_bin2hex: "length (bin2hex data) = 2 * length data"
  by (induction data) (auto simp: Let_def)

text \<open>The user and the digest an authentication text carries.\<close>

definition read_auth :: "string \<Rightarrow> (string \<times> string) option" where
  "read_auth a =
     do { u \<leftarrow> hex2bin (take (length a - 40) a);
          d \<leftarrow> hex2bin (drop (length a - 40) a);
          if u \<noteq> [] \<and> last u = CHR '':'' then Some (butlast u, d) else None }"

text \<open>
  C9. What the server decodes from the authentication text is the user and the SHA1 digest of
  the password, whatever characters the user's name has, a colon included.
\<close>

theorem generateAuthString_roundtrip:
  assumes "length (sha1 E password) = 20"
  shows "read_auth (generateAuthString E user password) = Some (user, sha1 E password)"
  using assms
  by (simp add: read_auth_def generateAuthString_def Let_def length_bin2hex hex2bin_bin2hex
        del: bin2hex.simps)

theorem generateAuthString_roundtrip_witness:
  "read_auth (generateAuthString dead_env ''a:b'' ''secret'') = Some (''a:b'', replicate 20 (CHR 0x00))"
  using generateAuthString_roundtrip[of dead_env "''secret''" "''a:b''"] by (simp add: dead_env_def)

section \<open>Interrupted calls\<close>

text \<open>An interrupted call has been repeated; what counts is its last turn.\<close>

lemma nointr_read_Some:
  assumes "nointr_read E fd n s = Some r"
  shows "\<exists>k. snd r = emits (replicate (Suc k) (ERecv fd n)) s \<and>
     fst r = map_option (take n) (sk_recv E (trace s @ replicate k (ERecv fd n)) fd n)"
  using reading.repeat_while_Some[OF assms[unfolded nointr_read_def]] by (auto simp: sock_read_def)

lemma nointr_write_Some:
  assumes "nointr_write E fd d s = Some r"
  shows "\<exists>k. snd r = emits (replicate (Suc k) (ESend fd d)) s \<and>
     fst r = sk_send E (trace s @ replicate k (ESend fd d)) fd d"
  using writing.repeat_while_Some[OF assms[unfolded nointr_write_def]] by (auto simp: sock_write_def)

lemma nointr_read_now: "fst (sock_read E fd n s) = Some b \<Longrightarrow> nointr_read E fd n s = Some (sock_read E fd n s)"
  unfolding nointr_read_def by (rule reading.repeat_now) simp

lemma nointr_write_now: "fst (sock_write E fd d s) \<noteq> - 1 \<Longrightarrow> nointr_write E fd d s = Some (sock_write E fd d s)"
  unfolding nointr_write_def by (rule writing.repeat_now) simp

section \<open>The exchanges\<close>

text \<open>
  From \<open>s\<close> to \<open>t\<close> the message was sent (again after each interruption) and then a response was
  received that starts with \<open>OK\<close> and a newline.
\<close>

definition acknowledged :: "env \<Rightarrow> sockfd \<Rightarrow> string \<Rightarrow> 'a world_scheme \<Rightarrow> 'a world_scheme \<Rightarrow> bool" where
  "acknowledged E fd msg s t \<longleftrightarrow> (\<exists>a b r.
     t = emits (replicate (Suc a) (ESend fd msg) @ replicate (Suc b) (ERecv fd 1024)) s \<and>
     sk_recv E (trace s @ replicate (Suc a) (ESend fd msg) @ replicate b (ERecv fd 1024)) fd 1024 = Some r \<and>
     Sublist.prefix OK_RESPONSE r)"

lemma memcmp_ok_True: "memcmp_ok (take 1024 r) = Some True \<Longrightarrow> Sublist.prefix OK_RESPONSE r"
  by (auto simp: memcmp_ok_def min_def split: if_splits) (metis take_is_prefix)+

lemma exchange_True:
  assumes "exchange E msg e1 e2 e3 c s = Some ((True, c'), t)"
  shows "c' = c \<and> acknowledged E (m_fd c) msg s t"
proof -
  obtain rc u where w: "nointr_write E (m_fd c) msg s = Some (rc, u)" "rc \<noteq> - 1"
    using assms by (auto simp: exchange_def Option.bind_eq_Some_conv split: if_splits)
  with assms obtain buf where r: "nointr_read E (m_fd c) 1024 u = Some (Some buf, t)"
    and ok: "memcmp_ok buf = Some True" "c' = c"
    by (auto simp: exchange_def Option.bind_eq_Some_conv split: if_splits option.splits)
  from nointr_write_Some[OF w(1)] obtain a where u: "u = emits (replicate (Suc a) (ESend (m_fd c) msg)) s" by auto
  from nointr_read_Some[OF r] obtain b r' where "t = emits (replicate (Suc b) (ERecv (m_fd c) 1024)) u"
    "sk_recv E (trace u @ replicate b (ERecv (m_fd c) 1024)) (m_fd c) 1024 = Some r'" "buf = take 1024 r'" by (auto dest: sym)
  with u ok memcmp_ok_True[of r'] show ?thesis
    unfolding acknowledged_def by (intro conjI exI[of _ a] exI[of _ b] exI[of _ r']) auto
qed

lemma doAuth_True:
  "doAuth E c s = Some ((True, c'), t) \<Longrightarrow>
     c' = c \<and> acknowledged E (m_fd c) (generateAuthString E (m_user c) (m_password c)) s t"
  unfolding doAuth_def by (rule exchange_True)

lemma doRegistration_True:
  "doRegistration E c s = Some ((True, c'), t) \<Longrightarrow>
     c' = c \<and> acknowledged E (m_fd c) (REGISTER_MSG @ registration_type (m_flags c)) s t"
  unfolding doRegistration_def by (rule exchange_True)

text \<open>
  C2. A connection that is reported as established went through the protocol in its order: one
  socket, one \<open>connect\<close> to the address and port of the object, the authentication text answered
  with \<open>OK\<close>, then the registration with the requested format answered with \<open>OK\<close>; and the
  object holds the descriptor of that socket.
\<close>

theorem createConnection_protocol:
  assumes "createConnection E c s = Some ((True, c'), t)"
  shows "\<exists>u. acknowledged E (m_fd c') (generateAuthString E (m_user c) (m_password c))
       (emits [ESocket (m_fd c'), EConnectSock (m_fd c') (m_address c) (uint (m_port c))] s) u \<and>
     acknowledged E (m_fd c') (REGISTER_MSG @ registration_type (m_flags c)) u t \<and>
     m_fd c' = sk_open E (trace s) \<and> m_schema c' = m_schema c"
proof -
  define fd where "fd = sk_open E (trace s)"
  define c1 where "c1 = (if fd = - 1 then set_error E ''Failed to create socket: '' (snd (sock_open E s)) c else c)\<lparr>m_fd := fd\<rparr>"
  have c1: "m_fd c1 = fd" "m_user c1 = m_user c" "m_password c1 = m_password c" "m_address c1 = m_address c"
    "m_port c1 = m_port c" "m_flags c1 = m_flags c" "m_schema c1 = m_schema c"
    by (simp_all add: c1_def set_error_def)
  let ?s2 = "emits [ESocket fd, EConnectSock fd (m_address c) (uint (m_port c))] s"
  have "do { ((ok, c), s) \<leftarrow> doAuth E c1 ?s2; if ok then doRegistration E c s else Some ((False, c), s) }
      = Some ((True, c'), t)"
    using assms c1 unfolding createConnection_def
    by (auto simp: Let_def sock_open_def sock_connect_def emit_emits fd_def[symmetric] c1_def split: if_splits)
  then obtain ok c2 u where "doAuth E c1 ?s2 = Some ((ok, c2), u)"
    "(if ok then doRegistration E c2 u else Some ((False, c2), u)) = Some ((True, c'), t)"
    by (elim returns_elims) blast
  with doAuth_True[of E c1 ?s2] doRegistration_True[of E c1 u] c1 show ?thesis
    by (cases ok) (auto simp: fd_def)
qed

text \<open>A server that answers every message with \<open>OK\<close>.\<close>

definition cdc_env :: env where
  "cdc_env = dead_env\<lparr>net_aton := \<lambda>a. True, sk_open := \<lambda>h. 5, sk_connect := \<lambda>h so a p. 0,
     sk_send := \<lambda>h so d. int (length d), sk_recv := \<lambda>h so n. Some [CHR ''O'', CHR ''K'', CHR 0x0A]\<rparr>"

definition demo_conn :: cdc_conn where
  "demo_conn = cdc_connection ''127.0.0.1'' 4001 ''skysql'' ''skysql'' 1"

lemma cdc_env_exchange:
  "exchange cdc_env msg e1 e2 e3 c s =
     Some ((True, c), emits [ESend (m_fd c) msg, ERecv (m_fd c) 1024] s)"
proof -
  have "nointr_write cdc_env (m_fd c) msg s = Some (int (length msg), emit (ESend (m_fd c) msg) s)" for s :: "'a world_scheme"
    using nointr_write_now[of cdc_env "m_fd c" msg s] by (simp add: sock_write_def cdc_env_def)
  moreover have "nointr_read cdc_env (m_fd c) 1024 s = Some (Some [CHR ''O'', CHR ''K'', CHR 0x0A], emit (ERecv (m_fd c) 1024) s)"
    for s :: "'a world_scheme"
    using nointr_read_now[of cdc_env "m_fd c" 1024 s] by (simp add: sock_read_def cdc_env_def)
  ultimately show ?thesis
    by (simp add: exchange_def memcmp_ok_def OK_RESPONSE_def newline_code emit_emits)
qed

lemma cdc_env_connects:
  "\<exists>t. createConnection cdc_env demo_conn start_world = Some ((True, demo_conn\<lparr>m_fd := 5\<rparr>), t)"
proof -
  have "net_aton cdc_env a" "sk_open cdc_env h = 5" "sk_connect cdc_env h so a p = 0" for a h so p
    by (simp_all add: cdc_env_def)
  then show ?thesis
    by (simp add: createConnection_def sock_open_def sock_connect_def doAuth_def doRegistration_def
        cdc_env_exchange Let_def)
qed

theorem createConnection_protocol_witness:
  "\<exists>t u. createConnection cdc_env demo_conn start_world = Some ((True, demo_conn\<lparr>m_fd := 5\<rparr>), t) \<and>
     acknowledged cdc_env 5 (REGISTER_MSG @ ''JSON'') u t"
proof -
  obtain t where c: "createConnection cdc_env demo_conn start_world = Some ((True, demo_conn\<lparr>m_fd := 5\<rparr>), t)"
    using cdc_env_connects by blast
  have "registration_type (m_flags demo_conn) = ''JSON''"
    by (simp add: demo_conn_def cdc_connection_def registration_type_def)
  with createConnection_protocol[OF c] c show ?thesis by auto
qed

section \<open>Rows\<close>

lemma readRow_line:
  assumes "reads E (m_fd c) 1 s (map (\<lambda>x. [x]) (row @ [newline])) t" "newline \<notin> set row"
  shows "readRow E dest c s = Some ((True, dest @ row, c), t)"
  using assms
proof (induction row arbitrary: s dest)
  case Nil
  then show ?case using nointr_read_now[of E "m_fd c" 1 s]
    by (subst readRow.simps) (auto simp: split_def)
next
  case (Cons x row)
  then have "fst (sock_read E (m_fd c) 1 s) = Some [x]"
    "reads E (m_fd c) 1 (snd (sock_read E (m_fd c) 1 s)) (map (\<lambda>x. [x]) (row @ [newline])) t" by simp_all
  with Cons.IH[of "snd (sock_read E (m_fd c) 1 s)" "dest @ [x]"] Cons.prems(2) nointr_read_now[of E "m_fd c" 1 s]
  show ?case by (subst readRow.simps) (auto simp: split_def)
qed

text \<open>
  Requesting a table: when the request can be written and the server then sends the schema's
  line byte by byte, the call succeeds, stops right after the newline, and the line has been
  appended to the schema the object already held.
\<close>

theorem requestData_schema:
  assumes "sk_send E (trace s) (m_fd c) (request_message table gtid) \<noteq> - 1" "newline \<notin> set schema"
    and "reads E (m_fd c) 1 (emit (ESend (m_fd c) (request_message table gtid)) s)
           (map (\<lambda>x. [x]) (schema @ [newline])) t"
  shows "requestData E table gtid c s = Some ((True, c\<lparr>m_schema := m_schema c @ schema\<rparr>), t)"
proof -
  have "nointr_write E (m_fd c) (request_message table gtid) s =
      Some (sk_send E (trace s) (m_fd c) (request_message table gtid), emit (ESend (m_fd c) (request_message table gtid)) s)"
    using nointr_write_now[of E "m_fd c" "request_message table gtid" s] assms(1) by (simp add: sock_write_def)
  then show ?thesis
    using assms(1) readRow_line[OF assms(3,2), of "m_schema c"] by (simp add: requestData_def)
qed

text \<open>A server that sends the line \<open>{}\<close> in answer to the first message.\<close>

definition schema_env :: env where
  "schema_env = dead_env\<lparr>sk_send := \<lambda>h so d. int (length d),
     sk_recv := \<lambda>h so n. Some (if length h = 1 then ''{'' else if length h = 2 then ''}'' else [CHR 0x0A])\<rparr>"

theorem requestData_schema_witness:
  "\<exists>t. requestData schema_env ''test.t1'' [] (demo_conn\<lparr>m_fd := 5\<rparr>) start_world =
     Some ((True, demo_conn\<lparr>m_fd := 5, m_schema := ''{}''\<rparr>), t)"
proof -
  have "requestData schema_env ''test.t1'' [] (demo_conn\<lparr>m_fd := 5\<rparr>) start_world =
     Some ((True, demo_conn\<lparr>m_fd := 5, m_schema := m_schema (demo_conn\<lparr>m_fd := 5\<rparr>) @ ''{}''\<rparr>),
       emits [ESend 5 (request_message ''test.t1'' []), ERecv 5 1, ERecv 5 1, ERecv 5 1] start_world)"
    by (rule requestData_schema)
       (simp_all add: schema_env_def sock_read_def start_world_def emit_def emits_def newline_code)
  then show ?thesis by (simp add: demo_conn_def cdc_connection_def)
qed

text \<open>Closing twice is closing once.\<close>

lemma closeConnection_closed:
  "closeConnection E c s = Some (c', t) \<Longrightarrow> m_fd c' = - 1 \<and> closeConnection E c' t = Some (c', t)"
  by (auto simp: closeConnection_def Option.bind_eq_Some_conv split: if_splits)

end
