(* ===== verification/Maxinfo.thy ===== *)
theory Maxinfo
  imports Cdc Test_Core
begin

text \<open>
  \<open>maxinfo_func.cpp\<close>: the HTTP client of the MaxInfo service and helpers of the CDC tests. Blocks
  from \<open>malloc\<close> have their size: writing a text into a block that is too small has no result.
  \<open>BUFSIZ\<close> is the C library's 8192.
\<close>

text \<open>\<open>sprintf\<close> into a block of \<open>n\<close> bytes: the text and its terminating NUL must fit.\<close>

definition into_block :: "nat \<Rightarrow> string \<Rightarrow> string option" where
  "into_block n str = (if length str + 1 \<le> n then Some str else None)"

section \<open>The MaxInfo page\<close>

definition create_tcp_socket :: "env \<Rightarrow> 'a world_scheme \<Rightarrow> sockfd \<times> 'a world_scheme" where
  "create_tcp_socket E s =
     (let (sock, s) = sock_open E s in if sock < 0 then (0, s) else (sock, s))"

text \<open>\<open>gethostbyname\<close> and \<open>inet_ntop\<close> into 16 bytes\<close>

definition get_ip :: "env \<Rightarrow> string \<Rightarrow> 'a world_scheme \<Rightarrow> string option" where
  "get_ip E host s =
     (case net_lookup E (trace s) host of
        None \<Rightarrow> None
      | Some ip \<Rightarrow> if length ip + 1 \<le> 16 then Some ip else None)"

definition crlf :: string where
  "crlf = [char_of (13 :: nat), newline]"

definition USERAGENT :: string where
  "USERAGENT = ''HTMLGET 1.1''"

definition get_tpl :: string where
  "get_tpl = ''GET /%s HTTP/1.1'' @ crlf @ ''Host: %s'' @ crlf @ ''User-Agent: %s'' @ crlf @ crlf"

definition get_text :: "string \<Rightarrow> string \<Rightarrow> string" where
  "get_text getpage host =
     ''GET /'' @ getpage @ '' HTTP/1.1'' @ crlf @ ''Host: '' @ host @ crlf @ ''User-Agent: '' @ USERAGENT @ crlf @ crlf"

definition build_get_query :: "string \<Rightarrow> string \<Rightarrow> string option" where
  "build_get_query host page =
     (let getpage = (if page \<noteq> [] \<and> hd page = CHR ''/'' then tl page else page)
      in into_block (length host + length getpage + length USERAGENT + length get_tpl - 5)
           (get_text getpage host))"

text \<open>
  The receiving loops of \<open>get_maxinfo\<close> and \<open>read_sc\<close>: a piece is appended up to its first NUL, and
  the loop ends at the end of the stream (true) or at an error (false).
\<close>

partial_function (option) recv_all ::
  "env \<Rightarrow> sockfd \<Rightarrow> string \<Rightarrow> 'a world_scheme \<Rightarrow> ((bool \<times> string) \<times> 'a world_scheme) option" where
  "recv_all E sock result s =
     (let (r, s) = sock_read E sock 8192 s in
      case r of
        None \<Rightarrow> Some ((False, result), s)
      | Some buf \<Rightarrow>
          if buf = [] then Some ((True, result), s)
          else recv_all E sock (result @ cut_at buf (CHR 0x00)) s)"

text \<open>
  \<open>get_maxinfo\<close>. The address is written into a block of the size of a pointer, 8 bytes; \<open>connect\<close>
  reads 16 bytes from there, of which the 8 that were not allocated are the padding of the
  address, which it ignores.
\<close>

definition get_maxinfo ::
  "env \<Rightarrow> string \<Rightarrow> 'a tc_scheme \<Rightarrow> (string option \<times> 'a tc_scheme) option" where
  "get_maxinfo E page s =
     (let (sock, s) = create_tcp_socket E s in
      case get_ip E (tc_maxscale_IP s) s of
        None \<Rightarrow> Some (None, add_result 1 s)
      | Some ip \<Rightarrow>
          let tmpres = net_parse E ip in
          if tmpres < 0 then Some (None, add_result 1 s)
          else if tmpres = 0 then Some (None, add_result 1 s)
          else
            let (rc, s) = sock_connect E sock ip 8080 s in
            if rc < 0 then Some (None, add_result 1 s)
            else do {
              get \<leftarrow> build_get_query (tc_maxscale_IP s) page;
              (sent, s) \<leftarrow> send_all E sock get s;
              if \<not> sent then Some (None, add_result 1 s)
              else do {
                ((ended, result), s) \<leftarrow> recv_all E sock [] s;
                if \<not> ended then Some (None, add_result 1 s)
                else
                  let s = sock_close sock s in
                  case strstr result ''['' of
                    None \<Rightarrow> Some (None, add_result 1 s)
                  | Some content \<Rightarrow> Some (Some content, s) } })"

definition read_sc :: "env \<Rightarrow> sockfd \<Rightarrow> 'a world_scheme \<Rightarrow> (string \<times> 'a world_scheme) option" where
  "read_sc E sock s = do { ((_, result), s) \<leftarrow> recv_all E sock [] s; Some (result, s) }"

definition send_so :: "env \<Rightarrow> sockfd \<Rightarrow> string \<Rightarrow> 'a world_scheme \<Rightarrow> (int \<times> 'a world_scheme) option" where
  "send_so E sock data s =
     do { (sent, s) \<leftarrow> send_all E sock data s; Some (if sent then 0 else - 1, s) }"

section \<open>Helpers of the CDC tests\<close>

text \<open>\<open>bin2hex\<close> of \<open>maxinfo_func.cpp\<close>: the digits go into a block of \<open>oldlen * 2 + 1\<close> bytes.\<close>

definition bin2hex_block :: "string \<Rightarrow> string option" where
  "bin2hex_block old = into_block (length old * 2 + 1) (bin2hex old)"

definition cdc_auth_srt :: "env \<Rightarrow> string \<Rightarrow> string \<Rightarrow> string option" where
  "cdc_auth_srt E user password =
     do { sha1pass_hex \<leftarrow> bin2hex_block (sha1 E password);
          user_hex \<leftarrow> bin2hex_block user;
          clmn_hex \<leftarrow> bin2hex_block '':'';
          into_block (42 + length user * 2) (user_hex @ clmn_hex @ sha1pass_hex) }"

text \<open>\<open>O_NONBLOCK\<close> is 2048 on the platform of the tests.\<close>

definition setnonblocking :: "env \<Rightarrow> sockfd \<Rightarrow> 'a world_scheme \<Rightarrow> int \<times> 'a world_scheme" where
  "setnonblocking E sock s =
     (let opts = sk_getfl E (trace s) sock;
          s = emit (EGetFlags sock) s
      in if opts < 0 then (- 1, s)
         else
           let opts = Bit_Operations.or opts 2048;
               rc = sk_setfl E (trace s) sock opts;
               s = emit (ESetFlags sock opts) s
           in (if rc < 0 then - 1 else 0, s))"

text \<open>\<open>json_object_get\<close>: the member of an object, nothing for any other document.\<close>

definition json_object_get :: "json \<Rightarrow> string \<Rightarrow> json option" where
  "json_object_get js k = (case js of JObject kvs \<Rightarrow> map_of kvs k | _ \<Rightarrow> None)"

text \<open>
  \<open>get_x_fl_from_json\<close>: the code, \<open>*x1\<close> when it was set, and \<open>*fl\<close>. After both numbers were read the
  function ends without a \<open>return\<close>.
\<close>

definition get_x_fl_from_json :: "env \<Rightarrow> string \<Rightarrow> (int \<times> int option) option" where
  "get_x_fl_from_json E line =
     (case json_parse E line of
        None \<Rightarrow> Some (1, None)
      | Some root \<Rightarrow>
          (case json_object_get root ''x1'' of
             Some (JInteger x1) \<Rightarrow>
               (case json_object_get root ''fl'' of
                  Some (JInteger fl) \<Rightarrow> None
                | _ \<Rightarrow> Some (1, Some x1))
           | _ \<Rightarrow> Some (1, None)))"

end
