(* ===== verification/Maxinfo_Props.thy ===== *)
theory Maxinfo_Props
  imports Maxinfo Cdc_Props Test_Lemmas Watchdog_Props
begin

text \<open>
  The properties of the MaxInfo client: the request fits its block exactly, a page that could not
  be had is counted as one failure; and the block \<open>cdc_auth_srt\<close> allocates is one byte too short.
\<close>

section \<open>Loops over the socket only add to the log\<close>

lemma send_all_extends:
  fixes s :: "'a world_scheme"
  assumes "send_all E so d s = Some r"
  shows "extends s (snd r)"
proof (rule send_all.raw_induct[OF _ assms])
  fix f :: "env \<Rightarrow> sockfd \<Rightarrow> string \<Rightarrow> 'a world_scheme \<Rightarrow> (bool \<times> 'a world_scheme) option" and E so d s r
  assume IH: "\<And>E so d s r. f E so d s = Some r \<Longrightarrow> extends s (snd r)"
    and step: "(if d = [] then Some (True, s)
      else let (r, s) = sock_write E so d s in
           if r = -1 then Some (False, s) else f E so (drop (nat r) d) s) = Some r"
  show "extends s (snd r)"
  proof (cases "d = [] \<or> sk_send E (trace s) so d = -1")
    case True
    with step show ?thesis by (auto simp: sock_write_def split: if_splits)
  next
    case False
    with step have "f E so (drop (nat (sk_send E (trace s) so d)) d) (emit (ESend so d) s) = Some r"
      by (simp add: sock_write_def)
    from IH[OF this] show ?thesis using extends_emit extends_trans by blast
  qed
qed

lemma recv_all_extends:
  fixes s :: "'a world_scheme"
  assumes "recv_all E so res s = Some r"
  shows "extends s (snd r)"
proof (rule recv_all.raw_induct[OF _ assms])
  fix f :: "env \<Rightarrow> sockfd \<Rightarrow> string \<Rightarrow> 'a world_scheme \<Rightarrow> ((bool \<times> string) \<times> 'a world_scheme) option" and E so res s r
  assume IH: "\<And>E so res s r. f E so res s = Some r \<Longrightarrow> extends s (snd r)"
    and step: "(let (r, s) = sock_read E so 8192 s in
      case r of None \<Rightarrow> Some ((False, res), s)
      | Some buf \<Rightarrow> if buf = [] then Some ((True, res), s) else f E so (res @ cut_at buf (CHR 0x00)) s) = Some r"
  show "extends s (snd r)"
  proof (cases "\<exists>b. sk_recv E (trace s) so 8192 = Some b \<and> b \<noteq> []")
    case True
    then obtain b where "sk_recv E (trace s) so 8192 = Some b" "b \<noteq> []" by blast
    with step have "f E so (res @ cut_at (take 8192 b) (CHR 0x00)) (emit (ERecv so 8192) s) = Some r"
      by (simp add: sock_read_def)
    from IH[OF this] show ?thesis using extends_emit extends_trans by blast
  next
    case False
    with step show ?thesis by (auto simp: sock_read_def split: option.splits)
  qed
qed

text \<open>Every piece is appended, up to its first NUL.\<close>

lemma recv_all_pieces:
  assumes "reads E so 8192 s css u" "sk_recv E (trace u) so 8192 = Some []"
  shows "recv_all E so res s =
     Some ((True, res @ concat (map (\<lambda>b. cut_at b (CHR 0x00)) css)), emit (ERecv so 8192) u)"
  using assms
proof (induction css arbitrary: res s)
  case Nil
  then show ?case by (subst recv_all.simps) (simp add: sock_read_def)
next
  case (Cons b css)
  then show ?case by (subst recv_all.simps) (simp add: split_def Let_def)
qed

section \<open>Blocks\<close>

text \<open>
  The block of \<open>build_get_query\<close> is exactly as long as the request and its terminating NUL, for
  every host and page: the request is always built, without a leading slash of the page.
\<close>

theorem build_get_query_fits:
  "build_get_query host page =
     Some (get_text (if page \<noteq> [] \<and> hd page = CHR ''/'' then tl page else page) host)"
  by (auto simp: build_get_query_def into_block_def get_text_def get_tpl_def crlf_def USERAGENT_def Let_def)

lemma into_block_None: "into_block n str = None \<longleftrightarrow> n < length str + 1"
  by (auto simp: into_block_def)

text \<open>
  C40. The block of \<open>cdc_auth_srt\<close> is one byte too short for every user and password: the digits
  of the user, of the colon and of the digest are \<open>42 + 2 * strlen(user)\<close> characters, so the
  terminating NUL is written behind the block. With one byte more the text would be the one
  \<open>generateAuthString\<close> of the connector builds.
\<close>

theorem cdc_auth_srt_overflows:
  assumes "length (sha1 E password) = 20"
  shows "cdc_auth_srt E user password = None \<and>
    into_block (43 + length user * 2) (generateAuthString E user password) =
      Some (generateAuthString E user password)"
  using assms
  by (auto simp: cdc_auth_srt_def bin2hex_block_def into_block_def length_bin2hex generateAuthString_def
      Let_def Option.bind_eq_None_conv simp del: bin2hex.simps)

theorem cdc_auth_srt_overflows_witness: "cdc_auth_srt dead_env ''skysql'' ''skysql'' = None"
  using cdc_auth_srt_overflows[of dead_env "''skysql''" "''skysql''"] by (simp add: dead_env_def)

text \<open>There is no document for which \<open>get_x_fl_from_json\<close> reports success.\<close>

lemma get_x_fl_from_json_fails: "get_x_fl_from_json E line = Some (rc, x1) \<Longrightarrow> rc = 1"
  by (auto simp: get_x_fl_from_json_def split: option.splits json.splits)

section \<open>Failures are counted\<close>

lemma counted:
  assumes "extends s t"
  shows "tc_global_result (add_result 1 t) = tc_global_result s + 1" "tc_global_result t = tc_global_result s"
    "tc_global_result (emit e t) = tc_global_result s"
  using assms by (auto simp: add_result_def extends_def emits_def emit_def)

lemma bracket: "strstr result ''['' = Some content \<Longrightarrow> Sublist.prefix ''['' content"
  using strstr_Some[of result "''[''" content] by (metis take_is_prefix)

text \<open>
  \<open>get_maxinfo\<close> hands out a text that starts with a bracket and leaves the result of the test
  alone, or it hands out nothing and has counted exactly one failure.
\<close>

theorem get_maxinfo_counts:
  assumes "get_maxinfo E page s = Some (r, s')"
  shows "case r of
      None \<Rightarrow> tc_global_result s' = tc_global_result s + 1
    | Some content \<Rightarrow> tc_global_result s' = tc_global_result s \<and> Sublist.prefix ''['' content"
proof -
  define sock where "sock = fst (create_tcp_socket E s)"
  define s1 where "s1 = snd (create_tcp_socket E s)"
  have s1: "create_tcp_socket E s = (sock, s1)" "extends s s1"
    by (simp_all add: sock_def s1_def create_tcp_socket_def sock_open_def Let_def)
  show ?thesis
  proof (cases "\<exists>ip. get_ip E (tc_maxscale_IP s1) s1 = Some ip \<and> 0 < net_parse E ip \<and> 0 \<le> sk_connect E (trace s1) sock ip 8080")
    case False
    with assms s1 show ?thesis
      by (auto simp: get_maxinfo_def sock_connect_def Let_def counted extends_emit_trans
          split: option.splits if_splits)
  next
    case True
    then obtain ip where ip: "get_ip E (tc_maxscale_IP s1) s1 = Some ip" "0 < net_parse E ip"
      "0 \<le> sk_connect E (trace s1) sock ip 8080" by blast
    define s2 where "s2 = emit (EConnectSock sock ip 8080) s1"
    obtain get sent s3 where "send_all E sock get s2 = Some (sent, s3)"
      and rest: "(if \<not> sent then Some (None, add_result 1 s3)
        else do {
          ((ended, result), s) \<leftarrow> recv_all E sock [] s3;
          if \<not> ended then Some (None, add_result 1 s)
          else case strstr result ''['' of None \<Rightarrow> Some (None, add_result 1 (sock_close sock s))
             | Some content \<Rightarrow> Some (Some content, sock_close sock s) }) = Some (r, s')"
      using assms s1 ip unfolding get_maxinfo_def Let_def
      by (auto simp: sock_connect_def s2_def Option.bind_eq_Some_conv)
    then have s3: "extends s s3" using send_all_extends s1(2) extends_emit extends_trans unfolding s2_def by (metis snd_conv)
    show ?thesis
    proof (cases sent)
      case False
      with rest counted[OF s3] show ?thesis by auto
    next
      case True
      with rest obtain ended result s4 where "recv_all E sock [] s3 = Some ((ended, result), s4)"
        and rest: "(if \<not> ended then Some (None, add_result 1 s4)
          else case strstr result ''['' of None \<Rightarrow> Some (None, add_result 1 (sock_close sock s4))
             | Some content \<Rightarrow> Some (Some content, sock_close sock s4)) = Some (r, s')"
        by (auto simp: Option.bind_eq_Some_conv)
      then have "extends s s4" using recv_all_extends s3 extends_trans by (metis snd_conv)
      then have "extends s s4" "extends s (sock_close sock s4)" by (simp_all add: sock_close_def extends_emit_trans)
      note e = this
      show ?thesis
      proof (cases "ended \<and> (\<exists>content. strstr result ''['' = Some content)")
        case True
        then obtain content where c: "strstr result ''['' = Some content" and "ended" by blast
        with rest have "r = Some content" "s' = sock_close sock s4" by auto
        with c e show ?thesis by (simp add: counted bracket)
      next
        case False
        with rest e show ?thesis by (auto simp: counted split: if_splits option.splits)
      qed
    qed
  qed
qed

theorem get_maxinfo_counts_witness:
  "\<exists>s'. get_maxinfo dead_env ''/x'' blank_tc = Some (None, s') \<and> tc_global_result s' = 1"
proof -
  obtain s' where r: "get_maxinfo dead_env ''/x'' blank_tc = Some (None, s')"
    by (simp add: get_maxinfo_def create_tcp_socket_def sock_open_def get_ip_def dead_env_def Let_def)
  moreover from get_maxinfo_counts[OF r] have "tc_global_result s' = 1" by (simp add: blank_tc_def)
  ultimately show ?thesis by blast
qed

end
