(* ===== verification/Cdc_Test.thy ===== *)
theory Cdc_Test
  imports Maxinfo Test_Ops
begin

text \<open>
  \<open>cdc_datatypes\<close>: the test that writes every column type to the master and compares the rows the
  CDC service delivers. The two classes of \<open>cdc_result.cpp\<close> are kept as the value they hold.
\<close>

section \<open>Input and output values\<close>

text \<open>\<open>TestInput\<close>: a quoted value loses its first and last character.\<close>

definition test_input :: "string \<Rightarrow> string" where
  "test_input value =
     (if value \<noteq> [] \<and> (hd value = CHR ''\"'' \<or> hd value = CHR 0x27)
      then take (length value - 2) (drop 1 value) else value)"

text \<open>The text a primitive JSON value is printed as; an empty string counts as NULL.\<close>

fun json_text :: "json \<Rightarrow> string" where
  "json_text (JString t) = (if t = [] then ''NULL'' else t)"
| "json_text (JInteger i) = int_str i"
| "json_text JNull = ''NULL''"
| "json_text (JReal t) = t"
| "json_text JTrue = []"
| "json_text JFalse = []"
| "json_text (JObject kvs) = []"
| "json_text (JArray js) = []"

definition test_output :: "env \<Rightarrow> string \<Rightarrow> string \<Rightarrow> string" where
  "test_output E input name =
     (case json_parse E input of
        None \<Rightarrow> []
      | Some js \<Rightarrow> (case json_object_get js name of None \<Rightarrow> [] | Some v \<Rightarrow> json_text v))"

section \<open>The types and values\<close>

definition table_name :: string where
  "table_name = ''test.type''"

definition field_name :: string where
  "field_name = ''a''"

definition test_set :: "(string list \<times> string list) list" where
  "test_set =
     [([''TINYINT'', ''SMALLINT'', ''MEDIUMINT'', ''INT'', ''BIGINT''],
       [''0'', ''1'', ''-1'', ''20'', ''-20'']),
      ([''FLOAT'', ''DOUBLE'', ''DECIMAL(10, 2)''],
       [''0'', ''1.5'', ''-1.5'', ''20.5'', ''-20.5'']),
      ([''CHAR(50)'', ''VARCHAR(50)'', ''TINYTEXT'', ''TEXT'', ''MEDIUMTEXT'', ''LONGTEXT''],
       [''\"Hello world!\"'', ''\"The quick brown fox jumps over the lazy dog\"'']),
      ([''BINARY(50)'', ''VARBINARY(50)'', ''TINYBLOB'', ''BLOB'', ''MEDIUMBLOB'', ''LONGBLOB''],
       [''\"Hello world!\"'', ''\"The quick brown fox jumps over the lazy dog\"'', ''NULL''])]"

text \<open>The two nested loops go through these pairs in order.\<close>

definition test_pairs :: "(string \<times> string list) list" where
  "test_pairs = concat (map (\<lambda>(types, values). map (\<lambda>t. (t, values)) types) test_set)"

definition type_to_table_name :: "string \<Rightarrow> string" where
  "type_to_table_name type =
     (let name = table_name @ ''_'' @ type;
          name = cut_at name (CHR ''('')
      in cut_at name (CHR '' ''))"

section \<open>The test\<close>

definition insert_data :: "env \<Rightarrow> string \<Rightarrow> string \<Rightarrow> string list \<Rightarrow> 'a tc_scheme \<Rightarrow> 'a tc_scheme" where
  "insert_data E table type values s =
     (let r = tc_repl s;
          (_, s) = connect E r s;
          (_, s) = query_node E r (''CREATE TABLE '' @ table @ ''('' @ field_name @ '' '' @ type @ '')'') 0 s;
          s = do_loop values (\<lambda>v s. snd (query_node E r (''INSERT INTO '' @ table @ '' VALUES ('' @ v @ '')'') 0 s)) s;
          (_, s) = query_node E r (''DROP TABLE '' @ table) 0 s
      in close_connections r s)"

text \<open>The loop over the values: a row that cannot be read is reported but does not change \<open>rval\<close>.\<close>

fun compare_rows ::
  "env \<Rightarrow> string list \<Rightarrow> bool \<Rightarrow> cdc_conn \<Rightarrow> 'a world_scheme \<Rightarrow> ((bool \<times> cdc_conn) \<times> 'a world_scheme) option" where
  "compare_rows E [] rval c s = Some ((rval, c), s)"
| "compare_rows E (v # vs) rval c s =
     do { ((ok, row, c), s) \<leftarrow> readRow E [] c s;
          if ok \<and> test_input v \<noteq> test_output E row field_name
          then compare_rows E vs False c s
          else compare_rows E vs rval c s }"

definition test_type ::
  "env \<Rightarrow> string \<times> string list \<Rightarrow> bool \<Rightarrow> 'a tc_scheme \<Rightarrow> (bool \<times> 'a tc_scheme) option" where
  "test_type E tv rval s =
     (let s = set_timeout 60 s;
          name = type_to_table_name (fst tv);
          c = cdc_connection (tc_maxscale_IP s) 4001 ''skysql'' ''skysql'' 1
      in do { ((created, c), s) \<leftarrow> createConnection E c s;
              ((requested, c), s) \<leftarrow> (if created then requestData E name [] c s else Some ((False, c), s));
              ((rval, c), s) \<leftarrow> (if requested then compare_rows E (snd tv) rval c s else Some ((False, c), s));
              let s = stop_timeout s;
              (_, s) \<leftarrow> closeConnection E c s;
              Some (rval, s) })"

definition run_test :: "env \<Rightarrow> 'a tc_scheme \<Rightarrow> (bool \<times> 'a tc_scheme) option" where
  "run_test E s =
     (let s = do_loop test_pairs (\<lambda>tv s. insert_data E (type_to_table_name (fst tv)) (fst tv) (snd tv) s) s;
          (_, s) = connect E (tc_repl s) s;
          (_, s) = query_node E (tc_repl s) ''FLUSH LOGS'' 0 s;
          s = close_connections (tc_repl s) s;
          s = c_sleep 10 s
      in foreachM test_pairs (test_type E) True s)"

text \<open>\<open>main\<close>, once the test object exists.\<close>

definition cdc_datatypes :: "env \<Rightarrow> 'a tc_scheme \<Rightarrow> (int \<times> 'a tc_scheme) option" where
  "cdc_datatypes E s =
     do { (_, s) \<leftarrow> start_binlog E s;
          let (_, s) = restart_maxscale E s;
          (ok, s) \<leftarrow> run_test E s;
          let s = (if \<not> ok then add_result 1 s else s);
          (_, s) \<leftarrow> check_maxscale_processes E 1 s;
          Some (tc_global_result s, s) }"

end
