(* ===== verification/Cdc_Test_Props.thy ===== *)
theory Cdc_Test_Props
  imports Cdc_Test
begin

text \<open>
  What the test of the column types really compares: its loop over the rows is the reading of
  as many rows as there are values, followed by a comparison that skips the unread ones.
\<close>

fun read_rows ::
  "env \<Rightarrow> nat \<Rightarrow> cdc_conn \<Rightarrow> 'a world_scheme \<Rightarrow> (((bool \<times> string) list \<times> cdc_conn) \<times> 'a world_scheme) option" where
  "read_rows E 0 c s = Some (([], c), s)"
| "read_rows E (Suc n) c s =
     do { ((ok, row, c), s) \<leftarrow> readRow E [] c s;
          ((rs, c), s) \<leftarrow> read_rows E n c s;
          Some (((ok, row) # rs, c), s) }"

definition row_matches :: "env \<Rightarrow> string \<Rightarrow> bool \<times> string \<Rightarrow> bool" where
  "row_matches E v r \<longleftrightarrow> (case r of (ok, row) \<Rightarrow> \<not> ok \<or> test_input v = test_output E row field_name)"

text \<open>
  Comparing while reading is reading first and comparing then: the verdict is the old one
  and that every row that was read has the value that was written. A row that could not be
  read counts as a match.
\<close>

theorem compare_rows_reads:
  "compare_rows E vs rval c s =
     do { ((rs, c), t) \<leftarrow> read_rows E (length vs) c s;
          Some ((rval \<and> list_all2 (row_matches E) vs rs, c), t) }"
proof (induction vs arbitrary: rval c s)
  case (Cons v vs)
  show ?case
  proof (cases "readRow E [] c s")
    case (Some r)
    obtain ok row c1 s1 where "r = ((ok, row, c1), s1)" by (metis prod_cases4 surj_pair)
    with Some Cons show ?thesis
      by (cases "read_rows E (length vs) c1 s1") (auto simp: row_matches_def split: prod.splits)
  qed simp
qed simp

text \<open>No two types of the test share a table, and the names need no quoting.\<close>

lemma type_to_table_name_plain:
  "CHR ''('' \<notin> set (type_to_table_name t) \<and> CHR '' '' \<notin> set (type_to_table_name t)"
proof -
  have "set (cut_at s c) \<subseteq> set s - {c}" for s c by (auto simp: cut_at_def dest: set_takeWhileD)
  then show ?thesis unfolding type_to_table_name_def Let_def by blast
qed

lemma type_tables_distinct: "distinct (map (type_to_table_name \<circ> fst) test_pairs)"
  by code_simp

end
