(* ===== verification/Config_Ops.thy ===== *)
theory Config_Ops
  imports Test_Ops Replication "HOL-Library.Char_ord" "HOL-Library.List_Lexorder"
begin

text \<open>
  \<open>config_operations.cpp\<close>: changing the configuration of a running MaxScale through \<open>maxadmin\<close>,
  and the \<open>mxs922\<close> tests that use it. The state is the test object together with the two
  private sets of the one \<open>Config\<close> object; a \<open>std::set\<close> is traversed in ascending order. Server
  numbers index the arrays of the backends and are not negative.
\<close>

record cfg = tc +
  created_servers :: "nat set"
  created_monitors :: "string set"

section \<open>Services\<close>

datatype service = SERVICE_RWSPLIT | SERVICE_RCONN_SLAVE | SERVICE_RCONN_MASTER

definition service_index :: "service \<Rightarrow> nat" where
  "service_index sv = (case sv of SERVICE_RWSPLIT \<Rightarrow> 0 | SERVICE_RCONN_SLAVE \<Rightarrow> 1 | SERVICE_RCONN_MASTER \<Rightarrow> 2)"

text \<open>The enumerators compare as the numbers they are.\<close>

instantiation service :: linorder
begin

definition less_eq_service :: "service \<Rightarrow> service \<Rightarrow> bool" where
  "less_eq_service a b \<longleftrightarrow> service_index a \<le> service_index b"

definition less_service :: "service \<Rightarrow> service \<Rightarrow> bool" where
  "less_service a b \<longleftrightarrow> service_index a < service_index b"

instance
proof
  fix a b c :: service
  show "a < b \<longleftrightarrow> a \<le> b \<and> \<not> b \<le> a" by (auto simp: less_eq_service_def less_service_def)
  show "a \<le> a" by (simp add: less_eq_service_def)
  show "a \<le> b \<Longrightarrow> b \<le> c \<Longrightarrow> a \<le> c" by (simp add: less_eq_service_def)
  show "a \<le> b \<Longrightarrow> b \<le> a \<Longrightarrow> a = b"
    by (cases a; cases b) (simp_all add: less_eq_service_def service_index_def)
  show "a \<le> b \<or> b \<le> a" by (auto simp: less_eq_service_def)
qed

end

definition SERVICE_NAME1 :: string where "SERVICE_NAME1 = ''rwsplit-service''"

definition SERVICE_NAME2 :: string where "SERVICE_NAME2 = ''read-connection-router-master''"

definition SERVICE_NAME3 :: string where "SERVICE_NAME3 = ''read-connection-router-slave''"

definition services :: "(string \<times> string \<times> int) list" where
  "services =
     [(SERVICE_NAME1, ''rwsplit-service-listener'', 4006),
      (SERVICE_NAME2, ''read-connection-router-master-listener'', 4008),
      (SERVICE_NAME3, ''read-connection-router-slave-listener'', 4009)]"

section \<open>Servers\<close>

text \<open>\<open>test_->ssh_maxscale(true, ...)\<close> whose result is ignored, with the formatted command.\<close>

definition admin :: "env \<Rightarrow> string \<Rightarrow> 'a tc_scheme \<Rightarrow> 'a tc_scheme" where
  "admin E cmd s = snd (ssh_maxscale E True cmd s)"

definition server_name :: "nat \<Rightarrow> string" where
  "server_name num = ''server'' @ nat_str num"

definition add_cmd :: "nat \<Rightarrow> string \<Rightarrow> string" where
  "add_cmd num object = ''maxadmin add server '' @ server_name num @ '' '' @ object"

definition remove_cmd :: "nat \<Rightarrow> string \<Rightarrow> string" where
  "remove_cmd num object = ''maxadmin remove server '' @ server_name num @ '' '' @ object"

definition monitors :: "'a cfg_scheme \<Rightarrow> string list" where
  "monitors s = sorted_list_of_set (created_monitors s)"

definition add_server :: "env \<Rightarrow> nat \<Rightarrow> 'a cfg_scheme \<Rightarrow> 'a cfg_scheme" where
  "add_server E num s =
     (let s = set_timeout 120 s;
          s = admin E (add_cmd num SERVICE_NAME1) s;
          s = admin E (add_cmd num SERVICE_NAME2) s;
          s = admin E (add_cmd num SERVICE_NAME3) s;
          s = do_loop (monitors s) (\<lambda>a. admin E (add_cmd num a)) s
      in stop_timeout s)"

definition remove_server :: "env \<Rightarrow> nat \<Rightarrow> 'a cfg_scheme \<Rightarrow> 'a cfg_scheme" where
  "remove_server E num s =
     (let s = set_timeout 120 s;
          s = admin E (remove_cmd num SERVICE_NAME1) s;
          s = admin E (remove_cmd num SERVICE_NAME2) s;
          s = admin E (remove_cmd num SERVICE_NAME3) s;
          s = do_loop (monitors s) (\<lambda>a. admin E (remove_cmd num a)) s
      in stop_timeout s)"

definition add_created_servers :: "env \<Rightarrow> string \<Rightarrow> 'a cfg_scheme \<Rightarrow> 'a cfg_scheme" where
  "add_created_servers E object s =
     do_loop (sorted_list_of_set (created_servers s)) (\<lambda>a. admin E (add_cmd a object)) s"

definition destroy_cmd :: "nat \<Rightarrow> string" where
  "destroy_cmd num = ''maxadmin destroy server '' @ server_name num"

definition destroy_server :: "env \<Rightarrow> nat \<Rightarrow> 'a cfg_scheme \<Rightarrow> 'a cfg_scheme" where
  "destroy_server E num s =
     (let s = set_timeout 120 s;
          s = admin E (destroy_cmd num) s;
          s = s\<lparr>created_servers := created_servers s - {num}\<rparr>
      in stop_timeout s)"

definition create_cmd :: "mnodes \<Rightarrow> nat \<Rightarrow> string" where
  "create_cmd m num = ''maxadmin create server '' @ server_name num @ '' '' @ mn_IP m num @ '' '' @ int_str (mn_port m num)"

definition create_server :: "env \<Rightarrow> nat \<Rightarrow> 'a cfg_scheme \<Rightarrow> 'a cfg_scheme" where
  "create_server E num s =
     (let s = set_timeout 120 s;
          s = admin E (create_cmd (repl s) num) s;
          s = s\<lparr>created_servers := insert num (created_servers s)\<rparr>
      in stop_timeout s)"

text \<open>The three overloads differ in how the value is printed.\<close>

definition alter_server :: "env \<Rightarrow> nat \<Rightarrow> string \<Rightarrow> string \<Rightarrow> 'a cfg_scheme \<Rightarrow> 'a cfg_scheme" where
  "alter_server E num key v s =
     admin E (''maxadmin alter server '' @ server_name num @ '' '' @ key @ ''='' @ v) s"

definition alter_server_int :: "env \<Rightarrow> nat \<Rightarrow> string \<Rightarrow> int \<Rightarrow> 'a cfg_scheme \<Rightarrow> 'a cfg_scheme" where
  "alter_server_int E num key v s = alter_server E num key (int_str v) s"

section \<open>Monitors\<close>

definition alter_monitor :: "env \<Rightarrow> string \<Rightarrow> string \<Rightarrow> string \<Rightarrow> 'a cfg_scheme \<Rightarrow> 'a cfg_scheme" where
  "alter_monitor E name key v s =
     admin E (''maxadmin alter monitor '' @ name @ '' '' @ key @ ''='' @ v) s"

definition alter_monitor_int :: "env \<Rightarrow> string \<Rightarrow> string \<Rightarrow> int \<Rightarrow> 'a cfg_scheme \<Rightarrow> 'a cfg_scheme" where
  "alter_monitor_int E name key v s = alter_monitor E name key (int_str v) s"

definition start_monitor :: "env \<Rightarrow> string \<Rightarrow> 'a cfg_scheme \<Rightarrow> 'a cfg_scheme" where
  "start_monitor E name s = admin E (''maxadmin restart monitor '' @ name) s"

definition create_monitor :: "env \<Rightarrow> string \<Rightarrow> string \<Rightarrow> int \<Rightarrow> 'a cfg_scheme \<Rightarrow> 'a cfg_scheme" where
  "create_monitor E name module interval s =
     (let s = set_timeout 120 s;
          s = admin E (''maxadmin create monitor '' @ name @ '' '' @ module) s;
          s = alter_monitor_int E name ''monitor_interval'' interval s;
          s = alter_monitor E name ''user'' (tc_maxscale_user s) s;
          s = alter_monitor E name ''password'' (tc_maxscale_password s) s;
          s = admin E (''maxadmin restart monitor '' @ name) s;
          s = stop_timeout s
      in s\<lparr>created_monitors := insert name (created_monitors s)\<rparr>)"

definition destroy_monitor :: "env \<Rightarrow> string \<Rightarrow> 'a cfg_scheme \<Rightarrow> 'a cfg_scheme" where
  "destroy_monitor E name s =
     (let s = set_timeout 120 s;
          s = admin E (''maxadmin destroy monitor '' @ name) s;
          s = stop_timeout s
      in s\<lparr>created_monitors := created_monitors s - {name}\<rparr>)"

definition restart_monitors :: "env \<Rightarrow> 'a cfg_scheme \<Rightarrow> 'a cfg_scheme" where
  "restart_monitors E s =
     do_loop (monitors s) (\<lambda>a s.
       let s = admin E (''maxadmin shutdown monitor '' @ dq @ a @ dq) s
       in admin E (''maxadmin restart monitor '' @ dq @ a @ dq) s) s"

section \<open>Listeners\<close>

definition listener_cmd :: "service \<Rightarrow> string" where
  "listener_cmd sv =
     (case services ! service_index sv of (sname, listener, port) \<Rightarrow>
        ''maxadmin create listener '' @ sname @ '' '' @ listener @ '' default '' @ int_str port)"

definition create_listener :: "env \<Rightarrow> service \<Rightarrow> 'a cfg_scheme \<Rightarrow> 'a cfg_scheme" where
  "create_listener E sv s =
     (let s = set_timeout 120 s; s = admin E (listener_cmd sv) s in stop_timeout s)"

definition create_ssl_listener :: "env \<Rightarrow> service \<Rightarrow> 'a cfg_scheme \<Rightarrow> 'a cfg_scheme" where
  "create_ssl_listener E sv s =
     (let s = set_timeout 120 s;
          s = admin E (listener_cmd sv @ '' default default default '' @
                ''/home/vagrant/certs/server-key.pem '' @
                ''/home/vagrant/certs/server-cert.pem '' @
                ''/home/vagrant/certs/ca.pem '') s
      in stop_timeout s)"

definition destroy_listener :: "env \<Rightarrow> service \<Rightarrow> 'a cfg_scheme \<Rightarrow> 'a cfg_scheme" where
  "destroy_listener E sv s =
     (let s = set_timeout 120 s;
          s = (case services ! service_index sv of (sname, listener, port) \<Rightarrow>
                 admin E (''maxadmin destroy listener '' @ sname @ '' '' @ listener) s)
      in stop_timeout s)"

definition create_all_listeners :: "env \<Rightarrow> 'a cfg_scheme \<Rightarrow> 'a cfg_scheme" where
  "create_all_listeners E s =
     (let s = create_listener E SERVICE_RWSPLIT s;
          s = create_listener E SERVICE_RCONN_SLAVE s
      in create_listener E SERVICE_RCONN_MASTER s)"

section \<open>The standard state\<close>

text \<open>\<open>reset\<close>\<close>

definition config_reset :: "env \<Rightarrow> 'a cfg_scheme \<Rightarrow> 'a cfg_scheme" where
  "config_reset E s =
     do_loop (node_ids (repl s)) (\<lambda>i s.
       if i \<notin> created_servers s then let s = create_server E i s in add_server E i s else s) s"

definition server_count_cmd :: "int \<Rightarrow> string" where
  "server_count_cmd expected =
     ''test '' @ dq @ ''`maxadmin list servers|grep '' @ quote @ ''server[0-9]'' @ quote @
     ''|wc -l`'' @ dq @ '' == '' @ dq @ int_str expected @ dq"

definition check_server_count :: "env \<Rightarrow> int \<Rightarrow> 'a cfg_scheme \<Rightarrow> bool \<times> 'a cfg_scheme" where
  "check_server_count E expected s =
     (let (rc, s) = ssh_maxscale E True (server_count_cmd expected) s in
      if rc \<noteq> 0 then (False, add_result 1 s) else (True, s))"

end
