(* ===== verification/Config_Props.thy ===== *)
theory Config_Props
  imports Config_Ops Test_Lemmas Watchdog_Props
begin

text \<open>
  The properties of \<open>Config\<close>. An operation issues \<open>maxadmin\<close> commands and keeps two sets. The
  abstract side is the list of commands alone: \<open>adm\<close> names the four that concern servers, and
  the object's set must be what these commands create and destroy.
\<close>

section \<open>Commands in the log\<close>

definition admin_event :: "'a tc_scheme \<Rightarrow> string \<Rightarrow> event" where
  "admin_event s cmd =
     EPopenW (if tc_maxscale_IP s = ''127.0.0.1'' then ''bash''
              else tc_ssh_prefix s @ (if tc_verbose s then '''' else '' > /dev/null''))
       (ssh_maxscale_input s True cmd)"

lemma admin_emit: "admin E cmd s = emit (admin_event s cmd) s"
  by (simp add: admin_def ssh_maxscale_def admin_event_def popen_write_def split_def Let_def)

text \<open>What the commands' texts depend on stays fixed.\<close>

definition same_access :: "'a cfg_scheme \<Rightarrow> 'a cfg_scheme \<Rightarrow> bool" where
  "same_access s t \<longleftrightarrow> tc_maxscale_IP t = tc_maxscale_IP s \<and> tc_maxscale_keyfile t = tc_maxscale_keyfile s \<and>
     tc_access_user t = tc_access_user s \<and> tc_verbose t = tc_verbose s \<and> objs t = objs s \<and> tc_repl t = tc_repl s"

lemma admin_event_same: "same_access s t \<Longrightarrow> admin_event t cmd = admin_event s cmd"
  by (simp add: same_access_def admin_event_def tc_ssh_prefix_def ssh_maxscale_input_def)

lemma same_access_refl [simp]: "same_access s s"
  by (simp add: same_access_def)

lemma same_access_trans: "same_access s t \<Longrightarrow> same_access t u \<Longrightarrow> same_access s u"
  by (simp add: same_access_def)

lemma same_access_repl: "same_access s t \<Longrightarrow> repl t = repl s"
  by (simp add: same_access_def repl_def)

text \<open>
  \<open>issues cmds s t\<close>: from \<open>s\<close> to \<open>t\<close> exactly these commands were sent, and neither set changed.
\<close>

definition issues :: "string list \<Rightarrow> 'a cfg_scheme \<Rightarrow> 'a cfg_scheme \<Rightarrow> bool" where
  "issues cmds s t \<longleftrightarrow> trace t = trace s @ map (admin_event s) cmds \<and> same_access s t"

definition same_sets :: "'a cfg_scheme \<Rightarrow> 'a cfg_scheme \<Rightarrow> bool" where
  "same_sets s t \<longleftrightarrow> created_servers t = created_servers s \<and> created_monitors t = created_monitors s"

lemma issues_trans: "issues as s t \<Longrightarrow> issues bs t u \<Longrightarrow> issues (as @ bs) s u"
  by (auto simp: issues_def admin_event_same[of s t] intro: same_access_trans)

lemma issues_Nil [simp]: "issues [] s s"
  by (simp add: issues_def)

lemma issues_admin [simp]: "issues [cmd] s (admin E cmd s)" "same_sets s (admin E cmd s)"
  by (simp_all add: issues_def same_access_def same_sets_def admin_emit emit_def)

lemma issues_timeout [simp]:
  "issues cmds s (set_timeout k t) \<longleftrightarrow> issues cmds s t" "same_sets s (set_timeout k t) \<longleftrightarrow> same_sets s t"
  "issues cmds s (stop_timeout t) \<longleftrightarrow> issues cmds s t" "same_sets s (stop_timeout t) \<longleftrightarrow> same_sets s t"
  by (simp_all add: issues_def same_access_def same_sets_def set_timeout_def stop_timeout_def)

lemma issues_sets [simp]:
  "issues cmds s (t\<lparr>created_servers := x\<rparr>) \<longleftrightarrow> issues cmds s t"
  "issues cmds s (t\<lparr>created_monitors := y\<rparr>) \<longleftrightarrow> issues cmds s t"
  by (simp_all add: issues_def same_access_def)

lemma same_sets_refl [simp]: "same_sets s s"
  by (simp add: same_sets_def)

lemma same_sets_trans: "same_sets s t \<Longrightarrow> same_sets t u \<Longrightarrow> same_sets s u"
  by (simp add: same_sets_def)

text \<open>One more command at the end of a sequence, and a loop of commands.\<close>

lemma issues_then_admin:
  "issues as s t \<Longrightarrow> issues (as @ [cmd]) s (admin E cmd t)"
  "same_sets s t \<Longrightarrow> same_sets s (admin E cmd t)"
  using issues_trans issues_admin same_sets_trans by blast+

lemma issues_then_loop:
  "issues as s t \<Longrightarrow> issues (as @ map f xs) s (do_loop xs (\<lambda>x. admin E (f x)) t)"
  "same_sets s t \<Longrightarrow> same_sets s (do_loop xs (\<lambda>x. admin E (f x)) t)"
proof (induction xs arbitrary: as t)
  case (Cons x xs)
  { case 1
    from Cons.IH(1)[OF issues_then_admin(1)[OF 1], where cmd1 = "f x" and E1 = E] show ?case by simp
  next
    case 2
    from Cons.IH(2)[OF issues_then_admin(2)[OF 2], where cmd1 = "f x" and E1 = E] show ?case by simp }
qed simp_all

lemmas issues_steps = issues_then_admin issues_then_loop

lemma set_timeout_created [simp]:
  "created_servers (set_timeout k s) = created_servers s" "created_monitors (set_timeout k s) = created_monitors s"
  "created_servers (stop_timeout s) = created_servers s" "created_monitors (stop_timeout s) = created_monitors s"
  by (simp_all add: set_timeout_def stop_timeout_def)

section \<open>The sets mirror the commands\<close>

datatype adm = Create nat | Destroy nat | CreateMonitor string string | DestroyMonitor string | Other string

definition adm_text :: "mnodes \<Rightarrow> adm \<Rightarrow> string" where
  "adm_text m a =
     (case a of
        Create n \<Rightarrow> create_cmd m n
      | Destroy n \<Rightarrow> destroy_cmd n
      | CreateMonitor name module \<Rightarrow> ''maxadmin create monitor '' @ name @ '' '' @ module
      | DestroyMonitor name \<Rightarrow> ''maxadmin destroy monitor '' @ name
      | Other cmd \<Rightarrow> cmd)"

fun adm_servers :: "adm \<Rightarrow> nat set \<Rightarrow> nat set" where
  "adm_servers (Create n) S = insert n S"
| "adm_servers (Destroy n) S = S - {n}"
| "adm_servers _ S = S"

fun adm_monitors :: "adm \<Rightarrow> string set \<Rightarrow> string set" where
  "adm_monitors (CreateMonitor name _) S = insert name S"
| "adm_monitors (DestroyMonitor name) S = S - {name}"
| "adm_monitors _ S = S"

definition mirrors :: "adm list \<Rightarrow> 'a cfg_scheme \<Rightarrow> 'a cfg_scheme \<Rightarrow> bool" where
  "mirrors as s t \<longleftrightarrow> issues (map (adm_text (repl s)) as) s t \<and>
     created_servers t = fold adm_servers as (created_servers s) \<and>
     created_monitors t = fold adm_monitors as (created_monitors s)"

lemma mirrors_trans: "mirrors as s t \<Longrightarrow> mirrors bs t u \<Longrightarrow> mirrors (as @ bs) s u"
  using admin_event_same[of s t] same_access_repl[of s t] same_access_trans[of s t u]
  by (simp add: mirrors_def issues_def)

lemma mirrors_Nil [simp]: "mirrors [] s s"
  by (simp add: mirrors_def)

lemma fold_Other [simp]: "fold adm_servers (map Other cmds) S = S" "fold adm_monitors (map Other cmds) M = M"
  by (induction cmds) simp_all

lemma fold_Others:
  "fold adm_servers (map (\<lambda>a. Other (f a)) xs) S = S" "fold adm_monitors (map (\<lambda>a. Other (f a)) xs) M = M"
  by (induction xs) simp_all

lemma map_adm_Other [simp]: "map (adm_text m \<circ> Other) cmds = cmds"
  by (induction cmds) (simp_all add: adm_text_def)

lemma mirrors_others: "issues cmds s t \<Longrightarrow> same_sets s t \<Longrightarrow> mirrors (map Other cmds) s t"
  by (simp add: mirrors_def same_sets_def)

definition service_names :: "string list" where
  "service_names = [SERVICE_NAME1, SERVICE_NAME2, SERVICE_NAME3]"

lemma mirrors_event:
  assumes "trace t = trace s @ map (admin_event s) cmds" "same_access s t" "cmds = map (adm_text (repl s)) as"
    and "created_servers t = fold adm_servers as (created_servers s)"
    and "created_monitors t = fold adm_monitors as (created_monitors s)"
  shows "mirrors as s t"
  using assms by (simp add: mirrors_def issues_def)

lemmas one_command = admin_emit emit_def same_access_def admin_event_def tc_ssh_prefix_def
  ssh_maxscale_input_def set_timeout_def stop_timeout_def repl_def adm_text_def

lemma create_server_mirrors: "mirrors [Create n] s (create_server E n s)"
  by (rule mirrors_event) (simp_all add: create_server_def Let_def one_command)

lemma destroy_server_mirrors: "mirrors [Destroy n] s (destroy_server E n s)"
  by (rule mirrors_event) (simp_all add: destroy_server_def Let_def one_command)

lemma admin_mirrors: "mirrors [Other cmd] s (admin E cmd s)"
  using mirrors_others[OF issues_admin] by simp

lemma loop_mirrors: "mirrors (map (\<lambda>x. Other (f x)) xs) s (do_loop xs (\<lambda>x. admin E (f x)) s)"
  using mirrors_others[OF issues_then_loop(1)[OF issues_Nil] issues_then_loop(2)[OF same_sets_refl], of f xs]
  by (simp add: comp_def)

lemma mirrors_timeout [simp]:
  "mirrors as s (stop_timeout t) \<longleftrightarrow> mirrors as s t" "mirrors as s (set_timeout k t) \<longleftrightarrow> mirrors as s t"
  by (simp_all add: mirrors_def)

lemma monitors_admin [simp]: "monitors (admin E cmd s) = monitors s" "monitors (set_timeout k s) = monitors s"
  by (simp_all add: monitors_def admin_emit emit_def)

text \<open>\<open>add_server\<close> and \<open>remove_server\<close>: the command for the three services, then for the monitors.\<close>

lemma services_mirrors:
  assumes "\<And>a. adm_text (repl s) (Other (f a)) = f a"
  shows "mirrors (map (\<lambda>a. Other (f a)) (service_names @ xs)) s
     (stop_timeout (do_loop xs (\<lambda>a. admin E (f a))
        (admin E (f SERVICE_NAME3) (admin E (f SERVICE_NAME2) (admin E (f SERVICE_NAME1) (set_timeout 120 s))))))"
proof -
  have "mirrors [] s (set_timeout 120 s)" by simp
  from mirrors_trans[OF mirrors_trans[OF mirrors_trans[OF mirrors_trans[OF this admin_mirrors] admin_mirrors]
        admin_mirrors] loop_mirrors]
  show ?thesis by (simp add: service_names_def)
qed

lemma add_remove_mirrors:
  "mirrors (map (\<lambda>a. Other (add_cmd n a)) (service_names @ monitors s)) s (add_server E n s)"
  "mirrors (map (\<lambda>a. Other (remove_cmd n a)) (service_names @ monitors s)) s (remove_server E n s)"
  unfolding add_server_def remove_server_def Let_def monitors_admin
  by (rule services_mirrors, simp add: adm_text_def)+

lemma mirrors_create_monitor:
  assumes "mirrors (Other (''maxadmin create monitor '' @ name @ '' '' @ module) # map Other cmds) s u"
  shows "mirrors (CreateMonitor name module # map Other cmds) s (u\<lparr>created_monitors := insert name (created_monitors u)\<rparr>)"
  using assms by (simp add: mirrors_def adm_text_def)

lemma create_monitor_mirrors:
  "\<exists>cmds. mirrors (CreateMonitor name module # map Other cmds) s (create_monitor E name module i s)"
proof -
  have chain: "mirrors (Other c1 # map Other [c2, c3, c4, c5]) s
     (stop_timeout (admin E c5 (admin E c4 (admin E c3 (admin E c2 (admin E c1 (set_timeout 120 s)))))))" for c1 c2 c3 c4 c5
  proof -
    have "mirrors [] s (set_timeout 120 s)" by simp
    from mirrors_trans[OF mirrors_trans[OF mirrors_trans[OF mirrors_trans[OF mirrors_trans[OF this admin_mirrors]
          admin_mirrors] admin_mirrors] admin_mirrors] admin_mirrors]
    show ?thesis by simp
  qed
  show ?thesis unfolding create_monitor_def alter_monitor_int_def alter_monitor_def Let_def
    by (rule exI, rule mirrors_create_monitor[OF chain])
qed

lemma destroy_monitor_mirrors: "mirrors [DestroyMonitor name] s (destroy_monitor E name s)"
  by (rule mirrors_event) (simp_all add: destroy_monitor_def Let_def one_command)

lemma restart_monitors_mirrors: "\<exists>cmds. mirrors (map Other cmds) s (restart_monitors E s)"
proof -
  have "\<exists>cmds. mirrors (map Other cmds) s (do_loop xs (\<lambda>a s. admin E (g a) (admin E (f a) s)) s)" for xs f g
  proof (induction xs arbitrary: s)
    case (Cons x xs)
    from Cons obtain cmds where
      "mirrors (map Other cmds) (admin E (g x) (admin E (f x) s)) (do_loop (x # xs) (\<lambda>a s. admin E (g a) (admin E (f a) s)) s)"
      by auto
    from mirrors_trans[OF admin_mirrors mirrors_trans[OF admin_mirrors this]]
    show ?case by (intro exI[of _ "f x # g x # cmds"]) simp
  qed (use mirrors_Nil in \<open>auto intro: exI[of _ "[]"]\<close>)
  then show ?thesis by (simp add: restart_monitors_def Let_def)
qed

lemma listener_mirrors:
  "\<exists>cmds. mirrors (map Other cmds) s (create_listener E sv s)"
  "\<exists>cmds. mirrors (map Other cmds) s (create_ssl_listener E sv s)"
  "\<exists>cmds. mirrors (map Other cmds) s (destroy_listener E sv s)"
proof -
  have one: "\<exists>cmds. mirrors (map Other cmds) s (stop_timeout (admin E cmd (set_timeout 120 s)))" for cmd
    by (rule exI[of _ "[cmd]"], rule mirrors_event) (simp_all add: one_command)
  then show "\<exists>cmds. mirrors (map Other cmds) s (create_listener E sv s)"
    "\<exists>cmds. mirrors (map Other cmds) s (create_ssl_listener E sv s)"
    by (simp_all add: create_listener_def create_ssl_listener_def Let_def)
  show "\<exists>cmds. mirrors (map Other cmds) s (destroy_listener E sv s)"
    using one by (simp add: destroy_listener_def Let_def split: prod.splits)
qed

lemma create_all_listeners_mirrors: "\<exists>cmds. mirrors (map Other cmds) s (create_all_listeners E s)"
proof -
  obtain c1 where 1: "mirrors (map Other c1) s (create_listener E SERVICE_RWSPLIT s)"
    using listener_mirrors by blast
  obtain c2 where 2: "mirrors (map Other c2) (create_listener E SERVICE_RWSPLIT s)
      (create_listener E SERVICE_RCONN_SLAVE (create_listener E SERVICE_RWSPLIT s))"
    using listener_mirrors by blast
  obtain c3 where "mirrors (map Other c3) (create_listener E SERVICE_RCONN_SLAVE (create_listener E SERVICE_RWSPLIT s))
      (create_all_listeners E s)"
    using listener_mirrors unfolding create_all_listeners_def Let_def by blast
  from mirrors_trans[OF mirrors_trans[OF 1 2] this] show ?thesis
    by (intro exI[of _ "c1 @ c2 @ c3"]) simp
qed

section \<open>Any sequence of operations\<close>

inductive config_step :: "env \<Rightarrow> 'a cfg_scheme \<Rightarrow> 'a cfg_scheme \<Rightarrow> bool" for E where
  "config_step E s (add_server E n s)"
| "config_step E s (remove_server E n s)"
| "config_step E s (add_created_servers E object s)"
| "config_step E s (create_server E n s)"
| "config_step E s (destroy_server E n s)"
| "config_step E s (alter_server E n key v s)"
| "config_step E s (create_monitor E name module interval s)"
| "config_step E s (alter_monitor E name key v s)"
| "config_step E s (start_monitor E name s)"
| "config_step E s (destroy_monitor E name s)"
| "config_step E s (restart_monitors E s)"
| "config_step E s (create_listener E sv s)"
| "config_step E s (create_ssl_listener E sv s)"
| "config_step E s (destroy_listener E sv s)"
| "config_step E s (config_reset E s)"

lemma config_reset_loop_mirrors:
  "\<exists>as. mirrors as s (do_loop ids (\<lambda>i s. if i \<notin> created_servers s then add_server E i (create_server E i s) else s) s)"
proof (induction ids arbitrary: s)
  case Nil
  show ?case by (rule exI[of _ "[]"]) simp
next
  case (Cons i ids)
  show ?case
  proof (cases "i \<in> created_servers s")
    case True
    with Cons show ?thesis by simp
  next
    case False
    obtain as where "mirrors as (add_server E i (create_server E i s))
        (do_loop (i # ids) (\<lambda>i s. if i \<notin> created_servers s then add_server E i (create_server E i s) else s) s)"
      using Cons False by auto
    from mirrors_trans[OF mirrors_trans[OF create_server_mirrors add_remove_mirrors(1)] this] show ?thesis by blast
  qed
qed

lemma config_step_mirrors: "config_step E s t \<Longrightarrow> \<exists>as. mirrors as s t"
proof (induction rule: config_step.induct)
  case (3 s object)
  show ?case unfolding add_created_servers_def by (rule exI, rule loop_mirrors)
next
  case (15 s)
  show ?case unfolding config_reset_def Let_def by (rule config_reset_loop_mirrors)
next
  case (6 s n key v)
  then show ?case using admin_mirrors unfolding alter_server_def by blast
next
  case (8 s name key v)
  then show ?case using admin_mirrors unfolding alter_monitor_def by blast
next
  case (9 s name)
  then show ?case using admin_mirrors unfolding start_monitor_def by blast
next
  case (7 s name module interval)
  then show ?case using create_monitor_mirrors[of name module s E interval] by blast
next
  case (11 s)
  then show ?case using restart_monitors_mirrors[of s E] by blast
next
  case (12 s sv)
  then show ?case using listener_mirrors(1)[of s E sv] by blast
next
  case (13 s sv)
  then show ?case using listener_mirrors(2)[of s E sv] by blast
next
  case (14 s sv)
  then show ?case using listener_mirrors(3)[of s E sv] by blast
qed (use add_remove_mirrors create_server_mirrors destroy_server_mirrors destroy_monitor_mirrors in blast)+


section \<open>The standard state\<close>

lemma created_add_server [simp]: "created_servers (add_server E n s) = created_servers s"
  "created_monitors (add_server E n s) = created_monitors s"
  using add_remove_mirrors(1)[of n s E] by (simp_all add: mirrors_def fold_Others)

lemma created_create_server [simp]:
  "created_servers (create_server E n s) = insert n (created_servers s)"
  "created_monitors (create_server E n s) = created_monitors s"
  using create_server_mirrors[of n s E] by (simp_all add: mirrors_def)

abbreviation reset_loop :: "env \<Rightarrow> nat list \<Rightarrow> 'a cfg_scheme \<Rightarrow> 'a cfg_scheme" where
  "reset_loop E ids s \<equiv>
     do_loop ids (\<lambda>i s. if i \<notin> created_servers s then add_server E i (create_server E i s) else s) s"

lemma reset_loop_created: "created_servers (reset_loop E ids s) = created_servers s \<union> set ids"
  by (induction ids arbitrary: s) auto

lemma reset_loop_idle: "set ids \<subseteq> created_servers s \<Longrightarrow> reset_loop E ids s = s"
  by (induction ids) auto

definition reset_cmds :: "'a cfg_scheme \<Rightarrow> nat \<Rightarrow> adm list" where
  "reset_cmds s i = Create i # map (\<lambda>a. Other (add_cmd i a)) (service_names @ monitors s)"

lemma reset_loop_cmds:
  assumes "distinct ids"
  shows "mirrors (concat (map (reset_cmds s) (filter (\<lambda>i. i \<notin> created_servers s) ids))) s (reset_loop E ids s)"
  using assms
proof (induction ids arbitrary: s)
  case (Cons i ids)
  show ?case
  proof (cases "i \<in> created_servers s")
    case False
    let ?t = "add_server E i (create_server E i s)"
    have cmds: "reset_cmds ?t = reset_cmds s" by (simp add: reset_cmds_def monitors_def fun_eq_iff)
    have "filter (\<lambda>i. i \<notin> created_servers ?t) ids = filter (\<lambda>i. i \<notin> created_servers s) ids"
      using Cons.prems by (auto intro: filter_cong)
    with Cons.IH[of ?t] Cons.prems cmds
    have rest: "mirrors (concat (map (reset_cmds s) (filter (\<lambda>i. i \<notin> created_servers s) ids))) ?t (reset_loop E ids ?t)"
      by simp
    have "mirrors (reset_cmds s i) s ?t"
      using mirrors_trans[OF create_server_mirrors[of i s E] add_remove_mirrors(1)[of i "create_server E i s" E]]
      by (simp add: reset_cmds_def monitors_def)
    from mirrors_trans[OF this rest] False show ?thesis by simp
  qed (use Cons in simp)
qed simp

text \<open>
  C19. \<open>reset\<close> creates exactly the backends that are missing, in ascending order, and adds each
  of them to the three services and all created monitors; afterwards every backend is a
  created server, and a second \<open>reset\<close> sends nothing and changes nothing.
\<close>

theorem config_reset_completes:
  "trace (config_reset E s) = trace s @ map (\<lambda>a. admin_event s (adm_text (repl s) a))
       (concat (map (reset_cmds s) (filter (\<lambda>i. i \<notin> created_servers s) (node_ids (repl s))))) \<and>
   created_servers (config_reset E s) = created_servers s \<union> {0 ..< nat (mn_N (repl s))} \<and>
   config_reset E (config_reset E s) = config_reset E s"
proof -
  have r: "config_reset E s = reset_loop E (node_ids (repl s)) s" for s :: "'a cfg_scheme"
    unfolding config_reset_def Let_def ..
  have m: "mirrors (concat (map (reset_cmds s) (filter (\<lambda>i. i \<notin> created_servers s) (node_ids (repl s))))) s (config_reset E s)"
    unfolding r by (rule reset_loop_cmds) (simp add: node_ids_def)
  then have "repl (config_reset E s) = repl s" by (auto simp: mirrors_def issues_def same_access_repl)
  moreover have c: "created_servers (config_reset E s) = created_servers s \<union> set (node_ids (repl s))"
    unfolding r by (rule reset_loop_created)
  ultimately have "config_reset E (config_reset E s) = config_reset E s"
    unfolding r[of "config_reset E s"] by (simp add: reset_loop_idle)
  with m c show ?thesis by (auto simp: mirrors_def issues_def comp_def node_ids_def)
qed

section \<open>Listeners\<close>

text \<open>
  The three listeners are created once each, in the order of the identifiers, on the ports the
  connections of a test use.
\<close>

lemma create_all_listeners_ascending:
  "create_all_listeners E s = do_loop (sorted_list_of_set UNIV) (create_listener E) s"
proof -
  let ?xs = "[SERVICE_RWSPLIT, SERVICE_RCONN_SLAVE, SERVICE_RCONN_MASTER]"
  have all: "(UNIV :: service set) = set ?xs" using service.exhaust by auto
  have "sorted ?xs" "distinct ?xs" by (simp_all add: less_eq_service_def service_index_def)
  then have "sorted_list_of_set (set ?xs) = ?xs" by (rule sorted_list_of_set.idem_if_sorted_distinct)
  then have "sorted_list_of_set UNIV = ?xs" unfolding all .
  then show ?thesis by (simp add: create_all_listeners_def Let_def)
qed

lemma port_texts: "int_str 4006 = ''4006''" "int_str 4008 = ''4008''" "int_str 4009 = ''4009''"
  by (simp_all add: int_str_def nat_str.simps digit_char_def char_of_def bit_0)

lemma same_access_timeout [simp]: "same_access s (set_timeout k s)" "trace (set_timeout k s) = trace s"
  by (simp_all add: same_access_def set_timeout_def)

lemma listener_cmds:
  "map listener_cmd [SERVICE_RWSPLIT, SERVICE_RCONN_SLAVE, SERVICE_RCONN_MASTER] =
     [''maxadmin create listener rwsplit-service rwsplit-service-listener default 4006'',
      ''maxadmin create listener read-connection-router-master read-connection-router-master-listener default 4008'',
      ''maxadmin create listener read-connection-router-slave read-connection-router-slave-listener default 4009'']"
  by (simp add: listener_cmd_def services_def service_index_def SERVICE_NAME1_def SERVICE_NAME2_def SERVICE_NAME3_def
      port_texts)

text \<open>
  The identifiers of the two read connection services are the wrong way round: asking for the
  listener of the slave service creates the one of the master service, and the other way round.
\<close>

theorem listener_services_swapped:
  "trace (create_listener E SERVICE_RCONN_SLAVE s) = trace s @ [admin_event s
       ''maxadmin create listener read-connection-router-master read-connection-router-master-listener default 4008''] \<and>
   trace (create_listener E SERVICE_RCONN_MASTER s) = trace s @ [admin_event s
       ''maxadmin create listener read-connection-router-slave read-connection-router-slave-listener default 4009'']"
  using listener_cmds
  by (simp add: create_listener_def Let_def admin_emit stop_timeout_def admin_event_same[of s "set_timeout 120 s"])

text \<open>A wrong number of servers is one failure, and only that.\<close>

lemma check_server_count_counts:
  "check_server_count E n s = (ok, t) \<Longrightarrow>
     tc_global_result t = tc_global_result s + (if ok then 0 else 1) \<and> same_sets s t"
  by (auto simp: check_server_count_def ssh_maxscale_def popen_write_def emit_def add_result_def same_sets_def
      Let_def split: if_splits)

text \<open>A configuration object that has created a server and a monitor.\<close>

definition blank_cfg :: cfg where
  "blank_cfg = tc.extend blank_tc \<lparr>created_servers = {}, created_monitors = {}\<rparr>"


end
