(* ===== verification/Config_Tests.thy ===== *)
theory Config_Tests
  imports Config_Ops
begin

text \<open>
  The \<open>mxs922\<close> tests, each from the construction of its \<open>TestConnections\<close> object to the reading of
  the result. A step that has no result ends the test without one.
\<close>

definition test_monitor :: "env \<Rightarrow> 'a cfg_scheme \<Rightarrow> 'a cfg_scheme" where
  "test_monitor E s = create_monitor E ''mysql-monitor'' ''mysqlmon'' 500 s"

section \<open>Listeners\<close>

text \<open>\<open>mxs922_double_listener.cpp\<close>\<close>

definition mxs922_double_listener :: "env \<Rightarrow> 'a cfg_scheme \<Rightarrow> (int \<times> 'a cfg_scheme) option" where
  "mxs922_double_listener E s =
     (let s = create_all_listeners E s;
          s = create_all_listeners E s
      in do {
        (_, s) \<leftarrow> check_maxscale_processes E 1 s;
        let s = test_monitor E s;
        let s = config_reset E s;
        let s = c_sleep 1 s;
        (_, s) \<leftarrow> check_maxscale_alive E s;
        Some (tc_global_result s, s) })"

text \<open>\<open>mxs922_listener_ssl.cpp\<close>\<close>

definition mxs922_listener_ssl :: "env \<Rightarrow> 'a cfg_scheme \<Rightarrow> (int \<times> 'a cfg_scheme) option" where
  "mxs922_listener_ssl E s =
     (let s = create_listener E SERVICE_RWSPLIT s;
          s = test_monitor E s;
          s = config_reset E s;
          s = c_sleep 1 s;
          (_, s) = connect_maxscale E s;
          (_, s) = try_query E (tc_conn_rwsplit s) ''select @@server_id'' s;
          s = create_ssl_listener E SERVICE_RCONN_SLAVE s;
          (c, s) = open_conn E (tc_readconn_master_port s) (tc_maxscale_IP s) (tc_maxscale_user s)
                     (tc_maxscale_password s) True s;
          (rc, s) = execute_query E c ''select @@server_id'' s;
          s = add_result rc s;
          s = mysql_close c s
      in do { (_, s) \<leftarrow> check_maxscale_processes E 1 s;
              Some (tc_global_result s, s) })"

section \<open>Monitors\<close>

definition clear_running_cmd :: string where
  "clear_running_cmd = ''for i in 0 1 2 3; do maxadmin clear server server$i running; done''"

definition test_at_any :: string where
  "test_at_any = quote @ ''test'' @ quote @ ''@'' @ quote @ ''%'' @ quote"

text \<open>The user the monitor is switched to.\<close>

definition create_test_user :: "env \<Rightarrow> 'a cfg_scheme \<Rightarrow> 'a cfg_scheme" where
  "create_test_user E s =
     (let (_, s) = connect_maxscale E s;
          (_, s) = execute_query E (tc_conn_rwsplit s) (''DROP USER '' @ test_at_any) s;
          (_, s) = execute_query E (tc_conn_rwsplit s)
                     (''CREATE USER '' @ test_at_any @ '' IDENTIFIED BY '' @ quote @ ''test'' @ quote) s;
          (_, s) = execute_query E (tc_conn_rwsplit s) (''GRANT ALL ON *.* TO '' @ test_at_any) s
      in close_maxscale_connections s)"

text \<open>Without the user the monitor must fail, and with other credentials it must recover.\<close>

definition drop_test_user :: "env \<Rightarrow> 'a cfg_scheme \<Rightarrow> 'a cfg_scheme" where
  "drop_test_user E s =
     (let (_, s) = connect_maxscale E s;
          (_, s) = execute_query E (tc_conn_rwsplit s) (''DROP USER '' @ test_at_any) s;
          s = restart_monitors E s;
          s = admin E clear_running_cmd s;
          s = c_sleep 1 s;
          (rc, s) = execute_query_silent E (tc_conn_rwsplit s) ''SELECT 1'' s;
          s = add_result (if rc = 0 then 1 else 0) s;
          s = close_maxscale_connections s;
          s = do_loop (node_ids (repl s)) (\<lambda>i s.
                alter_server E i ''monitorpw'' ''skysql'' (alter_server E i ''monitoruser'' ''skysql'' s)) s
      in restart_monitors E s)"

text \<open>\<open>mxs922_monitor.cpp\<close>\<close>

definition mxs922_monitor :: "env \<Rightarrow> 'a cfg_scheme \<Rightarrow> (int \<times> 'a cfg_scheme) option" where
  "mxs922_monitor E s =
     (let s = create_all_listeners E s;
          s = test_monitor E s;
          s = config_reset E s;
          s = c_sleep 1 s
      in do {
        (_, s) \<leftarrow> check_maxscale_alive E s;
        let s = destroy_monitor E ''mysql-monitor'' s;
        (_, s) \<leftarrow> check_maxscale_alive E s;
        let s = admin E clear_running_cmd s;
        let (rc, s) = connect_maxscale E s;
        let s = add_result (if rc = 0 then 1 else 0) s;
        let s = create_monitor E ''mysql-monitor2'' ''mysqlmon'' 500 s;
        let s = add_created_servers E ''mysql-monitor2'' s;
        let s = c_sleep 1 s;
        (_, s) \<leftarrow> check_maxscale_alive E s;
        let s = create_test_user E s;
        let s = alter_monitor E ''mysql-monitor2'' ''user'' ''test'' s;
        let s = alter_monitor E ''mysql-monitor2'' ''password'' ''test'' s;
        let s = c_sleep 1 s;
        (_, s) \<leftarrow> check_maxscale_alive E s;
        let s = drop_test_user E s;
        let s = c_sleep 1 s;
        (_, s) \<leftarrow> check_maxscale_alive E s;
        let s = check_log_err E ''Fatal'' False s;
        Some (tc_global_result s, s) })"

section \<open>Servers\<close>

text \<open>\<open>mxs922_server.cpp\<close>; when the field is found its value is never a null text here.\<close>

definition check_server_id :: "env \<Rightarrow> nat \<Rightarrow> 'a tc_scheme \<Rightarrow> (int \<times> 'a tc_scheme) option" where
  "check_server_id E idx s =
     (let s = close_maxscale_connections s;
          (_, s) = connect_maxscale E s
      in do {
        (a, s) \<leftarrow> get_server_id E (tc_repl s) idx s;
        ((ret, v), s) \<leftarrow> find_field E (tc_conn_rwsplit s) ''SELECT @@server_id'' ''@@server_id'' s;
        b \<leftarrow> (if ret = 0 then map_option atoi v else Some (- 1));
        Some (a - b, s) })"

text \<open>Creating and destroying, each twice in a row.\<close>

definition server_creation :: "env \<Rightarrow> 'a cfg_scheme \<Rightarrow> (unit \<times> 'a cfg_scheme) option" where
  "server_creation E s =
     (let s = create_server E 1 s;
          s = create_server E 1 s;
          (_, s) = check_server_count E 1 s;
          s = destroy_server E 1 s;
          s = destroy_server E 1 s;
          (_, s) = check_server_count E 0 s
      in do { (_, s) \<leftarrow> check_maxscale_processes E 1 s; Some ((), s) })"

definition server_addition :: "env \<Rightarrow> 'a cfg_scheme \<Rightarrow> (unit \<times> 'a cfg_scheme) option" where
  "server_addition E s =
     (let s = create_server E 1 s;
          s = add_server E 1 s;
          (_, s) = check_server_count E 1 s;
          s = c_sleep 1 s
      in do {
        (_, s) \<leftarrow> check_maxscale_alive E s;
        let s = remove_server E 1 s;
        let s = destroy_server E 1 s;
        let (_, s) = check_server_count E 0 s;
        Some ((), s) })"

definition server_alteration :: "env \<Rightarrow> 'a cfg_scheme \<Rightarrow> (unit \<times> 'a cfg_scheme) option" where
  "server_alteration E s =
     (let s = create_server E 1 s;
          s = add_server E 1 s;
          s = alter_server E 1 ''address'' (mn_IP (repl s) 1) s;
          s = c_sleep 1 s
      in do {
        (_, s) \<leftarrow> check_maxscale_alive E s;
        let s = alter_server E 1 ''address'' ''This-is-not-the-address-you-are-looking-for'' s;
        let s = alter_server_int E 1 ''port'' 12345 s;
        let (_, s) = connect_maxscale E s;
        let (rc, s) = execute_query_silent E (tc_conn_rwsplit s) ''SELECT 1'' s;
        let s = add_result (if rc = 0 then 1 else 0) s;
        let s = remove_server E 1 s;
        let s = destroy_server E 1 s;
        Some ((), s) })"

text \<open>One of the three servers gets the weight 1000, and its identifier must come back.\<close>

definition weights :: "env \<Rightarrow> int \<Rightarrow> int \<Rightarrow> int \<Rightarrow> nat \<Rightarrow> 'a cfg_scheme \<Rightarrow> (unit \<times> 'a cfg_scheme) option" where
  "weights E w1 w2 w3 heavy s =
     (let s = alter_server_int E 1 ''weight'' w1 s;
          s = alter_server_int E 2 ''weight'' w2 s;
          s = alter_server_int E 3 ''weight'' w3 s
      in do { (d, s) \<leftarrow> check_server_id E heavy s; Some ((), add_result d s) })"

definition mxs922_server :: "env \<Rightarrow> 'a cfg_scheme \<Rightarrow> (int \<times> 'a cfg_scheme) option" where
  "mxs922_server E s =
     (let s = create_all_listeners E s;
          s = test_monitor E s
      in do {
        (_, s) \<leftarrow> server_creation E s;
        (_, s) \<leftarrow> server_addition E s;
        (_, s) \<leftarrow> server_alteration E s;
        let s = config_reset E s;
        let s = c_sleep 1 s;
        let (_, s) = connect E (tc_repl s) s;
        (_, s) \<leftarrow> weights E 1 1 1000 3 s;
        (_, s) \<leftarrow> weights E 1 1000 1 2 s;
        (_, s) \<leftarrow> weights E 1000 1 1 1 s;
        let s = config_reset E s;
        let s = c_sleep 1 s;
        (_, s) \<leftarrow> check_maxscale_alive E s;
        Some (tc_global_result s, s) })"

section \<open>Scaling\<close>

text \<open>
  \<open>mxs922_scaling.cpp\<close>. The five client threads open their connections when they are created
  (a null handle has no options to set: no result) and are joined at the end, where they close them.
  Between, \<open>sched x i\<close> says whose turns are made in the pause after server \<open>i\<close> in turn \<open>x\<close> of the
  main thread: a client thread runs its two statements in each turn, whatever they answer.
\<close>

definition scaling_client :: "env \<Rightarrow> 'a cfg_scheme \<Rightarrow> (conn option \<times> 'a cfg_scheme) option" where
  "scaling_client E s =
     (let (mysql, s) = open_rwsplit_connection E s in
      case mysql of
        None \<Rightarrow> None
      | Some c \<Rightarrow> Some (mysql, emit (EOption c OptReconnect 1) s))"

primrec scaling_clients :: "env \<Rightarrow> nat \<Rightarrow> 'a cfg_scheme \<Rightarrow> (conn option list \<times> 'a cfg_scheme) option" where
  "scaling_clients E 0 s = Some ([], s)"
| "scaling_clients E (Suc n) s =
     do { (mysql, s) \<leftarrow> scaling_client E s;
          (threads, s) \<leftarrow> scaling_clients E n s;
          Some (mysql # threads, s) }"

definition query_turn :: "env \<Rightarrow> conn option list \<Rightarrow> nat \<Rightarrow> 'a cfg_scheme \<Rightarrow> 'a cfg_scheme" where
  "query_turn E threads k s =
     (if k < length threads
      then let (_, s) = execute_query_silent E (threads ! k) ''SELECT @@server_id'' s;
               (_, s) = execute_query_silent E (threads ! k) ''SELECT last_insert_id()'' s
           in s
      else s)"

definition scaling_step ::
  "env \<Rightarrow> conn option list \<Rightarrow> (nat \<Rightarrow> nat \<Rightarrow> nat list) \<Rightarrow> nat \<Rightarrow> nat \<Rightarrow> 'a cfg_scheme \<Rightarrow> 'a cfg_scheme" where
  "scaling_step E threads sched x i s =
     (let s = (if (x + i) mod 2 = 0
               then let s = create_server E i s in add_server E i s
               else let s = remove_server E i s in destroy_server E i s)
      in do_loop (sched x i) (query_turn E threads) (c_sleep 1 s))"

definition scaling_iterations ::
  "env \<Rightarrow> conn option list \<Rightarrow> (nat \<Rightarrow> nat \<Rightarrow> nat list) \<Rightarrow> nat \<Rightarrow> 'a cfg_scheme \<Rightarrow> 'a cfg_scheme" where
  "scaling_iterations E threads sched iterations s =
     do_loop [0 ..< iterations]
       (\<lambda>x s. do_loop (node_ids (repl s)) (scaling_step E threads sched x) s) s"

definition mxs922_scaling ::
  "env \<Rightarrow> (nat \<Rightarrow> nat \<Rightarrow> nat list) \<Rightarrow> 'a cfg_scheme \<Rightarrow> (int \<times> 'a cfg_scheme) option" where
  "mxs922_scaling E sched s =
     (let s = create_all_listeners E s;
          s = test_monitor E s;
          iterations = (if tc_smoke s then 5 else 25)
      in do {
        (threads, s) \<leftarrow> scaling_clients E 5 s;
        let s = scaling_iterations E threads sched iterations s;
        let s = do_loop threads mysql_close s;
        let s = do_loop (node_ids (repl s)) (\<lambda>i s. let s = create_server E i s in add_server E i s) s;
        let s = c_sleep 1 s;
        (_, s) \<leftarrow> check_maxscale_alive E s;
        let s = check_log_err E ''Fatal'' False s;
        Some (tc_global_result s, s) })"

end
