(* ===== verification/Config_Test_Props.thy ===== *)
theory Config_Test_Props
  imports Config_Tests Config_Props
begin

text \<open>
  The scaling test: which servers exist after its turns. The operations of \<open>Config\<close> enter through
  their steps and the sets they leave.
\<close>

lemma created_remove_destroy [simp]:
  "created_servers (remove_server E n s) = created_servers s"
  "created_servers (destroy_server E n s) = created_servers s - {n}"
  using add_remove_mirrors(2)[of n s E] destroy_server_mirrors[of n s E]
  by (simp_all add: mirrors_def fold_Others)

lemma created_sleep [simp]: "created_servers (c_sleep k s) = created_servers s" "repl (c_sleep k s) = repl s"
  by (simp_all add: c_sleep_def emit_def repl_def)

lemma repl_server_steps [simp]:
  "repl (create_server E n s) = repl s" "repl (add_server E n s) = repl s"
  "repl (remove_server E n s) = repl s" "repl (destroy_server E n s) = repl s"
  using create_server_mirrors[of n s E] add_remove_mirrors[of n s E] destroy_server_mirrors[of n s E]
  by (auto simp: mirrors_def issues_def same_access_repl)

text \<open>The clients only add to the log.\<close>

lemma extends_cfg:
  "extends s t \<Longrightarrow> created_servers t = created_servers s"
  "extends s t \<Longrightarrow> repl t = repl s"
  by (auto simp: extends_def emits_def repl_def)

lemma query_turn_frame [simp]:
  "created_servers (query_turn E threads k s) = created_servers s"
  "repl (query_turn E threads k s) = repl s"
  by (simp_all add: query_turn_def Let_def split_def extends_cfg[OF extends_execute_query_silent])

lemma query_turns_frame [simp]:
  "created_servers (do_loop ks (query_turn E threads) s) = created_servers s"
  "repl (do_loop ks (query_turn E threads) s) = repl s"
  by (induction ks arbitrary: s) simp_all

lemma scaling_step_effect:
  "created_servers (scaling_step E threads sched x i s) =
     (if even (x + i) then insert i (created_servers s) else created_servers s - {i})"
  "repl (scaling_step E threads sched x i s) = repl s"
  by (simp_all add: scaling_step_def Let_def even_iff_mod_2_eq_zero)

lemma scaling_turn:
  "created_servers (do_loop ids (scaling_step E threads sched x) s) =
     (created_servers s - set ids) \<union> {i \<in> set ids. even (x + i)} \<and>
   repl (do_loop ids (scaling_step E threads sched x) s) = repl s"
proof (induction ids arbitrary: s)
  case (Cons i ids)
  from Cons[of "scaling_step E threads sched x i s"] show ?case by (auto simp: scaling_step_effect)
qed simp

lemma scaling_iterations_Suc:
  "scaling_iterations E threads sched (Suc k) s =
     (let s = scaling_iterations E threads sched k s
      in do_loop (node_ids (repl s)) (scaling_step E threads sched k) s)"
  by (simp add: scaling_iterations_def do_loop_append Let_def)

lemma scaling_repl: "repl (scaling_iterations E threads sched k s) = repl s"
proof (induction k)
  case 0
  then show ?case by (simp add: scaling_iterations_def)
next
  case (Suc k)
  then show ?case by (simp add: scaling_iterations_Suc Let_def scaling_turn)
qed

text \<open>
  After \<open>k + 1\<close> turns of the scaling test exactly every other backend is a created server,
  those whose number has the parity of \<open>k\<close>, whatever had been created before and whatever the
  client threads did in the pauses.
\<close>

theorem scaling_alternates:
  "created_servers (scaling_iterations E threads sched (Suc k) s) \<inter> {0 ..< nat (mn_N (repl s))} =
     {i. i < nat (mn_N (repl s)) \<and> even (k + i)}"
  by (auto simp: scaling_iterations_Suc Let_def scaling_turn scaling_repl node_ids_def)

end
