(* ===== verification/Big_Data.thy ===== *)
theory Big_Data
  imports Maxinfo Test_Ops
begin

text \<open>
  Helpers that move much data: \<open>big_transaction.cpp\<close>, \<open>different_size.cpp\<close> (statements of a
  given size) and \<open>blob_test.cpp\<close> (prepared statements with long data).
\<close>

section \<open>A big transaction\<close>

text \<open>One turn of the loop; \<open>sql\<close> is an array of 1000000 bytes.\<close>

definition transaction_turn ::
  "env \<Rightarrow> conn option \<Rightarrow> nat \<Rightarrow> int \<Rightarrow> 'a world_scheme \<Rightarrow> (int \<times> 'a world_scheme) option" where
  "transaction_turn E c i local_result s =
     do { sql \<leftarrow> into_block 1000000 (create_insert_string 10000 (int i));
          let (r1, s) = execute_query E c sql s;
          let (r2, s) = execute_query E c ''CREATE TABLE t2(id int);'' s;
          let (r3, s) = execute_query E c sql s;
          let (r4, s) = execute_query E c ''DROP TABLE t2;'' s;
          let (r5, s) = execute_query E c sql s;
          Some (local_result + r1 + r2 + r3 + r4 + r5, s) }"

definition big_transaction ::
  "env \<Rightarrow> conn option \<Rightarrow> int \<Rightarrow> 'a world_scheme \<Rightarrow> (int \<times> 'a world_scheme) option" where
  "big_transaction E c N s =
     (let (r1, s) = create_t1 E c s;
          (r2, s) = execute_query E c ''START TRANSACTION'' s;
          (r3, s) = execute_query E c ''SET autocommit = 0'' s
      in do {
        (local_result, s) \<leftarrow> foreachM [0..<nat N] (transaction_turn E c) (r1 + r2 + r3) s;
        let (r4, s) = execute_query E c ''COMMIT'' s;
        Some (local_result + r4, s) })"

section \<open>Statements of a given size\<close>

text \<open>A block of memory: \<^const>\<open>None\<close> is a byte that was not written yet.\<close>

type_synonym block = "char option list"

text \<open>\<open>strcpy(block + off, t)\<close> and the byte-by-byte loop; a write outside the block has no result.\<close>

definition strcpy_at :: "nat \<Rightarrow> string \<Rightarrow> block \<Rightarrow> block option" where
  "strcpy_at off t b =
     (if off + length t + 1 \<le> length b
      then Some (take off b @ map Some (t @ [CHR 0x00]) @ drop (off + length t + 1) b) else None)"

fun fill_a :: "nat \<Rightarrow> nat \<Rightarrow> block \<Rightarrow> block option" where
  "fill_a 0 i b = Some b"
| "fill_a (Suc n) i b = (if i < length b then fill_a n (Suc i) (b[i := Some (CHR ''a'')]) else None)"

text \<open>The C string at the start of a block; it must be written and terminated.\<close>

definition c_text :: "block \<Rightarrow> string option" where
  "c_text b =
     (let t = takeWhile (\<lambda>x. x \<noteq> Some (CHR 0x00)) b in
      if None \<in> set t \<or> length t = length b then None else Some (map the t))"

definition event_prefix :: string where
  "event_prefix = ''insert into test.large_event values (1, '' @ quote"

definition event_postfix :: string where
  "event_postfix = quote @ '');''"

definition create_event_size :: "64 word \<Rightarrow> string option" where
  "create_event_size n =
     (let prefix_size = length event_prefix;
          event = replicate (unat (n + 1)) None
      in do {
        event \<leftarrow> strcpy_at 0 event_prefix event;
        let max = n - 55 - 45;
        event \<leftarrow> fill_a (unat max) prefix_size event;
        event \<leftarrow> strcpy_at (unat max + prefix_size) event_postfix event;
        c_text event })"

definition connect_to_serv :: "env \<Rightarrow> bool \<Rightarrow> 'a tc_scheme \<Rightarrow> conn option \<times> 'a tc_scheme" where
  "connect_to_serv E binlog s =
     (if binlog
      then open_conn E (mn_port (repl s) 0) (mn_IP (repl s) 0) (mn_user_name (repl s)) (mn_password (repl s)) (tc_ssl s) s
      else open_service E (tc_rwsplit_port s) s)"

definition set_max_packet :: "env \<Rightarrow> bool \<Rightarrow> string \<Rightarrow> 'a tc_scheme \<Rightarrow> 'a tc_scheme" where
  "set_max_packet E binlog cmd s =
     (if binlog
      then let (_, s) = connect E (tc_repl s) s;
               (_, s) = try_query E (mn_nodes (repl s) 0) cmd s
           in close_connections (tc_repl s) s
      else let (_, s) = connect_maxscale E s;
               (_, s) = try_query E (tc_conn_rwsplit s) cmd s
           in close_maxscale_connections s)"

text \<open>The ranges as they are in memory: \<open>unsigned int\<close>, the upper bound excluded.\<close>

definition packet_ranges :: "bool \<Rightarrow> (nat \<times> nat) list" where
  "packet_ranges smoke =
     (let r0 = if smoke then 20 else 50; r1 = if smoke then 20 else 50; r2 = 10 in
      [(0x0ffffff - r0, 0x0ffffff + r0), (0x0ffffff * 2 - r1, 0x0ffffff * 2 + r1),
       (0x0ffffff * 3 - r2, 0x0ffffff * 3 + r2)])"

definition packet_turn :: "env \<Rightarrow> bool \<Rightarrow> nat \<Rightarrow> 'a tc_scheme \<Rightarrow> 'a tc_scheme option" where
  "packet_turn E binlog j s =
     (let s = set_timeout 120 s in
      do { event \<leftarrow> create_event_size (of_nat j);
           let (c, s) = connect_to_serv E binlog s;
           let (_, s) = execute_query_silent E c event s;
           let (_, s) = execute_query_silent E c ''DELETE FROM test.large_event WHERE id=1'' s;
           Some (mysql_close c s) })"

definition different_packet_size :: "env \<Rightarrow> bool \<Rightarrow> 'a tc_scheme \<Rightarrow> 'a tc_scheme option" where
  "different_packet_size E binlog s =
     (let s = set_timeout 60 s;
          s = set_max_packet E binlog ''set global max_allowed_packet = 200000000;'' s;
          s = set_timeout 40 s;
          (c, s) = connect_to_serv E binlog s;
          (_, s) = try_query E c
            ''DROP TABLE IF EXISTS test.large_event;CREATE TABLE test.large_event(id INT, data LONGBLOB);'' s;
          s = mysql_close c s
      in do {
        s \<leftarrow> do_loopM (packet_ranges (tc_smoke s)) (\<lambda>(lo, hi) s. do_loopM [lo..<hi] (packet_turn E binlog) s) s;
        let s = set_timeout 40 s;
        Some (set_max_packet E binlog ''set global max_allowed_packet = 1048576;'' s) })"

section \<open>Prepared statements with long data\<close>

definition stmt_call :: "env \<Rightarrow> stmt option \<Rightarrow> stmt_op \<Rightarrow> 'a world_scheme \<Rightarrow> int \<times> 'a world_scheme" where
  "stmt_call E st op s = (stmt_rc E (trace s) st op, emit (EStmt st op) s)"

definition stmt_new :: "env \<Rightarrow> conn option \<Rightarrow> 'a world_scheme \<Rightarrow> stmt option \<times> 'a world_scheme" where
  "stmt_new E c s = (let st = stmt_init E (trace s) c in (st, emit (EStmt st (StmtInit c)) s))"

text \<open>A call whose result goes to \<open>add_result\<close>.\<close>

definition stmt_counted :: "env \<Rightarrow> stmt option \<Rightarrow> stmt_op \<Rightarrow> 'a tc_scheme \<Rightarrow> 'a tc_scheme" where
  "stmt_counted E st op s = (let (rc, s) = stmt_call E st op s in add_result rc s)"

text \<open>The chunks of one row; the flag tells that the function returns 1.\<close>

definition chunk_data :: "nat \<Rightarrow> nat \<Rightarrow> nat list" where
  "chunk_data n i = map (\<lambda>j. (j + i * n) mod 2 ^ 64) [0..<n]"

fun send_chunks :: "env \<Rightarrow> stmt option \<Rightarrow> nat \<Rightarrow> nat list \<Rightarrow> 'a tc_scheme \<Rightarrow> bool \<times> 'a tc_scheme" where
  "send_chunks E st n [] s = (False, s)"
| "send_chunks E st n (i # ids) s =
     (let s = set_timeout 300 s;
          (rc, s) = stmt_call E st (StmtSendLong (chunk_data n i)) s
      in if rc \<noteq> 0 then (True, add_result 1 s) else send_chunks E st n ids s)"

definition insert_blob_stmt :: string where
  "insert_blob_stmt = ''INSERT INTO long_blob_table(x, b) VALUES(1, ?)''"

text \<open>Without memory the failure is counted, and then the missing block is written.\<close>

definition insert_blob ::
  "env \<Rightarrow> conn option \<Rightarrow> nat \<Rightarrow> nat \<Rightarrow> 'a tc_scheme \<Rightarrow> (bool \<times> 'a tc_scheme) option" where
  "insert_blob E c n chunks s =
     (let (st, s) = stmt_new E c s;
          s = (if st = None then add_result 1 s else s);
          s = stmt_counted E st (StmtPrepare insert_blob_stmt) s;
          s = stmt_counted E st StmtBindParam s;
          ok = mem_ok E (trace s);
          s = (if \<not> ok then add_result 1 s else s)
      in if \<not> ok \<and> 0 < chunks \<and> 0 < n then None
         else
           let (failed, s) = send_chunks E st n [0..<chunks] s in
           if failed then Some (True, s)
           else
             let s = set_timeout 3000 s;
                 s = stmt_counted E st StmtExecute s
             in Some (False, stmt_counted E st StmtClose s))"

fun insert_blobs ::
  "env \<Rightarrow> conn option \<Rightarrow> nat \<Rightarrow> nat \<Rightarrow> nat \<Rightarrow> 'a tc_scheme \<Rightarrow> (int \<times> 'a tc_scheme) option" where
  "insert_blobs E c n chunks 0 s = Some (0, s)"
| "insert_blobs E c n chunks (Suc nrows) s =
     do { (failed, s) \<leftarrow> insert_blob E c n chunks s;
          if failed then Some (1, s) else insert_blobs E c n chunks nrows s }"

definition test_longblob ::
  "env \<Rightarrow> conn option \<Rightarrow> string \<Rightarrow> nat \<Rightarrow> nat \<Rightarrow> nat \<Rightarrow> 'a tc_scheme \<Rightarrow> (int \<times> 'a tc_scheme) option" where
  "test_longblob E c blob_name chunk_size chunks nrows s =
     (let (_, s) = try_query E c ''DROP TABLE IF EXISTS long_blob_table'' s in
      do { sql \<leftarrow> into_block 256 (''CREATE TABLE long_blob_table(id int NOT NULL AUTO_INCREMENT, x INT, b '' @
                    blob_name @ '', PRIMARY KEY (id))'');
           let (_, s) = try_query E c sql s;
           insert_blobs E c chunk_size chunks nrows s })"

text \<open>One fetched row: its number, and the block of data it filled.\<close>

definition check_row :: "nat \<Rightarrow> int \<Rightarrow> int \<Rightarrow> nat list \<Rightarrow> 'a tc_scheme \<Rightarrow> 'a tc_scheme option" where
  "check_row n row r_id data s =
     (let s = (if r_id \<noteq> row + 1 then add_result 1 s else s) in
      if length data < n then None
      else Some (do_loop [0..<n] (\<lambda>y s. if data ! y \<noteq> y then add_result 1 s else s) s))"

partial_function (option) fetch_rows ::
  "env \<Rightarrow> stmt option \<Rightarrow> nat \<Rightarrow> int \<Rightarrow> 'a tc_scheme \<Rightarrow> (int \<times> 'a tc_scheme) option" where
  "fetch_rows E st n row s =
     (let (rc, s) = stmt_call E st StmtFetch s in
      if rc \<noteq> 0 then Some (row, s)
      else (case stmt_row E (trace s) st of (r_id, r_x, data) \<Rightarrow>
              do { s \<leftarrow> check_row n row r_id data s; fetch_rows E st n (row + 1) s }))"

text \<open>
  \<open>check_longblob_data\<close>: the value is \<^const>\<open>None\<close> when the function ends without a \<open>return\<close>, which it
  does after it has fetched the rows. The connection passed to it is not used.
\<close>

definition check_longblob_data ::
  "env \<Rightarrow> conn option \<Rightarrow> nat \<Rightarrow> nat \<Rightarrow> int \<Rightarrow> 'a tc_scheme \<Rightarrow> (int option \<times> 'a tc_scheme) option" where
  "check_longblob_data E c chunk_size chunks nrows s =
     (let (st, s) = stmt_new E (tc_conn_rwsplit s) s;
          s = (if st = None then add_result 1 s else s);
          s = stmt_counted E st (StmtPrepare ''SELECT id, x, b FROM long_blob_table '') s;
          (rc, s) = stmt_call E st StmtBindResult s
      in if rc \<noteq> 0 then Some (Some 1, s)
         else
           let (_, s) = stmt_call E st StmtExecute s;
               (rc, s) = stmt_call E st StmtStoreResult s
           in if rc \<noteq> 0 then Some (Some 1, s)
              else do {
                (row, s) \<leftarrow> fetch_rows E st (chunk_size * chunks) 0 s;
                let s = (if row \<noteq> nrows then add_result 1 s else s);
                let (_, s) = stmt_call E st StmtFreeResult s;
                let (_, s) = stmt_call E st StmtClose s;
                Some (None, s) })"

end
