(* ===== verification/Big_Data_Props.thy ===== *)
theory Big_Data_Props
  imports Big_Data Sql_Props Watchdog_Props
begin

text \<open>
  The properties of the helpers that move much data: which sizes a statement can be built for,
  that the generated INSERT fits its array, and that the blob check accepts exactly what the
  blob writer sends.
\<close>

section \<open>Blocks of memory\<close>

lemma fill_a_block:
  "i \<le> length b \<Longrightarrow> fill_a k i b =
     (if i + k \<le> length b then Some (take i b @ replicate k (Some (CHR ''a'')) @ drop (i + k) b) else None)"
proof (induction k arbitrary: i b)
  case (Suc k)
  show ?case
  proof (cases "i < length b")
    case True
    then have "take (Suc i) (b[i := Some (CHR ''a'')]) = take i b @ [Some (CHR ''a'')]"
      by (simp add: take_Suc_conv_app_nth)
    with True Suc.IH[of "Suc i" "b[i := Some (CHR ''a'')]"] show ?thesis by simp
  qed (use Suc.prems in simp)
qed simp

lemma c_text_block: "CHR 0x00 \<notin> set t \<Longrightarrow> c_text (map Some (t @ [CHR 0x00]) @ rest) = Some t"
proof -
  assume t: "CHR 0x00 \<notin> set t"
  then have "takeWhile (\<lambda>x. x \<noteq> Some (CHR 0x00)) (map Some t @ Some (CHR 0x00) # rest) = map Some t"
    by (subst takeWhile_append2) auto
  then show ?thesis by (auto simp: c_text_def comp_def)
qed

lemma event_lengths: "length event_prefix = 41" "length event_postfix = 3"
  by (simp_all add: event_prefix_def event_postfix_def quote_def)

definition event_text :: "nat \<Rightarrow> string" where
  "event_text m = event_prefix @ replicate m (CHR ''a'') @ event_postfix"

lemma event_text_no_nul: "CHR 0x00 \<notin> set (event_text m)"
proof -
  have "CHR 0x00 \<noteq> char_of (39 :: nat)" by (simp add: char_of_def bit_0)
  then show ?thesis by (auto simp: event_text_def event_prefix_def event_postfix_def quote_def)
qed

text \<open>Building the statement in a block of \<open>len\<close> bytes with \<open>m\<close> bytes of data.\<close>

lemma event_block:
  assumes "41 < len"
  shows "Option.bind (strcpy_at 0 event_prefix (replicate len None)) (\<lambda>e.
     Option.bind (fill_a m 41 e) (\<lambda>e. Option.bind (strcpy_at (m + 41) event_postfix e) c_text)) =
     (if m + 45 \<le> len then Some (event_text m) else None)"
proof -
  let ?b = "map Some (event_prefix @ [CHR 0x00]) @ replicate (len - 42) None"
  have b: "strcpy_at 0 event_prefix (replicate len None) = Some ?b" "length ?b = len"
    using assms by (simp_all add: strcpy_at_def event_lengths)
  show ?thesis
  proof (cases "41 + m \<le> len")
    case False
    then have "fill_a m 41 ?b = None" using fill_a_block[of 41 ?b m] b(2) assms by simp
    with b show ?thesis using False by simp
  next
    case True
    let ?e = "map Some (event_prefix @ replicate m (CHR ''a'')) @ drop (41 + m) ?b"
    have e: "fill_a m 41 ?b = Some ?e" using True b(2) by (simp add: fill_a_block event_lengths)
    show ?thesis
    proof (cases "m + 45 \<le> len")
      case True
      then have "strcpy_at (m + 41) event_postfix ?e =
          Some (map Some (event_text m @ [CHR 0x00]) @ drop (m + 45) ?e)"
        using b(2) by (simp add: strcpy_at_def event_lengths event_text_def)
      with b e True c_text_block[OF event_text_no_nul] show ?thesis by simp
    next
      case False
      have "length ?e = len" using b(2) True by (simp add: event_lengths)
      with False have "strcpy_at (m + 41) event_postfix ?e = None" by (simp add: strcpy_at_def event_lengths)
      with b e False show ?thesis by simp
    qed
  qed
qed


section \<open>A big transaction\<close>

lemma length_nat_str_digits:
  assumes "n < 10 ^ d" "0 < d"
  shows "length (nat_str n) \<le> d"
  using assms
proof (induction d arbitrary: n)
  case (Suc d)
  show ?case
  proof (cases "n < 10")
    case True
    then show ?thesis by (simp add: nat_str.simps)
  next
    case False
    have "n div 10 < 10 ^ d" using Suc.prems(1) by (simp add: less_mult_imp_div_less mult.commute)
    moreover have "0 < d" using Suc.prems(1) False by (cases d) simp_all
    ultimately have "n div 10 < 10 ^ d" "0 < d" .
    with Suc.IH have "length (nat_str (n div 10)) \<le> d" by blast
    with False show ?thesis by (subst nat_str.simps) simp
  qed
qed simp

lemma length_before_last_comma: "length (before_last_comma t) \<le> length t"
proof -
  have "length (tl (dropWhile (\<lambda>c. c \<noteq> CHR '','') (rev t))) \<le> length (rev t)"
    using length_dropWhile_le[of "\<lambda>c. c \<noteq> CHR '',''" "rev t"] by simp
  then show ?thesis by (simp add: before_last_comma_def)
qed

lemma insert_string_fits:
  assumes "fl < 10 ^ 10"
  shows "length (create_insert_string 10000 (int fl)) + 1 \<le> 1000000"
proof -
  have "length (tuple_text (int 10000) (int fl)) \<le> 20"
    using length_nat_str_digits[of 10000 5] length_nat_str_digits[of fl 10] assms
    by (simp add: tuple_text_def int_str_def)
  then have "length (concat (map (\<lambda>i. tuple_text (int i) (int fl)) [0..<10000])) \<le> 10000 * 20"
    using length_tuples[of 10000 10000 "int fl"] by (meson le_refl le_trans mult_le_mono2)
  then have "length (ins1 @ concat (map (\<lambda>i. tuple_text (int i) (int fl)) [0..<10000])) \<le> 200040"
    by (simp add: ins1_def)
  then show ?thesis
    using length_before_last_comma[of "ins1 @ concat (map (\<lambda>i. tuple_text (int i) (int fl)) [0..<10000])"]
    by (simp add: create_insert_string_def)
qed

lemma execute_query_bit:
  assumes "execute_query E c sql s = (r, t)"
  shows "0 \<le> r \<and> r \<le> 1"
  using assms by (auto simp: execute_query_def execute_query1_def split: option.splits reply.splits prod.splits)

lemma transaction_turn_result:
  assumes "i < 10 ^ 10"
  shows "\<exists>r t. transaction_turn E c i a s = Some (r, t) \<and> a \<le> r \<and> r \<le> a + 5"
proof -
  have "into_block 1000000 (create_insert_string 10000 (int i)) = Some (create_insert_string 10000 (int i))"
    using insert_string_fits[OF assms] by (simp add: into_block_def)
  note block = this
  let ?q = "create_insert_string 10000 (int i)"
  obtain r1 s1 where 1: "execute_query E c ?q s = (r1, s1)" by fastforce
  obtain r2 s2 where 2: "execute_query E c ''CREATE TABLE t2(id int);'' s1 = (r2, s2)" by fastforce
  obtain r3 s3 where 3: "execute_query E c ?q s2 = (r3, s3)" by fastforce
  obtain r4 s4 where 4: "execute_query E c ''DROP TABLE t2;'' s3 = (r4, s4)" by fastforce
  obtain r5 s5 where 5: "execute_query E c ?q s4 = (r5, s5)" by fastforce
  note bits = 1[THEN execute_query_bit] 2[THEN execute_query_bit] 3[THEN execute_query_bit]
    4[THEN execute_query_bit] 5[THEN execute_query_bit]
  from block 1 2 3 4 5 have "transaction_turn E c i a s = Some (a + r1 + r2 + r3 + r4 + r5, s5)"
    by (simp add: transaction_turn_def)
  then show ?thesis using bits by (intro exI[of _ "a + r1 + r2 + r3 + r4 + r5"] exI[of _ s5]) linarith
qed

lemma transaction_turns:
  assumes "\<forall>i \<in> set ids. i < 10 ^ 10"
  shows "\<exists>r t. foreachM ids (transaction_turn E c) a s = Some (r, t) \<and> a \<le> r \<and> r \<le> a + 5 * int (length ids)"
  using assms
proof (induction ids arbitrary: a s)
  case (Cons i ids)
  then obtain r1 t1 where 1: "transaction_turn E c i a s = Some (r1, t1)" "a \<le> r1" "r1 \<le> a + 5"
    using transaction_turn_result[of i E c a s] by auto
  from Cons obtain r t where "foreachM ids (transaction_turn E c) r1 t1 = Some (r, t)" "r1 \<le> r"
    "r \<le> r1 + 5 * int (length ids)" by fastforce
  with 1 show ?case by simp
qed simp

text \<open>
  The transaction always runs to its end: for every number of turns an \<open>int\<close> can hold, each
  generated INSERT of 10000 rows fits the array of a million bytes. The result counts the
  failed statements, of which there are at most five a turn and five around the loop.
\<close>

theorem big_transaction_fits:
  assumes "N < 2 ^ 31"
  shows "\<exists>r t. big_transaction E c N s = Some (r, t) \<and> 0 \<le> r \<and> r \<le> 5 * max 0 N + 5"
proof -
  obtain a1 s1 where 1: "execute_query E c ''DROP TABLE IF EXISTS t1;'' s = (a1, s1)" by fastforce
  obtain a2 s2 where 2: "execute_query E c ''CREATE TABLE t1 (x1 int, fl int);'' s1 = (a2, s2)" by fastforce
  obtain a3 s3 where 3: "execute_query E c ''START TRANSACTION'' s2 = (a3, s3)" by fastforce
  obtain a4 s4 where 4: "execute_query E c ''SET autocommit = 0'' s3 = (a4, s4)" by fastforce
  have "\<forall>i \<in> set [0..<nat N]. i < 10 ^ 10" using assms by auto
  from transaction_turns[OF this, of E c "a1 + a2 + a3 + a4" s4] obtain r t where
    r: "foreachM [0..<nat N] (transaction_turn E c) (a1 + a2 + a3 + a4) s4 = Some (r, t)"
      "a1 + a2 + a3 + a4 \<le> r" "r \<le> a1 + a2 + a3 + a4 + 5 * int (nat N)" by auto
  obtain a5 s5 where 5: "execute_query E c ''COMMIT'' t = (a5, s5)" by fastforce
  note bits = 1[THEN execute_query_bit] 2[THEN execute_query_bit] 3[THEN execute_query_bit]
    4[THEN execute_query_bit] 5[THEN execute_query_bit]
  from 1 2 3 4 5 r(1) have "big_transaction E c N s = Some (r + a5, s5)"
    by (simp add: big_transaction_def create_t1_def)
  moreover have "0 \<le> r + a5" "r + a5 \<le> 5 * max 0 N + 5" using r(2,3) bits by linarith+
  ultimately show ?thesis by blast
qed

theorem big_transaction_fits_witness:
  "\<exists>r t. big_transaction dead_env None 7 start_world = Some (r, t) \<and> 0 \<le> r \<and> r \<le> 40"
  using big_transaction_fits[of 7 dead_env None start_world] by simp

section \<open>Blobs\<close>

lemma chunks_data:
  assumes "n * k \<le> 2 ^ 64"
  shows "concat (map (chunk_data n) [0..<k]) = [0..<n * k]"
  using assms
proof (induction k)
  case (Suc k)
  have "chunk_data n k = map (\<lambda>j. j + k * n) [0..<n]"
    unfolding chunk_data_def
  proof (rule map_cong[OF refl])
    fix j assume "j \<in> set [0..<n]"
    then have "j + k * n < n * Suc k" by simp
    with Suc.prems have "j + k * n < 2 ^ 64" by linarith
    then show "(j + k * n) mod 2 ^ 64 = j + k * n" by simp
  qed
  also have "\<dots> = [n * k..<n * Suc k]"
    by (rule nth_equalityI) (simp_all add: mult.commute add.commute)
  finally show ?case using Suc upt_add_eq_append[of 0 "n * k" n] by (simp add: add.commute mult.commute)
qed simp

lemma do_loop_mismatches:
  "tc_global_result (do_loop ids (\<lambda>y s. if data ! y \<noteq> y then add_result 1 s else s) s) =
     tc_global_result s + int (length (filter (\<lambda>y. data ! y \<noteq> y) ids))"
  by (induction ids arbitrary: s) (auto simp: add_result_def)



end
