(* ===== verification/Big_Load.thy ===== *)
theory Big_Load
  imports Maxinfo Test_Ops Replication
begin

text \<open>
  \<open>big_load.cpp\<close>: two groups of client threads against MaxScale. A thread is its connections and
  its start, its turns and its end; how the turns of the threads follow each other while the
  main thread sleeps is a schedule, a list of thread numbers. A turn is atomic, threads start in
  the order they are created and end in the order they are joined.
\<close>

record load_thread =
  lt_first :: bool
  lt_conn1 :: "conn option"
  lt_conn2 :: "conn option"
  lt_conn3 :: "conn option"
  lt_running :: bool

definition load_open :: "env \<Rightarrow> int \<Rightarrow> 'a tc_scheme \<Rightarrow> conn option \<times> 'a tc_scheme" where
  "load_open E port s =
     open_conn_db_timeout E port (tc_maxscale_IP s) ''test'' (tc_maxscale_user s) (tc_maxscale_password s) 20
       (tc_ssl s) s"

text \<open>
  The start of \<open>query_thread1\<close> and \<open>query_thread2\<close>. A thread of the first group that could not
  connect does nothing more; the connections 2 and 3 are only opened, and only used, when
  \<open>rwsplit_only\<close> is 0.
\<close>

definition thread_start :: "env \<Rightarrow> bool \<Rightarrow> bool \<Rightarrow> 'a tc_scheme \<Rightarrow> load_thread \<times> 'a tc_scheme" where
  "thread_start E first rwsplit_only s =
     (let (c1, s) = load_open E (tc_rwsplit_port s) s;
          e1 = mysql_errno E c1 s;
          ((c2, c3, e), s) =
            (if rwsplit_only then ((None, None, 0), s)
             else let (c2, s) = load_open E (tc_readconn_master_port s) s;
                      e2 = mysql_errno E c2 s;
                      (c3, s) = load_open E (tc_readconn_slave_port s) s;
                      e3 = mysql_errno E c3 s
                  in ((c2, c3, e2 + e3), s))
      in (\<lparr>lt_first = first, lt_conn1 = c1, lt_conn2 = c2, lt_conn3 = c3,
           lt_running = (\<not> first \<or> e1 + e = 0)\<rparr>, s))"

text \<open>One turn of the loop; true when the query on the first connection succeeded.\<close>

definition thread_turn :: "env \<Rightarrow> bool \<Rightarrow> load_thread \<Rightarrow> 'a tc_scheme \<Rightarrow> bool \<times> 'a tc_scheme" where
  "thread_turn E rwsplit_only th s =
     (if \<not> lt_running th then (False, s)
      else
        let s = (if lt_first th then s else c_sleep 1 s);
            (rc, s) = execute_query_silent E (lt_conn1 th) ''SELECT * FROM t1;'' s;
            s = (if rwsplit_only then s
                 else let (_, s) = execute_query_silent E (lt_conn2 th) ''SELECT * FROM t1;'' s
                      in snd (execute_query_silent E (lt_conn3 th) ''SELECT * FROM t1;'' s))
        in (rc = 0, s))"

definition thread_end :: "bool \<Rightarrow> load_thread \<Rightarrow> 'a tc_scheme \<Rightarrow> 'a tc_scheme" where
  "thread_end rwsplit_only th s =
     (if \<not> lt_running th then s
      else
        let s = mysql_close (lt_conn1 th) s
        in if rwsplit_only then s else mysql_close (lt_conn3 th) (mysql_close (lt_conn2 th) s))"

text \<open>The threads in the order of their creation: one of each group per turn.\<close>

fun start_threads :: "env \<Rightarrow> bool \<Rightarrow> nat \<Rightarrow> 'a tc_scheme \<Rightarrow> load_thread list \<times> 'a tc_scheme" where
  "start_threads E rwsplit_only 0 s = ([], s)"
| "start_threads E rwsplit_only (Suc n) s =
     (let (t1, s) = thread_start E True rwsplit_only s;
          (t2, s) = thread_start E False rwsplit_only s;
          (ths, s) = start_threads E rwsplit_only n s
      in (t1 # t2 # ths, s))"

text \<open>The counters \<open>i1\<close> and \<open>i2\<close> while the threads run.\<close>

fun run_schedule ::
  "env \<Rightarrow> bool \<Rightarrow> load_thread list \<Rightarrow> nat list \<Rightarrow> nat \<Rightarrow> nat \<Rightarrow> 'a tc_scheme \<Rightarrow> (nat \<times> nat) \<times> 'a tc_scheme" where
  "run_schedule E rwsplit_only ths [] i1 i2 s = ((i1, i2), s)"
| "run_schedule E rwsplit_only ths (k # sched) i1 i2 s =
     (if k < length ths
      then let (ok, s) = thread_turn E rwsplit_only (ths ! k) s
           in run_schedule E rwsplit_only ths sched
                (if ok \<and> lt_first (ths ! k) then i1 + 1 else i1)
                (if ok \<and> \<not> lt_first (ths ! k) then i2 + 1 else i2) s
      else run_schedule E rwsplit_only ths sched i1 i2 s)"

text \<open>
  \<open>load\<close> after the connection was made: the counters, the statement counters of the backends
  before and after the load, and the state.
\<close>

definition load_run ::
  "env \<Rightarrow> cid \<Rightarrow> bool \<Rightarrow> nat \<Rightarrow> nat list \<Rightarrow> bool \<Rightarrow> (nat \<Rightarrow> int) \<Rightarrow> (nat \<Rightarrow> int) \<Rightarrow> (nat \<Rightarrow> int) \<Rightarrow> (nat \<Rightarrow> int) \<Rightarrow> 'a tc_scheme
   \<Rightarrow> (((nat \<times> nat) \<times> ((nat \<Rightarrow> int) \<times> (nat \<Rightarrow> int)) \<times> ((nat \<Rightarrow> int) \<times> (nat \<Rightarrow> int))) \<times> 'a tc_scheme) option" where
  "load_run E nodes rwsplit_only threads_num sched report_errors selects inserts new_selects new_inserts s =
     (let (sql_l, run_time) = (if tc_smoke s then (500, 10) else (20000, 100));
          (_, s) = create_t1 E (tc_conn_rwsplit s) s
      in do {
        sql \<leftarrow> into_block 1000000 (create_insert_string sql_l 1);
        let (rc, s) = execute_query E (tc_conn_rwsplit s) sql s;
        let s = (if rc \<noteq> 0 \<and> report_errors then add_result 1 s else s);
        let s = close_rwsplit s;
        s \<leftarrow> sync_slaves E (tc_repl s) 0 s;
        ((r, selects, inserts), s) \<leftarrow> get_global_status_allnodes E selects inserts nodes s;
        let s = add_result r s;
        let (ths, s) = start_threads E rwsplit_only threads_num s;
        let (i, s) = run_schedule E rwsplit_only ths sched 0 0 s;
        let s = c_sleep run_time s;
        let s = set_timeout 100 s;
        let s = do_loop ths (thread_end rwsplit_only) s;
        let s = c_sleep 1 s;
        ((_, new_selects, new_inserts), s) \<leftarrow> get_global_status_allnodes E new_selects new_inserts nodes s;
        Some ((i, (selects, inserts), (new_selects, new_inserts)), s) })"

text \<open>\<open>load\<close>: the process exits with code 1 when there is no connection to MaxScale.\<close>

definition load ::
  "env \<Rightarrow> bool \<Rightarrow> bool \<Rightarrow> nat \<Rightarrow> nat list \<Rightarrow> bool \<Rightarrow> (nat \<Rightarrow> int) \<Rightarrow> (nat \<Rightarrow> int) \<Rightarrow> (nat \<Rightarrow> int) \<Rightarrow> (nat \<Rightarrow> int) \<Rightarrow> 'a tc_scheme
   \<Rightarrow> ((int + (nat \<times> nat) \<times> ((nat \<Rightarrow> int) \<times> (nat \<Rightarrow> int)) \<times> ((nat \<Rightarrow> int) \<times> (nat \<Rightarrow> int))) \<times> 'a tc_scheme) option" where
  "load E use_galera rwsplit_only threads_num sched report_errors selects inserts new_selects new_inserts s =
     (let nodes = (if use_galera then tc_galera s else tc_repl s);
          (_, s) = connect E nodes s;
          (_, s) = connect_rwsplit E s
      in if tc_conn_rwsplit s = None
         then Some (Inl 1, if report_errors then add_result 1 s else s)
         else do {
           (i, s) \<leftarrow> load_run E nodes rwsplit_only threads_num sched report_errors
                       selects inserts new_selects new_inserts s;
           Some (Inr i, close_connections nodes s) })"

text \<open>A counted query is one turn of a thread of that group.\<close>

lemma run_schedule_bounds:
  "run_schedule E rw ths sched i1 i2 s = ((j1, j2), t) \<Longrightarrow>
     i1 \<le> j1 \<and> j1 \<le> i1 + length (filter (\<lambda>k. k < length ths \<and> lt_first (ths ! k)) sched) \<and>
     i2 \<le> j2 \<and> j2 \<le> i2 + length (filter (\<lambda>k. k < length ths \<and> \<not> lt_first (ths ! k)) sched)"
proof (induction sched arbitrary: i1 i2 s)
  case (Cons k sched)
  show ?case
  proof (cases "k < length ths")
    case True
    with Cons.prems obtain ok u where "run_schedule E rw ths sched
        (if ok \<and> lt_first (ths ! k) then i1 + 1 else i1) (if ok \<and> \<not> lt_first (ths ! k) then i2 + 1 else i2) u
        = ((j1, j2), t)"
      by (auto simp: split_def Let_def)
    from Cons.IH[OF this] True show ?thesis by (auto split: if_splits)
  qed (use Cons in simp)
qed simp

end
