(* ===== verification/Binlog_Checks.thy ===== *)
theory Binlog_Checks
  imports Test_Ops Sockets
begin

text \<open>
  \<open>test_binlog_fnc.cpp\<close> (checks of the binlog router) and three small helpers: \<open>execute_cmd.cpp\<close>,
  \<open>get_my_ip.cpp\<close>, \<open>fw_copy_rules.cpp\<close>. Comparing a checksum that could not be read passes a null
  pointer to \<open>strcmp\<close> and has no result.
\<close>

section \<open>Checksums\<close>

text \<open>The directory listings around the flushing of the logs.\<close>

definition list_binlogs :: "env \<Rightarrow> 'a tc_scheme \<Rightarrow> 'a tc_scheme" where
  "list_binlogs E s =
     (let (_, s) = ssh_maxscale E True (''ls -la '' @ tc_maxscale_binlog_dir s @ ''/mar-bin.0000*'') s;
          s = set_timeout 50 s
      in snd (ssh_maxscale E False ''ls -la /var/lib/mysql/mar-bin.0000*'' s))"

text \<open>The first word of what \<open>sha1sum\<close> printed for file \<open>i\<close> on each side.\<close>

definition sha1_maxscale :: "env \<Rightarrow> nat \<Rightarrow> 'a tc_scheme \<Rightarrow> string option \<times> 'a tc_scheme" where
  "sha1_maxscale E i s =
     (let (out, s) = ssh_maxscale_output E True
            (''sha1sum '' @ tc_maxscale_binlog_dir s @ ''/mar-bin.00000'' @ nat_str i) s
      in (map_option (\<lambda>t. cut_at t (CHR '' '')) out, s))"

definition sha1_master :: "env \<Rightarrow> nat \<Rightarrow> 'a tc_scheme \<Rightarrow> string option \<times> 'a tc_scheme" where
  "sha1_master E i s =
     (let (out, s) = ssh_node_output E (tc_repl s) 0 (''sha1sum /var/lib/mysql/mar-bin.00000'' @ nat_str i) True s
      in (map_option (\<lambda>r. cut_at (fst r) (CHR '' '')) out, s))"

definition sha1_file :: "env \<Rightarrow> nat \<Rightarrow> int \<Rightarrow> 'a tc_scheme \<Rightarrow> (int \<times> 'a tc_scheme) option" where
  "sha1_file E i local_result s =
     (let s = set_timeout 50 s;
          (s_maxscale, s) = sha1_maxscale E i s;
          s = set_timeout 50 s;
          (s_master, s) = sha1_master E i s
      in do { a \<leftarrow> s_maxscale;
              b \<leftarrow> s_master;
              Some (if a \<noteq> b then local_result + 1 else local_result, s) })"

definition check_sha1 :: "env \<Rightarrow> 'a tc_scheme \<Rightarrow> (int \<times> 'a tc_scheme) option" where
  "check_sha1 E s =
     (let s = set_timeout 50 s;
          s = list_binlogs E s;
          s = set_timeout 100 s;
          (r1, s) = execute_query E (mn_nodes (repl s) 0) ''FLUSH LOGS'' s;
          s = set_timeout 100 s;
          s = c_sleep 20 s;
          s = set_timeout 50 s;
          s = list_binlogs E s;
          s = set_timeout 100 s;
          (r2, s) = execute_query E (mn_nodes (repl s) 0) ''FLUSH LOGS'' s;
          s = set_timeout 50 s;
          s = c_sleep 20 s;
          s = set_timeout 50 s;
          s = list_binlogs E s
      in foreachM [1, 2] (sha1_file E) (r1 + r2) s)"

section \<open>Transactions through the binlog router\<close>

definition start_transaction :: "env \<Rightarrow> 'a tc_scheme \<Rightarrow> int \<times> 'a tc_scheme" where
  "start_transaction E s =
     (let c = mn_nodes (repl s) 0;
          (_, s) = execute_query E c ''DELETE FROM t1 WHERE fl=10;'' s;
          (r1, s) = execute_query E c ''START TRANSACTION'' s;
          (r2, s) = execute_query E c ''SET autocommit = 0'' s;
          (r3, s) = execute_query E c ''INSERT INTO t1 VALUES(111, 10)'' s;
          s = stop_timeout s
      in (r1 + r2 + r3, c_sleep 20 s))"

text \<open>\<open>Test->add_result(op, ...)\<close> for an operation that can fail to have a result.\<close>

definition counted :: "('a tc_scheme \<Rightarrow> (int \<times> 'a tc_scheme) option) \<Rightarrow> 'a tc_scheme \<Rightarrow> 'a tc_scheme option" where
  "counted f s = do { (r, s) \<leftarrow> f s; Some (add_result r s) }"

definition check_fl10 :: "env \<Rightarrow> nat \<Rightarrow> string \<Rightarrow> 'a tc_scheme \<Rightarrow> 'a tc_scheme option" where
  "check_fl10 E i expected s =
     counted (execute_query_check_one E (mn_nodes (repl s) i) ''SELECT * FROM t1 WHERE fl=10'' expected) s"

definition select_all_nodes :: "env \<Rightarrow> int \<Rightarrow> bool \<Rightarrow> 'a tc_scheme \<Rightarrow> 'a tc_scheme option" where
  "select_all_nodes E seconds stop s =
     do_loopM (node_ids (repl s)) (\<lambda>i s.
       let s = set_timeout seconds s in
       do { s \<leftarrow> counted (select_from_t1 E (mn_nodes (repl s) i) 4) s;
            Some (if stop then stop_timeout s else s) }) s"

definition try_master :: "env \<Rightarrow> string \<Rightarrow> 'a tc_scheme \<Rightarrow> 'a tc_scheme" where
  "try_master E sql s = snd (try_query E (mn_nodes (repl s) 0) sql s)"

text \<open>The first part: data, and a transaction that is rolled back.\<close>

definition test_binlog_rollback :: "env \<Rightarrow> 'a tc_scheme \<Rightarrow> 'a tc_scheme option" where
  "test_binlog_rollback E s =
     (let (_, s) = connect E (tc_repl s) s;
          s = set_timeout 100 s;
          s = try_master E ''SET NAMES utf8mb4'' s;
          s = try_master E ''set autocommit=1'' s;
          s = try_master E ''select USER()'' s;
          s = set_timeout 100 s;
          (_, s) = create_t1 E (mn_nodes (repl s) 0) s
      in do {
        s \<leftarrow> counted (insert_into_t1 E (mn_nodes (repl s) 0) 4) s;
        let s = stop_timeout s;
        let s = c_sleep 60 s;
        s \<leftarrow> select_all_nodes E 100 True s;
        let s = set_timeout 10 s;
        let (_, s) = start_transaction E s;
        let s = set_timeout 50 s;
        s \<leftarrow> check_fl10 E 0 ''111'' s;
        let s = try_master E ''ROLLBACK'' s;
        let s = try_master E ''INSERT INTO t1 VALUES(112, 10)'' s;
        let s = try_master E ''COMMIT'' s;
        let s = stop_timeout s;
        let s = c_sleep 20 s;
        let s = set_timeout 20 s;
        s \<leftarrow> check_fl10 E 0 ''112'' s;
        s \<leftarrow> check_fl10 E 2 ''112'' s;
        let s = try_master E ''DELETE FROM t1 WHERE fl=10'' s;
        counted (select_from_t1 E (mn_nodes (repl s) 0) 4) s })"

text \<open>The second part: a transaction that is committed.\<close>

definition test_binlog_commit :: "env \<Rightarrow> 'a tc_scheme \<Rightarrow> 'a tc_scheme option" where
  "test_binlog_commit E s =
     (let (_, s) = start_transaction E s;
          s = try_master E ''COMMIT'' s
      in do {
        s \<leftarrow> check_fl10 E 0 ''111'' s;
        s \<leftarrow> check_fl10 E 2 ''111'' s;
        let s = try_master E ''DELETE FROM t1 WHERE fl=10'' s;
        let s = stop_timeout s;
        let s = set_timeout 50 s;
        s \<leftarrow> counted (check_sha1 E) s;
        let s = close_connections (tc_repl s) s;
        Some (stop_timeout s) })"

text \<open>One turn of the third part, the stopping and starting of the slave.\<close>

definition test_binlog_restart :: "env \<Rightarrow> nat \<Rightarrow> 'a tc_scheme \<Rightarrow> 'a tc_scheme option" where
  "test_binlog_restart E j s =
     (let s = set_timeout 100 s;
          (_, s) = connect E (tc_repl s) s;
          s = try_master E ''DROP TABLE IF EXISTS t1'' s;
          (_, s) = create_t1 E (mn_nodes (repl s) 0) s;
          (binlog, s) = open_conn E (tc_binlog_port s) (tc_maxscale_IP s) (mn_user_name (repl s))
                          (mn_password (repl s)) (tc_ssl s) s;
          (_, s) = execute_query E binlog ''STOP SLAVE'' s;
          s = (if j = 1 then snd (execute_query E (mn_nodes (repl s) 0) ''FLUSH LOGS'' s) else s)
      in do {
        s \<leftarrow> counted (insert_into_t1 E (mn_nodes (repl s) 0) 4) s;
        let (_, s) = try_query E binlog ''START SLAVE'' s;
        let s = stop_timeout s;
        let s = c_sleep 30 s;
        s \<leftarrow> select_all_nodes E 50 False s;
        let s = set_timeout 100 s;
        s \<leftarrow> counted (check_sha1 E) s;
        let s = close_connections (tc_repl s) s;
        Some (stop_timeout s) })"

definition test_binlog :: "env \<Rightarrow> 'a tc_scheme \<Rightarrow> 'a tc_scheme option" where
  "test_binlog E s =
     do { s \<leftarrow> test_binlog_rollback E s;
          s \<leftarrow> test_binlog_commit E s;
          do_loopM [0..<3] (test_binlog_restart E) s }"

section \<open>Small helpers\<close>

text \<open>\<open>execute_cmd\<close>: the code and the text, nothing when the shell could not be started.\<close>

definition execute_cmd :: "env \<Rightarrow> string \<Rightarrow> 'a world_scheme \<Rightarrow> (int \<times> string option) \<times> 'a world_scheme" where
  "execute_cmd E cmd s =
     (let (r, s) = popen_read E cmd s in
      case r of
        None \<Rightarrow> ((- 1, None), s)
      | Some (result, return_code) \<Rightarrow>
          ((if wifexited return_code then wexitstatus return_code else - 1, Some result), s))"

text \<open>\<open>get_my_ip\<close>: port 53, and the results of \<open>connect\<close> and \<open>getsockname\<close> are not looked at.\<close>

definition get_my_ip :: "env \<Rightarrow> string \<Rightarrow> 'a world_scheme \<Rightarrow> (int \<times> string option) \<times> 'a world_scheme" where
  "get_my_ip E remote_ip s =
     (let (sock, s) = sock_open E s in
      if sock < 0 then ((1, None), s)
      else
        let (_, s) = sock_connect E sock remote_ip 53 s in
        case net_local E (trace s) sock of
          Some my_ip \<Rightarrow> ((0, Some my_ip), sock_close sock s)
        | None \<Rightarrow> ((2, None), sock_close sock s))"

definition copy_rules :: "env \<Rightarrow> string \<Rightarrow> string \<Rightarrow> 'a tc_scheme \<Rightarrow> 'a tc_scheme" where
  "copy_rules E rules_name rules_dir s =
     (let s = set_timeout 30 s;
          (_, s) = ssh_maxscale E True (''cd '' @ tc_access_homedir s @ '';rm -rf rules;mkdir rules;'' @
                     ''chown vagrant:vagrant rules -R'') s;
          s = set_timeout 30 s;
          (_, s) = copy_to_maxscale E (rules_dir @ ''/'' @ rules_name) (tc_access_homedir s @ ''/rules/rules.txt'') s;
          s = set_timeout 30 s;
          (_, s) = ssh_maxscale E True (''chown maxscale:maxscale '' @ tc_access_homedir s @ ''/rules -R'') s
      in stop_timeout s)"

end
