(* ===== verification/Binlog_Props.thy ===== *)
theory Binlog_Props
  imports Binlog_Checks Big_Data_Props Test_Lemmas
begin

text \<open>
  What a passed checksum test means: both sides printed the same checksum for both files.
\<close>

text \<open>The two readings of file \<open>i\<close> that the check makes from state \<open>u\<close> agree.\<close>

definition same_checksum :: "env \<Rightarrow> nat \<Rightarrow> 'a tc_scheme \<Rightarrow> bool" where
  "same_checksum E i u \<longleftrightarrow> (\<exists>a. fst (sha1_maxscale E i (set_timeout 50 u)) = Some a \<and>
     fst (sha1_master E i (set_timeout 50 (snd (sha1_maxscale E i (set_timeout 50 u))))) = Some a)"

lemma sha1_file_Some:
  "sha1_file E i acc u = Some (r, t) \<Longrightarrow> acc \<le> r \<and> (r = acc \<longleftrightarrow> same_checksum E i u)"
  by (auto simp: sha1_file_def same_checksum_def split_def Let_def Option.bind_eq_Some_conv split: if_splits)

text \<open>
  C30. A checksum test that returns 0 has flushed the logs of the master twice without an error,
  and for each of the two binlog files the first words printed by \<open>sha1sum\<close> on the MaxScale
  machine and on the master were the same.
\<close>

theorem check_sha1_sound:
  assumes "check_sha1 E s = Some (0, t)"
  shows "\<exists>u1 u2. same_checksum E 1 u1 \<and> same_checksum E 2 u2 \<and>
     sha1_file E 1 0 u1 = Some (0, u2) \<and> sha1_file E 2 0 u2 = Some (0, t)"
proof -
  have nn: "0 \<le> fst (execute_query E c q u)" for c q and u :: "'a tc_scheme"
    using execute_query_bit[of E c q u] by (cases "execute_query E c q u") auto
  have "\<exists>a1 a2 u1. foreachM [1, 2] (sha1_file E) (a1 + a2) u1 = Some (0, t) \<and> 0 \<le> a1 \<and> 0 \<le> a2"
    by (intro exI conjI, rule assms[unfolded check_sha1_def Let_def split_def]) (rule nn)+
  then obtain a1 a2 u1 where f: "foreachM [1, 2] (sha1_file E) (a1 + a2) u1 = Some (0, t)" "0 \<le> a1" "0 \<le> a2"
    by blast
  then obtain r1 u2 where 1: "sha1_file E 1 (a1 + a2) u1 = Some (r1, u2)" and 2: "sha1_file E 2 r1 u2 = Some (0, t)"
    by (auto simp: Option.bind_eq_Some_conv)
  from sha1_file_Some[OF 1] sha1_file_Some[OF 2] f(2,3) have "r1 = 0" "a1 + a2 = 0" by linarith+
  with 1 2 sha1_file_Some[OF 1] sha1_file_Some[OF 2] show ?thesis by auto
qed

text \<open>A shell that prints the same line for every command, and a master that accepts all.\<close>

definition sha1_env :: env where
  "sha1_env = dead_env\<lparr>sh_read := \<lambda>h cmd. Some (''d0be2dc4 file'', 0),
     my_query := \<lambda>h c q. QOk \<lparr>stored = None, affected = 0\<rparr> []\<rparr>"

definition sha1_tc :: tc where
  "sha1_tc = blank_tc\<lparr>objs := \<lambda>_. (objs blank_tc 0)\<lparr>mn_nodes := \<lambda>_. Some 1\<rparr>\<rparr>"

lemma sha1_env_calls:
  "fst (sha1_maxscale sha1_env i u) = Some ''d0be2dc4''" "fst (sha1_master sha1_env i u) = Some ''d0be2dc4''"
  by (simp_all add: sha1_maxscale_def sha1_master_def ssh_maxscale_output_def ssh_node_output_def popen_read_def
      sha1_env_def cut_at_def split_def Let_def)

lemma sha1_env_file: "\<exists>t. sha1_file sha1_env i acc u = Some (acc, t)"
  unfolding sha1_file_def Let_def split_def sha1_env_calls by simp

lemma sha1_env_query: "fst (execute_query sha1_env (Some c) q u) = 0"
  by (simp add: execute_query_def execute_query1_def mysql_query_def sha1_env_def)

lemma repl_extends: "extends s t \<Longrightarrow> repl t = repl s"
  by (auto simp: extends_def emits_def repl_def)

lemma repl_steps:
  "repl (snd (execute_query E c q s)) = repl s" "repl (c_sleep n s) = repl s"
  "repl (set_timeout k s) = repl s" "repl (snd (ssh_maxscale E sudo cmd s)) = repl s"
  by (rule repl_extends, rule extends_execute_query, rule repl_extends, rule extends_calls(4),
      simp add: repl_def set_timeout_def, rule repl_extends, rule extends_ssh_maxscale)

lemma repl_list_binlogs: "repl (list_binlogs E s) = repl s"
  by (simp add: list_binlogs_def split_def Let_def repl_steps)

theorem check_sha1_sound_witness:
  "\<exists>(u :: tc) t. check_sha1 sha1_env sha1_tc = Some (0, t) \<and> same_checksum sha1_env 2 u"
proof -
  have two: "\<exists>t. foreachM [1, 2] (sha1_file sha1_env) acc u = Some (acc, t)" for acc and u :: tc
  proof -
    obtain v where 1: "sha1_file sha1_env 1 acc u = Some (acc, v)" using sha1_env_file by blast
    obtain t where "sha1_file sha1_env 2 acc v = Some (acc, t)" using sha1_env_file by blast
    with 1 show ?thesis by simp
  qed
  have "repl sha1_tc = (objs blank_tc 0)\<lparr>mn_nodes := \<lambda>_. Some 1\<rparr>" by (simp add: sha1_tc_def repl_def)
  then have "\<exists>t. check_sha1 sha1_env sha1_tc = Some (0, t)"
    unfolding check_sha1_def Let_def split_def
    by (simp add: repl_steps repl_list_binlogs sha1_env_query two[unfolded One_nat_def] del: foreachM.simps)
  then obtain t where c: "check_sha1 sha1_env sha1_tc = Some (0, t)" ..
  from check_sha1_sound[OF c] c show ?thesis by blast
qed

end
