(* ===== verification/Rds.thy ===== *)
theory Rds
  imports Binlog_Checks Maxinfo
begin

text \<open>
  \<open>rds_vpc.cpp\<close>: creating and deleting an Amazon RDS cluster with the \<open>aws\<close> command. The object's
  pointers are \<^const>\<open>None\<close> until they are set: the constructor initialises three of them, and
  reading another one first has no result. A null pointer is the inner \<^const>\<open>None\<close>; printing it
  with \<open>%s\<close> or comparing it with \<open>strcmp\<close> has no result. A command is printed into an array of
  1024 bytes. The text \<open>execute_cmd\<close> delivers is not set when the shell could not be started.
\<close>

record rds = world +
  cluster_name_intern :: string
  N_intern :: nat
  cluster_intern :: "json option option"
  vpc_id_intern :: "string option option"
  subnets_intern :: "json list option"
  subnets_group_name_intern :: "string option option"
  gw_intern :: "string option option"
  sg_intern :: "string option option"

definition rds_construct :: "string \<Rightarrow> 'a rds_scheme \<Rightarrow> 'a rds_scheme" where
  "rds_construct cluster s =
     s\<lparr>cluster_name_intern := cluster, N_intern := 0, cluster_intern := None, vpc_id_intern := None,
       subnets_intern := None, subnets_group_name_intern := None, gw_intern := None, sg_intern := None\<rparr>"

section \<open>Documents\<close>

text \<open>jansson's accessors: a null pointer or a document of another kind gives a null pointer.\<close>

definition jget :: "json option \<Rightarrow> string \<Rightarrow> json option" where
  "jget js k = Option.bind js (\<lambda>j. json_object_get j k)"

definition jarray :: "json option \<Rightarrow> json list" where
  "jarray js = (case js of Some (JArray xs) \<Rightarrow> xs | _ \<Rightarrow> [])"

definition jat :: "json option \<Rightarrow> nat \<Rightarrow> json option" where
  "jat js i = (if i < length (jarray js) then Some (jarray js ! i) else None)"

definition jstring :: "json option \<Rightarrow> string option" where
  "jstring js = (case js of Some (JString t) \<Rightarrow> Some t | _ \<Rightarrow> None)"

definition get_instance_name :: "json option \<Rightarrow> string option" where
  "get_instance_name instance = jstring (jget instance ''DBInstanceIdentifier'')"

definition get_cluster_descr :: "env \<Rightarrow> string \<Rightarrow> json option" where
  "get_cluster_descr E t = jat (jget (json_parse E t) ''DBClusters'') 0"

definition get_subnets_group_descr :: "env \<Rightarrow> string \<Rightarrow> json option" where
  "get_subnets_group_descr E t = jat (jget (json_parse E t) ''DBSubnetGroups'') 0"

text \<open>A member without a name adds nothing: \<open>json_string(NULL)\<close> is null and is not appended.\<close>

definition get_cluster_nodes_of :: "json option \<Rightarrow> json list" where
  "get_cluster_nodes_of cluster =
     List.map_filter (\<lambda>m. map_option JString (get_instance_name (Some m))) (jarray (jget cluster ''DBClusterMembers''))"

definition get_cluster_nodes :: "'a rds_scheme \<Rightarrow> json list option" where
  "get_cluster_nodes s = map_option get_cluster_nodes_of (cluster_intern s)"

section \<open>Commands\<close>

definition cmd_buf :: "string \<Rightarrow> string option" where
  "cmd_buf cmd = into_block 1024 cmd"

text \<open>\<open>sprintf(cmd, ...); execute_cmd(cmd, &res)\<close> and \<open>sprintf(cmd, ...); system(cmd)\<close>\<close>

definition aws_execute :: "env \<Rightarrow> string \<Rightarrow> 'a rds_scheme \<Rightarrow> ((int \<times> string option) \<times> 'a rds_scheme) option" where
  "aws_execute E cmd s = do { cmd \<leftarrow> cmd_buf cmd; Some (execute_cmd E cmd s) }"

definition aws_system :: "env \<Rightarrow> string \<Rightarrow> 'a rds_scheme \<Rightarrow> (int \<times> 'a rds_scheme) option" where
  "aws_system E cmd s = do { cmd \<leftarrow> cmd_buf cmd; Some (c_system E cmd s) }"

text \<open>The field of the object printed with \<open>%s\<close>.\<close>

definition vpc_text :: "'a rds_scheme \<Rightarrow> string option" where
  "vpc_text s = Option.bind (vpc_id_intern s) id"

section \<open>Describing\<close>

definition describe_cluster_cmd :: "string \<Rightarrow> string" where
  "describe_cluster_cmd name = ''aws rds describe-db-clusters --db-cluster-identifier='' @ name"

definition get_cluster :: "env \<Rightarrow> 'a rds_scheme \<Rightarrow> (json option \<times> 'a rds_scheme) option" where
  "get_cluster E s =
     do { ((_, result), s) \<leftarrow> aws_execute E (describe_cluster_cmd (cluster_name_intern s)) s;
          t \<leftarrow> result;
          Some (get_cluster_descr E t, s) }"

definition get_subnets :: "env \<Rightarrow> 'a rds_scheme \<Rightarrow> (json list option \<times> 'a rds_scheme) option" where
  "get_subnets E s =
     do { group \<leftarrow> subnets_group_name_intern s;
          name \<leftarrow> group;
          ((rc, result), s) \<leftarrow> aws_execute E (''aws rds describe-db-subnet-groups --db-subnet-group-name '' @ name) s;
          if rc \<noteq> 0 then Some (None, s)
          else do {
            t \<leftarrow> result;
            let subnets_group = get_subnets_group_descr E t;
            let s = s\<lparr>vpc_id_intern := Some (jstring (jget subnets_group ''VpcId''))\<rparr>;
            let names = List.map_filter (\<lambda>m. jget (Some m) ''SubnetIdentifier'') (jarray (jget subnets_group ''Subnets''));
            Some (Some names, s\<lparr>subnets_intern := Some names\<rparr>) } }"

definition get_subnetgroup_name :: "'a rds_scheme \<Rightarrow> (string option \<times> 'a rds_scheme) option" where
  "get_subnetgroup_name s =
     do { cluster \<leftarrow> cluster_intern s;
          let name = (if cluster \<noteq> None then jstring (jget cluster ''DBSubnetGroup'') else Some (cluster_name_intern s));
          Some (name, s\<lparr>subnets_group_name_intern := Some name\<rparr>) }"

section \<open>Destroying\<close>

fun destroy_nodes :: "env \<Rightarrow> json list \<Rightarrow> int \<Rightarrow> 'a rds_scheme \<Rightarrow> (int \<times> 'a rds_scheme) option" where
  "destroy_nodes E [] err s = Some (err, s)"
| "destroy_nodes E (node # nodes) err s =
     do { name \<leftarrow> jstring (Some node);
          ((rc, _), s) \<leftarrow> aws_execute E (''aws rds delete-db-instance --skip-final-snapshot --db-instance-identifier='' @ name) s;
          destroy_nodes E nodes (if rc \<noteq> 0 then - 1 else err) s }"

text \<open>The command that deletes a subnet is run twice; the result of the second run counts.\<close>

definition delete_subnet_cmd :: "string \<Rightarrow> string" where
  "delete_subnet_cmd name = ''aws ec2 delete-subnet --subnet-id='' @ name"

fun destroy_subnet_list :: "env \<Rightarrow> json list \<Rightarrow> int \<Rightarrow> 'a rds_scheme \<Rightarrow> (int \<times> 'a rds_scheme) option" where
  "destroy_subnet_list E [] err s = Some (err, s)"
| "destroy_subnet_list E (subnet # subnets) err s =
     do { name \<leftarrow> jstring (Some subnet);
          (_, s) \<leftarrow> aws_execute E (delete_subnet_cmd name) s;
          ((rc, _), s) \<leftarrow> aws_execute E (delete_subnet_cmd name) s;
          destroy_subnet_list E subnets (if rc \<noteq> 0 then - 1 else err) s }"

definition destroy_subnets :: "env \<Rightarrow> 'a rds_scheme \<Rightarrow> (int \<times> 'a rds_scheme) option" where
  "destroy_subnets E s =
     destroy_subnet_list E (case subnets_intern s of None \<Rightarrow> [] | Some xs \<Rightarrow> xs) 0 s"

definition destroy_vpc :: "env \<Rightarrow> 'a rds_scheme \<Rightarrow> (int \<times> 'a rds_scheme) option" where
  "destroy_vpc E s = do { vpc \<leftarrow> vpc_text s; aws_system E (''aws ec2 delete-vpc --vpc-id='' @ vpc) s }"

definition destroy_cluster :: "env \<Rightarrow> 'a rds_scheme \<Rightarrow> (int \<times> 'a rds_scheme) option" where
  "destroy_cluster E s =
     do { ((rc, _), s) \<leftarrow> aws_execute E (''aws rds delete-db-cluster --db-cluster-identifier='' @
            cluster_name_intern s @ '' --skip-final-snapshot'') s;
          Some (rc, s) }"

text \<open>No value is returned.\<close>

definition destroy_subnets_group :: "env \<Rightarrow> 'a rds_scheme \<Rightarrow> 'a rds_scheme option" where
  "destroy_subnets_group E s =
     do { (name, s) \<leftarrow> get_subnetgroup_name s;
          name \<leftarrow> name;
          (_, s) \<leftarrow> aws_execute E (''aws rds delete-db-subnet-group --db-subnet-group-name '' @ name) s;
          Some s }"

text \<open>
  \<open>destroy_route_tables\<close>: the value is \<^const>\<open>None\<close> when the function ends without a \<open>return\<close>. The
  description of the VPCs is parsed as the one of a cluster.
\<close>

fun delete_route_tables :: "env \<Rightarrow> string \<Rightarrow> json list \<Rightarrow> 'a rds_scheme \<Rightarrow> 'a rds_scheme option" where
  "delete_route_tables E vpc [] s = Some s"
| "delete_route_tables E vpc (rt # rts) s =
     do { vpc_id \<leftarrow> jstring (jget (Some rt) ''VpcId'');
          if vpc = vpc_id
          then do { rt_id \<leftarrow> jstring (jget (Some rt) ''RouteTableId'');
                    (_, s) \<leftarrow> aws_system E (''aws ec2 delete-route-table --route-table-id '' @ rt_id) s;
                    delete_route_tables E vpc rts s }
          else delete_route_tables E vpc rts s }"

definition destroy_route_tables :: "env \<Rightarrow> 'a rds_scheme \<Rightarrow> (int option \<times> 'a rds_scheme) option" where
  "destroy_route_tables E s =
     do { vpc \<leftarrow> vpc_text s;
          ((rc, result), s) \<leftarrow> aws_execute E (''aws ec2 describe-vpcs --vpc-ids='' @ vpc) s;
          if rc \<noteq> 0 then Some (Some (- 1), s)
          else do {
            t \<leftarrow> result;
            case get_cluster_descr E t of
              None \<Rightarrow> Some (Some (- 1), s)
            | Some root \<Rightarrow>
                do { s \<leftarrow> delete_route_tables E vpc (jarray (jget (Some root) ''RouteTables'')) s;
                     Some (None, s) } } }"

fun destroy_gws :: "env \<Rightarrow> string \<Rightarrow> json list \<Rightarrow> 'a rds_scheme \<Rightarrow> (int \<times> 'a rds_scheme) option" where
  "destroy_gws E vpc [] s = Some (0, s)"
| "destroy_gws E vpc (gw # gws) s =
     do { gw_id \<leftarrow> jstring (jget (Some gw) ''InternetGatewayId'');
          (rc, s) \<leftarrow> aws_system E (''aws ec2 detach-internet-gateway --internet-gateway-id='' @ gw_id @ '' --vpc-id='' @ vpc) s;
          if rc \<noteq> 0 then Some (- 1, s)
          else do {
            (rc, s) \<leftarrow> aws_system E (''aws ec2 delete-internet-gateway --internet-gateway-id='' @ gw_id) s;
            if rc \<noteq> 0 then Some (- 1, s) else destroy_gws E vpc gws s } }"

definition detach_and_destroy_gw :: "env \<Rightarrow> 'a rds_scheme \<Rightarrow> (int \<times> 'a rds_scheme) option" where
  "detach_and_destroy_gw E s =
     do { vpc \<leftarrow> vpc_text s;
          ((rc, result), s) \<leftarrow> aws_execute E
             (''aws ec2 describe-internet-gateways --filters Name=attachment.vpc-id,Values='' @ vpc) s;
          if rc \<noteq> 0 then Some (- 1, s)
          else do {
            t \<leftarrow> result;
            case json_parse E t of
              None \<Rightarrow> Some (- 1, s)
            | Some root \<Rightarrow>
                (case json_object_get root ''InternetGateways'' of
                   None \<Rightarrow> Some (- 1, s)
                 | Some gws \<Rightarrow> destroy_gws E vpc (jarray (Some gws)) s) } }"

section \<open>Creating\<close>

text \<open>
  \<open>create_vpc\<close>: the code and \<open>*vpc_id\<close>, which is not set (\<^const>\<open>None\<close>) before the description was
  parsed.
\<close>

definition create_vpc :: "env \<Rightarrow> 'a rds_scheme \<Rightarrow> ((int \<times> string option option) \<times> 'a rds_scheme) option" where
  "create_vpc E s =
     (let ((rc, result), s) = execute_cmd E ''aws ec2 create-vpc --cidr-block 172.30.0.0/16'' s in
      if rc \<noteq> 0 then Some ((- 1, None), s)
      else do {
        t \<leftarrow> result;
        case json_parse E t of
          None \<Rightarrow> Some ((- 1, None), s)
        | Some root \<Rightarrow>
            let vpc_id = jstring (jget (jget (Some root) ''Vpc'') ''VpcId'') in
            case vpc_id of
              None \<Rightarrow> Some ((- 1, Some None), s)
            | Some vpc \<Rightarrow>
                let s = s\<lparr>vpc_id_intern := Some vpc_id\<rparr> in
                do { (rc, s) \<leftarrow> aws_system E (''aws ec2 modify-vpc-attribute --enable-dns-support --vpc-id '' @ vpc) s;
                     if rc \<noteq> 0 then Some ((- 1, Some vpc_id), s)
                     else do {
                       (rc, s) \<leftarrow> aws_system E (''aws ec2 modify-vpc-attribute --enable-dns-hostnames --vpc-id '' @ vpc) s;
                       Some ((if rc \<noteq> 0 then - 1 else 0, Some vpc_id), s) } } })"

definition create_subnet_cmd :: "string \<Rightarrow> string \<Rightarrow> string \<Rightarrow> string" where
  "create_subnet_cmd az cidr vpc =
     ''aws ec2 create-subnet --cidr-block '' @ cidr @ '' --availability-zone '' @ az @ '' --vpc-id '' @ vpc"

definition create_subnet ::
  "env \<Rightarrow> string \<Rightarrow> string \<Rightarrow> 'a rds_scheme \<Rightarrow> ((int \<times> string option) \<times> 'a rds_scheme) option" where
  "create_subnet E az cidr s =
     do { vpc \<leftarrow> vpc_text s;
          ((rc, result), s) \<leftarrow> aws_execute E (create_subnet_cmd az cidr vpc) s;
          if rc \<noteq> 0 then Some ((- 1, None), s)
          else do {
            t \<leftarrow> result;
            case json_parse E t of
              None \<Rightarrow> Some ((- 1, None), s)
            | Some root \<Rightarrow>
                (case jstring (jget (jget (Some root) ''Subnet'') ''SubnetId'') of
                   None \<Rightarrow> Some ((- 1, None), s)
                 | Some subnet \<Rightarrow>
                     let subnets = (case subnets_intern s of None \<Rightarrow> [] | Some xs \<Rightarrow> xs);
                         s = s\<lparr>subnets_intern := Some (subnets @ [JString subnet])\<rparr>
                     in do { (rc, s) \<leftarrow> aws_system E
                               (''aws ec2 modify-subnet-attribute --map-public-ip-on-launch --subnet-id '' @ subnet) s;
                             Some ((if rc \<noteq> 0 then - 1 else 0, Some subnet), s) }) } }"

fun subnet_args :: "json list \<Rightarrow> string option" where
  "subnet_args [] = Some []"
| "subnet_args (j # js) = do { t \<leftarrow> jstring (Some j); ts \<leftarrow> subnet_args js; Some ('' '' @ t @ ts) }"

definition create_subnet_group :: "env \<Rightarrow> 'a rds_scheme \<Rightarrow> (int \<times> 'a rds_scheme) option" where
  "create_subnet_group E s =
     do { args \<leftarrow> subnet_args (case subnets_intern s of None \<Rightarrow> [] | Some xs \<Rightarrow> xs);
          let cmd = ''aws rds create-db-subnet-group --db-subnet-group-name '' @ cluster_name_intern s @
            '' --db-subnet-group-description maxscale --subnet-ids'' @ args;
          let s = s\<lparr>subnets_group_name_intern := Some (Some (cluster_name_intern s))\<rparr>;
          (rc, s) \<leftarrow> aws_system E cmd s;
          Some (if rc \<noteq> 0 then - 1 else 0, s) }"

definition create_gw :: "env \<Rightarrow> 'a rds_scheme \<Rightarrow> ((int \<times> string option) \<times> 'a rds_scheme) option" where
  "create_gw E s =
     (let s = s\<lparr>gw_intern := Some None\<rparr>;
          ((rc, result), s) = execute_cmd E ''aws ec2 create-internet-gateway'' s
      in if rc \<noteq> 0 then Some ((- 1, None), s)
         else do {
           t \<leftarrow> result;
           case json_parse E t of
             None \<Rightarrow> Some ((- 1, None), s)
           | Some root \<Rightarrow>
               (case jstring (jget (jget (Some root) ''InternetGateway'') ''InternetGatewayId'') of
                  None \<Rightarrow> Some ((- 1, None), s)
                | Some gw \<Rightarrow>
                    let s = s\<lparr>gw_intern := Some (Some gw)\<rparr> in
                    do { vpc \<leftarrow> vpc_text s;
                         (rc, s) \<leftarrow> aws_system E
                           (''aws ec2 attach-internet-gateway --internet-gateway-id '' @ gw @ '' --vpc-id '' @ vpc) s;
                         Some ((if rc \<noteq> 0 then - 1 else 0, Some gw), s) }) })"

text \<open>The loop over the route tables: the code if it returns from inside, and \<open>*rt\<close>.\<close>

fun route_loop ::
  "env \<Rightarrow> string \<Rightarrow> json list \<Rightarrow> string option \<Rightarrow> 'a rds_scheme
   \<Rightarrow> ((int option \<times> string option) \<times> 'a rds_scheme) option" where
  "route_loop E vpc [] rt s = Some ((None, rt), s)"
| "route_loop E vpc (rtb # rtbs) rt s =
     do { rt_vpc \<leftarrow> jstring (jget (Some rtb) ''VpcId'');
          if vpc = rt_vpc
          then do {
            table \<leftarrow> jstring (jget (Some rtb) ''RouteTableId'');
            gw \<leftarrow> Option.bind (gw_intern s) id;
            (rc, s) \<leftarrow> aws_system E (''aws ec2 create-route --route-table-id '' @ table @ '' --gateway-id '' @ gw @
                         '' --destination-cidr-block 0.0.0.0/0'') s;
            if rc \<noteq> 0 then Some ((Some (- 1), Some table), s) else route_loop E vpc rtbs (Some table) s }
          else route_loop E vpc rtbs rt s }"

definition configure_route_table :: "env \<Rightarrow> 'a rds_scheme \<Rightarrow> ((int \<times> string option) \<times> 'a rds_scheme) option" where
  "configure_route_table E s =
     (let ((rc, result), s) = execute_cmd E ''aws ec2 describe-route-tables'' s in
      if rc \<noteq> 0 then Some ((- 1, None), s)
      else do {
        t \<leftarrow> result;
        case json_parse E t of
          None \<Rightarrow> Some ((- 1, None), s)
        | Some root \<Rightarrow>
            (case json_object_get root ''RouteTables'' of
               None \<Rightarrow> Some ((- 1, None), s)
             | Some tables \<Rightarrow>
                 do { vpc \<leftarrow> (if jarray (Some tables) = [] then Some [] else vpc_text s);
                      ((early, rt), s) \<leftarrow> route_loop E vpc (jarray (Some tables)) None s;
                      case early of
                        Some rc \<Rightarrow> Some ((rc, rt), s)
                      | None \<Rightarrow> Some ((if rt = None then - 1 else 0, rt), s) }) })"

text \<open>\<open>create_cluster\<close>: the results of the commands are ignored, only the description must parse.\<close>

fun authorize_loop ::
  "env \<Rightarrow> json list \<Rightarrow> string option option \<Rightarrow> 'a rds_scheme \<Rightarrow> (string option option \<times> 'a rds_scheme) option" where
  "authorize_loop E [] sg s = Some (sg, s)"
| "authorize_loop E (g # gs) sg s =
     do { sg_id \<leftarrow> jstring (jget (Some g) ''VpcSecurityGroupId'');
          (_, s) \<leftarrow> aws_system E (''aws ec2 authorize-security-group-ingress --group-id '' @ sg_id @
            '' --protocol tcp --port 3306 --cidr 0.0.0.0/0'') s;
          authorize_loop E gs (Some (Some sg_id)) s }"

definition create_instance_cmd :: "string \<Rightarrow> nat \<Rightarrow> string" where
  "create_instance_cmd name i =
     ''aws rds create-db-instance --db-cluster-identifier='' @ name @
     '' --engine=aurora --db-instance-class=db.t2.medium --publicly-accessible --db-instance-identifier=node'' @ pad3 i"

definition create_instance :: "env \<Rightarrow> nat \<Rightarrow> 'a rds_scheme \<Rightarrow> 'a rds_scheme option" where
  "create_instance E i s =
     do { (_, s) \<leftarrow> aws_system E (create_instance_cmd (cluster_name_intern s) i) s; Some s }"

definition create_cluster_cmd :: "string \<Rightarrow> string" where
  "create_cluster_cmd name =
     ''aws rds create-db-cluster --database-name=test --engine=aurora --master-username=skysql'' @
     '' --master-user-password=skysqlrds --db-cluster-identifier='' @ name @ '' --db-subnet-group-name='' @ name"

definition create_cluster :: "env \<Rightarrow> 'a rds_scheme \<Rightarrow> (int \<times> 'a rds_scheme) option" where
  "create_cluster E s =
     do { ((_, result), s) \<leftarrow> aws_execute E (create_cluster_cmd (cluster_name_intern s)) s;
          t \<leftarrow> result;
          case json_parse E t of
            None \<Rightarrow> Some (- 1, s)
          | Some root \<Rightarrow>
              let cluster = json_object_get root ''DBCluster'';
                  s = s\<lparr>cluster_intern := Some cluster\<rparr>
              in do { (sg, s) \<leftarrow> authorize_loop E (jarray (jget cluster ''VpcSecurityGroups'')) None s;
                      let s = s\<lparr>sg_intern := sg\<rparr>;
                      s \<leftarrow> do_loopM [0..<N_intern s] (create_instance E) s;
                      Some (0, s) } }"

section \<open>The whole set-up\<close>

text \<open>The clean-up after a failure, from the gateway or from the subnets on.\<close>

definition destroy_from_subnets :: "env \<Rightarrow> 'a rds_scheme \<Rightarrow> (int \<times> 'a rds_scheme) option" where
  "destroy_from_subnets E s =
     do { (_, s) \<leftarrow> destroy_subnets E s;
          s \<leftarrow> destroy_subnets_group E s;
          (_, s) \<leftarrow> destroy_vpc E s;
          Some (- 1, s) }"

definition destroy_from_gw :: "env \<Rightarrow> 'a rds_scheme \<Rightarrow> (int \<times> 'a rds_scheme) option" where
  "destroy_from_gw E s = do { (_, s) \<leftarrow> detach_and_destroy_gw E s; destroy_from_subnets E s }"

definition create_network :: "env \<Rightarrow> 'a rds_scheme \<Rightarrow> (int \<times> 'a rds_scheme) option" where
  "create_network E s =
     do { ((rc, _), s) \<leftarrow> create_gw E s;
          if rc \<noteq> 0 then destroy_from_gw E s
          else do {
            ((rc, _), s) \<leftarrow> configure_route_table E s;
            if rc \<noteq> 0 then destroy_from_gw E s
            else do {
              (rc, s) \<leftarrow> create_cluster E s;
              if rc \<noteq> 0
              then do { nodes \<leftarrow> get_cluster_nodes s;
                        (_, s) \<leftarrow> destroy_nodes E nodes 0 s;
                        (_, s) \<leftarrow> destroy_cluster E s;
                        destroy_from_gw E s }
              else Some (0, s) } } }"

definition create_rds_db :: "env \<Rightarrow> nat \<Rightarrow> 'a rds_scheme \<Rightarrow> (int \<times> 'a rds_scheme) option" where
  "create_rds_db E N s =
     (let s = s\<lparr>N_intern := N\<rparr> in
      do { ((rc, _), s) \<leftarrow> create_vpc E s;
           if rc \<noteq> 0 then do { (_, s) \<leftarrow> destroy_vpc E s; Some (- 1, s) }
           else do {
             (_, s) \<leftarrow> create_subnet E ''eu-west-1b'' ''172.30.0.0/24'' s;
             (_, s) \<leftarrow> create_subnet E ''eu-west-1a'' ''172.30.1.0/24'' s;
             (rc, s) \<leftarrow> create_subnet_group E s;
             if rc \<noteq> 0 then destroy_from_subnets E s else create_network E s } })"

section \<open>Waiting\<close>

text \<open>
  The loop of \<open>get_writer\<close> over the members of the cluster: behind the last one the document is a
  null pointer, which is no writer, and the loop goes on.
\<close>

partial_function (option) writer_loop :: "json option \<Rightarrow> nat \<Rightarrow> json option option" where
  "writer_loop nodes i =
     (let node = jat nodes i in
      if jget node ''IsClusterWriter'' = Some JTrue then Some node else writer_loop nodes (i + 1))"

definition get_writer :: "env \<Rightarrow> 'a rds_scheme \<Rightarrow> ((int \<times> string option) \<times> 'a rds_scheme) option" where
  "get_writer E s =
     do { (cluster, s) \<leftarrow> get_cluster E s;
          node \<leftarrow> writer_loop (jget cluster ''DBClusterMembers'') 0;
          Some ((0, jstring (jget node ''DBInstanceIdentifier'')), s) }"

text \<open>\<open>do_failover\<close>: the loop runs until another instance is the writer.\<close>

partial_function (option) failover_loop :: "env \<Rightarrow> string \<Rightarrow> 'a rds_scheme \<Rightarrow> (int \<times> 'a rds_scheme) option" where
  "failover_loop E writer s =
     do { ((rc, new_writer), s) \<leftarrow> get_writer E s;
          if rc \<noteq> 0 then Some (- 1, s)
          else do {
            let s = c_sleep 5 s;
            w \<leftarrow> new_writer;
            if writer = w then failover_loop E writer s else Some (0, s) } }"

definition do_failover :: "env \<Rightarrow> 'a rds_scheme \<Rightarrow> (int \<times> 'a rds_scheme) option" where
  "do_failover E s =
     do { ((rc, writer), s) \<leftarrow> get_writer E s;
          if rc \<noteq> 0 then Some (- 1, s)
          else do {
            ((rc, _), s) \<leftarrow> aws_execute E (''aws rds failover-db-cluster --db-cluster-identifier='' @ cluster_name_intern s) s;
            if rc \<noteq> 0 then Some (- 1, s)
            else do { writer \<leftarrow> writer; failover_loop E writer s } } }"

text \<open>
  One pass over the instances: how many are available, or the failure of a description. The text of
  a description that could not be asked for is the one of the description before.
\<close>

definition describe_instance_cmd :: "string \<Rightarrow> string" where
  "describe_instance_cmd name = ''aws rds describe-db-instances --db-instance-identifier='' @ name"

fun count_available ::
  "env \<Rightarrow> json list \<Rightarrow> nat \<Rightarrow> string option \<Rightarrow> 'a rds_scheme \<Rightarrow> ((nat option \<times> string option) \<times> 'a rds_scheme) option" where
  "count_available E [] active result s = Some ((Some active, result), s)"
| "count_available E (node # nodes) active result s =
     do { name \<leftarrow> jstring (Some node);
          ((_, r), s) \<leftarrow> aws_execute E (describe_instance_cmd name) s;
          let result = (case r of None \<Rightarrow> result | Some _ \<Rightarrow> r);
          t \<leftarrow> result;
          case json_parse E t of
            None \<Rightarrow> Some ((None, result), s)
          | Some root \<Rightarrow>
              do { status \<leftarrow> jstring (jget (jat (json_object_get root ''DBInstances'') 0) ''DBInstanceStatus'');
                   count_available E nodes (if status = ''available'' then active + 1 else active) result s } }"

partial_function (option) wait_nodes_loop ::
  "env \<Rightarrow> nat \<Rightarrow> string option \<Rightarrow> 'a rds_scheme \<Rightarrow> (int \<times> 'a rds_scheme) option" where
  "wait_nodes_loop E N result s =
     do { (cluster, s) \<leftarrow> get_cluster E (c_sleep 5 s);
          let s = s\<lparr>cluster_intern := Some cluster\<rparr>;
          ((active, result), s) \<leftarrow> count_available E (get_cluster_nodes_of cluster) 0 result s;
          case active of
            None \<Rightarrow> Some (- 1, s)
          | Some active \<Rightarrow> if active \<noteq> N then wait_nodes_loop E N result s else Some (0, s) }"

definition wait_for_nodes :: "env \<Rightarrow> nat \<Rightarrow> 'a rds_scheme \<Rightarrow> (int \<times> 'a rds_scheme) option" where
  "wait_for_nodes E N s = wait_nodes_loop E N None s"

fun endpoint_loop ::
  "env \<Rightarrow> json list \<Rightarrow> json list \<Rightarrow> 'a rds_scheme \<Rightarrow> (json list option \<times> 'a rds_scheme) option" where
  "endpoint_loop E [] endpoints s = Some (Some endpoints, s)"
| "endpoint_loop E (node # nodes) endpoints s =
     do { name \<leftarrow> jstring (Some node);
          ((rc, result), s) \<leftarrow> aws_execute E (describe_instance_cmd name) s;
          if rc \<noteq> 0 then Some (None, s)
          else do {
            t \<leftarrow> result;
            case json_parse E t of
              None \<Rightarrow> Some (None, s)
            | Some root \<Rightarrow>
                let endpoint = jget (jat (json_object_get root ''DBInstances'') 0) ''Endpoint'' in
                endpoint_loop E nodes (case endpoint of None \<Rightarrow> endpoints | Some e \<Rightarrow> endpoints @ [e]) s } }"

definition get_endpoints :: "env \<Rightarrow> 'a rds_scheme \<Rightarrow> (json list option \<times> 'a rds_scheme) option" where
  "get_endpoints E s =
     do { (cluster, s) \<leftarrow> get_cluster E s;
          let s = s\<lparr>cluster_intern := Some cluster\<rparr>;
          endpoint_loop E (get_cluster_nodes_of cluster) [] s }"

section \<open>Deleting a cluster\<close>

text \<open>The two loops that wait until the nodes, and then the cluster, are gone.\<close>

partial_function (option) wait_nodes_gone :: "env \<Rightarrow> 'a rds_scheme \<Rightarrow> 'a rds_scheme option" where
  "wait_nodes_gone E s =
     do { (cluster, s) \<leftarrow> get_cluster E (c_sleep 5 s);
          if get_cluster_nodes_of cluster \<noteq> [] then wait_nodes_gone E s else Some s }"

partial_function (option) wait_cluster_gone :: "env \<Rightarrow> string option \<Rightarrow> 'a rds_scheme \<Rightarrow> 'a rds_scheme option" where
  "wait_cluster_gone E result s =
     do { ((_, r), s) \<leftarrow> aws_execute E (describe_cluster_cmd (cluster_name_intern s)) (c_sleep 5 s);
          let result = (case r of None \<Rightarrow> result | Some _ \<Rightarrow> r);
          t \<leftarrow> result;
          if get_cluster_descr E t \<noteq> None then wait_cluster_gone E result s else Some s }"

text \<open>
  \<open>delete_rds_cluster\<close>, which returns no value. \<open>vpc_id_intern\<close> is printed after \<open>get_subnets\<close>
  whether or not that has set it; the group's name is printed too.
\<close>

definition delete_rds_cluster :: "env \<Rightarrow> 'a rds_scheme \<Rightarrow> 'a rds_scheme option" where
  "delete_rds_cluster E s =
     do { (cluster, s) \<leftarrow> get_cluster E s;
          let s = s\<lparr>cluster_intern := Some cluster\<rparr>;
          nodes \<leftarrow> get_cluster_nodes s;
          (name, s) \<leftarrow> get_subnetgroup_name s;
          _ \<leftarrow> name;
          (_, s) \<leftarrow> get_subnets E s;
          _ \<leftarrow> vpc_text s;
          (_, s) \<leftarrow> destroy_nodes E nodes 0 s;
          s \<leftarrow> wait_nodes_gone E s;
          (_, s) \<leftarrow> destroy_cluster E s;
          s \<leftarrow> wait_cluster_gone E None s;
          (_, s) \<leftarrow> destroy_subnets E s;
          s \<leftarrow> destroy_subnets_group E s;
          (_, s) \<leftarrow> detach_and_destroy_gw E s;
          (_, s) \<leftarrow> destroy_vpc E s;
          Some s }"

text \<open>\<open>create_rds.cpp\<close> and \<open>delete_rds.cpp\<close>\<close>

definition create_rds :: "env \<Rightarrow> 'a rds_scheme \<Rightarrow> (int \<times> 'a rds_scheme) option" where
  "create_rds E s = create_rds_db E 4 (rds_construct ''auroratest'' s)"

definition delete_rds :: "env \<Rightarrow> 'a rds_scheme \<Rightarrow> (int \<times> 'a rds_scheme) option" where
  "delete_rds E s = do { s \<leftarrow> delete_rds_cluster E (rds_construct ''auroratest'' s); Some (0, s) }"

end
