(* ===== verification/Rds_Props.thy ===== *)
theory Rds_Props
  imports Rds
begin

text \<open>
  The RDS object: the commands it runs, what its clean-up leaves, which of its loops end, and the
  typing of its list of subnets.
\<close>

section \<open>Commands\<close>

lemma cmd_buf_Some [simp]: "cmd_buf cmd = Some c \<longleftrightarrow> length cmd \<le> 1023 \<and> c = cmd"
  by (auto simp: cmd_buf_def into_block_def)

lemma aws_system_Some [simp]:
  "aws_system E cmd s = Some (rc, s') \<longleftrightarrow>
     length cmd \<le> 1023 \<and> rc = sh_system E (trace s) cmd \<and> s' = emit (ESystem cmd) s"
  by (auto simp: aws_system_def c_system_def Option.bind_eq_Some_conv)

definition exec_result :: "env \<Rightarrow> hist \<Rightarrow> string \<Rightarrow> int \<times> string option" where
  "exec_result E h cmd =
     (case sh_read E h cmd of
        None \<Rightarrow> (- 1, None)
      | Some (t, st) \<Rightarrow> (if wifexited st then wexitstatus st else - 1, Some t))"

lemma execute_cmd_eq: "execute_cmd E cmd s = (exec_result E (trace s) cmd, emit (EPopenR cmd) s)"
  by (simp add: execute_cmd_def exec_result_def popen_read_def split: option.splits prod.splits)

lemma aws_execute_Some [simp]:
  "aws_execute E cmd s = Some (r, s') \<longleftrightarrow>
     length cmd \<le> 1023 \<and> r = exec_result E (trace s) cmd \<and> s' = emit (EPopenR cmd) s"
  by (auto simp: aws_execute_def execute_cmd_eq Option.bind_eq_Some_conv)

lemma fields_emit [simp]:
  "cluster_name_intern (emit e s) = cluster_name_intern s"
  "N_intern (emit e s) = N_intern s"
  "cluster_intern (emit e s) = cluster_intern s"
  "vpc_id_intern (emit e s) = vpc_id_intern s"
  "subnets_intern (emit e s) = subnets_intern s"
  "subnets_group_name_intern (emit e s) = subnets_group_name_intern s"
  "gw_intern (emit e s) = gw_intern s"
  "sg_intern (emit e s) = sg_intern s"
  by (simp_all add: emit_def)

lemma fields_emits [simp]:
  "cluster_name_intern (emits es s) = cluster_name_intern s"
  "N_intern (emits es s) = N_intern s"
  "vpc_id_intern (emits es s) = vpc_id_intern s"
  "subnets_intern (emits es s) = subnets_intern s"
  by (simp_all add: emits_def)

lemmas rds_run = execute_cmd_eq vpc_text_def Let_def split_def

declare append_Cons [simp del]

section \<open>The size and the name of the cluster\<close>

definition same_plan :: "'a rds_scheme \<Rightarrow> 'a rds_scheme \<Rightarrow> bool" where
  "same_plan s s' \<longleftrightarrow> N_intern s' = N_intern s \<and> cluster_name_intern s' = cluster_name_intern s"

lemma same_plan_trans: "same_plan s t \<Longrightarrow> same_plan t u \<Longrightarrow> same_plan s u"
  by (simp add: same_plan_def)

lemma create_vpc_same_plan: "create_vpc E s = Some (r, s') \<Longrightarrow> same_plan s s'"
  by (auto simp: create_vpc_def rds_run same_plan_def split: if_split_asm option.split_asm elim!: bind_returns)

lemma create_subnet_same_plan: "create_subnet E az cidr s = Some (r, s') \<Longrightarrow> same_plan s s'"
  by (auto simp: create_subnet_def rds_run same_plan_def split: if_split_asm option.split_asm elim!: bind_returns)

lemma create_subnet_group_same_plan: "create_subnet_group E s = Some (r, s') \<Longrightarrow> same_plan s s'"
  by (auto simp: create_subnet_group_def rds_run same_plan_def split: if_split_asm option.split_asm elim!: bind_returns)

lemma create_gw_same_plan: "create_gw E s = Some (r, s') \<Longrightarrow> same_plan s s'"
  by (auto simp: create_gw_def rds_run same_plan_def split: if_split_asm option.split_asm elim!: bind_returns)

lemma extends_emitD: "extends (emit e s) t \<Longrightarrow> extends s t"
  using extends_emit extends_trans by blast

lemma route_loop_extends: "route_loop E vpc rtbs rt s = Some (r, s') \<Longrightarrow> extends s s'"
proof (induction rtbs arbitrary: rt s)
  case (Cons rtb rtbs)
  then show ?case
    by (auto simp: rds_run split: if_split_asm elim!: bind_returns dest!: Cons.IH extends_emitD)
qed simp

lemma extends_same_plan: "extends s s' \<Longrightarrow> same_plan s s'"
  by (auto simp: extends_def same_plan_def)

lemma configure_route_table_extends: "configure_route_table E s = Some (r, s') \<Longrightarrow> extends s s'"
  by (auto simp: configure_route_table_def rds_run split: if_split_asm option.split_asm elim!: bind_returns
      dest!: route_loop_extends extends_emitD)

lemma authorize_loop_extends: "authorize_loop E gs sg s = Some (r, s') \<Longrightarrow> extends s s'"
proof (induction gs arbitrary: sg s)
  case (Cons g gs)
  then show ?case by (auto simp: rds_run elim!: bind_returns dest!: Cons.IH extends_emitD)
qed simp

lemma create_instance_Some:
  "create_instance E i s = Some s' \<Longrightarrow> s' = emit (ESystem (create_instance_cmd (cluster_name_intern s) i)) s"
  by (auto simp: create_instance_def rds_run elim!: bind_returns)

lemma create_instances_trace:
  "do_loopM is (create_instance E) s = Some s' \<Longrightarrow>
   s' = emits (map (\<lambda>i. ESystem (create_instance_cmd (cluster_name_intern s) i)) is) s"
proof (induction "is" arbitrary: s)
  case (Cons i "is")
  then obtain u where u: "create_instance E i s = Some u" and r: "do_loopM is (create_instance E) u = Some s'"
    by (auto elim: bind_returns)
  show ?case using Cons.IH[OF r] create_instance_Some[OF u] by (simp add: emit_emits append_Cons)
qed simp

lemma create_cluster_trace:
  assumes "create_cluster E s = Some (rc, s')"
  shows "rc = - 1 \<or> rc = 0 \<and>
    (\<exists>h. trace s' = h @ map (\<lambda>i. ESystem (create_instance_cmd (cluster_name_intern s) i)) [0..<N_intern s])"
  using assms
  by (auto simp: create_cluster_def rds_run extends_def split: option.split_asm elim!: bind_returns
      dest!: create_instances_trace authorize_loop_extends)

lemma destroy_vpc_trace:
  "destroy_vpc E s = Some (rc, s') \<Longrightarrow>
   \<exists>h vpc. trace s' = h @ [ESystem (''aws ec2 delete-vpc --vpc-id='' @ vpc)] \<and> vpc_text s' = Some vpc"
  by (auto simp: destroy_vpc_def rds_run elim!: bind_returns)

section \<open>The outcome of the set-up\<close>

lemma destroy_from_subnets_ends:
  assumes "destroy_from_subnets E s = Some (rc, s')"
  shows "rc = - 1 \<and> (\<exists>h vpc. trace s' = h @ [ESystem (''aws ec2 delete-vpc --vpc-id='' @ vpc)] \<and> vpc_text s' = Some vpc)"
  using assms by (auto simp: destroy_from_subnets_def split_def elim!: bind_returns) (metis destroy_vpc_trace prod.collapse)

lemma destroy_from_gw_ends:
  assumes "destroy_from_gw E s = Some (rc, s')"
  shows "rc = - 1 \<and> (\<exists>h vpc. trace s' = h @ [ESystem (''aws ec2 delete-vpc --vpc-id='' @ vpc)] \<and> vpc_text s' = Some vpc)"
  using assms by (auto simp: destroy_from_gw_def split_def elim!: bind_returns dest: destroy_from_subnets_ends)

definition network_outcome :: "string \<Rightarrow> nat \<Rightarrow> int \<Rightarrow> 'a rds_scheme \<Rightarrow> bool" where
  "network_outcome name N rc s' \<longleftrightarrow>
     rc = 0 \<and> (\<exists>h. trace s' = h @ map (\<lambda>i. ESystem (create_instance_cmd name i)) [0..<N]) \<or>
     rc = - 1 \<and> (\<exists>h vpc. trace s' = h @ [ESystem (''aws ec2 delete-vpc --vpc-id='' @ vpc)] \<and> vpc_text s' = Some vpc)"

lemma network_outcome_gw: "destroy_from_gw E s = Some (rc, s') \<Longrightarrow> network_outcome name N rc s'"
  using destroy_from_gw_ends unfolding network_outcome_def by blast

lemma create_network_cases:
  assumes "create_network E s = Some (rc, s')"
  shows "(\<exists>t. destroy_from_gw E t = Some (rc, s')) \<or>
    (\<exists>r1 s1 r2 s2. create_gw E s = Some (r1, s1) \<and> configure_route_table E s1 = Some (r2, s2) \<and>
       create_cluster E s2 = Some (rc, s') \<and> rc = 0)"
  using assms unfolding create_network_def
  by (auto simp: split_def split: if_split_asm elim!: bind_returns) (metis prod.collapse)+

lemma create_network_outcome:
  assumes "create_network E s = Some (rc, s')"
  shows "network_outcome (cluster_name_intern s) (N_intern s) rc s'"
  using create_network_cases[OF assms]
proof (elim disjE exE conjE)
  fix r1 s1 r2 s2
  assume "create_gw E s = Some (r1, s1)" "configure_route_table E s1 = Some (r2, s2)"
    and c: "create_cluster E s2 = Some (rc, s')" "rc = 0"
  then have "same_plan s s2"
    using create_gw_same_plan configure_route_table_extends extends_same_plan same_plan_trans by blast
  with create_cluster_trace[OF c(1)] c(2) show ?thesis by (simp add: same_plan_def network_outcome_def)
qed (simp add: network_outcome_gw)

lemma create_rds_db_cases:
  assumes "create_rds_db E N s = Some (rc, s')"
  shows "(\<exists>t r. rc = - 1 \<and> destroy_vpc E t = Some (r, s')) \<or>
    (\<exists>t. destroy_from_subnets E t = Some (rc, s')) \<or>
    (\<exists>r1 s1 r2 s2 r3 s3 r4 s4. create_vpc E (s\<lparr>N_intern := N\<rparr>) = Some (r1, s1) \<and>
       create_subnet E ''eu-west-1b'' ''172.30.0.0/24'' s1 = Some (r2, s2) \<and>
       create_subnet E ''eu-west-1a'' ''172.30.1.0/24'' s2 = Some (r3, s3) \<and>
       create_subnet_group E s3 = Some (r4, s4) \<and> create_network E s4 = Some (rc, s'))"
  using assms unfolding create_rds_db_def Let_def
  by (elim bind_returns) (clarsimp split: if_split_asm elim!: bind_returns, fastforce)

text \<open>
  C4. \<open>create_rds_db\<close> returns 0 or -1. After 0 its last commands create the N instances
  \<open>node000\<close>, \<open>node001\<close>, ... of the cluster; after -1 its last command deletes the VPC the object knows.
\<close>

theorem create_rds_db_outcome:
  assumes "create_rds_db E N s = Some (rc, s')"
  shows "rc = 0 \<and> (\<exists>h. trace s' = h @ map (\<lambda>i. ESystem (create_instance_cmd (cluster_name_intern s) i)) [0..<N]) \<or>
         rc = - 1 \<and> (\<exists>h vpc. trace s' = h @ [ESystem (''aws ec2 delete-vpc --vpc-id='' @ vpc)] \<and> vpc_text s' = Some vpc)"
  using create_rds_db_cases[OF assms]
proof (elim disjE exE conjE)
  fix t r assume "rc = - 1" "destroy_vpc E t = Some (r, s')"
  then show ?thesis using destroy_vpc_trace[of E t r s'] by simp
next
  fix t assume "destroy_from_subnets E t = Some (rc, s')"
  then show ?thesis using destroy_from_subnets_ends[of E t rc s'] by simp
next
  fix r1 s1 r2 s2 r3 s3 r4 s4
  assume "create_vpc E (s\<lparr>N_intern := N\<rparr>) = Some (r1, s1)"
    "create_subnet E ''eu-west-1b'' ''172.30.0.0/24'' s1 = Some (r2, s2)"
    "create_subnet E ''eu-west-1a'' ''172.30.1.0/24'' s2 = Some (r3, s3)"
    "create_subnet_group E s3 = Some (r4, s4)" and n: "create_network E s4 = Some (rc, s')"
  then have "same_plan (s\<lparr>N_intern := N\<rparr>) s4"
    by (auto simp: same_plan_def dest!: create_vpc_same_plan create_subnet_same_plan create_subnet_group_same_plan)
  then show ?thesis using create_network_outcome[OF n] by (simp add: same_plan_def network_outcome_def)
qed

text \<open>A service that answers every command with the same document.\<close>

definition aws_doc :: json where
  "aws_doc =
     JObject [(''Vpc'', JObject [(''VpcId'', JString ''vpc-1'')]),
              (''Subnet'', JObject [(''SubnetId'', JString ''subnet-1'')]),
              (''InternetGateway'', JObject [(''InternetGatewayId'', JString ''igw-1'')]),
              (''RouteTables'', JArray [JObject [(''VpcId'', JString ''vpc-1''), (''RouteTableId'', JString ''rtb-1'')]]),
              (''DBCluster'', JObject [(''VpcSecurityGroups'', JArray [])]),
              (''DBClusters'', JArray [JObject [(''DBClusterMembers'',
                 JArray [JObject [(''DBInstanceIdentifier'', JString ''node000''), (''IsClusterWriter'', JFalse)],
                         JObject [(''DBInstanceIdentifier'', JString ''node001''), (''IsClusterWriter'', JTrue)]])]]),
              (''DBInstances'', JArray [JObject [(''DBInstanceStatus'', JString ''available'')]])]"

definition aws_env :: env where
  "aws_env = dead_env\<lparr>sh_read := (\<lambda>_ _. Some (''doc'', 0)), sh_system := (\<lambda>_ _. 0),
                       json_parse := (\<lambda>_. Some aws_doc)\<rparr>"

definition blank_rds :: "rds" where
  "blank_rds = rds_construct ''c'' \<lparr>trace = [], cluster_name_intern = [], N_intern = 0, cluster_intern = None,
     vpc_id_intern = None, subnets_intern = None, subnets_group_name_intern = None, gw_intern = None, sg_intern = None\<rparr>"

lemma create_rds_db_runs: "map_option fst (create_rds_db aws_env 2 blank_rds) = Some 0"
  by code_simp

lemma create_rds_db_outcome_witness:
  "\<exists>s'. create_rds_db aws_env 2 blank_rds = Some (0, s') \<and>
     (\<exists>h. trace s' = h @ map (\<lambda>i. ESystem (create_instance_cmd (cluster_name_intern blank_rds) i)) [0..<2])"
  using create_rds_db_runs create_rds_db_outcome[of aws_env 2 blank_rds 0] by auto

section \<open>A failure before there is a VPC\<close>

text \<open>
  On a fresh object \<open>create_rds_db\<close> does not survive a failing \<open>aws ec2 create-vpc\<close>: its clean-up
  prints the identifier of the VPC, a pointer that neither the constructor nor \<open>create_vpc\<close> has set.
\<close>

theorem create_rds_db_unset_vpc:
  assumes "fst (fst (execute_cmd E ''aws ec2 create-vpc --cidr-block 172.30.0.0/16'' s)) \<noteq> 0"
  shows "create_rds_db E N (rds_construct cluster s) = None"
  using assms
  by (simp add: create_rds_db_def create_vpc_def execute_cmd_eq rds_construct_def split_def destroy_vpc_def vpc_text_def)

lemma create_rds_db_unset_vpc_witness: "create_rds_db dead_env 4 (rds_construct ''c'' blank_rds) = None"
  by (rule create_rds_db_unset_vpc) (simp add: execute_cmd_eq exec_result_def dead_env_def)

section \<open>Deleting the subnets\<close>

lemma destroy_subnet_list_trace:
  assumes "destroy_subnet_list E subnets err s = Some (rc, s')"
  shows "\<exists>names. subnets = map JString names \<and>
    s' = emits (concat (map (\<lambda>n. [EPopenR (delete_subnet_cmd n), EPopenR (delete_subnet_cmd n)]) names)) s"
  using assms
proof (induction subnets arbitrary: err s)
  case (Cons j js)
  from Cons.prems obtain n e t where j: "j = JString n"
    and r: "destroy_subnet_list E js e (emit (EPopenR (delete_subnet_cmd n)) (emit (EPopenR (delete_subnet_cmd n)) s)) = Some (rc, s')"
    by (auto simp: rds_run jstring_def split: json.split_asm elim!: bind_returns)
  from Cons.IH[OF r] obtain names where "js = map JString names"
    "s' = emits (concat (map (\<lambda>n. [EPopenR (delete_subnet_cmd n), EPopenR (delete_subnet_cmd n)]) names))
       (emit (EPopenR (delete_subnet_cmd n)) (emit (EPopenR (delete_subnet_cmd n)) s))"
    by blast
  with j show ?case by (intro exI[of _ "n # names"]) (simp add: emit_emits append_Cons)
qed simp

text \<open>\<open>destroy_subnets\<close> runs the command that deletes a subnet twice for each of the object's subnets.\<close>

theorem destroy_subnets_twice:
  assumes "destroy_subnets E s = Some (rc, s')"
  shows "\<exists>names. (case subnets_intern s of None \<Rightarrow> [] | Some xs \<Rightarrow> xs) = map JString names \<and>
    trace s' = trace s @ concat (map (\<lambda>n. [EPopenR (delete_subnet_cmd n), EPopenR (delete_subnet_cmd n)]) names)"
  using destroy_subnet_list_trace[OF assms[unfolded destroy_subnets_def]] by auto

lemma destroy_subnets_twice_witness:
  "\<exists>names. [JString ''subnet-1''] = map JString names \<and>
     trace (snd (the (destroy_subnets aws_env (blank_rds\<lparr>subnets_intern := Some [JString ''subnet-1'']\<rparr>))))
     = [] @ concat (map (\<lambda>n. [EPopenR (delete_subnet_cmd n), EPopenR (delete_subnet_cmd n)]) names)"
proof -
  let ?s = "blank_rds\<lparr>subnets_intern := Some [JString ''subnet-1'']\<rparr>"
  have "\<exists>p. destroy_subnets aws_env ?s = Some p"
    by (simp add: destroy_subnets_def jstring_def rds_run aws_execute_def cmd_buf_def into_block_def delete_subnet_cmd_def)
  then obtain rc s' where d: "destroy_subnets aws_env ?s = Some (rc, s')" by auto
  from destroy_subnets_twice[OF d] d show ?thesis by (simp add: blank_rds_def rds_construct_def)
qed

section \<open>The writer\<close>

definition is_writer :: "json \<Rightarrow> bool" where
  "is_writer m \<longleftrightarrow> jget (Some m) ''IsClusterWriter'' = Some JTrue"

definition no_writer_from :: "json option \<Rightarrow> nat \<Rightarrow> bool" where
  "no_writer_from nodes i \<longleftrightarrow> (\<forall>m \<in> set (drop i (jarray nodes)). \<not> is_writer m)"

lemma no_writer_from_step:
  assumes "no_writer_from nodes i"
  shows "no_writer_from nodes (i + 1)" "jget (jat nodes i) ''IsClusterWriter'' \<noteq> Some JTrue"
  using assms
  by (auto simp: no_writer_from_def jat_def jget_def is_writer_def simp flip: Cons_nth_drop_Suc
      dest: set_mp[OF set_drop_subset_set_drop[of i "Suc i"], rotated])

lemma writer_loop_None:
  assumes "writer_loop nodes i = Some node"
  shows "\<not> no_writer_from nodes i"
proof (rule writer_loop.raw_induct[OF _ assms])
  fix f n k r
  assume "\<And>n k r. f n k = Some r \<Longrightarrow> \<not> no_writer_from n k"
    and "(let node = jat n k in if jget node ''IsClusterWriter'' = Some JTrue then Some node else f n (k + 1)) = Some r"
  then show "\<not> no_writer_from n k"
    by (auto simp: Let_def split: if_split_asm dest: no_writer_from_step[simplified])
qed

lemma writer_loop_Some:
  assumes "i \<le> k" "k < length (jarray nodes)" "is_writer (jarray nodes ! k)"
    and "\<forall>j. i \<le> j \<and> j < k \<longrightarrow> \<not> is_writer (jarray nodes ! j)"
  shows "writer_loop nodes i = Some (Some (jarray nodes ! k))"
  using assms
proof (induction "k - i" arbitrary: i)
  case 0
  then show ?case by (subst writer_loop.simps) (simp add: jat_def is_writer_def)
next
  case (Suc d)
  have "writer_loop nodes (i + 1) = Some (Some (jarray nodes ! k))" using Suc by (intro Suc.hyps(1)) auto
  moreover have "\<not> is_writer (jarray nodes ! i)" "i < length (jarray nodes)" using Suc by auto
  ultimately show ?case by (subst writer_loop.simps) (simp add: jat_def is_writer_def)
qed

lemma writer_loop_find: "writer_loop nodes 0 = map_option Some (find is_writer (jarray nodes))"
proof (cases "find is_writer (jarray nodes)")
  case None
  then have "no_writer_from nodes 0" by (simp add: no_writer_from_def find_None_iff)
  then have "writer_loop nodes 0 = None" using writer_loop_None by (cases "writer_loop nodes 0") auto
  with None show ?thesis by simp
next
  case (Some m)
  then obtain k where "k < length (jarray nodes)" "is_writer (jarray nodes ! k)" "m = jarray nodes ! k"
    "\<forall>j < k. \<not> is_writer (jarray nodes ! j)"
    by (auto simp: find_Some_iff)
  with Some writer_loop_Some[of 0 k nodes] show ?thesis by simp
qed

text \<open>
  C27. \<open>get_writer\<close> returns exactly when the description of the cluster has a member that is the writer,
  and then delivers the name of the first one; otherwise it runs on behind the end of the members.
\<close>

theorem get_writer_returns:
  "get_writer E s = Some ((rc, name), s') \<longleftrightarrow>
     (\<exists>cluster m. get_cluster E s = Some (cluster, s') \<and>
        find is_writer (jarray (jget cluster ''DBClusterMembers'')) = Some m \<and>
        rc = 0 \<and> name = get_instance_name (Some m))"
  by (auto simp: get_writer_def writer_loop_find get_instance_name_def Option.bind_eq_Some_conv split_def)

section \<open>Waiting for the instances\<close>

text \<open>
  The text of the description of an instance, asked for after the calls \<open>h\<close> when \<open>old\<close> is the last
  text; how many of the instances are shown as available, asked for one after the other.
\<close>

definition shown_text :: "env \<Rightarrow> hist \<Rightarrow> string option \<Rightarrow> string \<Rightarrow> string option" where
  "shown_text E h old name =
     (case snd (exec_result E h (describe_instance_cmd name)) of None \<Rightarrow> old | Some t \<Rightarrow> Some t)"

definition shown_available :: "env \<Rightarrow> string option \<Rightarrow> bool" where
  "shown_available E text \<longleftrightarrow>
     (case Option.bind text (json_parse E) of
        None \<Rightarrow> False
      | Some root \<Rightarrow> jstring (jget (jat (json_object_get root ''DBInstances'') 0) ''DBInstanceStatus'') = Some ''available'')"

fun shown_count :: "env \<Rightarrow> hist \<Rightarrow> string option \<Rightarrow> string list \<Rightarrow> nat" where
  "shown_count E h old [] = 0"
| "shown_count E h old (n # ns) =
     (if shown_available E (shown_text E h old n) then 1 else 0) +
     shown_count E (h @ [EPopenR (describe_instance_cmd n)]) (shown_text E h old n) ns"

lemma count_available_spec:
  assumes "count_available E nodes active old s = Some ((Some k, result), s')"
  shows "\<exists>names. nodes = map JString names \<and> k = active + shown_count E (trace s) old names \<and>
    s' = emits (map (\<lambda>n. EPopenR (describe_instance_cmd n)) names) s"
  using assms
proof (induction nodes arbitrary: active old s)
  case (Cons j js)
  from Cons.prems obtain n where j: "j = JString n"
    and r: "count_available E js (if shown_available E (shown_text E (trace s) old n) then active + 1 else active)
      (shown_text E (trace s) old n) (emit (EPopenR (describe_instance_cmd n)) s) = Some ((Some k, result), s')"
    by (auto simp: rds_run jstring_def[of "Some j"] shown_available_def shown_text_def
        split: json.split_asm option.split_asm if_split_asm elim!: bind_returns)
  from Cons.IH[OF r] obtain names where "js = map JString names"
    "k = (if shown_available E (shown_text E (trace s) old n) then active + 1 else active) +
       shown_count E (trace s @ [EPopenR (describe_instance_cmd n)]) (shown_text E (trace s) old n) names"
    "s' = emits (map (\<lambda>n. EPopenR (describe_instance_cmd n)) names) (emit (EPopenR (describe_instance_cmd n)) s)"
    by auto
  with j show ?case by (intro exI[of _ "n # names"]) (simp add: emit_emits append_Cons)
qed simp

text \<open>The last pass: its calls, and what it has shown of the instances of the cluster.\<close>

definition all_shown :: "env \<Rightarrow> nat \<Rightarrow> 'a rds_scheme \<Rightarrow> bool" where
  "all_shown E N s' \<longleftrightarrow>
     (\<exists>h cluster names old. cluster_intern s' = Some cluster \<and> get_cluster_nodes_of cluster = map JString names \<and>
        trace s' = h @ map (\<lambda>n. EPopenR (describe_instance_cmd n)) names \<and> shown_count E h old names = N)"

lemma cluster_intern_emits [simp]: "cluster_intern (emits es s) = cluster_intern s"
  by (simp add: emits_def)

definition waited :: "env \<Rightarrow> nat \<Rightarrow> int \<times> 'a rds_scheme \<Rightarrow> bool" where
  "waited E N r \<longleftrightarrow> fst r = - 1 \<or> fst r = 0 \<and> all_shown E N (snd r)"

lemma wait_nodes_outcome:
  assumes "wait_nodes_loop E N result s = Some r"
  shows "waited E N r"
proof (rule wait_nodes_loop.raw_induct[OF _ assms])
  fix f :: "env \<Rightarrow> nat \<Rightarrow> string option \<Rightarrow> 'a rds_scheme \<Rightarrow> (int \<times> 'a rds_scheme) option" and E N old s r
  assume IH: "\<And>E N old s r. f E N old s = Some r \<Longrightarrow> waited E N r"
    and body: "do { (cluster, s) \<leftarrow> get_cluster E (c_sleep 5 s);
        let s = s\<lparr>cluster_intern := Some cluster\<rparr>;
        ((active, result), s) \<leftarrow> count_available E (get_cluster_nodes_of cluster) 0 old s;
        case active of
          None \<Rightarrow> Some (- 1, s)
        | Some active \<Rightarrow> if active \<noteq> N then f E N result s else Some (0, s) } = Some r"
  from body obtain cluster s1 a res s2
    where c: "count_available E (get_cluster_nodes_of cluster) 0 old (s1\<lparr>cluster_intern := Some cluster\<rparr>) = Some ((a, res), s2)"
      and k: "(case a of None \<Rightarrow> Some (- 1, s2) | Some k \<Rightarrow> if k \<noteq> N then f E N res s2 else Some (0, s2)) = Some r"
    by (auto simp: Let_def elim!: bind_returns split: prod.split_asm)
  show "waited E N r"
  proof (cases "a = Some N")
    case False
    with k IH show ?thesis by (auto simp: waited_def split: option.split_asm if_split_asm)
  next
    case True
    with c obtain names where "get_cluster_nodes_of cluster = map JString names"
      "N = shown_count E (trace s1) old names"
      "s2 = emits (map (\<lambda>n. EPopenR (describe_instance_cmd n)) names) (s1\<lparr>cluster_intern := Some cluster\<rparr>)"
      by (auto dest!: count_available_spec)
    then have "all_shown E N s2"
      unfolding all_shown_def by (intro exI[of _ "trace s1"] exI[of _ cluster] exI[of _ names] exI[of _ old]) simp
    with True k show ?thesis by (auto simp: waited_def)
  qed
qed

text \<open>
  C15. \<open>wait_for_nodes\<close> returns 0 only after a pass over the instances of the cluster, as just
  described, in which exactly N of them were shown as available; any other return is -1.
\<close>

theorem wait_for_nodes_sound:
  assumes "wait_for_nodes E N s = Some (rc, s')"
  shows "rc = - 1 \<or> rc = 0 \<and> all_shown E N s'"
  using wait_nodes_outcome[OF assms[unfolded wait_for_nodes_def]] by (simp add: waited_def)

lemma wait_for_nodes_runs:
  "map_option fst (wait_for_nodes aws_env 2 blank_rds) = Some 0"
  unfolding wait_for_nodes_def
  apply (subst wait_nodes_loop.simps)
  apply code_simp
  done

lemma wait_for_nodes_sound_witness:
  "\<exists>s'. wait_for_nodes aws_env 2 blank_rds = Some (0, s') \<and> all_shown aws_env 2 s'"
  using wait_for_nodes_runs wait_for_nodes_sound[of aws_env 2 blank_rds 0] by auto

section \<open>The type of the list of subnets\<close>

text \<open>
  jansson's documents carry no type. The operations print every element of \<open>subnets_intern\<close> as a
  string: the list is well typed when all its elements are strings, short enough for the command.
\<close>

definition subnet_wt :: "json \<Rightarrow> bool" where
  "subnet_wt j \<longleftrightarrow> (\<exists>n. j = JString n \<and> length (delete_subnet_cmd n) \<le> 1023)"

definition subnets_wt :: "'a rds_scheme \<Rightarrow> bool" where
  "subnets_wt s \<longleftrightarrow> (case subnets_intern s of None \<Rightarrow> True | Some js \<Rightarrow> \<forall>j \<in> set js. subnet_wt j)"

lemma subnets_wt_same: "subnets_intern s' = subnets_intern s \<Longrightarrow> subnets_wt s' = subnets_wt s"
  by (simp add: subnets_wt_def)

lemma create_vpc_wt: "create_vpc E s = Some (r, s') \<Longrightarrow> subnets_wt s' = subnets_wt s"
  by (rule subnets_wt_same)
    (auto simp: create_vpc_def rds_run split: if_split_asm option.split_asm elim!: bind_returns)

lemma create_subnet_wt: "create_subnet E az cidr s = Some (r, s') \<Longrightarrow> subnets_wt s \<Longrightarrow> subnets_wt s'"
  by (auto simp: create_subnet_def rds_run subnets_wt_def subnet_wt_def delete_subnet_cmd_def
      split: if_split_asm option.split_asm elim!: bind_returns)

lemma create_subnet_group_wt: "create_subnet_group E s = Some (r, s') \<Longrightarrow> subnets_wt s' = subnets_wt s"
  by (rule subnets_wt_same)
    (auto simp: create_subnet_group_def rds_run split: if_split_asm option.split_asm elim!: bind_returns)

lemma create_gw_wt: "create_gw E s = Some (r, s') \<Longrightarrow> subnets_wt s' = subnets_wt s"
  by (rule subnets_wt_same)
    (auto simp: create_gw_def rds_run split: if_split_asm option.split_asm elim!: bind_returns)

lemma extends_wt: "extends s s' \<Longrightarrow> subnets_wt s' = subnets_wt s"
  by (rule subnets_wt_same) (auto simp: extends_def)

lemma create_cluster_wt: "create_cluster E s = Some (r, s') \<Longrightarrow> subnets_wt s' = subnets_wt s"
  by (rule subnets_wt_same)
    (auto simp: create_cluster_def rds_run extends_def split: option.split_asm elim!: bind_returns
      dest!: create_instances_trace authorize_loop_extends)

lemma destroy_nodes_extends: "destroy_nodes E nodes err s = Some (r, s') \<Longrightarrow> extends s s'"
proof (induction nodes arbitrary: err s)
  case (Cons node nodes)
  then show ?case by (auto simp: rds_run elim!: bind_returns dest!: Cons.IH extends_emitD)
qed simp

lemma extends_emit2: "extends s (emit e (emit d s))"
  by (simp add: extends_emit_trans)

lemma destroy_gws_extends: "destroy_gws E vpc gws s = Some (r, s') \<Longrightarrow> extends s s'"
proof (induction gws arbitrary: s)
  case (Cons gw gws)
  then show ?case
    by (auto simp: rds_run split: if_split_asm elim!: bind_returns dest!: Cons.IH extends_emitD
        simp: extends_emit2)
qed simp

lemma detach_extends: "detach_and_destroy_gw E s = Some (r, s') \<Longrightarrow> extends s s'"
  by (auto simp: detach_and_destroy_gw_def rds_run split: if_split_asm option.split_asm elim!: bind_returns
      dest!: destroy_gws_extends extends_emitD)

lemma destroy_wt:
  "destroy_nodes E nodes err s = Some (r, s') \<Longrightarrow> subnets_wt s' = subnets_wt s"
  "destroy_cluster E s = Some (r, s') \<Longrightarrow> subnets_wt s' = subnets_wt s"
  "detach_and_destroy_gw E s = Some (r, s') \<Longrightarrow> subnets_wt s' = subnets_wt s"
  "destroy_vpc E s = Some (r, s') \<Longrightarrow> subnets_wt s' = subnets_wt s"
  by (auto intro!: extends_wt dest: destroy_nodes_extends detach_extends)
    (auto simp: destroy_cluster_def destroy_vpc_def rds_run elim!: bind_returns)

lemma destroy_subnets_wt: "destroy_subnets E s = Some (r, s') \<Longrightarrow> subnets_wt s' = subnets_wt s"
  by (rule extends_wt) (auto simp: destroy_subnets_def dest!: destroy_subnet_list_trace)

lemma destroy_subnets_group_wt: "destroy_subnets_group E s = Some s' \<Longrightarrow> subnets_wt s' = subnets_wt s"
  by (rule subnets_wt_same)
    (auto simp: destroy_subnets_group_def get_subnetgroup_name_def rds_run elim!: bind_returns)

lemma destroy_from_subnets_wt: "destroy_from_subnets E s = Some (r, s') \<Longrightarrow> subnets_wt s' = subnets_wt s"
  by (auto simp: destroy_from_subnets_def split_def elim!: bind_returns
      dest!: destroy_subnets_wt destroy_subnets_group_wt destroy_wt)

lemma destroy_from_gw_wt: "destroy_from_gw E s = Some (r, s') \<Longrightarrow> subnets_wt s' = subnets_wt s"
  by (auto simp: destroy_from_gw_def split_def elim!: bind_returns dest!: destroy_from_subnets_wt destroy_wt)

lemma create_network_wt: "create_network E s = Some (r, s') \<Longrightarrow> subnets_wt s' = subnets_wt s"
  by (auto simp: create_network_def split_def split: if_split_asm elim!: bind_returns
      dest!: create_gw_wt configure_route_table_extends[THEN extends_wt] create_cluster_wt destroy_from_gw_wt destroy_wt)

lemma destroy_subnet_list_progress:
  "\<forall>j \<in> set js. subnet_wt j \<Longrightarrow> \<exists>rc s'. destroy_subnet_list E js err s = Some (rc, s')"
proof (induction js arbitrary: err s)
  case (Cons j js)
  then obtain n where "j = JString n" "length (delete_subnet_cmd n) \<le> 1023" by (auto simp: subnet_wt_def)
  with Cons show ?case
    by (simp add: jstring_def aws_execute_def cmd_buf_def into_block_def execute_cmd_eq split_def)
qed simp

text \<open>
  C12. Preservation and progress: \<open>create_rds_db\<close>, whatever the service answers and however it ends,
  keeps the list of subnets well typed, and on a well-typed object \<open>destroy_subnets\<close> returns.
\<close>

theorem subnets_stay_well_typed:
  assumes "subnets_wt s" and "create_rds_db E N s = Some (rc, s')"
  shows "subnets_wt s' \<and> (\<exists>rc' s''. destroy_subnets E' s' = Some (rc', s''))"
proof -
  have "subnets_wt (s\<lparr>N_intern := N\<rparr>)" using assms(1) by (simp add: subnets_wt_def)
  then have wt: "subnets_wt s'"
    using assms(2) unfolding create_rds_db_def Let_def split_def
    by (auto split: if_split_asm elim!: bind_returns simp: create_vpc_wt create_subnet_group_wt
        create_network_wt destroy_from_subnets_wt destroy_wt create_subnet_wt)
  then have "\<forall>j \<in> set (case subnets_intern s' of None \<Rightarrow> [] | Some xs \<Rightarrow> xs). subnet_wt j"
    by (auto simp: subnets_wt_def split: option.splits)
  from destroy_subnet_list_progress[OF this] wt show ?thesis by (auto simp: destroy_subnets_def)
qed

lemma subnets_stay_well_typed_witness:
  "\<exists>s'. create_rds_db aws_env 2 blank_rds = Some (0, s') \<and> subnets_wt s' \<and>
     (\<exists>rc s''. destroy_subnets dead_env s' = Some (rc, s''))"
proof -
  obtain s' where c: "create_rds_db aws_env 2 blank_rds = Some (0, s')" using create_rds_db_runs by auto
  have "subnets_wt blank_rds" by (simp add: subnets_wt_def blank_rds_def rds_construct_def)
  from subnets_stay_well_typed[OF this c] c show ?thesis by blast
qed

end
