(* ===== verification/Maxrows.thy ===== *)
theory Maxrows
  imports Big_Data Test_Checks Test_Ctor
begin

text \<open>
  A whole test program, and \<open>mxs1071_maxrows.cpp\<close>, the test of the filter that limits the number of
  rows. A program is its constructor, its body and its destructor; its exit status is the low byte
  of what \<open>main\<close> returns or of what the constructor gives to \<open>exit\<close>.
\<close>

section \<open>A test program\<close>

definition test_program ::
  "env \<Rightarrow> cid \<Rightarrow> cid \<Rightarrow> string \<Rightarrow> string option \<Rightarrow> string \<Rightarrow> ('a tc_scheme \<Rightarrow> (int \<times> 'a tc_scheme) option)
   \<Rightarrow> 'a tc_scheme \<Rightarrow> (int \<times> 'a tc_scheme) option" where
  "test_program E a b opts operand argv0 body s =
     do { (outcome, s) \<leftarrow> test_connections_init E a b opts operand argv0 s;
          case outcome of
            Inl code \<Rightarrow> Some (code mod 256, s)
          | Inr _ \<Rightarrow>
              do { (rval, s) \<leftarrow> body s;
                   s \<leftarrow> test_connections_destroy E s;
                   Some (rval mod 256, s) } }"

section \<open>Comparing numbers of rows\<close>

text \<open>
  The array \<open>exp_rows\<close> is the list of the entries the test has set; reading another one has no
  result. More than 30 result sets overrun the array \<open>rows\<close>.
\<close>

fun compare_counts :: "nat list \<Rightarrow> nat list \<Rightarrow> 'a tc_scheme \<Rightarrow> (int \<times> 'a tc_scheme) option" where
  "compare_counts [] exp_rows s = Some (0, s)"
| "compare_counts (n # ns) [] s = None"
| "compare_counts (n # ns) (e # es) s =
     (if n \<noteq> e then Some (1, add_result 1 s) else compare_counts ns es s)"

definition compare_expected ::
  "env \<Rightarrow> string \<Rightarrow> nat \<Rightarrow> nat list \<Rightarrow> 'a tc_scheme \<Rightarrow> (int \<times> 'a tc_scheme) option" where
  "compare_expected E sql exp_i exp_rows s =
     (let s = set_timeout 10 s;
          ((_, ns), s) = execute_query_num_of_rows E (tc_conn_rwsplit s) sql s
      in if 30 < length ns then None
         else if length ns \<noteq> exp_i then Some (1, add_result 1 s)
         else compare_counts ns exp_rows s)"

definition compare_stmt_expected ::
  "env \<Rightarrow> stmt \<Rightarrow> nat \<Rightarrow> nat list \<Rightarrow> 'a tc_scheme \<Rightarrow> (int \<times> 'a tc_scheme) option" where
  "compare_stmt_expected E st exp_i exp_rows s =
     (let s = set_timeout 10 s;
          ((_, ns), s) = execute_stmt_num_of_rows E st s
      in if 30 < length ns then None
         else if length ns \<noteq> exp_i then Some (1, add_result 1 s)
         else compare_counts ns exp_rows s)"

definition err_check :: "env \<Rightarrow> nat \<Rightarrow> 'a tc_scheme \<Rightarrow> 'a tc_scheme" where
  "err_check E expected_err s =
     (if mysql_errno E (tc_conn_rwsplit s) s \<noteq> expected_err then add_result 1 s else s)"

section \<open>The stored procedures\<close>

definition text_lines :: "string list \<Rightarrow> string" where
  "text_lines ls = concat (map (\<lambda>l. l @ [newline]) ls)"

definition multi :: "string list \<Rightarrow> string" where
  "multi body = text_lines (''CREATE PROCEDURE multi() BEGIN'' # body) @ ''END''"

definition test03_sql :: string where
  "test03_sql = text_lines ['' CREATE PROCEDURE multi()'', ''BEGIN'', ''SELECT x1 FROM t1 LIMIT 2;''] @ ''END''"

definition test04_sql :: string where
  "test04_sql = multi [''SELECT 1;'', ''SELECT x1 FROM t1 LIMIT 2;'', ''SELECT 1,2,3; '']"

definition test05_sql :: string where
  "test05_sql =
     text_lines [''CREATE PROCEDURE multi() BEGIN'', ''SELECT 1;'', ''SELECT x1 FROM t1 LIMIT 8;'', ''SELECT 1,2,3; ''] @
     ''SELECT 1;END''"

definition test06_sql :: string where
  "test06_sql =
     text_lines [''CREATE PROCEDURE multi() BEGIN'', ''SELECT 1;'', ''SELECT x1 FROM t1 LIMIT 18;'', ''SELECT 2; ''] @
     ''SELECT 2;END''"

definition test07_sql :: string where
  "test07_sql =
     multi [''SELECT 1,2,3,4;'',
            ''SELECT id, b from long_blob_table order by id desc limit 1;'',
            ''SELECT id, b from long_blob_table order by id desc limit 4;'',
            ''SELECT id, b from long_blob_table order by id desc limit 1;'',
            ''SELECT id, b from long_blob_table order by id desc;'',
            ''SELECT id, b from long_blob_table order by id desc;'',
            ''SELECT 1;'']"

definition test08_sql :: string where
  "test08_sql =
     multi [''SELECT 1,2,3;'',
            ''SELECT id, b, b from long_blob_table order by id desc limit 1;'',
            ''SELECT 2;'',
            ''SELECT id, b from long_blob_table order by id desc limit 4;'',
            ''SELECT id, b from long_blob_table order by id desc limit 2;'',
            ''SELECT 1;'', ''SELECT 1;'', ''SELECT x1 FROM t1 LIMIT 8;'', ''SELECT 1;'', ''SELECT 1,2,3,4;'']"

definition test10_sql :: string where
  "test10_sql =
     multi [''SELECT 1;'', ''SELECT x1 FROM t1 limit 4;'', ''select * from dual;'', ''set @a=4;'',
            ''SELECT 2;'', ''SELECT * FROM t1;'']"

definition prepared_in_procedure :: "string \<Rightarrow> string" where
  "prepared_in_procedure limit =
     multi [''SELECT 1,3;'', ''SET @table = '' @ quote @ ''t1'' @ quote @ '';'',
            ''SET @s = CONCAT('' @ quote @ ''SELECT * FROM '' @ quote @ '', @table, '' @ quote @ '' LIMIT '' @ limit @ quote @ '');'',
            ''PREPARE stmt1 FROM @s;'', ''EXECUTE stmt1;'', ''DEALLOCATE PREPARE stmt1;'', ''SELECT 2,4,5;'']"

definition empty_select :: "string \<Rightarrow> string" where
  "empty_select rest = ''SELECT '' @ quote @ quote @ '' as '' @ quote @ ''A'' @ quote @ rest @ '';''"

definition test17_sql :: string where
  "test17_sql = multi [empty_select '' limit 1'', empty_select '' limit 10'', empty_select '''']"

definition test18_sql :: string where
  "test18_sql =
     multi ([empty_select '' limit 1'', empty_select '' limit 10''] @ replicate 8 (empty_select '''') @
            [empty_select '' limit 1'', empty_select '' limit 10''] @ replicate 8 (empty_select ''''))"

definition test19_sql :: string where
  "test19_sql =
     multi ([empty_select '' limit 1'', empty_select '' limit 10''] @ replicate 8 (empty_select '''') @
            [empty_select '' limit 1'', empty_select '' limit 10''] @ replicate 9 (empty_select ''''))"

section \<open>The tests\<close>

text \<open>Dropping and creating the procedure, and calling it.\<close>

definition procedure_test :: "env \<Rightarrow> string \<Rightarrow> nat \<Rightarrow> nat list \<Rightarrow> 'a tc_scheme \<Rightarrow> 'a tc_scheme option" where
  "procedure_test E sql exp_i exp_rows s =
     (let (_, s) = try_query E (tc_conn_rwsplit s) ''DROP PROCEDURE IF EXISTS multi'' s;
          (_, s) = try_query E (tc_conn_rwsplit s) sql s
      in do { (_, s) \<leftarrow> compare_expected E ''CALL multi()'' exp_i exp_rows s; Some s })"

definition maxrows_tests_1_2 :: "env \<Rightarrow> 'a tc_scheme \<Rightarrow> 'a tc_scheme option" where
  "maxrows_tests_1_2 E s =
     (let s = set_timeout 10 s;
          (_, s) = connect_rwsplit E s;
          (_, s) = create_t1 E (tc_conn_rwsplit s) s
      in do {
        (_, s) \<leftarrow> insert_into_t1 E (tc_conn_rwsplit s) 1 s;
        let s = c_sleep 5 (stop_timeout s);
        (_, s) \<leftarrow> compare_expected E ''select * from t1'' 1 [16] s;
        (_, s) \<leftarrow> compare_expected E ''select * from t1 where fl=0'' 1 [16] s;
        (_, s) \<leftarrow> compare_expected E ''select * from t1 limit 10'' 1 [10] s;
        let s = set_timeout 60 s;
        let (_, s) = create_t1 E (tc_conn_rwsplit s) s;
        (_, s) \<leftarrow> insert_into_t1 E (tc_conn_rwsplit s) 3 s;
        let s = c_sleep 5 (stop_timeout s);
        (_, s) \<leftarrow> compare_expected E ''select * from t1'' 1 [0] s;
        (_, s) \<leftarrow> compare_expected E ''select * from t1 where fl=0'' 1 [16] s;
        (_, s) \<leftarrow> compare_expected E ''select * from t1 limit 10'' 1 [10] s;
        Some s })"

text \<open>\<open>sizeof(long int)\<close> is 8.\<close>

definition maxrows_tests_3_8 :: "env \<Rightarrow> 'a tc_scheme \<Rightarrow> 'a tc_scheme option" where
  "maxrows_tests_3_8 E s =
     do { s \<leftarrow> procedure_test E test03_sql 2 [2, 0] s;
          s \<leftarrow> procedure_test E test04_sql 4 [1, 2, 1, 0] s;
          s \<leftarrow> procedure_test E test05_sql 5 [1, 8, 1, 1, 0] s;
          s \<leftarrow> procedure_test E test06_sql 1 [0] s;
          let (_, s) = try_query E (tc_conn_rwsplit s) ''SET GLOBAL max_allowed_packet=10000000000'' s;
          let s = stop_timeout s;
          let (_, s) = connect E (tc_repl s) s;
          (_, s) \<leftarrow> test_longblob E (mn_nodes (repl s) 0) ''LONGBLOB'' (512 * 1024 div 8) (17 * 2) 5 s;
          let s = close_connections (tc_repl s) s;
          s \<leftarrow> procedure_test E test07_sql 8 [1, 1, 4, 1, 5, 5, 1, 0] s;
          procedure_test E test08_sql 1 [0] s }"

definition maxrows_tests_9_11 :: "env \<Rightarrow> 'a tc_scheme \<Rightarrow> 'a tc_scheme option" where
  "maxrows_tests_9_11 E s =
     do { (_, s) \<leftarrow> compare_expected E ''SELECT * FROM dual'' 0 [0] s;
          let s = err_check E 1096 s;
          s \<leftarrow> procedure_test E test10_sql 2 [1, 4] s;
          let s = err_check E 1096 s;
          (_, s) \<leftarrow> compare_expected E ''SET @a=4;'' 1 [0] s;
          Some (err_check E 0 s) }"

text \<open>
  Tests 12 and 13: with the statement functions, then with statements in SQL. Without a statement
  its null pointer is used after the failure was counted.
\<close>

definition stmt_test :: "env \<Rightarrow> string \<Rightarrow> nat list \<Rightarrow> 'a tc_scheme \<Rightarrow> 'a tc_scheme option" where
  "stmt_test E sql exp_rows s =
     (let (stmt, s) = stmt_new E (tc_conn_rwsplit s) s;
          s = (if stmt = None then add_result 1 s else s);
          s = stmt_counted E stmt (StmtPrepare sql) s
      in do {
        st \<leftarrow> stmt;
        (_, s) \<leftarrow> compare_stmt_expected E st 1 exp_rows s;
        Some (snd (stmt_call E stmt StmtClose s)) })"

definition sql_stmt_test :: "env \<Rightarrow> string \<Rightarrow> nat list \<Rightarrow> 'a tc_scheme \<Rightarrow> 'a tc_scheme option" where
  "sql_stmt_test E limit exp_rows s =
     (let (_, s) = try_query E (tc_conn_rwsplit s) (''SET @table = '' @ quote @ ''t1'' @ quote) s;
          (_, s) = try_query E (tc_conn_rwsplit s)
                     (''SET @s = CONCAT('' @ quote @ ''SELECT * FROM '' @ quote @ '', @table'' @ limit @ '')'') s;
          (_, s) = try_query E (tc_conn_rwsplit s) ''PREPARE stmt1 FROM @s'' s
      in do {
        (_, s) \<leftarrow> compare_expected E ''EXECUTE stmt1'' 1 exp_rows s;
        Some (snd (try_query E (tc_conn_rwsplit s) ''DEALLOCATE PREPARE stmt1'' s)) })"

definition maxrows_tests_12_13 :: "env \<Rightarrow> 'a tc_scheme \<Rightarrow> 'a tc_scheme option" where
  "maxrows_tests_12_13 E s =
     do { s \<leftarrow> stmt_test E ''SELECT * FROM t1'' [0] s;
          s \<leftarrow> sql_stmt_test E '''' [0] s;
          s \<leftarrow> stmt_test E ''SELECT * FROM t1 LIMIT 10'' [10, 0] s;
          sql_stmt_test E ('',  '' @ quote @ '' LIMIT 10'' @ quote) [10, 0] s }"

definition maxrows_tests_14_19 :: "env \<Rightarrow> 'a tc_scheme \<Rightarrow> 'a tc_scheme option" where
  "maxrows_tests_14_19 E s =
     do { s \<leftarrow> procedure_test E (prepared_in_procedure ''18'') 4 [1, 18, 1, 0] s;
          s \<leftarrow> procedure_test E (prepared_in_procedure ''100'') 1 [0] s;
          (_, s) \<leftarrow> compare_expected E (empty_select '' limit 1'') 1 [1, 0] s;
          s \<leftarrow> procedure_test E test17_sql 4 [1, 1, 1, 0] s;
          s \<leftarrow> procedure_test E test18_sql 21 (replicate 20 1 @ [0]) s;
          procedure_test E test19_sql 1 [0] s }"

definition lower_size_limit :: string where
  "lower_size_limit =
     ''sed -i '' @ dq @ ''s/max_resultset_size=900000000/max_resultset_size=9000000/'' @ dq @ '' /etc/maxscale.cnf''"

definition maxrows_tests_20_21 :: "env \<Rightarrow> 'a tc_scheme \<Rightarrow> 'a tc_scheme option" where
  "maxrows_tests_20_21 E s =
     (let (_, s) = try_query E (tc_conn_rwsplit s) ''SET GLOBAL max_allowed_packet=10000000000'' s in
      do { (_, s) \<leftarrow> compare_expected E ''SELECT * FROM long_blob_table limit 2;'' 1 [2, 0] s;
           let s = err_check E 0 s;
           let s = close_rwsplit s;
           let (_, s) = ssh_maxscale E True lower_size_limit s;
           let s = set_timeout 100 s;
           let (_, s) = restart_maxscale E s;
           let (_, s) = connect_rwsplit E s;
           let (_, s) = try_query E (tc_conn_rwsplit s) ''SET GLOBAL max_allowed_packet=10000000000'' s;
           (_, s) \<leftarrow> compare_expected E ''SELECT * FROM long_blob_table limit 1;'' 1 [0] s;
           (_, s) \<leftarrow> check_maxscale_alive E s;
           Some s })"

definition mxs1071_maxrows :: "env \<Rightarrow> 'a tc_scheme \<Rightarrow> (int \<times> 'a tc_scheme) option" where
  "mxs1071_maxrows E s =
     do { s \<leftarrow> maxrows_tests_1_2 E s;
          s \<leftarrow> maxrows_tests_3_8 E s;
          s \<leftarrow> maxrows_tests_9_11 E s;
          s \<leftarrow> maxrows_tests_12_13 E s;
          s \<leftarrow> maxrows_tests_14_19 E s;
          s \<leftarrow> maxrows_tests_20_21 E s;
          Some (tc_global_result s, s) }"

end
