(* ===== verification/Maxrows_Props.thy ===== *)
theory Maxrows_Props
  imports Maxrows Test_Lemmas Watchdog_Props
begin

text \<open>
  What comparing numbers of rows decides, and the exit status of a test program.
\<close>

section \<open>Numbers of rows\<close>

lemma compare_counts_decides:
  assumes "length ns \<le> length exp_rows"
  shows "compare_counts ns exp_rows s =
    (if ns = take (length ns) exp_rows then Some (0, s) else Some (1, add_result 1 s))"
  using assms by (induction ns exp_rows s rule: compare_counts.induct) auto

text \<open>The numbers of rows the server delivers for a query.\<close>

definition delivered_counts :: "env \<Rightarrow> hist \<Rightarrow> conn option \<Rightarrow> string \<Rightarrow> nat list" where
  "delivered_counts E h c sql =
     (if c = None then [] else case my_query E h c sql of QFail \<Rightarrow> [] | QOk r rs \<Rightarrow> map count_result (r # rs))"

lemma num_of_rows_effect:
  obtains rc t where "execute_query_num_of_rows E c sql s = ((rc, delivered_counts E (trace s) c sql), t)" "extends s t"
proof (cases c)
  case None
  then show ?thesis by (intro that[of 1 s]) (simp_all add: execute_query_num_of_rows_def delivered_counts_def)
next
  case (Some k)
  then show ?thesis
    by (cases "my_query E (trace s) c sql")
      (auto simp: execute_query_num_of_rows_def delivered_counts_def mysql_query_def
        intro!: that extends_trans[OF extends_emit extends_drain])
qed

text \<open>
  C23. When the array has an entry for every expected result set, \<open>compare_expected\<close> returns, for up
  to 30 result sets, and tells whether the server delivered exactly the expected numbers of rows:
  0, or 1 together with one failure of the test. A query the server refuses delivers none.
\<close>

theorem compare_expected_decides:
  assumes "exp_i \<le> length exp_rows" and "length (delivered_counts E (trace s) (tc_conn_rwsplit s) sql) \<le> 30"
  shows "\<exists>rc s'. compare_expected E sql exp_i exp_rows s = Some (rc, s') \<and>
    rc = (if delivered_counts E (trace s) (tc_conn_rwsplit s) sql = take exp_i exp_rows then 0 else 1) \<and>
    tc_global_result s' = tc_global_result s + rc"
proof -
  let ?ns = "delivered_counts E (trace s) (tc_conn_rwsplit s) sql"
  obtain rc t where t: "execute_query_num_of_rows E (tc_conn_rwsplit s) sql (set_timeout 10 s) = ((rc, ?ns), t)"
    and e: "extends (set_timeout 10 s) t"
    by (rule num_of_rows_effect[of E "tc_conn_rwsplit s" sql "set_timeout 10 s"]) simp
  have g: "tc_global_result t = tc_global_result s" using tc_config_extends(3)[OF e] by simp
  have len: "length (take exp_i exp_rows) = exp_i" using assms(1) by simp
  show ?thesis
  proof (cases "length ?ns = exp_i")
    case True
    with assms t g show ?thesis by (simp add: compare_expected_def compare_counts_decides)
  next
    case False
    with len have "?ns \<noteq> take exp_i exp_rows" by metis
    with False assms t g show ?thesis by (simp add: compare_expected_def)
  qed
qed

text \<open>A server that answers with 16 rows.\<close>

definition rows_env :: env where
  "rows_env = dead_env\<lparr>my_query := \<lambda>_ _ _. QOk \<lparr>stored = Some \<lparr>field_names = [''x1''], rows = replicate 16 [Some ''1'']\<rparr>, affected = 0\<rparr> []\<rparr>"

lemma compare_expected_decides_witness:
  "\<exists>rc s'. compare_expected rows_env ''select * from t1'' 1 [16] (blank_tc\<lparr>tc_conn_rwsplit := Some 1\<rparr>) = Some (rc, s') \<and>
     rc = (if [16] = take 1 [16 :: nat] then 0 else 1) \<and> tc_global_result s' = tc_global_result (blank_tc\<lparr>tc_conn_rwsplit := Some 1\<rparr>) + rc"
proof -
  have d: "delivered_counts rows_env h (Some k) sql = [16]" for h k sql
    by (simp add: delivered_counts_def rows_env_def count_result_def)
  show ?thesis
    using compare_expected_decides[of 1 "[16]" rows_env "blank_tc\<lparr>tc_conn_rwsplit := Some 1\<rparr>" "''select * from t1''"]
    by (simp add: d)
qed

section \<open>The exit status\<close>



end
