(* ===== verification/Routing_Tests.thy ===== *)
theory Routing_Tests
  imports Maxadmin_Tcp Test_Checks "HOL-Library.Word"
begin

text \<open>
  Test programs that check where MaxScale sends a statement: \<open>rw_select_insert\<close>, \<open>test_hints\<close>,
  \<open>ccrfilter\<close>, \<open>server_weight\<close>, \<open>slave_lag\<close> (its checks) and \<open>rwsplit_readonly\<close>. Each is its \<open>main\<close> from
  the constructed object to the reading of the result; messages are left out.
\<close>

section \<open>rw_select_insert\<close>

text \<open>A \<open>long\<close> stored into an \<open>int\<close>.\<close>

definition to_int :: "int \<Rightarrow> int" where
  "to_int x = sint (word_of_int x :: 32 word)"

type_synonym counters = "(nat \<Rightarrow> int) \<times> (nat \<Rightarrow> int)"

text \<open>
  The loop over the nodes: whether an INSERT was counted, the sum of the SELECTs, whose overflow
  has no result, and the arrays, which take over the new values.
\<close>

fun com_select_loop ::
  "counters \<Rightarrow> nat list \<Rightarrow> bool \<Rightarrow> int \<Rightarrow> counters \<Rightarrow> ((bool \<times> int) \<times> counters) option" where
  "com_select_loop new [] bad sum_selects old = Some ((bad, sum_selects), old)"
| "com_select_loop (new_selects, new_inserts) (i # is) bad sum_selects (selects, inserts) =
     (let bad = (bad \<or> new_inserts i - inserts i \<noteq> 0);
          sum_selects = sum_selects + to_int (new_selects i - selects i)
      in if int32_ok sum_selects
         then com_select_loop (new_selects, new_inserts) is bad sum_selects
                (selects(i := new_selects i), inserts(i := new_inserts i))
         else None)"

definition check_com_select :: "counters \<Rightarrow> counters \<Rightarrow> int \<Rightarrow> int \<Rightarrow> (int \<times> counters) option" where
  "check_com_select new old N expected =
     do { let bad = (fst new 0 - fst old 0 \<noteq> 0);
          ((bad, sum_selects), old) \<leftarrow> com_select_loop new [0..<nat N] bad 0 old;
          Some (if bad \<or> sum_selects \<noteq> expected then 1 else 0, old) }"

text \<open>Only the first node is looked at.\<close>

definition check_com_insert :: "counters \<Rightarrow> counters \<Rightarrow> int \<Rightarrow> int \<times> counters" where
  "check_com_insert new old expected =
     (let diff_ins = to_int (snd new 0 - snd old 0);
          diff_sel = to_int (fst new 0 - fst old 0);
          bad = (diff_ins = 0 \<or> diff_sel \<noteq> 0 \<or> diff_ins \<noteq> expected)
      in (if bad then 1 else 0, ((fst old)(0 := fst new 0), (snd old)(0 := snd new 0))))"

definition read_counters :: "env \<Rightarrow> counters \<Rightarrow> 'a tc_scheme \<Rightarrow> (counters \<times> 'a tc_scheme) option" where
  "read_counters E cs s =
     do { ((_, selects, inserts), s) \<leftarrow> get_global_status_allnodes E (fst cs) (snd cs) (tc_repl s) s;
          Some ((selects, inserts), s) }"

text \<open>The two pairs of arrays are passed along: what a reading does not deliver keeps its value.\<close>

definition select_round ::
  "env \<Rightarrow> ('a tc_scheme \<Rightarrow> 'a tc_scheme option) \<Rightarrow> int \<Rightarrow> counters \<times> counters \<Rightarrow> 'a tc_scheme
   \<Rightarrow> ((counters \<times> counters) \<times> 'a tc_scheme) option" where
  "select_round E run expected = (\<lambda>(old, new) s.
     do { (old, s) \<leftarrow> read_counters E old s;
          s \<leftarrow> run s;
          (new, s) \<leftarrow> read_counters E new s;
          (rc, old) \<leftarrow> check_com_select new old (mn_N (repl s)) expected;
          Some ((old, new), add_result rc s) })"

definition insert_round ::
  "env \<Rightarrow> ('a tc_scheme \<Rightarrow> 'a tc_scheme option) \<Rightarrow> int \<Rightarrow> counters \<times> counters \<Rightarrow> 'a tc_scheme
   \<Rightarrow> ((counters \<times> counters) \<times> 'a tc_scheme) option" where
  "insert_round E run expected = (\<lambda>(old, new) s.
     do { (old, s) \<leftarrow> read_counters E old s;
          s \<leftarrow> run s;
          (new, s) \<leftarrow> read_counters E new s;
          let (rc, old) = check_com_insert new old expected;
          Some ((old, new), add_result rc s) })"

definition run_counted :: "env \<Rightarrow> string \<Rightarrow> 'a tc_scheme \<Rightarrow> 'a tc_scheme option" where
  "run_counted E sql s = Some (snd (try_query E (tc_conn_rwsplit s) sql s))"

definition run_plain :: "env \<Rightarrow> string \<Rightarrow> 'a tc_scheme \<Rightarrow> 'a tc_scheme option" where
  "run_plain E sql s = Some (snd (execute_query E (tc_conn_rwsplit s) sql s))"

definition run_hundred :: "env \<Rightarrow> string \<Rightarrow> 'a tc_scheme \<Rightarrow> 'a tc_scheme option" where
  "run_hundred E sql s =
     (let s = do_loop [0..<100] (\<lambda>_ s. let s = set_timeout 20 s in snd (try_query E (tc_conn_rwsplit s) sql s)) s
      in sync_slaves E (tc_repl s) 0 (stop_timeout s))"

definition select_t1 :: string where
  "select_t1 = ''select * from t1;''"

definition insert_t1 :: string where
  "insert_t1 = ''insert into t1 values(1);''"

definition rw_select_insert :: "env \<Rightarrow> counters \<times> counters \<Rightarrow> 'a tc_scheme \<Rightarrow> (int \<times> 'a tc_scheme) option" where
  "rw_select_insert E arrays s =
     (let s = set_timeout 120 s;
          (_, s) = connect E (tc_repl s) s;
          (_, s) = connect_rwsplit E s;
          (_, s) = execute_maxadmin_command E ''shutdown monitor MySQL-Monitor'' s
      in do {
        (old, s) \<leftarrow> read_counters E (fst arrays) s;
        let (_, s) = try_query E (tc_conn_rwsplit s) ''DROP TABLE IF EXISTS t1;'' s;
        let (_, s) = try_query E (tc_conn_rwsplit s) ''create table t1 (x1 int);'' s;
        s \<leftarrow> sync_slaves E (tc_repl s) 0 s;
        (arrays, s) \<leftarrow> select_round E (run_counted E select_t1) 1 (old, snd arrays) s;
        (arrays, s) \<leftarrow> insert_round E (run_counted E insert_t1) 1 arrays s;
        s \<leftarrow> sync_slaves E (tc_repl s) 0 (stop_timeout s);
        (arrays, s) \<leftarrow> select_round E (run_plain E select_t1) 1 arrays s;
        (arrays, s) \<leftarrow> insert_round E (run_plain E insert_t1) 1 arrays s;
        s \<leftarrow> sync_slaves E (tc_repl s) 0 (stop_timeout s);
        (arrays, s) \<leftarrow> select_round E (run_hundred E select_t1) 100 arrays s;
        (_, s) \<leftarrow> insert_round E (run_hundred E insert_t1) 100 arrays (set_timeout 20 s);
        let s = close_rwsplit s;
        Some (tc_global_result s, s) })"

section \<open>test_hints\<close>

definition query_hint :: "string \<Rightarrow> string" where
  "query_hint hint = ''select @@server_id; '' @ hint"

definition query_inline_hint :: "string \<Rightarrow> string" where
  "query_inline_hint hint = ''select @@server_id/* maxscale '' @ hint @ '' */;''"

definition plain_id :: string where
  "plain_id = ''select @@server_id;''"

text \<open>The table \<open>queries\<close>: the same fifteen or sixteen lines for each of the three styles of comment.\<close>

definition hint_queries :: "(string \<Rightarrow> string) \<Rightarrow> string \<Rightarrow> string \<Rightarrow> string \<Rightarrow> (string \<times> nat) list" where
  "hint_queries q named shorthand rest =
     [(q ''begin route to master'', 0), (plain_id, 0), (q ''route to server server3'', 2), (plain_id, 0), (q ''end'', 1),
      (q (named @ '' prepare route to master''), 1), (q (named @ '' begin''), 0), (plain_id, 0),
      (q ''route to server server3'', 2), (plain_id, 0), (q ''end'', 1),
      (q (shorthand @ '' begin route to server server2'') @ rest, 1), (plain_id, 1),
      (q ''route to server server3'', 2), (plain_id, 1), (q ''end'', 1)]"

definition queries :: "(string \<times> nat) list" where
  "queries =
     hint_queries (\<lambda>h. query_hint (''-- maxscale '' @ h)) ''named1'' ''shorthand1'' '''' @
     hint_queries (\<lambda>h. query_hint (''# maxscale '' @ h)) ''named2'' ''shorthand2'' '''' @
     hint_queries query_inline_hint ''named3'' ''shorthand3'' '' ''"

text \<open>The identifiers of the nodes, printed; \<open>get_server_id\<close> delivers -1 for a failure.\<close>

definition server_ids :: "env \<Rightarrow> cid \<Rightarrow> 'a tc_scheme \<Rightarrow> (string list \<times> 'a tc_scheme) option" where
  "server_ids E this s =
     foreachM (node_ids (objs s this))
       (\<lambda>i ids s. do { (id, s) \<leftarrow> get_server_id E this i s; Some (ids @ [int_str id], s) }) [] s"

definition id_at :: "string list \<Rightarrow> nat \<Rightarrow> string option" where
  "id_at ids i = (if i < length ids then Some (ids ! i) else None)"

text \<open>An identifier that was not delivered is an array that was not written.\<close>

definition hint_step :: "env \<Rightarrow> string list \<Rightarrow> string \<times> nat \<Rightarrow> 'a tc_scheme \<Rightarrow> 'a tc_scheme option" where
  "hint_step E ids q s =
     do { ((_, v), s) \<leftarrow> find_field E (tc_conn_rwsplit s) (fst q) ''@@server_id'' s;
          str \<leftarrow> v;
          expected \<leftarrow> id_at ids (snd q);
          Some (if expected \<noteq> str then add_result 1 s else s) }"

definition test_hints :: "env \<Rightarrow> 'a tc_scheme \<Rightarrow> (int \<times> 'a tc_scheme) option" where
  "test_hints E s =
     (let (_, s) = connect E (tc_repl s) s;
          (_, s) = connect_maxscale E s
      in do { (ids, s) \<leftarrow> server_ids E (tc_repl s) s;
              s \<leftarrow> do_loopM queries (hint_step E ids) s;
              Some (tc_global_result s, s) })"

section \<open>ccrfilter\<close>

definition is_master :: "env \<Rightarrow> int \<Rightarrow> conn option \<Rightarrow> 'a tc_scheme \<Rightarrow> (bool \<times> 'a tc_scheme) option" where
  "is_master E master_id c s =
     do { ((rc, v), s) \<leftarrow> find_field E c ''SELECT @@server_id'' ''@@server_id'' s;
          if rc = 0 then do { str \<leftarrow> v; Some (atoi str = master_id, s) } else Some (False, s) }"

text \<open>SELECTs in a row, each with whether the master should answer it.\<close>

fun expect_master :: "env \<Rightarrow> int \<Rightarrow> bool list \<Rightarrow> 'a tc_scheme \<Rightarrow> 'a tc_scheme option" where
  "expect_master E master_id [] s = Some s"
| "expect_master E master_id (b # bs) s =
     do { (m, s) \<leftarrow> is_master E master_id (tc_conn_rwsplit s) s;
          expect_master E master_id bs (add_result (if m = b then 0 else 1) s) }"

definition insert_into :: "env \<Rightarrow> string \<Rightarrow> 'a tc_scheme \<Rightarrow> 'a tc_scheme" where
  "insert_into E table s =
     snd (try_query E (tc_conn_rwsplit s) (''INSERT INTO test.'' @ table @ '' VALUES (1)'') s)"

definition edit_cnf :: "env \<Rightarrow> string \<Rightarrow> 'a tc_scheme \<Rightarrow> 'a tc_scheme" where
  "edit_cnf E script s =
     snd (ssh_maxscale E True (''sed -i -e '' @ quote @ script @ quote @ '' /etc/maxscale.cnf'') s)"

definition change_setup :: "env \<Rightarrow> string list \<Rightarrow> 'a tc_scheme \<Rightarrow> 'a tc_scheme" where
  "change_setup E scripts s =
     (let s = close_maxscale_connections s;
          s = do_loop scripts (edit_cnf E) s;
          (_, s) = restart_maxscale E s;
          (_, s) = connect_maxscale E s
      in s)"

definition match_or_ignore :: "env \<Rightarrow> int \<Rightarrow> 'a tc_scheme \<Rightarrow> 'a tc_scheme option" where
  "match_or_ignore E master_id s =
     do { s \<leftarrow> expect_master E master_id [False, False] (insert_into E ''t1'' s);
          expect_master E master_id [True, True, True, False, False] (insert_into E ''t2'' s) }"

definition ccrfilter :: "env \<Rightarrow> 'a tc_scheme \<Rightarrow> (int \<times> 'a tc_scheme) option" where
  "ccrfilter E s =
     (let (_, s) = connect E (tc_repl s) s in
      do { (master_id, s) \<leftarrow> get_server_id E (tc_repl s) 0 s;
           let (_, s) = query_node E (tc_repl s) ''CREATE OR REPLACE TABLE test.t1 (id INT);'' 0 s;
           let (_, s) = query_node E (tc_repl s) ''CREATE OR REPLACE TABLE test.t2 (id INT);'' 0 s;
           let (_, s) = connect_maxscale E s;
           s \<leftarrow> expect_master E master_id [True] (c_sleep 1 (insert_into E ''t1'' s));
           s \<leftarrow> expect_master E master_id [False] (c_sleep 11 s);
           let s = change_setup E [''s/time.*/time=0/'', ''s/###count/count/''] s;
           s \<leftarrow> expect_master E master_id [True, True, True, False, False] (insert_into E ''t1'' s);
           s \<leftarrow> match_or_ignore E master_id (change_setup E [''s/###match/match/''] s);
           s \<leftarrow> match_or_ignore E master_id (change_setup E [''s/match/###match/'', ''s/###ignore/ignore/''] s);
           let (_, s) = query_node E (tc_repl s) ''DROP TABLE test.t1'' 0 s;
           let (_, s) = query_node E (tc_repl s) ''DROP TABLE test.t2'' 0 s;
           Some (tc_global_result s, s) })"

section \<open>server_weight\<close>

text \<open>\<open>conn_num\<close> is unsigned, so the expected number is compared modulo \<open>2^32\<close>.\<close>

definition check_conn_num :: "env \<Rightarrow> (nat \<Rightarrow> int) \<Rightarrow> 'a tc_scheme \<Rightarrow> 'a tc_scheme option" where
  "check_conn_num E Nc s =
     do_loopM [0..<4] (\<lambda>i s.
       do { (conn_num, s) \<leftarrow> get_conn_num E (mn_nodes (galera s) i) (tc_maxscale_IP s) (tc_maxscale_hostname s) ''test'' s;
            Some (if Nc i mod 2 ^ 32 \<noteq> conn_num mod 2 ^ 32 then add_result 1 s else s) }) s"

fun open_many :: "env \<Rightarrow> int \<Rightarrow> nat \<Rightarrow> conn option list \<Rightarrow> 'a tc_scheme \<Rightarrow> conn option list \<times> 'a tc_scheme" where
  "open_many E port 0 conns s = (conns, s)"
| "open_many E port (Suc n) conns s =
     (let (c, s) = open_service E port s in open_many E port n (conns @ [c]) s)"

definition weight_round :: "env \<Rightarrow> int \<Rightarrow> (nat \<Rightarrow> int) \<Rightarrow> 'a tc_scheme \<Rightarrow> 'a tc_scheme option" where
  "weight_round E port Nc s =
     (let (conns, s) = open_many E port 60 [] s;
          s = c_sleep 15 (stop_timeout s)
      in do { s \<leftarrow> check_conn_num E Nc (set_timeout 30 s);
              Some (do_loop conns mysql_close s) })"

definition server_weight :: "env \<Rightarrow> 'a tc_scheme \<Rightarrow> (int \<times> 'a tc_scheme) option" where
  "server_weight E s =
     (let s = set_timeout 30 s;
          (_, s) = connect E (tc_galera s) s
      in do { s \<leftarrow> weight_round E (tc_readconn_master_port s)
                (\<lambda>i. if i = 0 then 60 div 6 else if i = 1 then 60 div 3 else if i = 2 then 60 div 2 else 0) s;
              let s = c_sleep 15 (stop_timeout s);
              let s = set_timeout 30 s;
              s \<leftarrow> weight_round E (tc_rwsplit_port s)
                (\<lambda>i. if i = 0 then 60 else if i = 1 then 60 div 2 else if i = 2 then 60 div 3 else 60 div 6) s;
              let s = close_connections (tc_galera s) s;
              let s = check_log_err E (''Unexpected parameter '' @ quote @ ''weightby'' @ quote) False s;
              let s = check_log_err E (''Weighting parameter '' @ quote @ ''serversize'' @ quote @
                        '' with a value of 0 for server '' @ quote @ ''server4'' @ quote @ '' rounds down to zero'') True s;
              Some (tc_global_result s, s) })"

section \<open>slave_lag\<close>

text \<open>
  The checks of \<open>slave_lag\<close>: the text and the number that were read last, and the smallest lag so far.
  What was never written has no value. \<open>check_lag\<close> compares with its own variable
  \<open>server1_id_d\<close>, which nothing has set: its value is an argument.
\<close>

definition lag_step ::
  "env \<Rightarrow> nat \<Rightarrow> string option \<times> int option \<times> int \<Rightarrow> 'a tc_scheme
   \<Rightarrow> ((string option \<times> int option \<times> int) \<times> 'a tc_scheme) option" where
  "lag_step E i = (\<lambda>(result, res_d, min_lag) s.
     do { ((_, v), s) \<leftarrow> get_maxadmin_param_tcp E (tc_maxscale_IP s) ''admin'' (tc_maxadmin_password s)
            (''show server server'' @ int_str (int i + 1)) ''Slave delay:'' s;
          let result = (case v of None \<Rightarrow> result | Some _ \<Rightarrow> v);
          r \<leftarrow> result;
          let res_d = (case scan_int r of Some (n, _) \<Rightarrow> Some n | None \<Rightarrow> res_d);
          d \<leftarrow> res_d;
          let min_lag = (if i = 1 then d else min_lag);
          Some ((result, res_d, if min_lag > d then d else min_lag), s) })"

definition check_lag :: "env \<Rightarrow> int \<Rightarrow> 'a tc_scheme \<Rightarrow> ((int \<times> int) \<times> 'a tc_scheme) option" where
  "check_lag E server1_id_d s =
     do { ((_, _, min_lag), s) \<leftarrow> foreachM [1..<nat (mn_N (repl s))] (lag_step E) (None, None, 0) s;
          let (_, s) = connect_rwsplit E s;
          ((_, v), s) \<leftarrow> find_field E (tc_conn_rwsplit s)
             ''select @@server_id; -- maxscale max_slave_replication_lag=20'' ''@@server_id'' s;
          let s = close_rwsplit s;
          server_id \<leftarrow> v;
          (server_id_d, _) \<leftarrow> scan_int server_id;
          if server1_id_d = server_id_d then Some ((0, min_lag), add_result 1 s) else Some ((1, min_lag), s) }"

text \<open>One turn of the loop of \<open>main\<close>: its conditions assign to \<open>ms\<close>.\<close>

definition lag_turn :: "env \<Rightarrow> int \<Rightarrow> 'a tc_scheme \<Rightarrow> 'a tc_scheme option" where
  "lag_turn E server1_id_d s =
     do { ((ms, min_lag), s) \<leftarrow> check_lag E server1_id_d s;
          let ms = 0;
          let s = (if ms \<noteq> (0 :: int) \<and> min_lag < 20 then add_result 1 s else s);
          let ms = 1;
          Some (if ms \<noteq> (0 :: int) \<and> min_lag > 20 then add_result 1 s else s) }"

section \<open>rwsplit_readonly\<close>

text \<open>\<open>add_result(execute_query_silent(...))\<close> and \<open>add_result(!execute_query_silent(...))\<close>\<close>

definition should_work :: "env \<Rightarrow> conn option \<Rightarrow> string \<Rightarrow> 'a tc_scheme \<Rightarrow> 'a tc_scheme" where
  "should_work E c sql s = (let (rc, s) = execute_query_silent E c sql s in add_result rc s)"

definition should_fail :: "env \<Rightarrow> conn option \<Rightarrow> string \<Rightarrow> 'a tc_scheme \<Rightarrow> 'a tc_scheme" where
  "should_fail E c sql s = (let (rc, s) = execute_query_silent E c sql s in add_result (if rc = 0 then 1 else 0) s)"

definition readonly_insert :: "string \<Rightarrow> string" where
  "readonly_insert service = ''INSERT INTO test.readonly VALUES (1) -- '' @ service"

definition readonly_select :: "string \<Rightarrow> string" where
  "readonly_select service = ''SELECT * FROM test.readonly -- '' @ service"

definition insert_ok :: "env \<Rightarrow> ('a tc_scheme \<Rightarrow> conn option) \<Rightarrow> string \<Rightarrow> 'a tc_scheme \<Rightarrow> 'a tc_scheme" where
  "insert_ok E c service s = (let s = set_timeout 30 s in should_work E (c s) (readonly_insert service) s)"

definition select_ok :: "env \<Rightarrow> ('a tc_scheme \<Rightarrow> conn option) \<Rightarrow> string \<Rightarrow> 'a tc_scheme \<Rightarrow> 'a tc_scheme" where
  "select_ok E c service s = (let s = set_timeout 30 s in should_work E (c s) (readonly_select service) s)"

definition insert_refused :: "env \<Rightarrow> ('a tc_scheme \<Rightarrow> conn option) \<Rightarrow> string \<Rightarrow> 'a tc_scheme \<Rightarrow> 'a tc_scheme" where
  "insert_refused E c service s = (let s = set_timeout 30 s in should_fail E (c s) (readonly_insert service) s)"

definition select_refused :: "env \<Rightarrow> ('a tc_scheme \<Rightarrow> conn option) \<Rightarrow> string \<Rightarrow> 'a tc_scheme \<Rightarrow> 'a tc_scheme" where
  "select_refused E c service s = (let s = set_timeout 30 s in should_fail E (c s) (readonly_select service) s)"

definition test_all_ok :: "env \<Rightarrow> 'a tc_scheme \<Rightarrow> 'a tc_scheme" where
  "test_all_ok E s =
     (let s = insert_ok E tc_conn_rwsplit ''fail_instantly'' s;
          s = insert_ok E tc_conn_master ''fail_on_write'' s;
          s = insert_ok E tc_conn_slave ''error_on_write'' s;
          s = select_ok E tc_conn_rwsplit ''fail_instantly'' s;
          s = select_ok E tc_conn_master ''fail_on_write'' s
      in select_ok E tc_conn_slave ''error_on_write'' s)"

definition block_nodes :: "env \<Rightarrow> nat list \<Rightarrow> 'a tc_scheme \<Rightarrow> 'a tc_scheme" where
  "block_nodes E ids s = do_loop ids (\<lambda>i s. snd (block_node E (tc_repl s) i s)) s"

definition unblock_nodes :: "env \<Rightarrow> nat list \<Rightarrow> 'a tc_scheme \<Rightarrow> 'a tc_scheme" where
  "unblock_nodes E ids s = do_loop ids (\<lambda>i s. snd (unblock_node E (tc_repl s) i s)) s"

text \<open>Reads from the two services that still allow them.\<close>

definition reads_ok :: "env \<Rightarrow> 'a tc_scheme \<Rightarrow> 'a tc_scheme" where
  "reads_ok E s = select_ok E tc_conn_slave ''error_on_write'' (select_ok E tc_conn_master ''fail_on_write'' s)"

definition connections_without_master :: "env \<Rightarrow> 'a tc_scheme \<Rightarrow> 'a tc_scheme" where
  "connections_without_master E s =
     (let s = close_maxscale_connections (set_timeout 30 s);
          (r, s) = connect_rwsplit E s;
          s = add_result (if r = 0 then 1 else 0) s;
          (r, s) = connect_readconn_master E s;
          s = add_result (if r \<noteq> 0 then 1 else 0) s;
          (r, s) = connect_readconn_slave E s
      in add_result (if r \<noteq> 0 then 1 else 0) s)"

definition test_basic :: "env \<Rightarrow> 'a tc_scheme \<Rightarrow> 'a tc_scheme" where
  "test_basic E s =
     (let (_, s) = connect_maxscale E s;
          s = test_all_ok E s;
          s = c_sleep 10 (block_nodes E [0] (stop_timeout s));
          s = select_refused E tc_conn_rwsplit ''fail_instantly'' s;
          s = reads_ok E s;
          s = insert_refused E tc_conn_master ''fail_on_write'' s;
          s = select_refused E tc_conn_master ''fail_on_write'' s;
          s = insert_refused E tc_conn_slave ''error_on_write'' s;
          s = should_work E (tc_conn_slave s) (readonly_select ''error_on_write'') s;
          s = connections_without_master E s;
          s = reads_ok E s;
          s = close_maxscale_connections s;
          s = c_sleep 10 (unblock_nodes E [0] (stop_timeout s));
          (_, s) = connect_maxscale E s;
          s = test_all_ok E s
      in close_maxscale_connections s)"

definition test_complex :: "env \<Rightarrow> 'a tc_scheme \<Rightarrow> 'a tc_scheme" where
  "test_complex E s =
     (let (_, s) = connect_maxscale E s;
          s = test_all_ok E s;
          s = c_sleep 10 (block_nodes E [0] (stop_timeout s));
          s = select_refused E tc_conn_rwsplit ''fail_instantly'' s;
          s = reads_ok E s;
          s = c_sleep 10 (unblock_nodes E [0] (stop_timeout s));
          s = reads_ok E s;
          s = close_maxscale_connections (stop_timeout s);
          s = c_sleep 20 (block_nodes E [1, 2, 3] s);
          (_, s) = connect_maxscale E (set_timeout 30 s);
          s = reads_ok E s;
          s = c_sleep 10 (unblock_nodes E [1, 2, 3] (stop_timeout s));
          s = reads_ok E s;
          s = c_sleep 10 (block_nodes E [0, 1, 2, 3] (stop_timeout s));
          s = select_refused E tc_conn_master ''fail_on_write'' s;
          s = should_fail E (tc_conn_slave s) (readonly_select ''error_on_write'') s;
          s = c_sleep 10 (unblock_nodes E [0, 1, 2, 3] (stop_timeout s));
          s = close_maxscale_connections s;
          (_, s) = connect_maxscale E s;
          s = test_all_ok E s
      in close_maxscale_connections s)"

definition rwsplit_readonly :: "env \<Rightarrow> 'a tc_scheme \<Rightarrow> (int \<times> 'a tc_scheme) option" where
  "rwsplit_readonly E s =
     (let s = stop_timeout s;
          (_, s) = connect_maxscale E s;
          (_, s) = execute_query_silent E (tc_conn_rwsplit s) (''DROP TABLE IF EXISTS test.readonly'' @ [newline]) s;
          (_, s) = execute_query_silent E (tc_conn_rwsplit s) (''CREATE TABLE test.readonly(id int)'' @ [newline]) s;
          s = close_maxscale_connections s;
          s = test_basic E s;
          s = test_complex E s
      in do { (_, s) \<leftarrow> flush_hosts E (tc_repl s) s; Some (tc_global_result s, s) })"

end
