(* ===== verification/Monitor_Tests.thy ===== *)
theory Monitor_Tests
  imports Routing_Tests
begin

text \<open>
  Test programs that check what MaxScale's monitors do when nodes fail or replication changes:
  \<open>galera_priority\<close>, \<open>mm\<close>, \<open>mm_mysqlmon\<close>, \<open>script\<close>, and \<open>pers_01\<close> (persistent connections).
\<close>

section \<open>galera_priority\<close>

text \<open>
  The conditions of the \<open>||\<close> are evaluated until one holds. Comparing an identifier that was not
  delivered reads an array that was not written.
\<close>

definition priority_server_id :: "env \<Rightarrow> string \<Rightarrow> 'a tc_scheme \<Rightarrow> (int \<times> 'a tc_scheme) option" where
  "priority_server_id E node_id s =
     (let (rc, s) = execute_query E (tc_conn_rwsplit s) ''BEGIN'' s in
      if rc \<noteq> 0 then Some (1, s)
      else do {
        ((rc, v), s) \<leftarrow> find_field E (tc_conn_rwsplit s) ''SELECT @@server_id'' ''@@server_id'' s;
        if rc \<noteq> 0 then Some (1, s)
        else
          let (rc, s) = execute_query E (tc_conn_rwsplit s) ''COMMIT'' s in
          if rc \<noteq> 0 then Some (1, s)
          else do { str \<leftarrow> v; Some (if node_id \<noteq> str then 1 else 0, s) } })"

definition not_reached :: "env \<Rightarrow> string list \<Rightarrow> nat \<Rightarrow> 'a tc_scheme \<Rightarrow> (bool \<times> 'a tc_scheme) option" where
  "not_reached E ids i s =
     do { node_id \<leftarrow> id_at ids i;
          let (rc, s) = connect_rwsplit E s;
          if rc \<noteq> 0 then Some (True, s)
          else do { (rc, s) \<leftarrow> priority_server_id E node_id s; Some (rc \<noteq> 0, s) } }"

text \<open>Stages: the expected node answers and is blocked. The flags: broken off, and some node is blocked.\<close>

fun priority_stages ::
  "env \<Rightarrow> string list \<Rightarrow> nat list \<Rightarrow> bool \<Rightarrow> 'a tc_scheme \<Rightarrow> ((bool \<times> bool) \<times> 'a tc_scheme) option" where
  "priority_stages E ids [] blocked s = Some ((False, blocked), s)"
| "priority_stages E ids (i # is) blocked s =
     do { (bad, s) \<leftarrow> not_reached E ids i s;
          if bad then Some ((True, blocked), s)
          else
            let s = close_rwsplit s;
                (_, s) = block_node E (tc_galera s) i s
            in priority_stages E ids is True (c_sleep 15 s) }"

definition all_blocked_stage :: "env \<Rightarrow> 'a tc_scheme \<Rightarrow> int \<times> 'a tc_scheme" where
  "all_blocked_stage E s =
     (let (rc, s) = connect_rwsplit E s in
      if rc = 0 \<and> tc_conn_rwsplit s \<noteq> None
      then let (_, s) = execute_query E (tc_conn_rwsplit s) ''SELECT @@server_id'' s in (1, s)
      else (0, s))"

definition simple_failover :: "env \<Rightarrow> 'a tc_scheme \<Rightarrow> (int \<times> 'a tc_scheme) option" where
  "simple_failover E s =
     (let (_, s) = connect E (tc_galera s) s in
      do { (ids, s) \<leftarrow> server_ids E (tc_galera s) s;
           ((bad, blocked), s) \<leftarrow> priority_stages E ids [2, 0, 3, 1] False s;
           if bad then Some (1, if blocked then snd (unblock_all_nodes E (tc_galera s) s) else s)
           else
             let (rval, s) = all_blocked_stage E s;
                 (_, s) = unblock_all_nodes E (tc_galera s) s
             in do { (bad, s) \<leftarrow> not_reached E ids 2 (c_sleep 15 s);
                     Some (if bad then (1, s) else (rval, close_rwsplit s)) } })"

text \<open>The result of \<open>simple_failover\<close> is added to a variable that is not used.\<close>

definition galera_priority :: "env \<Rightarrow> 'a tc_scheme \<Rightarrow> (int \<times> 'a tc_scheme) option" where
  "galera_priority E s =
     (let s = upd (tc_galera s) (\<lambda>ob. ob\<lparr>mn_verbose := False\<rparr>) s in
      do { (_, s) \<leftarrow> simple_failover E s; Some (tc_global_result s, s) })"

section \<open>mm\<close>

definition check_conf :: "env \<Rightarrow> nat \<Rightarrow> 'a tc_scheme \<Rightarrow> (int \<times> 'a tc_scheme) option" where
  "check_conf E blocked_node s =
     (let s = set_timeout 60 s;
          (_, s) = connect E (tc_repl s) s;
          (_, s) = connect_rwsplit E s;
          (_, s) = create_t1 E (tc_conn_rwsplit s) s
      in do { (r1, s) \<leftarrow> insert_into_t1 E (tc_conn_rwsplit s) 4 s;
              let s = c_sleep 30 (stop_timeout s);
              (r2, s) \<leftarrow> foreachM [0, 1]
                (\<lambda>i acc s. if i \<noteq> blocked_node
                   then do { (r, s) \<leftarrow> select_from_t1 E (mn_nodes (repl s) i) 4 (set_timeout 100 s); Some (acc + r, s) }
                   else Some (acc, s)) r1 s;
              (r3, s) \<leftarrow> select_from_t1 E (tc_conn_rwsplit s) 4 (set_timeout 100 s);
              let (r4, s) = execute_query E (tc_conn_rwsplit s) ''DROP TABLE t1'' s;
              let s = close_connections (tc_repl s) s;
              let s = mysql_close (tc_conn_rwsplit s) s;
              Some (r2 + r3 + r4, stop_timeout s) })"

text \<open>
  A reading of the status: a text that was not found leaves the array with the one of the last
  reading, which is passed along.
\<close>

definition read_status ::
  "env \<Rightarrow> string \<Rightarrow> string option \<Rightarrow> 'a tc_scheme \<Rightarrow> (string option \<times> 'a tc_scheme) option" where
  "read_status E server last_text s =
     do { ((_, v), s) \<leftarrow> get_maxadmin_param E (''show server '' @ server) ''Status:'' s;
          Some (case v of None \<Rightarrow> last_text | Some _ \<Rightarrow> v, s) }"

definition status_is ::
  "env \<Rightarrow> string \<Rightarrow> string \<Rightarrow> string option \<Rightarrow> 'a tc_scheme \<Rightarrow> (string option \<times> 'a tc_scheme) option" where
  "status_is E server status last_text s =
     do { (v, s) \<leftarrow> read_status E server last_text s;
          maxadmin_result \<leftarrow> v;
          Some (v, if strstr maxadmin_result status = None then add_result 1 s else s) }"

definition conf_counted :: "env \<Rightarrow> nat \<Rightarrow> 'a tc_scheme \<Rightarrow> 'a tc_scheme option" where
  "conf_counted E blocked_node s = do { (r, s) \<leftarrow> check_conf E blocked_node s; Some (add_result r s) }"

definition set_read_only :: "env \<Rightarrow> nat \<Rightarrow> string \<Rightarrow> 'a tc_scheme \<Rightarrow> 'a tc_scheme" where
  "set_read_only E i v s =
     (let (_, s) = connect E (tc_repl s) s;
          (_, s) = query_node E (tc_repl s) (''SET GLOBAL READ_ONLY='' @ v) i s
      in close_connections (tc_repl s) s)"

definition mm :: "env \<Rightarrow> 'a tc_scheme \<Rightarrow> (int \<times> 'a tc_scheme) option" where
  "mm E s =
     (let s = set_timeout 120 s;
          (_, s) = set_repl_user E (tc_repl s) s
      in do {
        (_, s) \<leftarrow> start_mm E s;
        (t, s) \<leftarrow> status_is E ''server1'' ''Slave, Running'' None (set_timeout 120 s);
        (t, s) \<leftarrow> status_is E ''server2'' ''Master, Running'' t (set_timeout 120 s);
        s \<leftarrow> conf_counted E 2 (set_timeout 120 s);
        let s = block_nodes E [0] (set_timeout 120 s);
        let s = set_timeout 120 (c_sleep 15 (stop_timeout s));
        (t, s) \<leftarrow> status_is E ''server1'' ''Down'' t s;
        s \<leftarrow> conf_counted E 0 (set_timeout 120 s);
        let s = c_sleep 15 (unblock_nodes E [0] (set_timeout 120 s));
        let s = c_sleep 15 (block_nodes E [1] (set_timeout 120 s));
        (t, s) \<leftarrow> status_is E ''server2'' ''Down'' t s;
        let s = set_read_only E 0 ''OFF'' (set_timeout 120 s);
        s \<leftarrow> conf_counted E 1 (set_timeout 120 (c_sleep 15 s));
        let s = c_sleep 15 (unblock_nodes E [1] s);
        let s = c_sleep 15 (set_read_only E 1 ''ON'' (set_timeout 120 s));
        s \<leftarrow> conf_counted E 2 (set_timeout 120 s);
        (t, s) \<leftarrow> status_is E ''server2'' ''Slave, Running'' t (set_timeout 60 s);
        (t, s) \<leftarrow> status_is E ''server1'' ''Master, Running'' t (set_timeout 60 s);
        Some (tc_global_result s, s) })"

section \<open>mm_mysqlmon\<close>

text \<open>\<open>maxadmin_result\<close> is an array of the function, unwritten when the status is not found.\<close>

definition mon_check_status :: "env \<Rightarrow> string \<times> string \<Rightarrow> 'a tc_scheme \<Rightarrow> 'a tc_scheme option" where
  "mon_check_status E = (\<lambda>(server, status) s.
     do { (_, s) \<leftarrow> status_is E server status None (set_timeout 120 s); Some s })"

text \<open>
  \<open>strcmp\<close> delivers the difference of the first two characters that differ, as the C library of the
  tests' platform does; the standard fixes its sign only.
\<close>

fun c_strcmp :: "string \<Rightarrow> string \<Rightarrow> int" where
  "c_strcmp [] [] = 0"
| "c_strcmp [] (d # ds) = - int (of_char d)"
| "c_strcmp (c # cs) [] = int (of_char c)"
| "c_strcmp (c # cs) (d # ds) = (if c = d then c_strcmp cs ds else int (of_char c) - int (of_char d))"

text \<open>The word behind the colon; a text that ends before it does is read past its end.\<close>

definition group_value :: "string \<Rightarrow> string option" where
  "group_value t =
     do { u \<leftarrow> strchr t (CHR '':'');
          let v = dropWhile is_space (tl u);
          if \<exists>c \<in> set v. is_space c then Some (takeWhile (\<lambda>c. \<not> is_space c) v) else None }"

definition mon_check_group :: "env \<Rightarrow> string \<times> string \<Rightarrow> 'a tc_scheme \<Rightarrow> 'a tc_scheme option" where
  "mon_check_group E = (\<lambda>(server, group) s.
     (let (out, s) = ssh_maxscale_output E True ''maxadmin show monitor MySQL-Monitor'' s in
      case Option.bind (Option.bind out (\<lambda>t. strstr t server)) (\<lambda>t. strstr t ''Master group'') of
        None \<Rightarrow> Some (add_result 1 s)
      | Some value \<Rightarrow> do { v \<leftarrow> group_value value; Some (add_result (c_strcmp group v) s) }))"

definition mon_change_master_sql :: "string \<Rightarrow> string" where
  "mon_change_master_sql ip =
     ''CHANGE MASTER TO master_host='' @ quote @ ip @ quote @ '', master_port=3306, master_log_file='' @ quote @
     ''mar-bin.000001'' @ quote @ '', master_log_pos=310, master_user='' @ quote @ ''repl'' @ quote @
     '', master_password='' @ quote @ ''repl'' @ quote @ '';START SLAVE''"

definition mon_change_master :: "env \<Rightarrow> nat \<times> nat \<Rightarrow> 'a tc_scheme \<Rightarrow> 'a tc_scheme" where
  "mon_change_master E = (\<lambda>(slave, master) s.
     snd (query_node E (tc_repl s) (mon_change_master_sql (mn_IP (repl s) master)) slave s))"

definition stop_all_sql :: string where
  "stop_all_sql = ''STOP SLAVE; RESET SLAVE ALL; RESET MASTER; SET GLOBAL read_only='' @ quote @ ''OFF'' @ quote"

definition stop_all_sql2 :: string where
  "stop_all_sql2 = ''STOP SLAVE; RESET SLAVE ALL; RESET MASTER;SET GLOBAL read_only='' @ quote @ ''OFF'' @ quote"

definition rewire :: "env \<Rightarrow> string \<Rightarrow> (nat \<times> nat) list \<Rightarrow> 'a tc_scheme \<Rightarrow> 'a tc_scheme option" where
  "rewire E sql pairs s =
     do { (_, s) \<leftarrow> execute_query_all_nodes E (tc_repl s) sql s;
          let (_, s) = connect E (tc_repl s) s;
          Some (do_loop pairs (mon_change_master E) s) }"

definition make_read_only :: "env \<Rightarrow> nat list \<Rightarrow> 'a tc_scheme \<Rightarrow> 'a tc_scheme" where
  "make_read_only E ids s =
     do_loop ids (\<lambda>i s. snd (query_node E (tc_repl s) (''SET GLOBAL read_only='' @ quote @ ''ON'' @ quote) i s)) s"

definition servers :: "string list" where
  "servers = [''server1'', ''server2'', ''server3'', ''server4'']"

text \<open>The status and the group of each of the four servers after two seconds; \<open>True\<close> is a master.\<close>

definition mon_expect :: "env \<Rightarrow> bool list \<Rightarrow> string list \<Rightarrow> 'a tc_scheme \<Rightarrow> 'a tc_scheme option" where
  "mon_expect E masters groups s =
     do { s \<leftarrow> do_loopM (zip servers (map (\<lambda>m. if m then ''Master, Running'' else ''Slave, Running'') masters))
                (mon_check_status E) (c_sleep 2 s);
          do_loopM (zip servers groups) (mon_check_group E) s }"

definition mm_mysqlmon :: "env \<Rightarrow> 'a tc_scheme \<Rightarrow> (int \<times> 'a tc_scheme) option" where
  "mm_mysqlmon E s =
     do { s \<leftarrow> rewire E stop_all_sql [(0, 1), (1, 2), (2, 0), (3, 2)] (set_timeout 120 s);
          s \<leftarrow> mon_expect E [True, True, True, False] [''1'', ''1'', ''1'', ''0''] s;
          let s = make_read_only E [0, 1] (set_timeout 120 s);
          s \<leftarrow> mon_expect E [False, False, True, False] [''1'', ''1'', ''1'', ''0''] s;
          s \<leftarrow> rewire E stop_all_sql2 [(0, 1), (1, 2), (2, 1), (3, 2)] (set_timeout 120 s);
          s \<leftarrow> mon_expect E [False, True, True, False] [''0'', ''1'', ''1'', ''0''] s;
          let s = make_read_only E [1] (set_timeout 120 s);
          s \<leftarrow> mon_expect E [False, False, True, False] [''0'', ''1'', ''1'', ''0''] s;
          s \<leftarrow> rewire E stop_all_sql2 [(0, 1), (1, 0), (2, 3), (3, 2)] (set_timeout 120 s);
          s \<leftarrow> mon_expect E [True, True, True, True] [''1'', ''1'', ''2'', ''2''] s;
          let s = make_read_only E [1, 3] (set_timeout 120 s);
          s \<leftarrow> mon_expect E [True, False, True, False] [''1'', ''1'', ''2'', ''2''] s;
          s \<leftarrow> rewire E (stop_all_sql2 @ '';'') [(1, 0), (2, 0), (3, 0)] s;
          (_, s) \<leftarrow> fix_replication E (tc_repl s) s;
          Some (tc_global_result s, s) }"

section \<open>pers_01\<close>

definition pers_step ::
  "env \<Rightarrow> string \<Rightarrow> nat \<times> int \<Rightarrow> string option \<Rightarrow> 'a tc_scheme \<Rightarrow> (string option \<times> 'a tc_scheme) option" where
  "pers_step E server = (\<lambda>(i, expected) result s.
     do { ((_, v), s) \<leftarrow> get_maxadmin_param E (''show server '' @ server @ int_str (int i + 1))
            ''Persistent measured pool size:'' s;
          let result = (case v of None \<Rightarrow> result | Some _ \<Rightarrow> v);
          t \<leftarrow> result;
          (pers_conn, _) \<leftarrow> scan_int t;
          Some (result, if pers_conn \<noteq> expected then add_result 1 s else s) })"

definition check_pers_conn :: "env \<Rightarrow> int list \<Rightarrow> string \<Rightarrow> 'a tc_scheme \<Rightarrow> 'a tc_scheme option" where
  "check_pers_conn E pers_conn_expected server s =
     do { (_, s) \<leftarrow> foreachM (zip [0..<4] pers_conn_expected) (pers_step E server) None s; Some s }"

definition check_pools :: "env \<Rightarrow> int list \<Rightarrow> int list \<Rightarrow> 'a tc_scheme \<Rightarrow> 'a tc_scheme option" where
  "check_pools E expected galera_expected s =
     do { s \<leftarrow> check_pers_conn E expected ''server'' s; check_pers_conn E galera_expected ''gserver'' s }"

definition pers_01 :: "env \<Rightarrow> 'a tc_scheme \<Rightarrow> (int \<times> 'a tc_scheme) option" where
  "pers_01 E s =
     (let (_, s) = restart_maxscale E (set_timeout 30 s);
          (rc, s) = create_connections E 70 True True True True s;
          s = set_timeout 20 (c_sleep 5 (add_result rc s))
      in do {
        s \<leftarrow> check_pools E [1, 5, 10, 30] [10, 15, 0, 0] s;
        let s = set_timeout 20 (c_sleep 10 (stop_timeout s));
        s \<leftarrow> check_pools E [1, 5, 10, 30] [10, 15, 0, 0] s;
        let s = set_timeout 20 (c_sleep 30 (stop_timeout s));
        s \<leftarrow> check_pools E [1, 5, 10, 0] [10, 0, 0, 0] s;
        let s = set_timeout 20 (c_sleep 30 (stop_timeout s));
        s \<leftarrow> check_pools E [1, 0, 0, 0] [10, 0, 0, 0] s;
        Some (tc_global_result s, s) })"

section \<open>script\<close>

definition block_sleep_unblock :: "env \<Rightarrow> cid \<Rightarrow> nat \<Rightarrow> nat \<Rightarrow> 'a tc_scheme \<Rightarrow> 'a tc_scheme" where
  "block_sleep_unblock E nodes i secs s =
     (let (_, s) = block_node E nodes i s;
          s = c_sleep 10 s;
          (_, s) = unblock_node E nodes i s
      in c_sleep secs s)"

definition test_script_monitor :: "env \<Rightarrow> cid \<Rightarrow> string \<Rightarrow> 'a tc_scheme \<Rightarrow> 'a tc_scheme" where
  "test_script_monitor E nodes expected_filename s =
     (let s = set_timeout 200 s;
          home = tc_access_homedir s;
          (_, s) = ssh_maxscale E True (''cd '' @ home @ '';truncate -s 0 script_output;'' @
                     ''chown maxscale:maxscale script_output'') s;
          s = c_sleep 10 s;
          s = block_sleep_unblock E nodes 0 10 s;
          s = block_sleep_unblock E nodes 1 10 s;
          (rc, s) = ssh_maxscale E False (''diff '' @ home @ ''/script_output '' @ expected_filename) s
      in if rc \<noteq> 0
         then let (_, s) = ssh_maxscale E True (''cat '' @ home @ ''/script_output'') s in add_result 1 s
         else s)"

definition create_script_cmd :: "string \<Rightarrow> string \<Rightarrow> string" where
  "create_script_cmd sudo home =
     sudo @ '' rm -rf '' @ home @ ''/script; mkdir '' @ home @ ''/script; echo '' @ dq @ ''echo '' @ [CHR 0x5C] @
     ''$* >> '' @ home @ ''/script_output'' @ dq @ '' > '' @ home @ ''/script/script.sh;             chmod a+x '' @ home @
     ''/script/script.sh; chmod a+x '' @ home @ ''; '' @ sudo @ '' chown maxscale:maxscale '' @ home @ ''/script -R''"

text \<open>A line of the expected output: the event, the node it is about, and the nodes in the list.\<close>

definition node_text :: "mnodes \<Rightarrow> nat \<Rightarrow> string" where
  "node_text ob i = ''['' @ mn_IP_private ob i @ '']:'' @ int_str (mn_port ob i)"

definition event_line :: "mnodes \<Rightarrow> string \<times> nat \<times> nat list \<Rightarrow> string" where
  "event_line ob = (\<lambda>(event, i, nodelist).
     ''--event='' @ event @ '' --initiator='' @ node_text ob i @ '' --nodelist='' @
     concat (map (\<lambda>k. (if k = hd nodelist then '''' else '','') @ node_text ob k) nodelist) @ [newline])"

definition script_events :: "(string \<times> nat \<times> nat list) list" where
  "script_events = [(''master_down'', 0, [1, 2, 3]), (''master_up'', 0, [0, 1, 2, 3]), (''slave_up'', 1, [0, 1, 2, 3])]"

definition script_events_galera :: "(string \<times> nat \<times> nat list) list" where
  "script_events_galera =
     [(''synced_down'', 0, [1, 2, 3]), (''synced_up'', 0, [0, 1, 2, 3]),
      (''synced_down'', 1, [0, 2, 3]), (''synced_up'', 1, [0, 1, 2, 3])]"

text \<open>A file that cannot be opened is a null pointer given to \<open>fprintf\<close>.\<close>

definition write_events ::
  "env \<Rightarrow> string \<Rightarrow> mnodes \<Rightarrow> (string \<times> nat \<times> nat list) list \<Rightarrow> 'a tc_scheme \<Rightarrow> 'a tc_scheme option" where
  "write_events E file ob evs s =
     (if fs_write E (trace s) file then Some (emit (EWriteFile file (concat (map (event_line ob) evs))) s) else None)"

definition copy_expected_cmd :: "'a tc_scheme \<Rightarrow> string" where
  "copy_expected_cmd s =
     ''scp -i '' @ tc_maxscale_keyfile s @ '' -o UserKnownHostsFile=/dev/null -o StrictHostKeyChecking=no '' @
     '' -o LogLevel=quiet script_output_expected* '' @ tc_access_user s @ ''@'' @ tc_maxscale_IP s @ '':'' @
     tc_access_homedir s @ ''/''"

definition script_test :: "env \<Rightarrow> 'a tc_scheme \<Rightarrow> (int \<times> 'a tc_scheme) option" where
  "script_test E s =
     (let s = set_timeout 100 s;
          (_, s) = ssh_maxscale E False (create_script_cmd (tc_access_sudo s) (tc_access_homedir s)) s;
          (_, s) = restart_maxscale E s
      in do {
        s \<leftarrow> write_events E ''script_output_expected'' (repl s) script_events s;
        s \<leftarrow> write_events E ''script_output_expected_galera'' (galera s) script_events_galera s;
        let (_, s) = c_system E (copy_expected_cmd s) s;
        let s = test_script_monitor E (tc_repl s) (tc_access_homedir s @ ''/script_output_expected'') s;
        let s = test_script_monitor E (tc_galera s) (tc_access_homedir s @ ''/script_output_expected_galera'') s;
        let s = set_timeout 200 s;
        let (_, s) = ssh_maxscale E True (''chmod a-x '' @ tc_access_homedir s @ ''/script/script.sh'') s;
        let s = block_sleep_unblock E (tc_repl s) 1 15 (c_sleep 3 s);
        let s = check_log_err E ''Cannot execute file'' True s;
        (_, s) \<leftarrow> check_maxscale_alive E s;
        Some (tc_global_result s, s) })"

end
