(* ===== verification/Monitor_Props.thy ===== *)
theory Monitor_Props
  imports Monitor_Tests Test_Lemmas Nodes_Props Watchdog_Props
begin

text \<open>
  What the routing and monitor tests decide: the comparison of the counters, the check of the
  replication groups, and a test whose failures are never reported.
\<close>

section \<open>Operations that keep the result\<close>

named_theorems result_kept

lemma result_kept_basic [result_kept]:
  "tc_global_result (snd (execute_query E c sql s)) = tc_global_result s"
  "tc_global_result (snd (connect_rwsplit E s)) = tc_global_result s"
  "tc_global_result (close_rwsplit s) = tc_global_result s"
  "tc_global_result (c_sleep n s) = tc_global_result s"
  "tc_global_result (snd (connect E this s)) = tc_global_result s"
  "tc_global_result (snd (block_node E this i s)) = tc_global_result s"
  "tc_global_result (snd (unblock_all_nodes E this s)) = tc_global_result s"
  "tc_global_result (upd this f s) = tc_global_result s"
  by (simp_all add: tc_config_extends(3)[OF extends_execute_query] connect_one_frame(1) close_rwsplit_def
      tc_config_extends(3)[OF extends_calls(4)] tc_node_step(3)[OF node_step_connect]
      tc_node_step(3)[OF node_step_block(1)] tc_node_step(3)[OF node_step_unblock_all] upd_def)

lemma result_kept_find_field: "find_field E c sql f s = Some (r, s') \<Longrightarrow> tc_global_result s' = tc_global_result s"
  by (rule tc_config_extends(3)[OF extends_find_field])

lemma result_kept_server_id: "get_server_id E this i s = Some (r, s') \<Longrightarrow> tc_global_result s' = tc_global_result s"
  by (auto simp: get_server_id_def split: if_split_asm elim!: bind_returns dest: result_kept_find_field)

lemma result_kept_server_ids:
  assumes "server_ids E this s = Some (ids, s')"
  shows "tc_global_result s' = tc_global_result s"
  by (rule foreachM_inv[OF assms[unfolded server_ids_def], where I = "\<lambda>_ t. tc_global_result t = tc_global_result s"])
    (auto elim!: bind_returns dest: result_kept_server_id)

lemma result_kept_priority: "priority_server_id E node_id s = Some (r, s') \<Longrightarrow> tc_global_result s' = tc_global_result s"
  by (auto simp: priority_server_id_def Let_def split_def result_kept split: if_split_asm elim!: bind_returns
      dest!: result_kept_find_field)

lemma result_kept_not_reached: "not_reached E ids i s = Some (r, s') \<Longrightarrow> tc_global_result s' = tc_global_result s"
  by (auto simp: not_reached_def Let_def split_def result_kept split: if_split_asm elim!: bind_returns
      dest!: result_kept_priority)

lemma result_kept_stages:
  "priority_stages E ids is blocked s = Some (r, s') \<Longrightarrow> tc_global_result s' = tc_global_result s"
proof (induction "is" arbitrary: blocked s)
  case (Cons i "is")
  then show ?case
    by (auto simp: Let_def split_def result_kept split: if_split_asm elim!: bind_returns
        dest!: result_kept_not_reached Cons.IH)
qed simp

lemma result_kept_failover: "simple_failover E s = Some (r, s') \<Longrightarrow> tc_global_result s' = tc_global_result s"
  by (auto simp: simple_failover_def all_blocked_stage_def Let_def split_def result_kept split: if_split_asm
      elim!: bind_returns dest!: result_kept_server_ids result_kept_stages result_kept_not_reached)

text \<open>
  C28. \<open>galera_priority\<close> never reports a failure: whichever nodes answer while others are blocked, its
  result is the one the constructor left.
\<close>

theorem galera_priority_silent:
  assumes "galera_priority E s = Some (rc, s')"
  shows "rc = tc_global_result s \<and> tc_global_result s' = tc_global_result s"
  using assms
  by (auto simp: galera_priority_def Let_def elim!: bind_returns dest!: result_kept_failover)
    (simp_all add: result_kept)

definition four_nodes :: tc where
  "four_nodes = blank_tc\<lparr>objs := \<lambda>_. blank_nodes\<lparr>mn_N := 4\<rparr>\<rparr>"

lemma dead_server_id: "\<exists>s'. get_server_id dead_env this i s = Some (- 1, s')"
  using dead_find_field[of "mn_nodes (objs s this) i" "''SELECT @@server_id''" "''@@server_id''" s]
  by (auto simp: get_server_id_def)

lemma dead_server_ids:
  "\<exists>ids' s'. foreachM is (\<lambda>i ids s. do { (id, s) \<leftarrow> get_server_id dead_env this i s; Some (ids @ [int_str id], s) }) ids s
     = Some (ids', s') \<and> length ids' = length ids + length is"
proof (induction "is" arbitrary: ids s)
  case (Cons i "is")
  obtain u where u: "get_server_id dead_env this i s = Some (- 1, u)" using dead_server_id by blast
  show ?case using Cons.IH[of "ids @ [int_str (- 1)]" u] by (simp add: u)
qed simp

lemma dead_not_reached: "i < length ids \<Longrightarrow> \<exists>s'. not_reached dead_env ids i s = Some (True, s')"
  by (simp add: not_reached_def id_at_def connect_rwsplit_def mysql_errno_def split_def Let_def dead_env_def)

lemma galera_priority_runs: "\<exists>rc s'. galera_priority dead_env four_nodes = Some (rc, s')"
proof -
  define s0 where "s0 = upd (tc_galera four_nodes) (\<lambda>ob. ob\<lparr>mn_verbose := False\<rparr>) four_nodes"
  define s1 where "s1 = snd (connect dead_env (tc_galera s0) s0)"
  have step: "node_step (tc_galera s0) s0 s1" unfolding s1_def by (rule node_step_connect)
  have "tc_galera s1 = tc_galera s0" by (rule tc_node_step(2)[OF step])
  moreover have "node_ids (objs s0 (tc_galera s0)) = [0..<4]"
    by (simp add: s0_def four_nodes_def blank_tc_def upd_def node_ids_def)
  ultimately have "length (node_ids (objs s1 (tc_galera s1))) = 4" using node_step_node_ids[OF step] by simp
  then obtain ids s2 where i: "server_ids dead_env (tc_galera s1) s1 = Some (ids, s2)" "length ids = 4"
    using dead_server_ids[of "node_ids (objs s1 (tc_galera s1))" "tc_galera s1" "[]" s1] by (auto simp: server_ids_def)
  obtain s3 where n: "not_reached dead_env ids 2 s2 = Some (True, s3)" using dead_not_reached[of 2 ids s2] i(2) by auto
  show ?thesis
    using i n by (simp add: galera_priority_def simple_failover_def Let_def split_def s1_def s0_def)
qed

lemma galera_priority_silent_witness:
  "\<exists>rc s'. galera_priority dead_env four_nodes = Some (rc, s') \<and> rc = tc_global_result four_nodes \<and>
     tc_global_result s' = tc_global_result four_nodes"
  using galera_priority_runs galera_priority_silent[of dead_env four_nodes] by blast

section \<open>The groups of the monitor\<close>

lemma c_strcmp_swap: "c_strcmp a b = - c_strcmp b a"
  by (induction a b rule: c_strcmp.induct) auto

text \<open>The group MaxScale shows for a server.\<close>

definition shown_group :: "env \<Rightarrow> string \<Rightarrow> 'a tc_scheme \<Rightarrow> string option" where
  "shown_group E server s =
     do { t \<leftarrow> fst (ssh_maxscale_output E True ''maxadmin show monitor MySQL-Monitor'' s);
          u \<leftarrow> strstr t server;
          v \<leftarrow> strstr u ''Master group'';
          group_value v }"

lemma mon_check_group_shown:
  assumes "mon_check_group E (server, a) s = Some s'" "shown_group E server s = Some w"
  shows "tc_global_result s' = tc_global_result s + c_strcmp a w"
  using assms
  by (auto simp: mon_check_group_def shown_group_def ssh_maxscale_output_eq Let_def split: option.splits
      elim!: bind_returns)

text \<open>
  The check of the groups adds the value of \<open>strcmp\<close> to the result, so that two servers that show
  each other's group leave the result as it was: neither failure is reported.
\<close>

theorem swapped_groups_cancel:
  assumes "mon_check_group E (server1, a) s = Some t" and "shown_group E server1 s = Some b"
    and "mon_check_group E (server2, b) t = Some u" and "shown_group E server2 t = Some a"
  shows "tc_global_result u = tc_global_result s"
  using mon_check_group_shown[OF assms(1,2)] mon_check_group_shown[OF assms(3,4)] c_strcmp_swap[of a b] by simp

definition group_env :: env where
  "group_env = dead_env\<lparr>sh_read := \<lambda>_ _.
     Some (''server1 Master group: 0 server4 Master group: 1 '', 0)\<rparr>"

lemma swapped_groups_cancel_witness:
  "\<exists>t u. mon_check_group group_env (''server1'', ''1'') blank_tc = Some t \<and>
     mon_check_group group_env (''server4'', ''0'') t = Some u \<and> tc_global_result u = tc_global_result blank_tc"
proof -
  have shown: "shown_group group_env ''server1'' s = Some ''0''" "shown_group group_env ''server4'' s = Some ''1''"
    for s :: tc
    by (simp_all add: shown_group_def ssh_maxscale_output_eq group_env_def group_value_def is_space_def)
  have ok: "mon_check_group group_env (srv, g) s \<noteq> None" if "shown_group group_env srv s \<noteq> None" for srv g and s :: tc
    using that by (auto simp: mon_check_group_def shown_group_def Let_def split_def split: option.splits elim!: bind_returns)
  obtain t where t: "mon_check_group group_env (''server1'', ''1'') blank_tc = Some t" using ok shown by fastforce
  obtain u where u: "mon_check_group group_env (''server4'', ''0'') t = Some u" using ok shown by fastforce
  show ?thesis using swapped_groups_cancel[OF t shown(1) u shown(2)] t u by blast
qed

section \<open>The counters\<close>

lemma to_int_small: "int32_ok x \<Longrightarrow> to_int x = x"
  unfolding to_int_def int32_ok_def by (simp add: sint_sbintrunc' signed_take_bit_int_eq_self)

definition taken_over :: "counters \<Rightarrow> counters \<Rightarrow> nat \<Rightarrow> counters" where
  "taken_over new old n = (\<lambda>i. if i < n then fst new i else fst old i, \<lambda>i. if i < n then snd new i else snd old i)"

lemma com_select_loop_eq:
  assumes "\<forall>i < n. int32_ok (fst new i - fst old i)" and "\<forall>j \<le> n. int32_ok (\<Sum>i<j. fst new i - fst old i)" and "k \<le> n"
  shows "com_select_loop new [k..<n] bad (\<Sum>i<k. fst new i - fst old i) (taken_over new old k) =
    Some ((bad \<or> (\<exists>i. k \<le> i \<and> i < n \<and> snd new i \<noteq> snd old i), \<Sum>i<n. fst new i - fst old i), taken_over new old n)"
  using assms(3)
proof (induction "n - k" arbitrary: k bad)
  case 0
  then have "n = k" by simp
  then show ?case by auto
next
  case (Suc d)
  then have k: "k < n" and up: "[k..<n] = k # [Suc k..<n]" by (simp_all add: upt_conv_Cons)
  obtain ns ni where new: "new = (ns, ni)" by (cases new)
  have step: "(fst (taken_over new old k))(k := ns k) = fst (taken_over new old (Suc k))"
    "(snd (taken_over new old k))(k := ni k) = snd (taken_over new old (Suc k))"
    by (auto simp: taken_over_def new fun_eq_iff)
  have "int32_ok (\<Sum>i<Suc k. fst new i - fst old i)" using assms(2) k by (metis Suc_leI)
  then have ok: "int32_ok ((\<Sum>i<k. fst new i - fst old i) + (ns k - fst old k))" by (simp add: new)
  have here: "to_int (ns k - fst old k) = ns k - fst old k" using assms(1) k new to_int_small by auto
  have rest: "(bad \<or> snd new k \<noteq> snd old k) \<or> (\<exists>i. Suc k \<le> i \<and> i < n \<and> snd new i \<noteq> snd old i) \<longleftrightarrow>
      bad \<or> (\<exists>i. k \<le> i \<and> i < n \<and> snd new i \<noteq> snd old i)"
    using k by (metis Suc_leD Suc_leI le_neq_implies_less order_refl)
  have IH: "com_select_loop new [Suc k..<n] (bad \<or> snd new k \<noteq> snd old k) (\<Sum>i<Suc k. fst new i - fst old i)
      (taken_over new old (Suc k)) =
    Some (((bad \<or> snd new k \<noteq> snd old k) \<or> (\<exists>i. Suc k \<le> i \<and> i < n \<and> snd new i \<noteq> snd old i),
      \<Sum>i<n. fst new i - fst old i), taken_over new old n)"
    using Suc.hyps(2) k by (intro Suc.hyps(1)) auto
  have "com_select_loop new [k..<n] bad (\<Sum>i<k. fst new i - fst old i) (taken_over new old k) =
    com_select_loop new [Suc k..<n] (bad \<or> snd new k \<noteq> snd old k) (\<Sum>i<Suc k. fst new i - fst old i)
      (taken_over new old (Suc k))"
    using ok here step unfolding up by (simp add: new taken_over_def)
  also note IH
  finally show ?case by (simp only: rest)
qed



lemma check_com_insert_first_node:
  "fst new 0 = fst new' 0 \<Longrightarrow> snd new 0 = snd new' 0 \<Longrightarrow>
   fst (check_com_insert new old expected) = fst (check_com_insert new' old expected)"
  by (simp add: check_com_insert_def Let_def)

end
