(* ===== verification/Change_Master.thy ===== *)
theory Change_Master
  imports Test_Checks
begin

text \<open>
  \<open>binlog_change_master.cpp\<close>: transactions run in a thread while the main thread rotates the logs of
  the master and then blocks it; the thread reacts by making node 2 the master and repeating the
  transaction. A turn of the thread is atomic; how many turns it gets while the main thread
  sleeps is an argument.
\<close>

section \<open>A transaction\<close>

definition N_INSERTS :: int where
  "N_INSERTS = 100"

text \<open>The statements in order, up to the first that fails.\<close>

fun run_statements :: "env \<Rightarrow> conn option \<Rightarrow> string list \<Rightarrow> 'a world_scheme \<Rightarrow> int \<times> 'a world_scheme" where
  "run_statements E c [] s = (0, s)"
| "run_statements E c (sql # sqls) s =
     (let (rc, s) = execute_query E c sql s in if rc \<noteq> 0 then (rc, s) else run_statements E c sqls s)"

definition transaction_sql :: "int \<Rightarrow> string list" where
  "transaction_sql N = [''START TRANSACTION'', ''SET autocommit = 0'', create_insert_string N_INSERTS N, ''COMMIT'']"

definition transaction :: "env \<Rightarrow> conn option \<Rightarrow> int \<Rightarrow> 'a world_scheme \<Rightarrow> int \<times> 'a world_scheme" where
  "transaction E c N s = run_statements E c (transaction_sql N) s"

section \<open>A new master\<close>

text \<open>\<open>%06d\<close>\<close>

definition pad6 :: "int \<Rightarrow> string" where
  "pad6 i =
     (let digits = nat_str (nat (abs i))
      in if i < 0 then ''-'' @ replicate (5 - length digits) (CHR ''0'') @ digits
         else replicate (6 - length digits) (CHR ''0'') @ digits)"

definition setup_slave1 :: "string \<Rightarrow> string \<Rightarrow> string \<Rightarrow> int \<Rightarrow> string" where
  "setup_slave1 host log_file log_pos port =
     (let gap = '','' @ replicate 17 (CHR '' '')
      in ''change master to MASTER_HOST='' @ quote @ host @ quote @ gap @ ''MASTER_USER='' @ quote @ ''repl'' @ quote @
         gap @ ''MASTER_PASSWORD='' @ quote @ ''repl'' @ quote @ gap @ ''MASTER_LOG_FILE='' @ quote @ log_file @ quote @
         gap @ ''MASTER_LOG_POS='' @ log_pos @ gap @ ''MASTER_PORT='' @ int_str port)"

text \<open>The name up to the dot and the number behind it; without them the function has no result.\<close>

definition next_log_file :: "string \<Rightarrow> (string \<times> int) option" where
  "next_log_file log_file =
     do { p \<leftarrow> strchr log_file (CHR ''.'');
          (pd, _) \<leftarrow> scan_int (tl p);
          Some (cut_at log_file (CHR ''.'') @ ''.'' @ pad6 (pd + 1), pd) }"

definition open_binlog_counted :: "env \<Rightarrow> 'a tc_scheme \<Rightarrow> conn option \<times> 'a tc_scheme" where
  "open_binlog_counted E s =
     (let (binlog, s) = open_conn_no_db E (tc_binlog_port s) (tc_maxscale_IP s) (mn_user_name (repl s))
                          (mn_password (repl s)) (tc_ssl s) s
      in (binlog, add_result (int (mysql_errno E binlog s)) s))"

text \<open>
  \<open>select_new_master\<close>; its value is not used. A field that is not delivered is printed from an array
  that was not written.
\<close>

definition master_status :: "env \<Rightarrow> conn option \<Rightarrow> 'a tc_scheme \<Rightarrow> ((string \<times> string) \<times> 'a tc_scheme) option" where
  "master_status E c s =
     do { ((_, f), s) \<leftarrow> find_field E c ''show master status'' ''File'' s;
          ((_, p), s) \<leftarrow> find_field E c ''show master status'' ''Position'' s;
          file \<leftarrow> f;
          pos \<leftarrow> p;
          Some ((file, pos), s) }"

definition point_to_master :: "env \<Rightarrow> conn option \<Rightarrow> string \<Rightarrow> int \<Rightarrow> 'a tc_scheme \<Rightarrow> 'a tc_scheme option" where
  "point_to_master E binlog log_file_new pd s =
     (let (_, s) = try_query E (mn_nodes (repl s) 2) ''reset master'' s;
          s = do_loop [0..<nat (pd + 1)] (\<lambda>_ s. snd (try_query E (mn_nodes (repl s) 2) ''flush logs'' s)) s;
          (_, s) = try_query E binlog ''stop slave'' s;
          s = mysql_close binlog s;
          (binlog, s) = open_binlog_counted E s
      in do {
        (_, s) \<leftarrow> try_query_fmt E binlog (setup_slave1 (mn_IP (repl s) 2) log_file_new ''4'' (mn_port (repl s) 2)) s;
        let (_, s) = try_query E binlog ''start slave'' s;
        Some (close_connections (tc_repl s) s) })"

definition select_new_master :: "env \<Rightarrow> 'a tc_scheme \<Rightarrow> 'a tc_scheme option" where
  "select_new_master E s =
     (let (_, s) = connect E (tc_repl s) s;
          (_, s) = try_query E (mn_nodes (repl s) 2) ''stop slave;'' s;
          (_, s) = try_query E (mn_nodes (repl s) 2) ''RESET slave all;'' s
      in do {
        (_, s) \<leftarrow> master_status E (mn_nodes (repl s) 2) s;
        let (binlog, s) = open_binlog_counted E s;
        ((maxscale_log_file, maxscale_log_pos), s) \<leftarrow> master_status E binlog s;
        if maxscale_log_file = [] \<or> maxscale_log_pos = [] then Some (add_result 1 s)
        else do {
          (log_file_new, pd) \<leftarrow> next_log_file maxscale_log_file;
          point_to_master E binlog log_file_new pd s } })"

section \<open>The transaction thread\<close>

record trans_state =
  ts_conn :: "conn option"
  i_trans :: int
  failed_transaction_num :: int
  ts_master :: nat

definition open_master :: "env \<Rightarrow> nat \<Rightarrow> 'a tc_scheme \<Rightarrow> conn option \<times> 'a tc_scheme" where
  "open_master E master s =
     (let (c, s) = open_conn_db_timeout E (mn_port (repl s) master) (mn_IP (repl s) master) ''test''
                     (mn_user_name (repl s)) (mn_password (repl s)) 20 (mn_ssl (repl s)) s
      in (c, add_result (int (mysql_errno E c s)) s))"

definition trans_start :: "env \<Rightarrow> 'a tc_scheme \<Rightarrow> trans_state \<times> 'a tc_scheme" where
  "trans_start E s =
     (let (c, s) = open_master E 0 s;
          (_, s) = create_t1 E c s
      in (\<lparr>ts_conn = c, i_trans = 0, failed_transaction_num = 0, ts_master = 0\<rparr>, s))"

text \<open>After a failure the number is decremented and incremented again: the transaction is repeated.\<close>

definition trans_turn :: "env \<Rightarrow> trans_state \<Rightarrow> 'a tc_scheme \<Rightarrow> (trans_state \<times> 'a tc_scheme) option" where
  "trans_turn E st s =
     (let (trans_result, s) = transaction E (ts_conn st) (i_trans st) s in
      if trans_result \<noteq> 0
      then let st = st\<lparr>failed_transaction_num := i_trans st\<rparr>;
               s = mysql_close (ts_conn st) s
           in do { s \<leftarrow> select_new_master E s;
                   let (c, s) = open_master E 2 s;
                   let st = st\<lparr>ts_master := 2, ts_conn := c, i_trans := i_trans st - 1\<rparr>;
                   Some (st\<lparr>i_trans := i_trans st + 1\<rparr>, s) }
      else Some (st\<lparr>i_trans := i_trans st + 1\<rparr>, s))"

fun trans_turns :: "env \<Rightarrow> nat \<Rightarrow> trans_state \<Rightarrow> 'a tc_scheme \<Rightarrow> (trans_state \<times> 'a tc_scheme) option" where
  "trans_turns E 0 st s = Some (st, s)"
| "trans_turns E (Suc n) st s = do { (st, s) \<leftarrow> trans_turn E st s; trans_turns E n st s }"

definition trans_end :: "trans_state \<Rightarrow> trans_state" where
  "trans_end st = st\<lparr>i_trans := i_trans st - 1\<rparr>"

section \<open>The main thread\<close>

text \<open>The rows of one transaction on a slave; a count that is not delivered keeps the last one.\<close>

definition check_transaction ::
  "env \<Rightarrow> int \<Rightarrow> nat \<Rightarrow> int \<Rightarrow> string option \<times> int option \<Rightarrow> 'a tc_scheme
   \<Rightarrow> ((string option \<times> int option) \<times> 'a tc_scheme) option" where
  "check_transaction E failed i_n j = (\<lambda>(rep, rep_d) s.
     do { ((_, v), s) \<leftarrow> find_field E (mn_nodes (repl s) i_n) (''select count(*) from t1 where fl='' @ int_str j @ '';'') ''count(*)'' s;
          let rep = (case v of None \<Rightarrow> rep | Some _ \<Rightarrow> v);
          r \<leftarrow> rep;
          let rep_d = (case scan_int r of Some (n, _) \<Rightarrow> Some n | None \<Rightarrow> rep_d);
          d \<leftarrow> rep_d;
          let s = (if d \<noteq> N_INSERTS \<and> j \<noteq> failed - 1 then add_result 1 s else s);
          let s = (if j = failed - 1 \<and> d \<noteq> 0 \<and> d \<noteq> N_INSERTS then add_result 1 s else s);
          Some ((rep, rep_d), s) })"

definition check_transactions :: "env \<Rightarrow> trans_state \<Rightarrow> 'a tc_scheme \<Rightarrow> 'a tc_scheme option" where
  "check_transactions E st s =
     do { (_, s) \<leftarrow> foreachM [3..<nat (mn_N (repl s))]
            (\<lambda>i_n. foreachM (map int [0..<nat (i_trans st)]) (check_transaction E (failed_transaction_num st) i_n))
            (None, None) s;
          Some s }"

text \<open>The turns while the main thread sleeps after each rotation of the logs.\<close>

fun flush_master :: "env \<Rightarrow> nat list \<Rightarrow> trans_state \<Rightarrow> 'a tc_scheme \<Rightarrow> (trans_state \<times> 'a tc_scheme) option" where
  "flush_master E [] st s = Some (st, s)"
| "flush_master E (k # ks) st s =
     (let (_, s) = query_node E (tc_repl s) ''flush logs'' 0 s in
      do { (st, s) \<leftarrow> trans_turns E k st (c_sleep 15 s); flush_master E ks st s })"

definition prepare_change :: "env \<Rightarrow> 'a tc_scheme \<Rightarrow> 'a tc_scheme option" where
  "prepare_change E s =
     (let (_, s) = connect E (tc_repl s) (set_timeout 3000 s);
          (_, s) = query_node E (tc_repl s) ''DROP TABLE IF EXISTS t1;'' 0 s;
          s = close_connections (tc_repl s) s;
          (_, s) = connect E (tc_repl s) (c_sleep 5 s)
      in do { (_, s) \<leftarrow> execute_query_all_nodes E (tc_repl s) ''STOP SLAVE'' s;
              (_, s) \<leftarrow> execute_query_all_nodes E (tc_repl s) ''RESET SLAVE ALL'' s;
              (_, s) \<leftarrow> execute_query_all_nodes E (tc_repl s) ''RESET MASTER'' s;
              (_, s) \<leftarrow> start_binlog E s;
              Some s })"

definition binlog_change_master ::
  "env \<Rightarrow> (nat \<Rightarrow> nat) \<Rightarrow> nat \<Rightarrow> nat \<Rightarrow> 'a tc_scheme \<Rightarrow> (int \<times> 'a tc_scheme) option" where
  "binlog_change_master E turns before_block after_block s =
     do { s \<leftarrow> prepare_change E s;
          let (st, s) = trans_start E s;
          let (_, s) = connect E (tc_repl s) (stop_timeout s);
          (st, s) \<leftarrow> flush_master E (map turns [0..<(if tc_smoke s then 2 else 5)]) st s;
          (st, s) \<leftarrow> trans_turns E before_block st (c_sleep 15 s);
          let (_, s) = block_node E (tc_repl s) 0 s;
          (st, s) \<leftarrow> trans_turns E after_block st (c_sleep 30 (stop_timeout s));
          let st = trans_end st;
          let (_, s) = connect E (tc_repl s) (c_sleep 30 s);
          s \<leftarrow> check_transactions E st s;
          let s = close_connections (tc_repl s) s;
          Some (tc_global_result s, s) }"

end
