(* ===== verification/Change_Props.thy ===== *)
theory Change_Props
  imports Change_Master Test_Lemmas Nodes_Props Watchdog_Props
begin

text \<open>
  The transaction thread of \<open>binlog_change_master\<close> and the check of what the slaves have received.
\<close>

section \<open>A transaction\<close>

lemma run_statements_sound:
  assumes "run_statements E c sqls s = (rc, s')"
  shows "extends s s' \<and> (rc = 0 \<or> rc = 1) \<and> (rc = 0 \<longrightarrow> (\<forall>sql \<in> set sqls. EQuery c sql \<in> set (drop (length (trace s)) (trace s'))))"
  using assms
proof (induction sqls arbitrary: s)
  case (Cons sql sqls)
  let ?t = "emits (statement_events E (trace s) c sql) s"
  show ?case
  proof (cases "accepted E (trace s) c sql")
    case False
    with Cons.prems show ?thesis by (auto simp: execute_query_def execute_query1_effect)
  next
    case True
    then have r: "run_statements E c sqls ?t = (rc, s')"
      using Cons.prems by (simp add: execute_query_def execute_query1_effect)
    from Cons.IH[OF r] obtain es where es: "s' = emits es ?t" "rc = 0 \<or> rc = 1"
      and q: "rc = 0 \<longrightarrow> (\<forall>q \<in> set sqls. EQuery c q \<in> set (drop (length (trace ?t)) (trace s')))"
      by (auto simp: extends_def)
    have "EQuery c sql \<in> set (statement_events E (trace s) c sql)"
      using True by (auto simp: accepted_def statement_events_def)
    with es q show ?thesis by (auto simp del: emits_emits) (auto simp: emits_emits)
  qed
qed simp

definition commits :: "'a world_scheme \<Rightarrow> nat" where
  "commits s = length (filter (\<lambda>e. \<exists>c. e = EQuery c ''COMMIT'') (trace s))"

lemma transaction_commits:
  assumes "transaction E c N s = (rc, s')"
  shows "extends s s' \<and> commits s + (if rc = 0 then 1 else 0) \<le> commits s'"
proof -
  from run_statements_sound[OF assms[unfolded transaction_def]] obtain es where es: "trace s' = trace s @ es"
    and e: "extends s s'" and q: "rc = 0 \<longrightarrow> EQuery c ''COMMIT'' \<in> set es"
    by (auto simp: extends_def transaction_sql_def)
  have "1 \<le> length (filter (\<lambda>e. \<exists>c. e = EQuery c ''COMMIT'') es)" if "rc = 0"
    using that q by (auto simp: Suc_le_eq filter_empty_conv)
  with es e show ?thesis by (auto simp: commits_def)
qed

section \<open>The log of the thread\<close>

definition grows :: "'a world_scheme \<Rightarrow> 'a world_scheme \<Rightarrow> bool" where
  "grows s t \<longleftrightarrow> (\<exists>es. trace t = trace s @ es)"

lemma grows_refl [simp]: "grows s s"
  by (simp add: grows_def)

lemma grows_trans: "grows s t \<Longrightarrow> grows t u \<Longrightarrow> grows s u"
  by (auto simp: grows_def)

lemma grows_commits: "grows s t \<Longrightarrow> commits s \<le> commits t"
  by (auto simp: grows_def commits_def)

lemma grows_extends: "extends s t \<Longrightarrow> grows s t"
  by (auto simp: grows_def extends_def)

lemma grows_node_step: "node_step this s t \<Longrightarrow> grows s t"
  by (auto simp: grows_def node_step_def)

lemma grows_add_result [simp]: "grows s (add_result r t) = grows s t" "grows (add_result r s) t = grows s t"
  by (simp_all add: grows_def)

lemma grows_try_query: "grows s (snd (try_query E c sql s))"
  by (simp add: try_query_effect Let_def grows_extends)

lemma grows_try_query_fmt: "try_query_fmt E c f s = Some (r, t) \<Longrightarrow> grows s t"
  by (auto simp: try_query_fmt_def elim!: bind_returns) (metis grows_try_query snd_conv)

lemma grows_do_loop: "(\<And>i s. grows s (f i s)) \<Longrightarrow> grows s (do_loop is f s)"
  by (rule do_loop_inv[where I = "\<lambda>t. grows s t"]) (auto intro: grows_trans)

lemma grows_open_binlog: "grows s (snd (open_binlog_counted E s))"
  by (simp add: open_binlog_counted_def Let_def split_def grows_extends log_extends)

lemma grows_open_master: "grows s (snd (open_master E m s))"
  by (simp add: open_master_def Let_def split_def grows_extends log_extends)

lemma grows_master_status: "master_status E c s = Some (r, t) \<Longrightarrow> grows s t"
  by (auto simp: master_status_def elim!: bind_returns dest!: extends_find_field intro: grows_extends extends_trans)

lemma grows_mysql_close: "grows s (mysql_close c s)"
  by (simp add: grows_extends)

lemmas grows_chain = grows_try_query[THEN grows_trans[rotated]] grows_open_binlog[THEN grows_trans[rotated]]
  grows_open_master[THEN grows_trans[rotated]] grows_do_loop[THEN grows_trans[rotated]]
  grows_extends[OF extends_calls(6), THEN grows_trans[rotated]]
  grows_node_step[OF node_step_connect, THEN grows_trans[rotated]]
  grows_node_step[OF node_step_close_connections, THEN grows_trans[rotated]]

lemma grows_point_to_master:
  assumes "point_to_master E binlog file pd s = Some s'"
  shows "grows s s'"
  using assms unfolding point_to_master_def Let_def split_def
  by (elim bind_returns)
    (auto simp del: tc_mysql_close dest!: grows_try_query_fmt intro!: grows_chain grows_refl grows_try_query
      elim!: grows_trans[rotated])

lemma grows_select_new_master:
  assumes "select_new_master E s = Some s'"
  shows "grows s s'"
proof -
  define s1 where "s1 = snd (connect E (tc_repl s) s)"
  define s2 where "s2 = snd (try_query E (mn_nodes (repl s1) 2) ''stop slave;'' s1)"
  define s3 where "s3 = snd (try_query E (mn_nodes (repl s2) 2) ''RESET slave all;'' s2)"
  have "grows s s3" unfolding s3_def s2_def s1_def by (intro grows_chain grows_refl)
  moreover have "\<exists>r s4. master_status E (mn_nodes (repl s3) 2) s3 = Some (r, s4) \<and>
    (\<exists>f p s6. master_status E (fst (open_binlog_counted E s4)) (snd (open_binlog_counted E s4)) = Some ((f, p), s6) \<and>
      (s' = add_result 1 s6 \<or> (\<exists>new pd. point_to_master E (fst (open_binlog_counted E s4)) new pd s6 = Some s')))"
    using assms unfolding select_new_master_def s3_def s2_def s1_def
    by (auto simp: Let_def split_def split: if_split_asm elim!: bind_returns)
  then obtain r s4 f p s6 where m: "master_status E (mn_nodes (repl s3) 2) s3 = Some (r, s4)"
    and k: "master_status E (fst (open_binlog_counted E s4)) (snd (open_binlog_counted E s4)) = Some ((f, p), s6)"
      "s' = add_result 1 s6 \<or> (\<exists>new pd. point_to_master E (fst (open_binlog_counted E s4)) new pd s6 = Some s')"
    by blast
  moreover from m have "grows s3 s4" by (rule grows_master_status)
  moreover from k have "grows s4 s'"
    using grows_open_binlog[of s4 E]
    by (auto dest!: grows_master_status grows_point_to_master intro: grows_trans)
  ultimately show ?thesis by (meson grows_trans)
qed

section \<open>The turns of the thread\<close>

text \<open>What a run of turns from \<open>(st, s)\<close> to \<open>(st', s')\<close> has done.\<close>

definition turns_done :: "nat \<Rightarrow> trans_state \<Rightarrow> 'a world_scheme \<Rightarrow> trans_state \<Rightarrow> 'a world_scheme \<Rightarrow> bool" where
  "turns_done n st s st' s' \<longleftrightarrow>
     i_trans st \<le> i_trans st' \<and> i_trans st' \<le> i_trans st + int n \<and>
     i_trans st' - i_trans st \<le> int (commits s') - int (commits s) \<and> commits s \<le> commits s' \<and>
     (failed_transaction_num st' = failed_transaction_num st \<and> ts_master st' = ts_master st \<or>
      i_trans st \<le> failed_transaction_num st' \<and> failed_transaction_num st' \<le> i_trans st' \<and> ts_master st' = 2)"

lemma trans_turn_done:
  assumes "trans_turn E st s = Some (st', s')"
  shows "turns_done 1 st s st' s'"
proof -
  obtain rc t where r: "transaction E (ts_conn st) (i_trans st) s = (rc, t)" by fastforce
  from transaction_commits[OF r] have c: "commits s + (if rc = 0 then 1 else 0) \<le> commits t" by simp
  show ?thesis
  proof (cases "rc = 0")
    case True
    with assms r c show ?thesis by (auto simp: trans_turn_def turns_done_def)
  next
    case False
    with assms r obtain u where u: "select_new_master E (mysql_close (ts_conn st) t) = Some u"
      and s': "s' = snd (open_master E 2 u)"
      and st': "i_trans st' = i_trans st" "failed_transaction_num st' = i_trans st" "ts_master st' = 2"
      by (auto simp: trans_turn_def Let_def split_def elim!: bind_returns)
    have "grows t s'"
      using grows_select_new_master[OF u] grows_mysql_close[of t "ts_conn st"] grows_open_master[of u E 2]
      unfolding s' by (meson grows_trans)
    with c False st' show ?thesis using grows_commits[of t s'] by (simp add: turns_done_def)
  qed
qed


definition blank_trans :: trans_state where
  "blank_trans = \<lparr>ts_conn = Some 1, i_trans = 0, failed_transaction_num = 0, ts_master = 0\<rparr>"

definition willing_env :: env where
  "willing_env = dead_env\<lparr>my_query := \<lambda>_ _ _. QOk \<lparr>stored = None, affected = 1\<rparr> []\<rparr>"


section \<open>The check\<close>

text \<open>
  The check of transaction j on a slave counts a failure unless the slave has all its rows, or j is
  the number before the one that failed and the slave has none of its rows. The number that failed,
  whose statements were sent twice, is not excused; the one before it, which succeeded, is.
\<close>

theorem check_transaction_excuses:
  assumes "check_transaction E failed i_n j acc s = Some ((rep, rep_d), s')"
  shows "\<exists>d. rep_d = Some d \<and>
    tc_global_result s' = tc_global_result s + (if d = 100 \<or> j = failed - 1 \<and> d = 0 then 0 else 1)"
proof -
  obtain rep0 rep_d0 where acc: "acc = (rep0, rep_d0)" by (cases acc)
  obtain v t d where f: "find_field E (mn_nodes (repl s) i_n) (''select count(*) from t1 where fl='' @ int_str j @ '';'') ''count(*)'' s = Some (v, t)"
    and d: "rep_d = Some d"
    and s': "s' = (let s = (if d \<noteq> N_INSERTS \<and> j \<noteq> failed - 1 then add_result 1 t else t)
      in if j = failed - 1 \<and> d \<noteq> 0 \<and> d \<noteq> N_INSERTS then add_result 1 s else s)"
    using assms unfolding check_transaction_def acc Let_def by (auto simp: split_def elim!: bind_returns)
  have "tc_global_result t = tc_global_result s" by (rule tc_config_extends(3)[OF extends_find_field[OF f]])
  with d s' show ?thesis by (auto simp: N_INSERTS_def)
qed

definition count_env :: env where
  "count_env = dead_env\<lparr>my_query := \<lambda>_ _ _.
     QOk \<lparr>stored = Some \<lparr>field_names = [''count(*)''], rows = [[Some ''0'']]\<rparr>, affected = 0\<rparr> []\<rparr>"

lemma check_transaction_excuses_witness:
  "\<exists>rep d s'. check_transaction count_env 2 0 1 (None, None)
       (blank_tc\<lparr>objs := \<lambda>_. blank_nodes\<lparr>mn_nodes := \<lambda>_. Some 1\<rparr>\<rparr>) = Some ((rep, Some d), s') \<and>
     tc_global_result s' = tc_global_result blank_tc + (if d = 100 \<or> (1 :: int) = 2 - 1 \<and> d = 0 then 0 else 1)"
proof -
  let ?s = "blank_tc\<lparr>objs := \<lambda>_. blank_nodes\<lparr>mn_nodes := \<lambda>_. Some 1\<rparr>\<rparr>"
  have z: "scan_int ''0'' = Some (0, [])" by code_simp
  have "\<exists>p. check_transaction count_env 2 0 1 (None, None) ?s = Some p"
    by (simp add: check_transaction_def find_field_def count_env_def repl_def mysql_query_def find_in_result_def
        row_at_def z Let_def)
  then obtain rep rep_d s' where c: "check_transaction count_env 2 0 1 (None, None) ?s = Some ((rep, rep_d), s')" by auto
  from check_transaction_excuses[OF c] obtain d where "rep_d = Some d"
    "tc_global_result s' = tc_global_result ?s + (if d = 100 \<or> (1 :: int) = 2 - 1 \<and> d = 0 then 0 else 1)" by blast
  with c show ?thesis by auto
qed

end
