(* ===== verification/Firewall_Tests.thy ===== *)
theory Firewall_Tests
  imports Maxrows Routing_Tests Binlog_Checks
begin

text \<open>
  The tests of the firewall filter: \<open>fwf\<close>, \<open>fwf2\<close>, \<open>fwf_reload\<close>, \<open>fwf_syntax\<close>, \<open>fwf_actions\<close>,
  \<open>fwf_logging\<close>, \<open>fwf_prepared_stmt\<close>, \<open>fwf_com_ping\<close> and \<open>fwf_duplicate_rules\<close>. They switch off the
  start of MaxScale before they construct the test object (\<open>firewall_program\<close>), copy rule files and
  send statements that must pass or be refused. Files are read line by line; a line is what \<open>fgets\<close>
  delivers. Time is counted in microseconds.
\<close>

definition firewall_program ::
  "env \<Rightarrow> cid \<Rightarrow> cid \<Rightarrow> string \<Rightarrow> string option \<Rightarrow> string \<Rightarrow> ('a tc_scheme \<Rightarrow> (int \<times> 'a tc_scheme) option)
   \<Rightarrow> 'a tc_scheme \<Rightarrow> (int \<times> 'a tc_scheme) option" where
  "firewall_program E a b opts operand argv0 body s =
     test_program E a b opts operand argv0 body (skip_maxscale_start True s)"

text \<open>\<open>fopen\<close> for reading, and \<open>while (fgets(...))\<close> with an accumulator.\<close>

definition open_file :: "env \<Rightarrow> string \<Rightarrow> 'a tc_scheme \<Rightarrow> bool \<times> 'a tc_scheme" where
  "open_file E file s = (fs_open E (trace s) file, emit (EOpen file) s)"

partial_function (option) each_line ::
  "env \<Rightarrow> string \<Rightarrow> (string \<Rightarrow> int \<Rightarrow> 'a tc_scheme \<Rightarrow> (int \<times> 'a tc_scheme) option) \<Rightarrow> int \<Rightarrow> 'a tc_scheme
   \<Rightarrow> (int \<times> 'a tc_scheme) option" where
  "each_line E file f acc s =
     (let g = fs_gets E (trace s) file; s = emit (EGets file) s
      in case g of
           GotLine sql \<Rightarrow> Option.bind (f sql acc s) (\<lambda>(acc, s). each_line E file f acc s)
         | _ \<Rightarrow> Some (acc, s))"

section \<open>fwf\<close>

definition rules_name :: "nat \<Rightarrow> string" where
  "rules_name i = ''rules'' @ nat_str i"

definition fw_file :: "env \<Rightarrow> string \<Rightarrow> string \<Rightarrow> nat \<Rightarrow> string" where
  "fw_file E dir kind i = cf_test_dir E @ dir @ kind @ nat_str i"

text \<open>The lines go to \<open>execute_query\<close> as formats. A line without text is skipped.\<close>

definition pass_line :: "env \<Rightarrow> string \<Rightarrow> int \<Rightarrow> 'a tc_scheme \<Rightarrow> (int \<times> 'a tc_scheme) option" where
  "pass_line E sql acc s =
     (if 1 < length sql
      then do { (rc, s) \<leftarrow> execute_query_fmt E (tc_conn_rwsplit s) sql s; Some (acc + rc, s) }
      else Some (acc, s))"

definition deny_line :: "env \<Rightarrow> string \<Rightarrow> int \<Rightarrow> 'a tc_scheme \<Rightarrow> (int \<times> 'a tc_scheme) option" where
  "deny_line E sql acc s =
     (let s = set_timeout 180 s in
      if 1 < length sql
      then do { (_, s) \<leftarrow> execute_query_fmt E (tc_conn_rwsplit s) sql s;
                Some (if mysql_errno E (tc_conn_rwsplit s) s \<noteq> 1141 then acc + 1 else acc, s) }
      else Some (acc, s))"

definition query_file ::
  "env \<Rightarrow> string \<Rightarrow> (string \<Rightarrow> int \<Rightarrow> 'a tc_scheme \<Rightarrow> (int \<times> 'a tc_scheme) option) \<Rightarrow> int \<Rightarrow> 'a tc_scheme
   \<Rightarrow> (int \<times> 'a tc_scheme) option" where
  "query_file E file f acc s =
     (let (ok, s) = open_file E file s in
      if ok then each_line E file f acc s else Some (acc, add_result 1 s))"

definition start_with_rules :: "env \<Rightarrow> string \<Rightarrow> string \<Rightarrow> 'a tc_scheme \<Rightarrow> 'a tc_scheme" where
  "start_with_rules E name dir s =
     (let s = copy_rules E name (cf_test_dir E @ dir) s;
          (_, s) = start_maxscale E s;
          (_, s) = connect_rwsplit E s
      in s)"

definition fwf_round :: "env \<Rightarrow> nat \<Rightarrow> 'a tc_scheme \<Rightarrow> 'a tc_scheme option" where
  "fwf_round E i s =
     do { (_, s) \<leftarrow> stop_maxscale E (set_timeout 180 s);
          let s = start_with_rules E (rules_name i) ''/fw/'' s;
          (local_result, s) \<leftarrow> query_file E (fw_file E ''/fw/'' ''pass'' i) (pass_line E) 0 s;
          (local_result, s) \<leftarrow> query_file E (fw_file E ''/fw/'' ''deny'' i) (deny_line E) local_result s;
          let s = (if local_result \<noteq> 0 then add_result 1 s else s);
          Some (mysql_close (tc_conn_rwsplit s) s) }"

text \<open>The clause \<open>at_times\<close>: the rule holds for two minutes from now.\<close>

definition at_time_cmd :: "string \<Rightarrow> string \<Rightarrow> string" where
  "at_time_cmd sudo home =
     ''start_time=`date +%T`; stop_time=` date --date '' @ dq @ ''now +2 mins'' @ dq @ '' +%T`; '' @ sudo @
     '' sed -i '' @ dq @ ''s/###time###/$start_time-$stop_time/'' @ dq @ '' '' @ home @ ''/rules/rules.txt''"

definition fwf_at_times :: "env \<Rightarrow> 'a tc_scheme \<Rightarrow> 'a tc_scheme option" where
  "fwf_at_times E s =
     do { (_, s) \<leftarrow> stop_maxscale E (set_timeout 180 s);
          let s = copy_rules E ''rules_at_time'' (cf_test_dir E @ ''/fw/'') s;
          let (_, s) = ssh_maxscale E False (at_time_cmd (tc_access_sudo s) (tc_access_homedir s)) s;
          let (_, s) = start_maxscale E s;
          let (_, s) = connect_rwsplit E s;
          let (_, s) = execute_query E (tc_conn_rwsplit s) ''DELETE FROM t1'' s;
          let s = (if mysql_errno E (tc_conn_rwsplit s) s \<noteq> 1141 then add_result 1 s else s);
          let s = set_timeout 180 (c_sleep 180 (stop_timeout s));
          let (_, s) = try_query E (tc_conn_rwsplit s) ''DELETE FROM t1'' s;
          let s = mysql_close (tc_conn_rwsplit s) s;
          (_, s) \<leftarrow> stop_maxscale E s;
          Some s }"

text \<open>
  The clause \<open>limit_queries\<close>: the statement is repeated while it is refused, up to ten seconds. The
  time that counts is the one read before the last statement.
\<close>

definition elapsed_time :: "int \<times> int \<Rightarrow> int \<times> int \<Rightarrow> int" where
  "elapsed_time t1 t2 = (fst t2 - fst t1) * 1000000 + (snd t2 - snd t1)"

definition read_clock :: "env \<Rightarrow> 'a tc_scheme \<Rightarrow> (int \<times> int) \<times> 'a tc_scheme" where
  "read_clock E s = (now E (trace s), emit EClock s)"

partial_function (option) blocked_time :: "env \<Rightarrow> int \<times> int \<Rightarrow> 'a tc_scheme \<Rightarrow> (int \<times> 'a tc_scheme) option" where
  "blocked_time E t1 s =
     (let (t2, s) = read_clock E s;
          (rc, s) = execute_query_silent E (tc_conn_rwsplit s) ''SELECT * FROM t1'' s
      in if rc \<noteq> 0 \<and> elapsed_time t1 t2 < 10000000 then blocked_time E t1 s
         else Some (elapsed_time t1 t2, s))"

definition query_counted :: "env \<Rightarrow> string \<Rightarrow> 'a tc_scheme \<Rightarrow> 'a tc_scheme" where
  "query_counted E sql s = (let (rc, s) = execute_query E (tc_conn_rwsplit s) sql s in add_result rc s)"

definition fwf_limit_queries :: "env \<Rightarrow> 'a tc_scheme \<Rightarrow> 'a tc_scheme option" where
  "fwf_limit_queries E s =
     (let s = start_with_rules E ''rules_limit_queries'' ''/fw/'' s;
          s = do_loop [0..<10] (\<lambda>_. query_counted E ''SELECT * FROM t1'') s;
          (t1, s) = read_clock E s
      in do { (elapsed, s) \<leftarrow> blocked_time E t1 s;
              let s = (if 6000000 < elapsed \<or> elapsed < 4000000 then add_result 1 s else s);
              let s = do_loop [0..<20] (\<lambda>_ s. query_counted E ''SELECT * FROM t1'' (c_sleep 1 s)) (set_timeout 180 s);
              (_, s) \<leftarrow> stop_maxscale E (set_timeout 180 s);
              Some s })"

definition fwf :: "env \<Rightarrow> 'a tc_scheme \<Rightarrow> (int \<times> 'a tc_scheme) option" where
  "fwf E s =
     do { s \<leftarrow> do_loopM [1..<11] (fwf_round E) s;
          s \<leftarrow> fwf_at_times E s;
          s \<leftarrow> fwf_limit_queries E s;
          let s = start_with_rules E ''rules_syntax_error'' ''/fw/'' s;
          let (rc, s) = execute_query E (tc_conn_rwsplit s) ''SELECT * FROM t1'' s;
          let s = (if rc = 0 then add_result 1 s else s);
          (_, s) \<leftarrow> check_maxscale_processes E 0 s;
          Some (tc_global_result s, s) }"

section \<open>fwf2\<close>

text \<open>
  Whether a line counts as a failure; with \<open>expected = 0\<close> a statement that fails with another
  error than 1141 is accepted.
\<close>

definition query_line :: "env \<Rightarrow> int \<Rightarrow> string \<Rightarrow> int \<Rightarrow> 'a tc_scheme \<Rightarrow> (int \<times> 'a tc_scheme) option" where
  "query_line E expected sql acc s =
     (let s = set_timeout 60 s in
      if 1 < length sql
      then do { (rc, s) \<leftarrow> execute_query_fmt E (tc_conn_rwsplit s) sql s;
                Some (if rc \<noteq> expected \<and> (expected = 1 \<or> mysql_errno E (tc_conn_rwsplit s) s = 1141)
                      then acc + 1 else acc, s) }
      else Some (acc, s))"

definition read_and_execute_queries :: "env \<Rightarrow> string \<Rightarrow> int \<Rightarrow> 'a tc_scheme \<Rightarrow> (int \<times> 'a tc_scheme) option" where
  "read_and_execute_queries E filename expected s = query_file E filename (query_line E expected) 0 s"

definition fwf2_round :: "env \<Rightarrow> nat \<Rightarrow> 'a tc_scheme \<Rightarrow> 'a tc_scheme option" where
  "fwf2_round E i s =
     do { (_, s) \<leftarrow> stop_maxscale E (set_timeout 60 s);
          let s = start_with_rules E (rules_name i) ''/fw2/'' s;
          (passed, s) \<leftarrow> read_and_execute_queries E (fw_file E ''/fw2/'' ''pass'' i) 0 s;
          (denied, s) \<leftarrow> read_and_execute_queries E (fw_file E ''/fw2/'' ''deny'' i) 1 s;
          let s = add_result (passed + denied) s;
          Some (mysql_close (tc_conn_rwsplit s) s) }"

definition fwf2 :: "env \<Rightarrow> 'a tc_scheme \<Rightarrow> (int \<times> 'a tc_scheme) option" where
  "fwf2 E s =
     do { s \<leftarrow> do_loopM [1..<5] (fwf2_round E) s;
          (_, s) \<leftarrow> check_maxscale_processes E 1 s;
          Some (tc_global_result s, s) }"

section \<open>fwf_reload\<close>

text \<open>\<open>while (!feof(file))\<close>\<close>

partial_function (option) until_eof ::
  "env \<Rightarrow> string \<Rightarrow> (int \<Rightarrow> 'a tc_scheme \<Rightarrow> (int \<times> 'a tc_scheme) option) \<Rightarrow> int \<Rightarrow> 'a tc_scheme
   \<Rightarrow> (int \<times> 'a tc_scheme) option" where
  "until_eof E file f acc s =
     (if fs_eof E (trace s) file then Some (acc, s)
      else Option.bind (f acc s) (\<lambda>(acc, s). until_eof E file f acc s))"

definition reload_pass :: "env \<Rightarrow> string \<Rightarrow> int \<Rightarrow> 'a tc_scheme \<Rightarrow> (int \<times> 'a tc_scheme) option" where
  "reload_pass E file acc s =
     do { (rc, s) \<leftarrow> execute_query_from_file E (tc_conn_rwsplit s) file (set_timeout 180 s);
          Some (if rc = 1 then acc + 1 else acc, s) }"

definition reload_deny :: "env \<Rightarrow> string \<Rightarrow> int \<Rightarrow> 'a tc_scheme \<Rightarrow> (int \<times> 'a tc_scheme) option" where
  "reload_deny E file acc s =
     do { (rc, s) \<leftarrow> execute_query_from_file E (tc_conn_rwsplit s) file (set_timeout 180 s);
          Some (if rc \<noteq> - 1 \<and> (rc = 0 \<or> mysql_errno E (tc_conn_rwsplit s) s \<noteq> 1141) then acc + 1 else acc, s) }"

text \<open>A file that cannot be opened counts a failure and leaves the loop over the rules.\<close>

fun reload_rounds :: "env \<Rightarrow> nat list \<Rightarrow> 'a tc_scheme \<Rightarrow> 'a tc_scheme option" where
  "reload_rounds E [] s = Some s"
| "reload_rounds E (i # is) s =
     (let s = copy_rules E (rules_name i) (cf_test_dir E @ ''/fw/'') (set_timeout 180 s);
          (_, s) = ssh_maxscale E True ''maxadmin call command dbfwfilter rules/reload Database-Firewall'' s;
          pass_file = fw_file E ''/fw/'' ''pass'' i;
          deny_file = fw_file E ''/fw/'' ''deny'' i;
          (ok, s) = open_file E pass_file s
      in if \<not> ok then Some (add_result 1 s)
         else do {
           (local_result, s) \<leftarrow> until_eof E pass_file (reload_pass E pass_file) 0 s;
           let (ok, s) = open_file E deny_file s;
           if \<not> ok then Some (add_result 1 s)
           else do {
             (local_result, s) \<leftarrow> until_eof E deny_file (reload_deny E deny_file) local_result s;
             reload_rounds E is (add_result local_result s) } })"

definition strcasestr :: "string \<Rightarrow> string \<Rightarrow> string option" where
  "strcasestr s p = strstr (map to_lower s) (map to_lower p)"

definition fwf_reload :: "env \<Rightarrow> 'a tc_scheme \<Rightarrow> (int \<times> 'a tc_scheme) option" where
  "fwf_reload E s =
     do { (_, s) \<leftarrow> stop_maxscale E s;
          let s = start_with_rules E (rules_name 1) ''/fw/'' s;
          s \<leftarrow> reload_rounds E [1..<11] s;
          let s = copy_rules E ''rules_syntax_error'' (cf_test_dir E @ ''/fw/'') s;
          let (out, s) = ssh_maxscale_output E True
            (''maxadmin call command dbfwfilter rules/reload '' @ dq @ ''Database Firewall'' @ dq) s;
          reply \<leftarrow> out;
          let s = add_result (if strcasestr reply ''Failed'' = None then 1 else 0) s;
          (_, s) \<leftarrow> check_maxscale_processes E 1 s;
          Some (tc_global_result s, s) }"

section \<open>fwf_syntax\<close>

text \<open>The last rule has a name of seven letters outside ASCII, in UTF-8.\<close>

definition syllabics :: string where
  "syllabics = concat (map (\<lambda>b. [CHR 0xE1, CHR 0x90, b])
     [CHR 0xAB, CHR 0xAC, CHR 0xAD, CHR 0xAE, CHR 0xAF, CHR 0xB0, CHR 0xB1])"

definition users_ok :: "string list" where
  "users_ok = [''users %@% match any rules testrule'']"

definition rules_failure :: "string list" where
  "rules_failure =
    [''rule testrule deny nothing'', ''rule testrule deny regex'', ''rule testrule deny columns'',
     ''rule testrule deny limit_queries'', ''rule testrule deny no-where-clause'',
     ''rule testrule deny wildcard wildcard'', ''rule testrule deny wildcard rule testrule deny no_where_clause'',
     ''rule testrule allow anything'', ''rule testrule block'', ''rule deny wildcard'', ''testrule deny wildcard'',
     ''rule testrule deny wildcard on_queries select | not_select'',
     ''rule testrule deny wildcard on_queries select|not_select'',
     ''rule testrule deny wildcard on_queries select |'', ''rule testrule deny wildcard on_queries select|'',
     ''rule '' @ syllabics @ '' deny wildcard on_queries select|'']"

definition truncate_maxscale_logs :: "env \<Rightarrow> 'a tc_scheme \<Rightarrow> 'a tc_scheme" where
  "truncate_maxscale_logs E s = snd (ssh_maxscale E True ''truncate -s 0 /var/log/maxscale/*'' s)"

definition temp_rules :: string where
  "temp_rules = ''rules_tmp.txt''"

text \<open>A file that cannot be opened is a null pointer given to \<open>fprintf\<close>.\<close>

definition add_rule :: "env \<Rightarrow> string \<Rightarrow> 'a tc_scheme \<Rightarrow> 'a tc_scheme option" where
  "add_rule E rule s =
     (if fs_write E (trace s) temp_rules then Some (emit (EAppendFile temp_rules (rule @ [newline])) s) else None)"

definition syntax_round :: "env \<Rightarrow> string \<Rightarrow> 'a tc_scheme \<Rightarrow> 'a tc_scheme option" where
  "syntax_round E rule s =
     do { s \<leftarrow> add_rule E rule (emit (ETruncate temp_rules) s);
          s \<leftarrow> add_rule E (users_ok ! 0) s;
          let s = copy_rules E temp_rules (cf_test_dir E) s;
          let (_, s) = start_maxscale E s;
          (_, s) \<leftarrow> check_maxscale_processes E 0 (c_sleep 3 s);
          Some (truncate_maxscale_logs E (check_log_err E ''syntax error'' True s)) }"

definition fwf_syntax :: "env \<Rightarrow> 'a tc_scheme \<Rightarrow> (int \<times> 'a tc_scheme) option" where
  "fwf_syntax E s =
     do { (_, s) \<leftarrow> stop_maxscale E (stop_timeout s);
          s \<leftarrow> do_loopM rules_failure (syntax_round E) s;
          Some (tc_global_result s, s) }"

section \<open>fwf_actions and fwf_logging\<close>

definition query_works :: "env \<Rightarrow> int \<Rightarrow> ('a tc_scheme \<Rightarrow> conn option) \<Rightarrow> string \<Rightarrow> 'a tc_scheme \<Rightarrow> 'a tc_scheme" where
  "query_works E timeout c sql s = (let s = set_timeout timeout s in should_work E (c s) sql s)"

definition query_fails :: "env \<Rightarrow> int \<Rightarrow> ('a tc_scheme \<Rightarrow> conn option) \<Rightarrow> string \<Rightarrow> 'a tc_scheme \<Rightarrow> 'a tc_scheme" where
  "query_fails E timeout c sql s = (let s = set_timeout timeout s in should_fail E (c s) sql s)"

text \<open>The end of both tests: MaxScale is running, is stopped, and then not running.\<close>

definition running_then_stopped :: "env \<Rightarrow> 'a tc_scheme \<Rightarrow> 'a tc_scheme option" where
  "running_then_stopped E s =
     do { (_, s) \<leftarrow> check_maxscale_processes E 1 (stop_timeout s);
          (_, s) \<leftarrow> stop_maxscale E s;
          (_, s) \<leftarrow> check_maxscale_processes E 0 (c_sleep 10 s);
          Some s }"

definition fwf_actions :: "env \<Rightarrow> 'a tc_scheme \<Rightarrow> (int \<times> 'a tc_scheme) option" where
  "fwf_actions E s =
     do { (_, s) \<leftarrow> stop_maxscale E (stop_timeout s);
          let s = set_timeout 60 (copy_rules E ''rules_actions'' (cf_test_dir E @ ''/fw/'') s);
          let (_, s) = start_maxscale E s;
          let (_, s) = connect_maxscale E (set_timeout 30 s);
          let s = query_fails E 30 tc_conn_rwsplit ''select 1'' s;
          let s = query_works E 30 tc_conn_rwsplit ''show status'' s;
          let s = query_works E 30 tc_conn_slave ''select 1'' s;
          let s = query_fails E 30 tc_conn_slave ''show status'' s;
          let s = query_works E 30 tc_conn_master ''select 1'' s;
          let s = query_works E 30 tc_conn_master ''show status'' s;
          s \<leftarrow> running_then_stopped E s;
          Some (tc_global_result s, s) }"

definition fwf_logging :: "env \<Rightarrow> 'a tc_scheme \<Rightarrow> (int \<times> 'a tc_scheme) option" where
  "fwf_logging E s =
     do { (_, s) \<leftarrow> stop_maxscale E (stop_timeout s);
          let s = copy_rules E ''rules_logging'' (cf_test_dir E @ ''/fw/'') s;
          let (_, s) = start_maxscale E s;
          let (_, s) = connect_maxscale E (set_timeout 20 s);
          let s = query_works E 20 tc_conn_slave ''select 1'' s;
          let s = query_works E 20 tc_conn_slave ''select 2'' s;
          s \<leftarrow> running_then_stopped E s;
          let s = check_log_err E ''was not matched'' True (check_log_err E ''matched by'' True s);
          Some (tc_global_result s, s) }"

section \<open>Rules written by the test\<close>

definition write_rules :: "env \<Rightarrow> string \<Rightarrow> 'a tc_scheme \<Rightarrow> 'a tc_scheme option" where
  "write_rules E rules s =
     (if fs_write E (trace s) ''rules.txt'' then Some (emit (EWriteFile ''rules.txt'' rules) s) else None)"

definition install_rules :: "env \<Rightarrow> 'a tc_scheme \<Rightarrow> 'a tc_scheme" where
  "install_rules E s =
     (let (_, s) = ssh_maxscale E True
            ''mkdir -p /home/vagrant/rules/; chown -R vagrant:vagrant /home/vagrant/rules/'' s;
          (_, s) = copy_to_maxscale E ''rules.txt'' ''~/rules/rules.txt'' s;
          (_, s) = ssh_maxscale E True ''chmod a+r /home/vagrant/rules/rules.txt;'' s
      in s)"

definition ping_rules :: string where
  "ping_rules = ''rule test1 deny regex '' @ quote @ ''.*'' @ quote @ [newline] @
     ''users %@% match any rules test1'' @ [newline]"

text \<open>A null handle is not checked before the ping.\<close>

definition fwf_com_ping :: "env \<Rightarrow> 'a tc_scheme \<Rightarrow> (int \<times> 'a tc_scheme) option" where
  "fwf_com_ping E s =
     (let s = install_rules E s;
          (_, s) = restart_maxscale E s;
          (_, s) = connect_maxscale E s
      in do { c \<leftarrow> tc_conn_rwsplit s;
              let (rc, s) = mysql_ping E c s;
              let s = close_maxscale_connections (add_result rc s);
              Some (tc_global_result s, s) })"

definition duplicate_rules :: string where
  "duplicate_rules = ''rule test1 deny no_where_clause'' @ [newline] @ ''rule test1 deny columns a b c'' @ [newline] @
     ''users %@% match any rules test1'' @ [newline]"

definition fwf_duplicate_rules :: "env \<Rightarrow> 'a tc_scheme \<Rightarrow> (int \<times> 'a tc_scheme) option" where
  "fwf_duplicate_rules E s =
     (let s = install_rules E s;
          (res, s) = restart_maxscale E s
      in Some (if res = 0 then 1 else 0, s))"

text \<open>The two programs write the file before the test object is constructed.\<close>

definition rules_program ::
  "env \<Rightarrow> cid \<Rightarrow> cid \<Rightarrow> string \<Rightarrow> string option \<Rightarrow> string \<Rightarrow> string \<Rightarrow> ('a tc_scheme \<Rightarrow> (int \<times> 'a tc_scheme) option)
   \<Rightarrow> 'a tc_scheme \<Rightarrow> (int \<times> 'a tc_scheme) option" where
  "rules_program E a b opts operand argv0 rules body s =
     do { s \<leftarrow> write_rules E rules s; firewall_program E a b opts operand argv0 body s }"

section \<open>fwf_prepared_stmt\<close>

definition prepared_rules_cmd :: string where
  "prepared_rules_cmd =
     ''mkdir -p /home/vagrant/rules/;'' @
     ''echo '' @ quote @ ''rule test1 deny columns c on_queries select'' @ quote @ '' > /home/vagrant/rules/rules.txt;'' @
     ''echo '' @ quote @ ''users %@% match any rules test1'' @ quote @ '' >> /home/vagrant/rules/rules.txt;'' @
     ''chmod a+r /home/vagrant/rules/rules.txt;''"

definition query_refused :: "env \<Rightarrow> string \<Rightarrow> 'a tc_scheme \<Rightarrow> 'a tc_scheme" where
  "query_refused E sql s =
     (let (rc, s) = execute_query E (tc_conn_rwsplit s) sql s in add_result (if rc = 0 then 1 else 0) s)"

definition fwf_prepared_stmt :: "env \<Rightarrow> 'a tc_scheme \<Rightarrow> int \<times> 'a tc_scheme" where
  "fwf_prepared_stmt E s =
     (let (_, s) = ssh_maxscale E True prepared_rules_cmd s;
          (rc, s) = restart_maxscale E s;
          s = add_result rc s;
          (_, s) = connect_maxscale E s;
          (_, s) = execute_query_silent E (tc_conn_rwsplit s) ''DROP TABLE test.t1'' s;
          (_, s) = try_query E (tc_conn_rwsplit s) ''CREATE TABLE test.t1(a INT, b INT, c INT)'' s;
          (_, s) = try_query E (tc_conn_rwsplit s) ''INSERT INTO test.t1 VALUES (1, 1, 1)'' s;
          s = query_counted E (''PREPARE my_ps FROM '' @ quote @ ''SELECT a, b FROM test.t1'' @ quote) s;
          s = query_counted E ''EXECUTE my_ps'' s;
          s = query_refused E (''PREPARE my_ps2 FROM '' @ quote @ ''SELECT c FROM test.t1'' @ quote) s;
          s = query_refused E ''EXECUTE my_ps2'' s;
          (stmt, s) = stmt_new E (tc_conn_rwsplit s) s;
          s = stmt_counted E stmt (StmtPrepare ''SELECT a, b FROM test.t1'') s;
          s = stmt_counted E stmt StmtExecute s;
          (_, s) = stmt_call E stmt StmtClose s;
          (stmt, s) = stmt_new E (tc_conn_rwsplit s) s;
          (rc, s) = stmt_call E stmt (StmtPrepare ''SELECT c FROM test.t1'') s;
          s = add_result (if rc = 0 then 1 else 0) s;
          (_, s) = stmt_call E stmt StmtClose s;
          (_, s) = try_query E (tc_conn_rwsplit s) ''DROP TABLE test.t1'' s
      in (tc_global_result s, s))"

end
