(* ===== verification/Failover_Tests.thy ===== *)
theory Failover_Tests
  imports Firewall_Tests Monitor_Tests Rds
begin

text \<open>
  Tests that stop, block or demote servers and check what MaxScale does: \<open>stale_slaves\<close>,
  \<open>slave_failover\<close>, \<open>failover_mysqlmon\<close>, \<open>mxs874_slave_recovery\<close>, \<open>mysqlmon_backup\<close>, the three tests with
  replication-manager, and \<open>auroramon\<close>, which sets up a cluster in the cloud first. Bodies as in the
  other theories of tests; terminal settings and waiting for a key are console input and left out.
\<close>

section \<open>stale_slaves\<close>

fun index_of_id :: "string \<Rightarrow> nat \<Rightarrow> string list \<Rightarrow> nat option" where
  "index_of_id x i [] = None"
| "index_of_id x i (y # ys) = (if y = x then Some i else index_of_id x (Suc i) ys)"

definition server_id_sql :: string where
  "server_id_sql = ''SELECT @@server_id''"

text \<open>The answer of the slave service is kept from the last phase when none is delivered.\<close>

definition slave_phase ::
  "env \<Rightarrow> string \<Rightarrow> bool \<Rightarrow> string option \<Rightarrow> 'a tc_scheme \<Rightarrow> (string option \<times> 'a tc_scheme) option" where
  "slave_phase E first_slave same second_slave s =
     (let (_, s) = connect_readconn_slave E (c_sleep 15 s) in
      do { ((_, v), s) \<leftarrow> find_field E (tc_conn_slave s) server_id_sql ''@@server_id'' s;
           let second_slave = (case v of None \<Rightarrow> second_slave | Some _ \<Rightarrow> v);
           reply \<leftarrow> second_slave;
           Some (second_slave, add_result (if (reply = first_slave) = same then 0 else 1) s) })"

text \<open>When the server that answered is not known, node -1 is blocked, which reads outside the arrays.\<close>

definition stale_slaves :: "env \<Rightarrow> 'a tc_scheme \<Rightarrow> (int \<times> 'a tc_scheme) option" where
  "stale_slaves E s =
     (let (_, s) = connect E (tc_repl s) s in
      do { (ids, s) \<leftarrow> server_ids E (tc_repl s) s;
           let (_, s) = block_node E (tc_repl s) 0 s;
           let (_, s) = connect_readconn_slave E (c_sleep 15 s);
           ((_, v), s) \<leftarrow> find_field E (tc_conn_slave s) server_id_sql ''@@server_id'' s;
           first_slave \<leftarrow> v;
           found \<leftarrow> index_of_id first_slave 0 ids;
           let (_, s) = block_node E (tc_repl s) found s;
           (second, s) \<leftarrow> slave_phase E first_slave False None s;
           let (_, s) = unblock_node E (tc_repl s) found s;
           (second, s) \<leftarrow> slave_phase E first_slave False second s;
           let (_, s) = unblock_all_nodes E (tc_repl s) s;
           (second, s) \<leftarrow> slave_phase E first_slave True second s;
           let (_, s) = query_node E (tc_repl s) ''stop slave'' found s;
           (second, s) \<leftarrow> slave_phase E first_slave False second s;
           let (_, s) = query_node E (tc_repl s) ''start slave'' found s;
           (_, s) \<leftarrow> slave_phase E first_slave True second s;
           Some (tc_global_result s, s) })"

section \<open>slave_failover\<close>

text \<open>The numbers of the slaves are unsigned, so that the comparisons with 0 are never true.\<close>

definition slave_failover :: "env \<Rightarrow> 'a tc_scheme \<Rightarrow> (int \<times> 'a tc_scheme) option" where
  "slave_failover E s =
     (let (rc, s) = connect_rwsplit E (set_timeout 20 s) in
      if rc \<noteq> 0 then (let s = add_result 1 s in Some (tc_global_result s, s))
      else do {
        ((old_slave, res), s) \<leftarrow> find_connected_slave E 0 s;
        let s = add_result res s;
        s \<leftarrow> (if mn_N (repl s) \<le> old_slave then Some (add_result 1 s)
             else do {
               let (_, s) = block_node E (tc_repl s) (nat old_slave) s;
               let s = set_timeout 20 (c_sleep 60 (stop_timeout s));
               ((current_slave, res), s) \<leftarrow> find_connected_slave E res s;
               let s = (if current_slave = old_slave then add_result 1 s else s);
               let (_, s) = unblock_node E (tc_repl s) (nat old_slave) s;
               let s = close_rwsplit s;
               (_, s) \<leftarrow> check_maxscale_alive E s;
               Some (set_timeout 20 s) });
        let (_, s) = start_replication E (tc_repl s) (set_timeout 200 s);
        Some (tc_global_result s, s) })"

section \<open>failover_mysqlmon\<close>

definition insert_1 :: string where
  "insert_1 = ''INSERT INTO test.t1 VALUES (1)''"

text \<open>One statement through the read-write service, on connections of its own.\<close>

definition through_maxscale :: "env \<Rightarrow> string list \<Rightarrow> 'a tc_scheme \<Rightarrow> 'a tc_scheme" where
  "through_maxscale E sqls s =
     (let (_, s) = connect_maxscale E s;
          s = do_loop sqls (\<lambda>sql s. snd (try_query E (tc_conn_rwsplit s) sql s)) s
      in close_maxscale_connections s)"

definition failover_mysqlmon :: "env \<Rightarrow> 'a tc_scheme \<Rightarrow> (int \<times> 'a tc_scheme) option" where
  "failover_mysqlmon E s =
     (let s = through_maxscale E [''CREATE OR REPLACE TABLE test.t1 (id int)'', insert_1] s;
          s = block_nodes E [0, 1, 2] s;
          (_, s) = connect E (tc_repl s) s;
          (_, s) = query_node E (tc_repl s) ''STOP SLAVE;RESET SLAVE ALL;'' 3 s;
          (_, s) = ssh_maxscale_output E True ''maxadmin list servers'' (c_sleep 15 s);
          s = through_maxscale E [insert_1] s;
          s = c_sleep 15 (unblock_nodes E [0, 1, 2] s);
          (_, s) = connect_maxscale E s;
          (_, s) = try_query E (tc_conn_rwsplit s) insert_1 s
      in do {
        ((_, maxscale_id), s) \<leftarrow> find_field E (tc_conn_rwsplit s) server_id_sql ''@@server_id'' s;
        let (_, s) = connect E (tc_repl s) s;
        ((_, real_id), s) \<leftarrow> find_field E (mn_nodes (repl s) 3) server_id_sql ''@@server_id'' s;
        m \<leftarrow> maxscale_id;
        r \<leftarrow> real_id;
        let s = close_maxscale_connections (add_result (if m \<noteq> r then 1 else 0) s);
        (_, s) \<leftarrow> check_maxscale_alive E s;
        Some (tc_global_result s, s) })"

section \<open>mxs874_slave_recovery\<close>

text \<open>The status is read into an array that is new in every round.\<close>

fun recovery_poll :: "env \<Rightarrow> nat \<Rightarrow> 'a tc_scheme \<Rightarrow> (bool \<times> 'a tc_scheme) option" where
  "recovery_poll E 0 s = Some (False, s)"
| "recovery_poll E (Suc n) s =
     do { ((_, v), s) \<leftarrow> get_maxadmin_param E ''show server server2'' ''Status'' s;
          server1_status \<leftarrow> v;
          if strstr server1_status ''Running'' \<noteq> None then Some (True, s) else recovery_poll E n (c_sleep 1 s) }"

definition find_field_or :: "env \<Rightarrow> conn option \<Rightarrow> string \<Rightarrow> string \<Rightarrow> string \<Rightarrow> 'a tc_scheme \<Rightarrow> (string \<times> 'a tc_scheme) option" where
  "find_field_or E c sql name init s =
     do { ((_, v), s) \<leftarrow> find_field E c sql name s; Some (case v of None \<Rightarrow> init | Some t \<Rightarrow> t, s) }"

definition mxs874_slave_recovery :: "env \<Rightarrow> 'a tc_scheme \<Rightarrow> (int \<times> 'a tc_scheme) option" where
  "mxs874_slave_recovery E s =
     (let (_, s) = connect_maxscale E (set_timeout 10 s);
          (_, s) = try_query E (tc_conn_rwsplit s) ''SET @a=1'' (set_timeout 10 s);
          (_, s) = block_node E (tc_repl s) 1 (set_timeout 20 (c_sleep 1 (stop_timeout s)));
          (_, s) = unblock_node E (tc_repl s) 1 (set_timeout 10 (c_sleep 5 (stop_timeout s)));
          (_, s) = block_node E (tc_repl s) 2 (c_sleep 5 (stop_timeout s));
          s = set_timeout 20 (c_sleep 5 (stop_timeout s))
      in do {
        (recovered, s) \<leftarrow> recovery_poll E 10 s;
        let s = add_result (if recovered then 0 else 1) s;
        let (_, s) = connect E (tc_repl s) s;
        (real_id, s) \<leftarrow> get_server_id E (tc_repl s) 1 s;
        (server_id, s) \<leftarrow> find_field_or E (tc_conn_rwsplit s) server_id_sql ''@@server_id'' [] s;
        let s = add_result (if atoi server_id \<noteq> real_id then 1 else 0) s;
        (userval, s) \<leftarrow> find_field_or E (tc_conn_rwsplit s) ''SELECT @a'' ''@a'' [] s;
        let s = add_result (if atoi userval \<noteq> 1 then 1 else 0) s;
        let (_, s) = unblock_node E (tc_repl s) 2 s;
        (_, s) \<leftarrow> check_maxscale_alive E s;
        Some (tc_global_result s, s) })"

section \<open>mysqlmon_backup\<close>

definition check_master :: "env \<Rightarrow> 'a tc_scheme \<Rightarrow> 'a tc_scheme option" where
  "check_master E s =
     do { (master, s) \<leftarrow> find_master_maxadmin E (tc_repl s) s;
          Some (through_maxscale E [insert_1] (add_result (if master \<noteq> 0 then 1 else 0) s)) }"

definition check_slave :: "env \<Rightarrow> 'a tc_scheme \<Rightarrow> 'a tc_scheme option" where
  "check_slave E s =
     do { (slave, s) \<leftarrow> find_slave_maxadmin E (tc_repl s) s;
          Some (through_maxscale E [''SELECT * FROM test.t1''] (add_result (if slave = - 1 then 1 else 0) s)) }"

definition kill_maxscale :: "env \<Rightarrow> 'a tc_scheme \<Rightarrow> 'a tc_scheme" where
  "kill_maxscale E s =
     (let (_, s) = ssh_maxscale E True ''pkill -9 maxscale'' s;
          (_, s) = start_maxscale E s
      in c_sleep 10 s)"

definition restart_and_wait :: "env \<Rightarrow> 'a tc_scheme \<Rightarrow> 'a tc_scheme" where
  "restart_and_wait E s = (let (_, s) = restart_maxscale E s in c_sleep 10 s)"

text \<open>A check now, after MaxScale was killed, and after it was restarted.\<close>

definition survives_restarts ::
  "env \<Rightarrow> ('a tc_scheme \<Rightarrow> 'a tc_scheme option) \<Rightarrow> 'a tc_scheme \<Rightarrow> 'a tc_scheme option" where
  "survives_restarts E check s =
     do { s \<leftarrow> check s; s \<leftarrow> check (kill_maxscale E s); check (restart_and_wait E s) }"

definition mysqlmon_backup :: "env \<Rightarrow> 'a tc_scheme \<Rightarrow> (int \<times> 'a tc_scheme) option" where
  "mysqlmon_backup E s =
     do { s \<leftarrow> check_master E (through_maxscale E [''CREATE OR REPLACE TABLE test.t1(id int)''] s);
          s \<leftarrow> check_slave E s;
          s \<leftarrow> survives_restarts E (check_master E) (c_sleep 5 (block_nodes E [1, 2, 3] s));
          s \<leftarrow> check_master E (c_sleep 5 (unblock_nodes E [1, 2, 3] s));
          s \<leftarrow> check_slave E s;
          s \<leftarrow> survives_restarts E (check_slave E) (c_sleep 5 (block_nodes E [0] s));
          s \<leftarrow> check_master E (c_sleep 5 (unblock_nodes E [0] s));
          s \<leftarrow> check_slave E s;
          Some (tc_global_result s, s) }"

section \<open>replication-manager\<close>

text \<open>
  \<open>std::string += row[0]\<close> for every row: a null pointer there is undefined. The number of rows is
  compared with the number of rows inserted so far, which is counted in a static variable.
\<close>

definition check_rows_inserted :: "conn option \<Rightarrow> reply \<Rightarrow> int \<Rightarrow> 'a tc_scheme \<Rightarrow> 'a tc_scheme option" where
  "check_rows_inserted c rep inserts s =
     (let s = mysql_store c s in
      case (case rep of QFail \<Rightarrow> None | QOk r _ \<Rightarrow> stored r) of
        None \<Rightarrow> Some (add_result 1 s)
      | Some res \<Rightarrow>
          (let s = add_result (if int (length (rows res)) \<noteq> inserts then 1 else 0) s
           in if \<forall>r \<in> set (rows res). (case row_at r 0 of Some (Some _) \<Rightarrow> True | _ \<Rightarrow> False) then Some s else None))"

definition insert_number :: "int \<Rightarrow> string" where
  "insert_number inserts = ''INSERT INTO test.t1 VALUES ('' @ int_str inserts @ '')''"

definition check_inserts ::
  "env \<Rightarrow> conn option \<Rightarrow> int \<Rightarrow> 'a tc_scheme \<Rightarrow> (int \<times> 'a tc_scheme) option" where
  "check_inserts E c inserts s =
     (let (_, s) = try_query E c ''BEGIN'' s;
          (_, s) = try_query E c (insert_number inserts) s;
          inserts = inserts + 1;
          (rep, s) = mysql_query E c ''SELECT * FROM test.t1'' s
      in do { s \<leftarrow> check_rows_inserted c rep inserts s; Some (inserts, s) })"

definition mrm_check :: "env \<Rightarrow> int \<Rightarrow> 'a tc_scheme \<Rightarrow> (int \<times> 'a tc_scheme) option" where
  "mrm_check E inserts s =
     (let (c, s) = open_service E (tc_rwsplit_port s) s in
      do { (inserts, s) \<leftarrow> check_inserts E c inserts s;
           let (_, s) = try_query E c ''COMMIT'' s;
           Some (inserts, mysql_close c s) })"

definition list_servers :: "env \<Rightarrow> 'a tc_scheme \<Rightarrow> 'a tc_scheme" where
  "list_servers E s = snd (ssh_maxscale_output E True ''maxadmin list servers'' s)"

definition get_output :: "env \<Rightarrow> 'a tc_scheme \<Rightarrow> 'a tc_scheme" where
  "get_output E s =
     (let s = list_servers E s;
          (_, s) = ssh_maxscale_output E True (''cat /var/log/replication-manager.log && '' @
                     ''sudo truncate -s 0 /var/log/replication-manager.log'') s
      in s)"

definition check_and_output :: "env \<Rightarrow> int \<Rightarrow> 'a tc_scheme \<Rightarrow> (int \<times> 'a tc_scheme) option" where
  "check_and_output E inserts s = do { (inserts, s) \<leftarrow> mrm_check E inserts s; Some (inserts, get_output E s) }"

definition stop_and_check :: "env \<Rightarrow> nat \<Rightarrow> int \<Rightarrow> 'a tc_scheme \<Rightarrow> (int \<times> 'a tc_scheme) option" where
  "stop_and_check E node inserts s =
     (let (_, s) = stop_node E (tc_repl s) node s in check_and_output E inserts (c_sleep 10 s))"

definition start_and_wait :: "env \<Rightarrow> nat \<Rightarrow> 'a tc_scheme \<Rightarrow> 'a tc_scheme" where
  "start_and_wait E node s = (let (_, s) = start_node E (tc_repl s) node [] s in c_sleep 5 s)"

definition replication_manager :: "env \<Rightarrow> 'a tc_scheme \<Rightarrow> (int \<times> 'a tc_scheme) option" where
  "replication_manager E s =
     (let (rc, s) = c_system E ''./manage_mrm.sh install > manage_mrm.log'' s in
      if \<not> wifexited rc \<or> wexitstatus rc \<noteq> 0 then Some (- 1, s)
      else do {
        let (_, s) = connect_maxscale E (c_sleep 5 s);
        let (_, s) = try_query E (tc_conn_rwsplit s) ''CREATE OR REPLACE TABLE test.t1(id INT)'' s;
        (inserts, s) \<leftarrow> check_and_output E 0 s;
        (inserts, s) \<leftarrow> foreachM [0, 1, 2] (stop_and_check E) inserts s;
        let s = do_loop [0, 1, 2] (start_and_wait E) s;
        (_, s) \<leftarrow> check_and_output E inserts s;
        let s = close_maxscale_connections s;
        let s = get_output E (through_maxscale E [''DROP TABLE test.t1''] s);
        let (_, s) = c_system E ''./manage_mrm.sh remove >> manage_mrm.log'' s;
        (_, s) \<leftarrow> fix_replication E (tc_repl s) s;
        Some (tc_global_result s, s) })"

text \<open>The variants with two and three nodes ask for the server before and after the COMMIT.\<close>

definition which_server :: "env \<Rightarrow> conn option \<Rightarrow> 'a tc_scheme \<Rightarrow> 'a tc_scheme" where
  "which_server E c s =
     (let (_, s) = mysql_query E c ''SELECT @@server_id, @@hostname'' s in mysql_store c s)"

definition mrm_nodes_check :: "env \<Rightarrow> int \<Rightarrow> 'a tc_scheme \<Rightarrow> (int \<times> 'a tc_scheme) option" where
  "mrm_nodes_check E inserts s =
     (let (c, s) = open_service E (tc_rwsplit_port s) s in
      do { (inserts, s) \<leftarrow> check_inserts E c inserts s;
           let s = which_server E c s;
           let (_, s) = try_query E c ''COMMIT'' s;
           let s = list_servers E (which_server E c s);
           Some (inserts, mysql_close c s) })"

definition mrm_prepare :: "env \<Rightarrow> string \<Rightarrow> 'a tc_scheme \<Rightarrow> 'a tc_scheme option" where
  "mrm_prepare E n s =
     (let (_, s) = ssh_maxscale E True
            ''pcs resource disable maxscale-clone; pcs resource disable replication-manager'' s
      in do {
        (_, s) \<leftarrow> fix_replication E (tc_repl s) s;
        let (_, s) = c_system E (''./manage_mrm.sh configure '' @ n) s;
        let (_, s) = copy_from_maxscale E ''/etc/maxscale.cnf'' ''.'' s;
        let (_, s) = copy_to_maxscale E ''./config.toml'' ''~'' s;
        let (_, s) = ssh_maxscale E False
          ''sudo cp ~/maxscale.cnf /etc/; sudo cp ~/config.toml /etc/replication-manager/'' s;
        let (_, s) = c_system E (''sed -i '' @ quote @
          ''s/version_string=.*/version_string=10.1.19-maxscale-standby/'' @ quote @ '' ./maxscale.cnf'') s;
        let (_, s) = copy_to_node E (tc_galera s) ''./maxscale.cnf'' ''~'' 0 s;
        let (_, s) = copy_to_node E (tc_galera s) ''./config.toml'' ''~'' 0 s;
        let (_, s) = ssh_node E (tc_galera s) 0 ''sudo cp ~/config.toml /etc/replication-manager'' False s;
        let (_, s) = ssh_node E (tc_galera s) 0 ''sudo cp ~/maxscale.cnf /etc/'' False s;
        let (_, s) = ssh_maxscale E True (''replication-manager bootstrap --clean-all;'' @
          ''pcs resource enable maxscale-clone; pcs resource enable replication-manager'') s;
        Some (c_sleep 5 s) })"

definition do_sleep :: "nat \<Rightarrow> 'a tc_scheme \<Rightarrow> 'a tc_scheme" where
  "do_sleep n s = do_loop [0..<n] (\<lambda>_. c_sleep 1) s"

text \<open>A step: a node is stopped or started; fifteen seconds later the check.\<close>

datatype mrm_step = Stop nat | Start nat

definition mrm_move :: "env \<Rightarrow> mrm_step \<Rightarrow> 'a tc_scheme \<Rightarrow> 'a tc_scheme" where
  "mrm_move E st s =
     (case st of Stop i \<Rightarrow> snd (stop_node E (tc_repl s) i s) | Start i \<Rightarrow> snd (start_node E (tc_repl s) i [] s))"

definition mrm_run :: "env \<Rightarrow> mrm_step \<Rightarrow> int \<Rightarrow> 'a tc_scheme \<Rightarrow> (int \<times> 'a tc_scheme) option" where
  "mrm_run E st inserts s = mrm_nodes_check E inserts (do_sleep 15 (mrm_move E st s))"

definition mrm_nodes_test ::
  "env \<Rightarrow> string \<Rightarrow> mrm_step list \<Rightarrow> ('a tc_scheme \<Rightarrow> 'a tc_scheme) \<Rightarrow> 'a tc_scheme \<Rightarrow> (int \<times> 'a tc_scheme) option" where
  "mrm_nodes_test E n steps restore s =
     do { s \<leftarrow> mrm_prepare E n s;
          let s = through_maxscale E [''CREATE OR REPLACE TABLE test.t1(id INT)''] s;
          (inserts, s) \<leftarrow> mrm_nodes_check E 0 s;
          (_, s) \<leftarrow> foreachM steps (mrm_run E) inserts s;
          let s = through_maxscale E [''DROP TABLE test.t1''] (restore s);
          Some (tc_global_result s, s) }"

definition replication_manager_2nodes :: "env \<Rightarrow> 'a tc_scheme \<Rightarrow> (int \<times> 'a tc_scheme) option" where
  "replication_manager_2nodes E s =
     mrm_nodes_test E ''2'' [Stop 1, Start 1, Stop 0, Start 0, Stop 1, Start 1] (\<lambda>s. s) s"

definition replication_manager_3nodes :: "env \<Rightarrow> 'a tc_scheme \<Rightarrow> (int \<times> 'a tc_scheme) option" where
  "replication_manager_3nodes E s =
     mrm_nodes_test E ''3'' [Stop 1, Stop 2, Start 2, Stop 0]
       (\<lambda>s. do_sleep 5 (mrm_move E (Start 0) (mrm_move E (Start 1) s))) s"

text \<open>The static settings of the two programs: the backends are not checked and MaxScale is not started.\<close>

definition mrm_program ::
  "env \<Rightarrow> cid \<Rightarrow> cid \<Rightarrow> string \<Rightarrow> string option \<Rightarrow> string \<Rightarrow> ('a tc_scheme \<Rightarrow> (int \<times> 'a tc_scheme) option)
   \<Rightarrow> 'a tc_scheme \<Rightarrow> (int \<times> 'a tc_scheme) option" where
  "mrm_program E a b opts operand argv0 body s =
     test_program E a b opts operand argv0 body (skip_maxscale_start True (tc_check_nodes False s))"

section \<open>auroramon\<close>

text \<open>The RDS object and the test object share the log.\<close>

definition on_cluster ::
  "(rds \<Rightarrow> ('x \<times> rds) option) \<Rightarrow> rds \<Rightarrow> 'a tc_scheme \<Rightarrow> (('x \<times> rds) \<times> 'a tc_scheme) option" where
  "on_cluster f r s =
     do { (x, r) \<leftarrow> f (r\<lparr>trace := trace s\<rparr>); Some ((x, r), s\<lparr>trace := trace r\<rparr>) }"

text \<open>
  The variables for the constructor: address and port of every node, then the accounts. A number
  that is not there is 0; an address that is not there is a null pointer given to \<open>setenv\<close>.
\<close>

definition json_integer :: "json option \<Rightarrow> int" where
  "json_integer j = (case j of Some (JInteger n) \<Rightarrow> n | _ \<Rightarrow> 0)"

fun endpoint_vars :: "nat \<Rightarrow> json list \<Rightarrow> (string \<times> string) list option" where
  "endpoint_vars i [] = Some []"
| "endpoint_vars i (endpoint # es) =
     do { IP \<leftarrow> jstring (jget (Some endpoint) ''Address'');
          vars \<leftarrow> endpoint_vars (Suc i) es;
          Some ((''node_'' @ pad3 i @ ''_network'', IP) #
                (''node_'' @ pad3 i @ ''_port'', int_str (json_integer (jget (Some endpoint) ''Port''))) # vars) }"

definition account_vars :: "(string \<times> string) list" where
  "account_vars =
     [(''node_password'', ''skysqlrds''), (''maxscale_user'', ''skysql''), (''maxscale_password'', ''skysqlrds''),
      (''no_nodes_check'', ''yes''), (''no_backend_log_copy'', ''yes'')]"

definition set_endspoints :: "env \<Rightarrow> rds \<Rightarrow> ((string \<times> string) list option \<times> rds) option" where
  "set_endspoints E r =
     do { (endpoints, r) \<leftarrow> get_endpoints E r;
          case endpoints of
            None \<Rightarrow> Some (None, r)
          | Some es \<Rightarrow>
              do { vars \<leftarrow> endpoint_vars 0 es;
                   let vars = vars @ account_vars;
                   Some (Some vars, emits (map (\<lambda>(n, v). ESetenv n v) vars) r) } }"

definition with_vars :: "(string \<times> string) list \<Rightarrow> env \<Rightarrow> env" where
  "with_vars vars E = E\<lparr>env_get := \<lambda>n. case map_of (rev vars) n of Some v \<Rightarrow> Some v | None \<Rightarrow> env_get E n\<rparr>"

text \<open>\<open>strcmp\<close> is taken for equality: a failure is counted when the status is the expected one.\<close>

definition compare_status :: "bool \<Rightarrow> string \<Rightarrow> bool" where
  "compare_status is_writer status \<longleftrightarrow> status \<noteq> (if is_writer then ''Master, Running'' else ''Slave, Running'')"

definition compare_node ::
  "env \<Rightarrow> string \<Rightarrow> nat \<Rightarrow> string option \<Rightarrow> 'a tc_scheme \<Rightarrow> (string option \<times> 'a tc_scheme) option" where
  "compare_node E aurora_master i status s =
     do { (v, s) \<leftarrow> read_status E (''server'' @ int_str (int i + 1)) status s;
          maxadmin_status \<leftarrow> v;
          Some (v, if compare_status (aurora_master = ''node'' @ pad3 i) maxadmin_status then s else add_result 1 s) }"

definition compare_masters :: "env \<Rightarrow> rds \<Rightarrow> 'a tc_scheme \<Rightarrow> (rds \<times> 'a tc_scheme) option" where
  "compare_masters E r s =
     do { (((_, name), r), s) \<leftarrow> on_cluster (get_writer E) r s;
          aurora_master \<leftarrow> name;
          (_, s) \<leftarrow> foreachM (node_ids (repl s)) (compare_node E aurora_master) None s;
          Some (r, s) }"

definition aurora_server_id :: "env \<Rightarrow> string option \<Rightarrow> 'a tc_scheme \<Rightarrow> (string option \<times> 'a tc_scheme) option" where
  "aurora_server_id E server_id s =
     (let (_, s) = connect_rwsplit E (set_timeout 30 s);
          (_, s) = try_query E (tc_conn_rwsplit s) ''show processlist'' s
      in do { ((_, v), s) \<leftarrow> find_field E (tc_conn_rwsplit s) ''select @@aurora_server_id;'' ''server_id'' s;
              let server_id = (case v of None \<Rightarrow> server_id | Some _ \<Rightarrow> v);
              let s = close_rwsplit s;
              _ \<leftarrow> server_id;
              Some (server_id, s) })"

definition auroramon_body :: "env \<Rightarrow> rds \<Rightarrow> 'a tc_scheme \<Rightarrow> (int \<times> 'a tc_scheme) option" where
  "auroramon_body E r s =
     do { (r, s) \<leftarrow> compare_masters E r (set_timeout 30 s);
          (server_id, s) \<leftarrow> aurora_server_id E None s;
          ((rc, r), s) \<leftarrow> on_cluster (do_failover E) r (stop_timeout s);
          let s = add_result rc s;
          (_, s) \<leftarrow> aurora_server_id E server_id s;
          (r, s) \<leftarrow> compare_masters E r s;
          (_, s) \<leftarrow> on_cluster (\<lambda>r. map_option (\<lambda>r. ((), r)) (delete_rds_cluster E r)) r (stop_timeout s);
          Some (tc_global_result s, s) }"

definition auroramon ::
  "env \<Rightarrow> cid \<Rightarrow> cid \<Rightarrow> string \<Rightarrow> string option \<Rightarrow> string \<Rightarrow> rds \<Rightarrow> 'a tc_scheme \<Rightarrow> (int \<times> 'a tc_scheme) option" where
  "auroramon E a b opts operand argv0 r s =
     do { ((rc, r), s) \<leftarrow> on_cluster (create_rds_db E 4) (rds_construct ''auroratest'' r) s;
          if rc \<noteq> 0 then Some (1, s)
          else do {
            ((_, r), s) \<leftarrow> on_cluster (wait_for_nodes E 4) r s;
            ((vars, r), s) \<leftarrow> on_cluster (set_endspoints E) r s;
            case vars of
              None \<Rightarrow> Some (1, s)
            | Some vars \<Rightarrow> test_program (with_vars vars E) a b opts operand argv0
                             (auroramon_body (with_vars vars E) r) s } }"

end
