(* ===== verification/Connection_Tests.thy ===== *)
theory Connection_Tests
  imports Failover_Tests Big_Load
begin

text \<open>
  Tests that count connections and statements: \<open>load_balancing\<close> and \<open>load_balancing_galera\<close>,
  \<open>readconnrouter_master\<close>, \<open>readconnrouter_slave\<close>, \<open>rwsplit_conn_num\<close>, \<open>max_connections\<close> and
  \<open>connection_limit\<close>. The threads of the load tests run along a schedule, as in theory \<open>Big_Load\<close>; a
  connection to MaxScale that cannot be opened there ends the process, which is \<^const>\<open>Inl\<close> with its code.
\<close>

section \<open>load_balancing\<close>

text \<open>The range for a node: a third of the average to three times the average.\<close>

definition balanced :: "int \<Rightarrow> int \<Rightarrow> bool" where
  "balanced avr q \<longleftrightarrow> \<not> (avr * 3 < q) \<and> \<not> (q < avr div 3)"

definition check_balance ::
  "nat list \<Rightarrow> nat \<Rightarrow> int \<Rightarrow> (nat \<Rightarrow> int) \<Rightarrow> (nat \<Rightarrow> int) \<Rightarrow> 'a tc_scheme \<Rightarrow> 'a tc_scheme" where
  "check_balance slaves master avr selects new_selects s =
     (let s = do_loop slaves
                (\<lambda>i s. if balanced avr (new_selects i - selects i) then s else add_result 1 s) s
      in if avr div 3 < new_selects master - selects master then add_result 1 s else s)"

definition query_nodes :: "env \<Rightarrow> cid \<Rightarrow> string list \<Rightarrow> 'a tc_scheme \<Rightarrow> 'a tc_scheme" where
  "query_nodes E nodes sqls s =
     (let (_, s) = connect E nodes s;
          s = do_loop (node_ids (objs s nodes)) (\<lambda>i s. do_loop sqls (\<lambda>sql s. snd (query_node E nodes sql i s)) s) s
      in close_connections nodes s)"

definition raise_limits :: "env \<Rightarrow> cid \<Rightarrow> 'a tc_scheme \<Rightarrow> 'a tc_scheme" where
  "raise_limits E nodes s =
     query_nodes E nodes [''set global max_connections = 300;'', ''set global max_connect_errors = 100000;''] s"

definition restore_limits :: "env \<Rightarrow> cid \<Rightarrow> 'a tc_scheme \<Rightarrow> 'a tc_scheme" where
  "restore_limits E nodes s = query_nodes E nodes [''flush hosts;'', ''set global max_connections = 151;''] s"

definition load_threads :: "'a tc_scheme \<Rightarrow> nat" where
  "load_threads s = (if tc_smoke s then 15 else 25)"

text \<open>The arrays are not initialised; the average has no result when there are no nodes.\<close>

definition load_and_check ::
  "env \<Rightarrow> bool \<Rightarrow> nat list \<Rightarrow> (nat \<Rightarrow> int) \<times> (nat \<Rightarrow> int) \<Rightarrow> (nat \<Rightarrow> int) \<times> (nat \<Rightarrow> int) \<Rightarrow> nat \<Rightarrow> 'a tc_scheme
   \<Rightarrow> ((int + unit) \<times> 'a tc_scheme) option" where
  "load_and_check E use_galera sched old new master s =
     (let nodes = (if use_galera then tc_galera s else tc_repl s) in
      do { (r, s) \<leftarrow> load E use_galera True (load_threads s) sched True (fst old) (snd old) (fst new) (snd new)
                       (set_timeout 1200 s);
           case r of
             Inl code \<Rightarrow> Some (Inl code, s)
           | Inr ((i1, i2), (selects, _), (new_selects, _)) \<Rightarrow>
               if mn_N (objs s nodes) = 0 then None
               else
                 let avr = (int i1 + int i2) div mn_N (objs s nodes);
                     slaves = (if use_galera then filter (\<lambda>i. i \<noteq> master) (node_ids (objs s nodes))
                               else [1..<nat (mn_N (objs s nodes))])
                 in Some (Inr (), restore_limits E nodes (check_balance slaves master avr selects new_selects s)) })"

definition load_balancing ::
  "env \<Rightarrow> nat list \<Rightarrow> (nat \<Rightarrow> int) \<times> (nat \<Rightarrow> int) \<Rightarrow> (nat \<Rightarrow> int) \<times> (nat \<Rightarrow> int) \<Rightarrow> 'a tc_scheme
   \<Rightarrow> ((int + int) \<times> 'a tc_scheme) option" where
  "load_balancing E sched old new s =
     (let s = set_timeout 20 s;
          s = raise_limits E (tc_repl s) s
      in do {
        (r, s) \<leftarrow> load_and_check E False sched old new 0 s;
        case r of
          Inl code \<Rightarrow> Some (Inl code, s)
        | Inr _ \<Rightarrow>
            do { (_, s) \<leftarrow> check_maxscale_alive E s;
                 let (_, s) = start_replication E (tc_repl s) s;
                 Some (Inr (tc_global_result s), s) } })"

definition load_balancing_galera ::
  "env \<Rightarrow> nat list \<Rightarrow> (nat \<Rightarrow> int) \<times> (nat \<Rightarrow> int) \<Rightarrow> (nat \<Rightarrow> int) \<times> (nat \<Rightarrow> int) \<Rightarrow> 'a tc_scheme
   \<Rightarrow> ((int + int) \<times> 'a tc_scheme) option" where
  "load_balancing_galera E sched old new s =
     do { (master, s) \<leftarrow> find_master_maxadmin E (tc_galera s) (set_timeout 20 s);
          if master < 0 then (let s = add_result 1 s in Some (Inr (tc_global_result s), s))
          else do {
            let s = set_timeout 20 s;
            (r, s) \<leftarrow> load_and_check E True sched old new (nat master) (raise_limits E (tc_galera s) s);
            case r of
              Inl code \<Rightarrow> Some (Inl code, s)
            | Inr _ \<Rightarrow>
                do { (_, s) \<leftarrow> check_maxscale_alive E s;
                     Some (Inr (tc_global_result s), s) } } }"

section \<open>readconnrouter_master\<close>

definition node_connections :: "env \<Rightarrow> nat \<Rightarrow> 'a tc_scheme \<Rightarrow> (int \<times> 'a tc_scheme) option" where
  "node_connections E i s =
     get_conn_num E (mn_nodes (repl s) i) (maxscale_ip s) (tc_maxscale_hostname s) ''test'' s"

definition only_master_step :: "env \<Rightarrow> int \<Rightarrow> nat \<Rightarrow> int \<Rightarrow> 'a tc_scheme \<Rightarrow> (int \<times> 'a tc_scheme) option" where
  "only_master_step E master i res s =
     do { (conn_num, s) \<leftarrow> node_connections E i s;
          Some (if int i = master \<and> conn_num \<noteq> 1 \<or> int i \<noteq> master \<and> conn_num \<noteq> 0 then res + 1 else res, s) }"

definition check_connnections_only_to_master :: "env \<Rightarrow> int \<Rightarrow> 'a tc_scheme \<Rightarrow> (int \<times> 'a tc_scheme) option" where
  "check_connnections_only_to_master E master s = foreachM (node_ids (repl s)) (only_master_step E master) 0 s"

definition connect_and_check :: "env \<Rightarrow> int \<Rightarrow> 'a tc_scheme \<Rightarrow> 'a tc_scheme option" where
  "connect_and_check E master s =
     (let (_, s) = connect_readconn_master E s;
          s = set_timeout 50 (c_sleep 10 (stop_timeout s))
      in do { (res, s) \<leftarrow> check_connnections_only_to_master E master s;
              Some (close_readconn_master (add_result res s)) })"

definition readconnrouter_master :: "env \<Rightarrow> 'a tc_scheme \<Rightarrow> (int \<times> 'a tc_scheme) option" where
  "readconnrouter_master E s =
     (let s = set_timeout 100 s; (_, s) = connect E (tc_repl s) s in
      do { s \<leftarrow> connect_and_check E 0 s;
           s \<leftarrow> change_master E (tc_repl s) 1 0 (set_timeout 50 s);
           s \<leftarrow> connect_and_check E 1 (set_timeout 50 (c_sleep 10 (stop_timeout s)));
           s \<leftarrow> change_master E (tc_repl s) 0 1 (set_timeout 50 s);
           let s = check_log_err E (''The service '' @ quote @ ''CLI'' @ quote @
             '' is missing a definition of the servers'') False s;
           Some (tc_global_result s, s) })"

section \<open>readconnrouter_slave and rwsplit_conn_num\<close>

text \<open>
  100 connections over the slaves: every slave gets the quotient, rounded down or up. The quotient is
  a \<open>float\<close>; with one node it is infinite, and converting that to an \<open>int\<close> has no result.
\<close>

definition conn_floor :: "int \<Rightarrow> int option" where
  "conn_floor N = (if N = 1 then None else Some (100 div (N - 1)))"

definition conn_ceil :: "int \<Rightarrow> int option" where
  "conn_ceil N = (if N = 1 then None else Some (- (- 100 div (N - 1))))"

definition spread_step ::
  "env \<Rightarrow> int \<Rightarrow> int \<Rightarrow> nat \<Rightarrow> int \<Rightarrow> 'a tc_scheme \<Rightarrow> (int \<times> 'a tc_scheme) option" where
  "spread_step E lo hi i sum_conn s =
     do { (conn_num, s) \<leftarrow> node_connections E i s;
          Some (sum_conn + conn_num, if hi < conn_num \<or> conn_num < lo then add_result 1 s else s) }"

definition check_spread :: "env \<Rightarrow> int \<Rightarrow> int \<Rightarrow> 'a tc_scheme \<Rightarrow> 'a tc_scheme option" where
  "check_spread E lo hi s =
     do { (sum_conn, s) \<leftarrow> foreachM [1..<nat (mn_N (repl s))] (spread_step E lo hi) 0 s;
          Some (if sum_conn \<noteq> 100 then add_result 1 s else s) }"

definition close_all :: "conn option list \<Rightarrow> 'a tc_scheme \<Rightarrow> 'a tc_scheme" where
  "close_all conns s = do_loop conns mysql_close s"

definition readconnrouter_slave :: "env \<Rightarrow> 'a tc_scheme \<Rightarrow> (int \<times> 'a tc_scheme) option" where
  "readconnrouter_slave E s =
     (let s = set_timeout 100 s;
          (_, s) = connect E (tc_repl s) s;
          (conns, s) = open_many E (tc_readconn_slave_port s) 100 [] s;
          s = c_sleep 5 s
      in do {
        lo \<leftarrow> conn_floor (mn_N (repl s));
        hi \<leftarrow> conn_ceil (mn_N (repl s));
        (conn_num, s) \<leftarrow> node_connections E 0 s;
        s \<leftarrow> check_spread E lo hi (add_result conn_num s);
        let s = close_all conns s;
        Some (tc_global_result s, s) })"

definition raise_node_limit :: "env \<Rightarrow> nat \<Rightarrow> 'a tc_scheme \<Rightarrow> 'a tc_scheme" where
  "raise_node_limit E i s =
     (let (c, s) = open_conn E (mn_port (repl s) i) (mn_IP (repl s) i) (mn_user_name (repl s)) (mn_password (repl s))
                     (mn_ssl (repl s)) s;
          (_, s) = execute_query E c ''SET GLOBAL max_connections = 200;'' s
      in mysql_close c s)"

definition rwsplit_conn_num :: "env \<Rightarrow> 'a tc_scheme \<Rightarrow> (int \<times> 'a tc_scheme) option" where
  "rwsplit_conn_num E s =
     (let s = set_timeout 20 s;
          (_, s) = connect E (tc_repl s) s;
          s = do_loop (node_ids (repl s)) (raise_node_limit E) s;
          (conns, s) = open_many E (tc_rwsplit_port s) 100 [] s;
          s = c_sleep 5 s
      in do {
        lo \<leftarrow> conn_floor (mn_N (repl s));
        hi \<leftarrow> conn_ceil (mn_N (repl s));
        (conn_num, s) \<leftarrow> node_connections E 0 s;
        s \<leftarrow> check_spread E lo hi (if conn_num \<noteq> 100 then add_result 1 s else s);
        let s = close_all conns s;
        Some (tc_global_result s, s) })"

section \<open>max_connections\<close>

text \<open>
  Connections are opened until a statement fails; that one and the one before it are closed. A
  limit of 0, at the first connection or because no statement failed, makes \<open>mysql[limit - 1]\<close> an
  access in front of the array.
\<close>

fun find_limit ::
  "env \<Rightarrow> nat list \<Rightarrow> (nat \<Rightarrow> conn option) \<Rightarrow> 'a tc_scheme \<Rightarrow> ((nat \<times> (nat \<Rightarrow> conn option)) \<times> 'a tc_scheme) option" where
  "find_limit E [] mysql s = Some ((0, mysql), s)"
| "find_limit E (i # is) mysql s =
     (let s = set_timeout 30 s;
          (c, s) = open_service E (tc_rwsplit_port s) s;
          mysql = mysql(i := c);
          (rc, s) = execute_query_silent E c ''select 1'' s
      in if rc \<noteq> 0
         then let s = mysql_close c (stop_timeout s) in
              if i = 0 then None else Some ((i, mysql), mysql_close (mysql (i - 1)) s)
         else find_limit E is mysql (c_sleep 1 (stop_timeout s)))"

definition limit_turn :: "env \<Rightarrow> 'a tc_scheme \<Rightarrow> 'a tc_scheme" where
  "limit_turn E s =
     (let s = set_timeout 30 s;
          (c1, s) = open_service E (tc_rwsplit_port s) s;
          (c2, s) = open_service E (tc_rwsplit_port s) s;
          s = should_work E c1 ''select 1'' s;
          s = should_fail E c2 ''select 1'' s
      in c_sleep 2 (mysql_close c2 (mysql_close c1 s)))"

definition max_connections :: "env \<Rightarrow> 'a tc_scheme \<Rightarrow> (int \<times> 'a tc_scheme) option" where
  "max_connections E s =
     do { (_, s) \<leftarrow> execute_query_all_nodes E (tc_repl s) ''set global max_connections = 20;'' (stop_timeout s);
          ((limit, mysql), s) \<leftarrow> find_limit E [0..<20] (\<lambda>_. None) (c_sleep 5 s);
          let s = c_sleep 5 s;
          if limit = 0 then None
          else do {
            let s = do_loop [0..<25] (\<lambda>_. limit_turn E) s;
            let s = do_loop [0..<limit - 1] (\<lambda>i. mysql_close (mysql i)) (set_timeout 30 s);
            (_, s) \<leftarrow> check_maxscale_alive E (stop_timeout (c_sleep 5 s));
            (_, s) \<leftarrow> execute_query_all_nodes E (tc_repl s) ''set global max_connections = 100;'' s;
            Some (tc_global_result s, s) } }"

section \<open>connection_limit\<close>

text \<open>The service of a number, and \<open>check_max_conn\<close>, whose value is not used. The last connection stays open.\<close>

fun limited_connections :: "env \<Rightarrow> int \<Rightarrow> nat \<Rightarrow> conn option list \<Rightarrow> 'a tc_scheme \<Rightarrow> conn option list \<times> 'a tc_scheme" where
  "limited_connections E port 0 conns s = (conns, s)"
| "limited_connections E port (Suc n) conns s =
     (let (c, s) = open_service E port s;
          s = (if mysql_errno E c s \<noteq> 0 then add_result 1 s else s)
      in limited_connections E port n (conns @ [c]) s)"

definition check_max_conn :: "env \<Rightarrow> int \<Rightarrow> nat \<Rightarrow> 'a tc_scheme \<Rightarrow> 'a tc_scheme" where
  "check_max_conn E port max_conn s =
     (let (conns, s) = limited_connections E port max_conn [] s;
          (c, s) = open_service E port s;
          s = (if mysql_errno E c s \<noteq> 1040 then add_result 1 s else s)
      in close_all conns s)"

definition connection_limit :: "env \<Rightarrow> 'a tc_scheme \<Rightarrow> (int \<times> 'a tc_scheme) option" where
  "connection_limit E s =
     (let s = check_max_conn E (tc_rwsplit_port s) 10 s;
          s = check_max_conn E (tc_readconn_master_port s) 20 s;
          s = check_max_conn E (tc_readconn_slave_port s) 25 s
      in do { (_, s) \<leftarrow> check_maxscale_alive E (c_sleep 10 s);
              Some (tc_global_result s, s) })"

end
