(* ===== verification/Failover_Props.thy ===== *)
theory Failover_Props
  imports Connection_Tests Monitor_Props Rds_Props Maxrows_Props
begin

text \<open>
  What the tests of the firewall, of failover and of the number of connections decide: the comparison
  of \<open>auroramon\<close>, the time for which statements were blocked, the spread of connections over the
  slaves, and when \<open>max_connections\<close> has found the limit it goes on with.
\<close>

section \<open>auroramon\<close>

lemma dropWhile_hd: "dropWhile P xs = y # ys \<Longrightarrow> \<not> P y"
  by (metis hd_dropWhile list.distinct(1) list.sel(1))

lemma trimmed_hd:
  "P x \<Longrightarrow> rev (dropWhile P (rev (x # xs))) = [] \<or> P (hd (rev (dropWhile P (rev (x # xs)))))"
  by (cases "\<forall>y \<in> set xs. P y") (auto simp: dropWhile_append)

text \<open>What is skipped in front of a value are the characters that are no blanks.\<close>

lemma maxadmin_value_blank:
  assumes "maxadmin_value buf param = Some (Some v)"
  shows "v = [] \<or> is_space (hd v)"
proof -
  obtain x y where y: "y = dropWhile (\<lambda>c. \<not> is_space c) x" and v: "v = rev (dropWhile is_space (rev (cut_at y newline)))"
    using assms by (auto simp: maxadmin_value_def Let_def split: option.splits if_splits)
  have "cut_at y newline = [] \<or> (\<exists>c cs. is_space c \<and> cut_at y newline = c # cs)"
  proof (cases y)
    case (Cons c cs)
    then have "is_space c" using dropWhile_hd[of "\<lambda>c. \<not> is_space c" x c cs] y by simp
    with Cons show ?thesis by (simp add: cut_at_def)
  qed (simp add: cut_at_def)
  then show ?thesis using trimmed_hd[of is_space] v by (elim disjE exE conjE) auto
qed

definition blank_first :: "string option \<Rightarrow> bool" where
  "blank_first v \<longleftrightarrow> (\<forall>t. v = Some t \<longrightarrow> t = [] \<or> is_space (hd t))"

lemma get_maxadmin_param_frame:
  assumes "get_maxadmin_param E cmd param s = Some ((rc, v), s')"
  shows "blank_first v \<and> extends s s'"
  using assms
  by (auto simp: get_maxadmin_param_def ssh_maxscale_output_eq blank_first_def split: option.split_asm
      elim!: bind_returns dest: maxadmin_value_blank)

lemma compare_node_silent:
  assumes "compare_node E w i v s = Some (v', s')" "blank_first v"
  shows "blank_first v' \<and> extends s s'"
proof -
  obtain p where "get_maxadmin_param E (''show server '' @ ''server'' @ int_str (int i + 1)) ''Status:'' s = Some p"
    and v': "v' = (case snd (fst p) of None \<Rightarrow> v | Some _ \<Rightarrow> snd (fst p))" and "v' \<noteq> None"
    and s': "s' = (if compare_status (w = ''node'' @ pad3 i) (the v') then snd p else add_result 1 (snd p))"
    using assms(1) by (auto simp: compare_node_def read_status_def split_def elim!: bind_returns split: option.split_asm)
  with get_maxadmin_param_frame[of E _ "''Status:''" s "fst (fst p)" "snd (fst p)" "snd p"] assms(2)
  have b: "blank_first v'" and e: "extends s (snd p)" by (auto split: option.splits)
  have "compare_status c (the v')" for c
    using b \<open>v' \<noteq> None\<close> by (auto simp: blank_first_def compare_status_def is_space_def)
  with s' b e show ?thesis by simp
qed

text \<open>
  C29. \<open>compare_masters\<close> never counts a failure, whichever node Aurora and MaxScale show as the
  master: its comparison is the wrong way round, and the value it compares never is the expected
  text, because \<open>get_maxadmin_param\<close> leaves the blanks in front of it.
\<close>

theorem compare_masters_silent:
  assumes "compare_masters E r s = Some (r', s')"
  shows "tc_global_result s' = tc_global_result s"
proof -
  obtain rc w t v' where c: "on_cluster (get_writer E) r s = Some (((rc, Some w), r'), t)"
    and l: "foreachM (node_ids (repl t)) (compare_node E w) None t = Some (v', s')"
    using assms by (auto simp: compare_masters_def elim!: bind_returns split: option.split_asm)
  have "tc_global_result t = tc_global_result s" using c by (auto simp: on_cluster_def elim!: bind_returns)
  moreover have "blank_first v' \<and> tc_global_result s' = tc_global_result t"
    by (rule foreachM_inv[OF l, where I = "\<lambda>v u. blank_first v \<and> tc_global_result u = tc_global_result t"])
      (auto simp: blank_first_def dest!: compare_node_silent tc_config_extends(3))
  ultimately show ?thesis by simp
qed

definition silent_world :: "json \<Rightarrow> env" where
  "silent_world doc = dead_env\<lparr>sh_read := (\<lambda>_ _. Some (''Status: Slave, Running'' @ [newline], 0)), json_parse := (\<lambda>_. Some doc)\<rparr>"

definition writer_doc :: json where
  "writer_doc = JObject [(''DBClusters'', JArray [JObject [(''DBClusterMembers'',
     JArray [JObject [(''IsClusterWriter'', JTrue), (''DBInstanceIdentifier'', JString ''node000'')]])]])]"

text \<open>Aurora's writer is node 0, which MaxScale shows as a slave: no failure.\<close>

definition lone_backend :: tc where
  "lone_backend = blank_tc\<lparr>objs := \<lambda>_. blank_nodes\<lparr>mn_N := 1\<rparr>\<rparr>"

lemma compare_masters_silent_witness:
  "\<exists>r' s'. compare_masters (silent_world writer_doc) blank_rds lone_backend = Some (r', s') \<and>
     tc_global_result s' = tc_global_result lone_backend"
proof -
  let ?E = "silent_world writer_doc"
  have w: "\<exists>r. on_cluster (get_writer ?E) blank_rds lone_backend = Some (((0, Some ''node000''), r),
      emits [EPopenR ''aws rds describe-db-clusters --db-cluster-identifier=c''] lone_backend)"
    by (simp add: on_cluster_def get_writer_def writer_loop_find get_cluster_def rds_run aws_execute_def cmd_buf_def
        into_block_def describe_cluster_cmd_def get_cluster_descr_def silent_world_def writer_doc_def is_writer_def
        execute_cmd_eq exec_result_def blank_rds_def rds_construct_def jget_def jarray_def jat_def jstring_def emits_def
        json_object_get_def emit_emits)
  have v: "maxadmin_value (''Status: Slave, Running'' @ [newline]) ''Status:'' = Some (Some '' Slave, Running'')"
    by code_simp
  have n: "node_ids (repl lone_backend) = [0]"
    by (simp add: lone_backend_def repl_def blank_tc_def node_ids_def)
  have "\<exists>p. compare_masters ?E blank_rds lone_backend = Some p"
    using w n v by (auto simp: compare_masters_def compare_node_def read_status_def get_maxadmin_param_def
        ssh_maxscale_output_eq silent_world_def repl_def)
  then show ?thesis using compare_masters_silent[of "silent_world writer_doc" blank_rds lone_backend] by auto
qed

section \<open>The time of refusal\<close>

definition refused_once :: "env \<Rightarrow> 'a tc_scheme \<Rightarrow> 'a tc_scheme" where
  "refused_once E s =
     snd (execute_query_silent E (tc_conn_rwsplit s) ''SELECT * FROM t1'' (snd (read_clock E s)))"

definition statement_accepted :: "env \<Rightarrow> 'a tc_scheme \<Rightarrow> bool" where
  "statement_accepted E s \<longleftrightarrow>
     fst (execute_query_silent E (tc_conn_rwsplit s) ''SELECT * FROM t1'' (snd (read_clock E s))) = 0"

lemma blocked_time_step:
  "blocked_time E t1 s =
     (if \<not> statement_accepted E s \<and> elapsed_time t1 (now E (trace s)) < 10000000
      then blocked_time E t1 (refused_once E s)
      else Some (elapsed_time t1 (now E (trace s)), refused_once E s))"
  by (subst blocked_time.simps)
    (simp add: statement_accepted_def refused_once_def read_clock_def split_def Let_def emit_def)

text \<open>
  C16. When the clock shows ten seconds after n statements, the loop of \<open>fwf\<close> that waits for the end of
  the refusal returns after at most n+1 statements: at the first one that is accepted, or the first
  one sent after ten seconds. It delivers the time read before that statement.
\<close>

theorem blocked_time_returns:
  assumes "10000000 \<le> elapsed_time t1 (now E (trace ((refused_once E ^^ n) s)))"
  shows "\<exists>k \<le> n.
    let t = (refused_once E ^^ k) s in
    blocked_time E t1 s = Some (elapsed_time t1 (now E (trace t)), refused_once E t) \<and>
    (statement_accepted E t \<or> 10000000 \<le> elapsed_time t1 (now E (trace t))) \<and>
    (\<forall>j < k. \<not> statement_accepted E ((refused_once E ^^ j) s))"
  using assms
proof (induction n arbitrary: s)
  case 0
  then show ?case by (subst blocked_time_step) (simp add: Let_def)
next
  case (Suc n)
  show ?case
  proof (cases "\<not> statement_accepted E s \<and> elapsed_time t1 (now E (trace s)) < 10000000")
    case True
    obtain k where k: "k \<le> n"
      "let t = (refused_once E ^^ k) (refused_once E s) in
        blocked_time E t1 (refused_once E s) = Some (elapsed_time t1 (now E (trace t)), refused_once E t) \<and>
        (statement_accepted E t \<or> 10000000 \<le> elapsed_time t1 (now E (trace t))) \<and>
        (\<forall>j < k. \<not> statement_accepted E ((refused_once E ^^ j) (refused_once E s)))"
      using Suc.IH[of "refused_once E s"] Suc.prems by (auto simp: funpow_swap1)
    have "\<not> statement_accepted E ((refused_once E ^^ j) s)" if "j < Suc k" for j
      using k(2) True that by (cases j) (auto simp: Let_def funpow_swap1)
    with k True blocked_time_step[of E t1 s] show ?thesis
      by (intro exI[of _ "Suc k"]) (simp add: Let_def funpow_swap1)
  next
    case False
    then show ?thesis
      using blocked_time_step[of E t1 s] by (intro exI[of _ 0]) (auto simp: Let_def)
  qed
qed

text \<open>A clock that counts the seconds of its readings.\<close>

definition counting_env :: env where
  "counting_env = dead_env\<lparr>now := \<lambda>h. (int (length h), 0)\<rparr>"

lemma blocked_time_returns_witness:
  "\<exists>e s'. blocked_time counting_env (0, 0) blank_tc = Some (e, s') \<and> 10000000 \<le> e"
proof -
  have step: "refused_once counting_env s = emit EClock s \<and> \<not> statement_accepted counting_env s"
    if "tc_conn_rwsplit s = None" for s :: tc
    using that by (simp add: refused_once_def statement_accepted_def read_clock_def execute_query_silent_def
        execute_query1_def)
  have it: "tc_conn_rwsplit ((refused_once counting_env ^^ n) blank_tc) = None \<and>
      length (trace ((refused_once counting_env ^^ n) blank_tc)) = n" for n
    by (induction n) (auto simp: step blank_tc_def emit_def)
  have "10000000 \<le> elapsed_time (0, 0) (now counting_env (trace ((refused_once counting_env ^^ 10) blank_tc)))"
    using it[of 10] by (simp add: elapsed_time_def counting_env_def)
  from blocked_time_returns[OF this] it step show ?thesis by (auto simp: Let_def)
qed

section \<open>The spread of connections\<close>

text \<open>First read the numbers of all slaves, then judge them.\<close>

fun connection_counts :: "env \<Rightarrow> nat list \<Rightarrow> 'a tc_scheme \<Rightarrow> (int list \<times> 'a tc_scheme) option" where
  "connection_counts E [] s = Some ([], s)"
| "connection_counts E (i # is) s =
     do { (n, s) \<leftarrow> node_connections E i s;
          (ns, s) \<leftarrow> connection_counts E is s;
          Some (n # ns, s) }"

definition outside :: "int \<Rightarrow> int \<Rightarrow> int list \<Rightarrow> int" where
  "outside lo hi ns = int (length (filter (\<lambda>n. hi < n \<or> n < lo) ns))"

lemma node_connections_result:
  "node_connections E i (add_result r s) = map_option (\<lambda>(n, t). (n, add_result r t)) (node_connections E i s)"
  by (auto simp: node_connections_def get_conn_num_def add_result_def mysql_query_def mysql_store_def emit_def
      repl_def maxscale_ip_def Let_def map_option_bind comp_def split: option.splits reply.splits bind_splits)

lemma connection_counts_result:
  "connection_counts E is (add_result r s) = map_option (\<lambda>(n, t). (n, add_result r t)) (connection_counts E is s)"
proof (induction "is" arbitrary: s)
  case (Cons i "is")
  then show ?case
    by (cases "node_connections E i s") (auto simp: node_connections_result split: option.splits bind_splits)
qed simp

lemma add_result_add: "add_result a (add_result b s) = add_result (a + b) s"
  by (simp add: add_result_def add.commute add.left_commute)

lemma add_result_0 [simp]: "add_result 0 s = s"
  by (simp add: add_result_def)

lemma spread_loop:
  "foreachM is (spread_step E lo hi) acc s =
     map_option (\<lambda>(ns, t). (acc + sum_list ns, add_result (outside lo hi ns) t)) (connection_counts E is s)"
proof (induction "is" arbitrary: acc s)
  case Nil
  then show ?case by (simp add: outside_def)
next
  case (Cons i "is")
  show ?case
  proof (cases "node_connections E i s")
    case None
    then show ?thesis by (simp add: spread_step_def)
  next
    case (Some p)
    obtain n t where p: "p = (n, t)" by (cases p)
    let ?r = "if hi < n \<or> n < lo then 1 else 0 :: int"
    have "spread_step E lo hi i acc s = Some (acc + n, add_result ?r t)"
      using Some p by (simp add: spread_step_def)
    then have "foreachM (i # is) (spread_step E lo hi) acc s = foreachM is (spread_step E lo hi) (acc + n) (add_result ?r t)"
      by simp
    also have "\<dots> = map_option (\<lambda>(ns, u). (acc + n + sum_list ns, add_result (outside lo hi ns) (add_result ?r u)))
        (connection_counts E is t)"
      by (simp only: Cons.IH connection_counts_result option.map_comp comp_def split_def fst_conv snd_conv)
    also have "\<dots> = map_option (\<lambda>(ns, u). (acc + sum_list ns, add_result (outside lo hi ns) u)) (connection_counts E (i # is) s)"
      using Some p by (cases "connection_counts E is t") (auto simp: add_result_add outside_def add.commute)
    finally show ?thesis .
  qed
qed

text \<open>
  \<open>check_spread\<close>, the check of \<open>readconnrouter_slave\<close> and \<open>rwsplit_conn_num\<close>, is the same as reading
  the numbers of all slaves first and then counting one failure for each that is outside the range,
  and one if they do not sum up to 100.
\<close>

theorem check_spread_judges:
  "check_spread E lo hi s =
     map_option (\<lambda>(ns, t). add_result (outside lo hi ns + (if sum_list ns \<noteq> 100 then 1 else 0)) t)
       (connection_counts E [1..<nat (mn_N (repl s))] s)"
  by (auto simp: check_spread_def spread_loop add_result_add split_def add.commute split: bind_splits)

text \<open>The range of \<open>readconnrouter_slave\<close>: 100 connections fit between the bounds, which differ by at most one.\<close>

lemma conn_bounds:
  assumes "2 \<le> N" "conn_floor N = Some lo" "conn_ceil N = Some hi"
  shows "lo * (N - 1) \<le> 100" "100 \<le> hi * (N - 1)" "hi - lo \<le> 1"
proof -
  let ?k = "N - 1"
  have k: "1 \<le> ?k" and lo: "lo = 100 div ?k" and hi: "hi = - (- 100 div ?k)"
    using assms by (auto simp: conn_floor_def conn_ceil_def split: if_split_asm)
  have down: "?k * lo + 100 mod ?k = 100" unfolding lo by (rule mult_div_mod_eq)
  have up: "?k * (- hi) + (- 100) mod ?k = - 100" unfolding hi minus_minus by (rule mult_div_mod_eq)
  have mods: "0 \<le> 100 mod ?k" "100 mod ?k < ?k" "0 \<le> (- 100) mod ?k" "(- 100) mod ?k < ?k"
    using k by simp_all
  show "lo * ?k \<le> 100" using down mods(1) by (subst mult.commute) linarith
  show "100 \<le> hi * ?k" using up mods(3) by (subst mult.commute) linarith
  have sum: "k * lo + a = 100 \<Longrightarrow> k * (- hi) + b = - 100 \<Longrightarrow> a < k \<Longrightarrow> b < k \<Longrightarrow> k * (hi - lo) < k * 2" for k a b :: int
    by (simp add: right_diff_distrib)
  have "?k * (hi - lo) < ?k * 2" by (rule sum[OF down up mods(2,4)])
  then have "hi - lo < 2" using k mult_less_cancel_left_pos[of ?k "hi - lo" 2] by linarith
  then show "hi - lo \<le> 1" by simp
qed

section \<open>max_connections\<close>

text \<open>
  The limit of \<open>max_connections\<close> is the number of the first connection whose statement fails; without
  one it is 0, and the test goes on in front of its array.
\<close>

lemma find_limit_found:
  assumes "find_limit E is mysql s = Some ((limit, m), s')"
  shows "limit = 0 \<or> limit \<in> set is \<and> 0 < limit \<and>
    (\<exists>h. trace s' = h @ [EClose (m limit), EClose (m (limit - 1))])"
  using assms
proof (induction "is" arbitrary: mysql s)
  case (Cons i "is")
  then show ?case
    by (auto simp: Let_def split_def mysql_close_def emit_def split: if_split_asm)
qed simp

end
