(* ===== verification/Test_Steps.thy ===== *)
theory Test_Steps
  imports Connection_Tests Monitor_Tests Firewall_Tests Change_Master
begin

text \<open>
  The steps most test programs are made of, under short names: a statement on one of the
  connections of the test object, a search in the log, a command on a machine, and the end of a
  test, which is the number of failures. Nothing of the program is modelled here: they are
  abbreviating compositions of the operations of \<open>TestConnections\<close>.
\<close>

section \<open>Statements\<close>

text \<open>The connection is a field of the test object, read when the step is made.\<close>

definition try_on :: "env \<Rightarrow> ('a tc_scheme \<Rightarrow> conn option) \<Rightarrow> string \<Rightarrow> 'a tc_scheme \<Rightarrow> 'a tc_scheme" where
  "try_on E c sql s = snd (try_query E (c s) sql s)"

definition run_on :: "env \<Rightarrow> ('a tc_scheme \<Rightarrow> conn option) \<Rightarrow> string \<Rightarrow> 'a tc_scheme \<Rightarrow> 'a tc_scheme" where
  "run_on E c sql s = snd (execute_query E (c s) sql s)"

definition silent_on :: "env \<Rightarrow> ('a tc_scheme \<Rightarrow> conn option) \<Rightarrow> string \<Rightarrow> 'a tc_scheme \<Rightarrow> 'a tc_scheme" where
  "silent_on E c sql s = snd (execute_query_silent E (c s) sql s)"

definition tries :: "env \<Rightarrow> ('a tc_scheme \<Rightarrow> conn option) \<Rightarrow> string list \<Rightarrow> 'a tc_scheme \<Rightarrow> 'a tc_scheme" where
  "tries E c sqls s = do_loop sqls (try_on E c) s"

definition runs :: "env \<Rightarrow> ('a tc_scheme \<Rightarrow> conn option) \<Rightarrow> string list \<Rightarrow> 'a tc_scheme \<Rightarrow> 'a tc_scheme" where
  "runs E c sqls s = do_loop sqls (run_on E c) s"

text \<open>\<open>add_result(execute_query(...))\<close> and \<open>add_result(execute_query(...) == 0)\<close>.\<close>

definition counted_on :: "env \<Rightarrow> ('a tc_scheme \<Rightarrow> conn option) \<Rightarrow> string \<Rightarrow> 'a tc_scheme \<Rightarrow> 'a tc_scheme" where
  "counted_on E c sql s = (let (rc, s) = execute_query E (c s) sql s in add_result rc s)"

definition refused_on :: "env \<Rightarrow> ('a tc_scheme \<Rightarrow> conn option) \<Rightarrow> string \<Rightarrow> 'a tc_scheme \<Rightarrow> 'a tc_scheme" where
  "refused_on E c sql s =
     (let (rc, s) = execute_query E (c s) sql s in add_result (if rc = 0 then 1 else 0) s)"

text \<open>\<open>add_result(execute_query_check_one(...))\<close>\<close>

definition check_one_on ::
  "env \<Rightarrow> ('a tc_scheme \<Rightarrow> conn option) \<Rightarrow> string \<Rightarrow> string \<Rightarrow> 'a tc_scheme \<Rightarrow> 'a tc_scheme option" where
  "check_one_on E c sql expected s =
     do { (rc, s) \<leftarrow> execute_query_check_one E (c s) sql expected s; Some (add_result rc s) }"

text \<open>\<open>add_result(execute_select_query_and_check(...))\<close>\<close>

definition select_check_on ::
  "env \<Rightarrow> ('a tc_scheme \<Rightarrow> conn option) \<Rightarrow> nat \<Rightarrow> 'a tc_scheme \<Rightarrow> 'a tc_scheme option" where
  "select_check_on E c n s =
     do { (rc, s) \<leftarrow> execute_select_query_and_check E (c s) ''SELECT * FROM t1;'' n s; Some (add_result rc s) }"

definition node_conn :: "nat \<Rightarrow> 'a tc_scheme \<Rightarrow> conn option" where
  "node_conn i s = mn_nodes (repl s) i"

section \<open>The log and the machines\<close>

definition log_has :: "env \<Rightarrow> string list \<Rightarrow> 'a tc_scheme \<Rightarrow> 'a tc_scheme" where
  "log_has E msgs s = do_loop msgs (\<lambda>m. check_log_err E m True) s"

definition log_lacks :: "env \<Rightarrow> string list \<Rightarrow> 'a tc_scheme \<Rightarrow> 'a tc_scheme" where
  "log_lacks E msgs s = do_loop msgs (\<lambda>m. check_log_err E m False) s"

definition on_maxscale :: "env \<Rightarrow> bool \<Rightarrow> string \<Rightarrow> 'a tc_scheme \<Rightarrow> 'a tc_scheme" where
  "on_maxscale E sudo cmd s = snd (ssh_maxscale E sudo cmd s)"

definition on_node :: "env \<Rightarrow> bool \<Rightarrow> string \<Rightarrow> nat \<Rightarrow> 'a tc_scheme \<Rightarrow> 'a tc_scheme" where
  "on_node E sudo cmd i s = snd (ssh_node E (tc_repl s) i cmd sudo s)"

definition on_all_nodes :: "(nat \<Rightarrow> 'a tc_scheme \<Rightarrow> 'a tc_scheme) \<Rightarrow> 'a tc_scheme \<Rightarrow> 'a tc_scheme" where
  "on_all_nodes f s = do_loop (node_ids (repl s)) f s"

definition all_nodes_query :: "env \<Rightarrow> string \<Rightarrow> 'a tc_scheme \<Rightarrow> 'a tc_scheme option" where
  "all_nodes_query E sql s = do { (_, s) \<leftarrow> execute_query_all_nodes E (tc_repl s) sql s; Some s }"

definition admin_cmd :: "env \<Rightarrow> string \<Rightarrow> 'a tc_scheme \<Rightarrow> 'a tc_scheme" where
  "admin_cmd E cmd s = snd (execute_maxadmin_command E cmd s)"

definition reach :: "env \<Rightarrow> 'a tc_scheme \<Rightarrow> 'a tc_scheme" where
  "reach E s = snd (connect_maxscale E s)"

definition reach_counted :: "env \<Rightarrow> 'a tc_scheme \<Rightarrow> 'a tc_scheme" where
  "reach_counted E s = (let (rc, s) = connect_maxscale E s in add_result rc s)"

definition reach_nodes :: "env \<Rightarrow> 'a tc_scheme \<Rightarrow> 'a tc_scheme" where
  "reach_nodes E s = snd (connect E (tc_repl s) s)"

definition leave_nodes :: "'a tc_scheme \<Rightarrow> 'a tc_scheme" where
  "leave_nodes s = close_connections (tc_repl s) s"

definition restart :: "env \<Rightarrow> 'a tc_scheme \<Rightarrow> 'a tc_scheme" where
  "restart E s = snd (restart_maxscale E s)"

text \<open>A connection to a service of MaxScale with an account of its own.\<close>

definition open_as :: "env \<Rightarrow> int \<Rightarrow> string \<Rightarrow> string \<Rightarrow> 'a tc_scheme \<Rightarrow> conn option \<times> 'a tc_scheme" where
  "open_as E port user pw s = open_conn E port (tc_maxscale_IP s) user pw (tc_ssl s) s"

text \<open>\<open>if (conn != NULL) { mysql_close(conn); }\<close>\<close>

definition close_if_open :: "conn option \<Rightarrow> 'a tc_scheme \<Rightarrow> 'a tc_scheme" where
  "close_if_open c s = (case c of None \<Rightarrow> s | Some _ \<Rightarrow> mysql_close c s)"

section \<open>The end of a test\<close>

definition result_of :: "'a tc_scheme \<Rightarrow> (int \<times> 'a tc_scheme) option" where
  "result_of s = Some (tc_global_result s, s)"

definition alive_result :: "env \<Rightarrow> 'a tc_scheme \<Rightarrow> (int \<times> 'a tc_scheme) option" where
  "alive_result E s = do { (_, s) \<leftarrow> check_maxscale_alive E s; result_of s }"

text \<open>A sequence of bytes, for texts that are not ASCII.\<close>

definition bytes :: "nat list \<Rightarrow> string" where
  "bytes ns = map char_of ns"

end
