(* ===== verification/Regression_Tests.thy ===== *)
theory Regression_Tests
  imports Test_Steps
begin

text \<open>
  The regression tests \<open>bug*.cpp\<close>: tests of one defect of MaxScale each. First those that
  send statements through the services and look into the log, then those that compare which server
  answered, those that block nodes, those that use accounts of their own, and those that use MaxAdmin.
\<close>

section \<open>Statements and the log\<close>

definition show_processlist :: string where
  "show_processlist = ''show processlist''"

definition bug359 :: "env \<Rightarrow> 'a tc_scheme \<Rightarrow> (int \<times> 'a tc_scheme) option" where
  "bug359 E s =
     (let s = log_has E [''Unsupported router option \"slave\"'',
                         ''Failed to start all MaxScale services. Exiting''] (set_timeout 10 s);
          s = log_lacks E [''Couldn't find suitable Master''] s
      in do { (_, s) \<leftarrow> check_maxscale_processes E 0 s; result_of s })"

definition bug479 :: "env \<Rightarrow> 'a tc_scheme \<Rightarrow> (int \<times> 'a tc_scheme) option" where
  "bug479 E s = result_of (log_has E [''Unable to find filter 'non existing filter''] (set_timeout 10 s))"

definition bug493 :: "env \<Rightarrow> 'a tc_scheme \<Rightarrow> (int \<times> 'a tc_scheme) option" where
  "bug493 E s =
     result_of (log_has E [''Duplicate section found: server2'',
       ''Failed to open, read or process the MaxScale configuration file /etc/maxscale.cnf. Exiting'']
       (set_timeout 10 s))"

definition bug495 :: "env \<Rightarrow> 'a tc_scheme \<Rightarrow> (int \<times> 'a tc_scheme) option" where
  "bug495 E s =
     result_of (log_has E [''Unable to find server'',
       ''errors were encountered while processing the configuration''] (set_timeout 10 s))"

definition bug475 :: "env \<Rightarrow> 'a tc_scheme \<Rightarrow> (int \<times> 'a tc_scheme) option" where
  "bug475 E s =
     (let s = reach E (set_timeout 10 s);
          s = tries E tc_conn_rwsplit
                [''select /* maxscale hintname prepare route to master */ @@server_id;'',
                 ''select /* maxscale hintname begin */ @@server_id;'',
                 ''select /* maxscale route to master*/ @@server_id;''] s
      in alive_result E (log_lacks E [''Syntax error in hint''] s))"

definition cyrillic_server :: string where
  "cyrillic_server = bytes [208, 186, 208, 184, 209, 128, 208, 184, 208, 187, 208, 187, 208, 184, 209, 134, 208, 176, 32,
     195, 165, 195, 164, 195, 182]"

definition bug473 :: "env \<Rightarrow> 'a tc_scheme \<Rightarrow> (int \<times> 'a tc_scheme) option" where
  "bug473 E s =
     (let s = reach_counted E (set_timeout 10 s);
          s = tries E tc_conn_rwsplit
                (map (\<lambda>h. ''select @@server_id; -- maxscale route to server '' @ h)
                   [''=('', ''=)'', ''=:'', ''=a'', ''= a'', ''= '' @ cyrillic_server]) s;
          s = tries E tc_conn_rwsplit
                [''select @@server_id; -- maxscale s1 begin route to server server3'',
                 ''select @@server_id; -- maxscale end'',
                 ''select @@server_id; -- maxscale s1 begin'',
                 ''select @@server_id; -- maxscale named begin route to master'',
                 ''select @@server_id;'',
                 ''select @@server_id; -- maxscale named begin route to master; select @@server_id;''] s
      in alive_result E (close_maxscale_connections s))"

text \<open>A statement a number of times on one connection, each with its timeout.\<close>

definition tried_often :: "env \<Rightarrow> nat \<Rightarrow> int \<Rightarrow> ('a tc_scheme \<Rightarrow> conn option) list \<Rightarrow> string \<Rightarrow> 'a tc_scheme \<Rightarrow> 'a tc_scheme" where
  "tried_often E n timeout cs sql s =
     do_loop [0..<n] (\<lambda>_ s. do_loop cs (\<lambda>c. try_on E c sql) (set_timeout timeout s)) s"

definition bug488 :: "env \<Rightarrow> 'a tc_scheme \<Rightarrow> (int \<times> 'a tc_scheme) option" where
  "bug488 E s =
     (let s = reach E (reach_nodes E (set_timeout 10 s));
          s = tried_often E 100 5 [tc_conn_rwsplit] ''SHOW VARIABLES;'' s;
          s = tried_often E 100 5 [tc_conn_master] ''SHOW VARIABLES;'' s;
          s = tried_often E 100 5 [tc_conn_slave] ''SHOW VARIABLES;'' s;
          s = tried_often E 100 5 [tc_conn_rwsplit, tc_conn_master, tc_conn_slave] ''SHOW VARIABLES;'' s;
          s = leave_nodes (close_maxscale_connections (set_timeout 10 s))
      in alive_result E s)"

definition bug422 :: "env \<Rightarrow> 'a tc_scheme \<Rightarrow> (int \<times> 'a tc_scheme) option" where
  "bug422 E s =
     (let iterations = (if tc_smoke s then 100 else 1000);
          s = reach_counted E (set_timeout 10 s);
          s = do_loop [tc_conn_rwsplit, tc_conn_slave, tc_conn_master]
                (\<lambda>c. do_loop [0..<iterations] (\<lambda>_ s. counted_on E c ''show status'' (set_timeout 5 s))) s;
          s = close_maxscale_connections (set_timeout 10 s)
      in alive_result E s)"

definition bug526 :: "env \<Rightarrow> 'a tc_scheme \<Rightarrow> (int \<times> 'a tc_scheme) option" where
  "bug526 E s =
     (let (r, s) = connect_rwsplit E (set_timeout 20 s);
          s = (if r = 0 then add_result 1 s else s);
          (r, s) = connect_readconn_master E s;
          s = (if r = 0 then add_result 1 s else s);
          (r, s) = connect_readconn_slave E s;
          s = (if r = 0 then add_result 1 s else s);
          s = admin_cmd E ''sync logs'' s
      in result_of (log_has E [''Unable to find library for module: foobar'',
           ''Failed to load filter module 'foobar'' @ quote,
           ''Failed to load filter 'testfilter' for service 'RW Split Router'' @ quote,
           ''Failed to open, read or process the MaxScale configuration file /etc/maxscale.cnf. Exiting''] s))"

definition bug571 :: "env \<Rightarrow> 'a tc_scheme \<Rightarrow> (int \<times> 'a tc_scheme) option" where
  "bug571 E s =
     (let s = reach_counted E (set_timeout 10 s);
          s = try_on E tc_conn_rwsplit ''fetch * from mysql.user;'' (set_timeout 10 s);
          s = try_on E tc_conn_rwsplit ''fetch count(*) form mysql.user;'' (set_timeout 10 s);
          s = close_maxscale_connections (set_timeout 10 s)
      in alive_result E s)"

definition bug643 :: "env \<Rightarrow> 'a tc_scheme \<Rightarrow> (int \<times> 'a tc_scheme) option" where
  "bug643 E s =
     (let s = reach E (set_timeout 10 s);
          s = try_on E tc_conn_master show_processlist s;
          s = try_on E tc_conn_slave show_processlist s;
          s = refused_on E tc_conn_rwsplit show_processlist s;
          s = close_maxscale_connections s
      in result_of (log_has E [''RW-Split-Router: Recursive use of tee filter in service''] s))"

definition bug643_1 :: "env \<Rightarrow> 'a tc_scheme \<Rightarrow> (int \<times> 'a tc_scheme) option" where
  "bug643_1 E s =
     (let s = reach E (set_timeout 10 s);
          s = run_on E tc_conn_rwsplit show_processlist s;
          s = run_on E tc_conn_master show_processlist s;
          s = run_on E tc_conn_slave show_processlist s;
          s = close_maxscale_connections s
      in result_of (log_has E [''Unable to find filter 'tests' for service 'RW Split2'' @ quote] s))"

definition bug645 :: "env \<Rightarrow> 'a tc_scheme \<Rightarrow> (int \<times> 'a tc_scheme) option" where
  "bug645 E s =
     (let s = reach E (set_timeout 10 s);
          s = try_on E tc_conn_master show_processlist s;
          s = try_on E tc_conn_slave show_processlist s;
          s = try_on E tc_conn_rwsplit show_processlist s
      in alive_result E (close_maxscale_connections s))"

definition bug645_1 :: "env \<Rightarrow> 'a tc_scheme \<Rightarrow> (int \<times> 'a tc_scheme) option" where
  "bug645_1 E s =
     (let s = reach E (set_timeout 10 s);
          s = refused_on E tc_conn_rwsplit show_processlist s;
          s = try_on E tc_conn_master show_processlist s;
          s = try_on E tc_conn_slave show_processlist s;
          s = close_maxscale_connections s
      in result_of (log_has E [''Couldn't find suitable Master from 2 candidates'',
           ''Creating client session for Tee filter failed. Terminating session.''] s))"

definition bug650 :: "env \<Rightarrow> 'a tc_scheme \<Rightarrow> (int \<times> 'a tc_scheme) option" where
  "bug650 E s =
     (let s = reach E (set_timeout 20 s);
          s = try_on E tc_conn_master show_processlist s;
          s = try_on E tc_conn_slave show_processlist s;
          s = refused_on E tc_conn_rwsplit show_processlist s;
          s = close_maxscale_connections s
      in result_of (log_has E [''Couldn't find suitable Master from 2 candidates'',
           ''Failed to create new router session for service 'RW_Split'' @ quote,
           ''Creating client session for Tee filter failed. Terminating session.'',
           ''Failed to create filter 'DuplicaFilter' for service 'RW_Router'' @ quote,
           ''Setting up filters failed. Terminating session RW_Router''] s))"

definition bug664 :: "env \<Rightarrow> 'a tc_scheme \<Rightarrow> (int \<times> 'a tc_scheme) option" where
  "bug664 E s =
     (let s = reach E (set_timeout 20 s);
          s = try_on E tc_conn_master ''show processlist;'' s;
          s = try_on E tc_conn_slave ''show processlist;'' s;
          s = close_maxscale_connections s
      in result_of (log_has E [''Creating client session for Tee filter failed. Terminating session.'',
           ''Failed to create filter 'DuplicaFilter' for service 'RW_Router'' @ quote] s))"

text \<open>\<open>bug670_sql.h\<close>: one string over many source lines, each indented by eight blanks.\<close>

definition bug670_lines :: "string list" where
  "bug670_lines =
     [''use mysql;'', ''set autocommit=1;'', ''use test;'', ''set autocommit=0;'', ''use mysql;'',
      ''set autocommit=1;'', ''select user,host from user;'', ''set autocommit=0;'', ''use fakedb;'', ''use test;'',
      ''use mysql;'', ''use dontuse;'', ''use mysql;'', ''drop table if exists t1;'', ''commit;'', ''use test;'',
      ''use mysql;'', ''set autocommit=1;'', ''create table t1(id integer primary key);'',
      ''insert into t1 values(5);'', ''use test;'', ''use mysql;'', ''select user from user;'',
      ''set autocommit=0;'', ''set autocommit=1;'', ''set autocommit=0;'', ''insert into mysql.t1 values(7);'',
      ''use mysql;'', ''rollback work;'', ''commit;'', ''delete from mysql.t1 where id=7;'',
      ''insert into mysql.t1 values(7);'', ''select host,user from mysql.user;'', ''set autocommit=1;'',
      ''delete from mysql.t1 where id = 7; '']"

definition bug670_sql :: string where
  "bug670_sql =
     ''set autocommit=0;'' @ concat (map (\<lambda>t. replicate 8 (CHR '' '') @ t) bug670_lines) @
     replicate 8 (CHR '' '') @ ''select 1 as \"endof cycle\" from dual;'' @ [newline]"

definition bug670 :: "env \<Rightarrow> 'a tc_scheme \<Rightarrow> (int \<times> 'a tc_scheme) option" where
  "bug670 E s =
     (let s = reach_counted E (set_timeout 10 s);
          s = do_loop [tc_conn_slave, tc_conn_master, tc_conn_rwsplit]
                (\<lambda>c. do_loop [0..<100] (\<lambda>_ s. silent_on E c bug670_sql (set_timeout 15 s))) s;
          s = close_maxscale_connections (set_timeout 10 s)
      in alive_result E s)"

definition bug681 :: "env \<Rightarrow> 'a tc_scheme \<Rightarrow> (int \<times> 'a tc_scheme) option" where
  "bug681 E s =
     (let s = reach E (set_timeout 20 s);
          s = (if mysql_errno E (tc_conn_rwsplit s) s = 0 then add_result 1 s else s);
          s = try_on E tc_conn_master ''show processlist;'' s;
          s = try_on E tc_conn_slave ''show processlist;'' s;
          s = close_maxscale_connections s
      in result_of (log_has E
           [''Unable to start RW-Split-Router service. There are too few backend servers configured in''] s))"

definition bug694 :: "env \<Rightarrow> 'a tc_scheme \<Rightarrow> (int \<times> 'a tc_scheme) option" where
  "bug694 E s =
     (let s = reach E (set_timeout 120 s);
          s = tries E tc_conn_rwsplit [''USE test'', ''DROP TABLE IF EXISTS test'', ''CREATE TABLE test (b integer)''] s;
          iter = (if tc_smoke s then 10 else 100);
          s = do_loop [0..<iter]
                (\<lambda>_ s. stop_timeout (run_on E tc_conn_rwsplit ''insert into test value(2);'' (set_timeout 30 s))) s;
          s = set_timeout 200 s;
          s = refused_on E tc_conn_rwsplit ''SELECT @a:=@a+1 as a, test.b FROM test;'' s;
          s = tries E tc_conn_rwsplit [''USE test'', ''DROP TABLE IF EXISTS test''] s;
          s = close_maxscale_connections s
      in alive_result E (log_has E
           [''The query can't be routed to all backend servers because it includes SELECT and SQL variable '' @
              ''modifications which is not supported'',
            ''SELECT with session data modification is not supported if configuration parameter '' @
              ''use_sql_variables_in=all''] s))"

definition bug705 :: "env \<Rightarrow> 'a tc_scheme \<Rightarrow> (int \<times> 'a tc_scheme) option" where
  "bug705 E s =
     (let s = reach_nodes E (set_timeout 20 s);
          s = run_on E (node_conn 0) ''SET GLOBAL sql_mode=\"ANSI\"'' s;
          s = restart E (set_timeout 100 (leave_nodes s))
      in do { (_, s) \<leftarrow> stop_maxscale E s;
              let s = set_timeout 60 (c_sleep 20 (stop_timeout s));
              result_of (log_lacks E [''Loading database names'', ''Unknown column''] s) })"

definition bug711 :: "env \<Rightarrow> 'a tc_scheme \<Rightarrow> (int \<times> 'a tc_scheme) option" where
  "bug711 E s =
     (let s = set_timeout 10 (reach E s);
          s = do_loop [tc_conn_rwsplit, tc_conn_master, tc_conn_slave] (\<lambda>c. try_on E c ''SHOW GLOBAL STATUS;'') s
      in alive_result E s)"

definition bug729 :: "env \<Rightarrow> 'a tc_scheme \<Rightarrow> (int \<times> 'a tc_scheme) option" where
  "bug729 E s =
     (let s = set_timeout 30 s;
          str = ''php '' @ cf_test_dir E @ ''/bug729.php '' @ tc_maxscale_IP s @ '' '' @ int_str (tc_rwsplit_port s) @ '' '' @
                tc_maxscale_user s @ '' '' @ tc_maxscale_password s
      in if 1024 \<le> length str then None
         else let (rc, s) = c_system E str s
              in result_of (log_lacks E [''Can't route MYSQL_COM_STMT_PREPARE''] (add_result rc s)))"

definition bug730 :: "env \<Rightarrow> 'a tc_scheme \<Rightarrow> (int \<times> 'a tc_scheme) option" where
  "bug730 E s =
     (let s = reach E (set_timeout 10 s);
          s = do_loop [tc_conn_rwsplit, tc_conn_master, tc_conn_slave]
                (\<lambda>c. try_on E c ''SET OPTION SQL_QUOTE_SHOW_CREATE = 1;'') s
      in alive_result E (close_maxscale_connections s))"

definition create_drop_bad_user :: "env \<Rightarrow> conn option \<Rightarrow> 'a tc_scheme \<Rightarrow> 'a tc_scheme" where
  "create_drop_bad_user E c s =
     tries E (\<lambda>_. c)
       [''GRANT ALL PRIVILEGES ON *.* TO  'foo'@'*.foo.notexists' IDENTIFIED BY 'foo';'',
        ''GRANT ALL PRIVILEGES ON *.* TO  'bar'@'127.0.0.*' IDENTIFIED BY 'bar'' @ quote,
        ''DROP USER 'foo'@'*.foo.notexists'' @ quote,
        ''DROP USER 'bar'@'127.0.0.*'' @ quote] s"

definition bug572 :: "env \<Rightarrow> 'a tc_scheme \<Rightarrow> (int \<times> 'a tc_scheme) option" where
  "bug572 E s =
     (let s = reach E (reach_nodes E (set_timeout 10 s));
          s = create_drop_bad_user E (tc_conn_rwsplit s) s;
          s = try_on E tc_conn_rwsplit ''select * from mysql.user'' s
      in result_of s)"

section \<open>Which server answered\<close>

text \<open>\<open>find_field\<close> into a buffer, which keeps its old text when nothing is delivered.\<close>

definition field_into ::
  "env \<Rightarrow> conn option \<Rightarrow> string \<Rightarrow> string \<Rightarrow> string option \<Rightarrow> 'a tc_scheme
   \<Rightarrow> ((int \<times> string option) \<times> 'a tc_scheme) option" where
  "field_into E c sql name buf s =
     do { ((rc, v), s) \<leftarrow> find_field E c sql name s;
          Some ((rc, case v of None \<Rightarrow> buf | Some t \<Rightarrow> Some t), s) }"

text \<open>
  The condition \<open>find_field(...) != 0 || find_field(...) != 0\<close>: the second field is only read when the
  first one was found.
\<close>

definition two_fields ::
  "env \<Rightarrow> conn option \<Rightarrow> string \<Rightarrow> conn option \<Rightarrow> string \<Rightarrow> string \<Rightarrow> string option \<times> string option \<Rightarrow> 'a tc_scheme
   \<Rightarrow> ((bool \<times> string option \<times> string option) \<times> 'a tc_scheme) option" where
  "two_fields E c1 sql1 c2 sql2 name bufs s =
     do { ((rc1, buf1), s) \<leftarrow> field_into E c1 sql1 name (fst bufs) s;
          if rc1 \<noteq> 0 then Some ((False, buf1, snd bufs), s)
          else do { ((rc2, buf2), s) \<leftarrow> field_into E c2 sql2 name (snd bufs) s;
                    Some ((rc2 = 0, buf1, buf2), s) } }"

text \<open>\<open>add_result(strcmp(a, b))\<close> on two buffers; one that was never written has no value.\<close>

definition compare_buffers :: "string option \<Rightarrow> string option \<Rightarrow> 'a tc_scheme \<Rightarrow> 'a tc_scheme option" where
  "compare_buffers a b s = do { x \<leftarrow> a; y \<leftarrow> b; Some (add_result (c_strcmp x y) s) }"

definition bug699 :: "env \<Rightarrow> 'a tc_scheme \<Rightarrow> (int \<times> 'a tc_scheme) option" where
  "bug699 E s =
     (let sel1 = ''select  @@wsrep_node_name, @@hostname'';
          sel2 = ''select  @@hostname, @@wsrep_node_name'';
          sel3 = ''select  @@wsrep_node_name, @@server_id'';
          sel4 = ''select  @@server_id, @@wsrep_node_name'';
          s = reach E (set_timeout 20 s)
      in do {
        ((found, a, b), s) \<leftarrow> two_fields E (tc_conn_rwsplit s) sel3 (tc_conn_rwsplit s) sel4 ''@@server_id'' (None, None) s;
        if \<not> found then Some (1, add_result 1 s)
        else do {
          s \<leftarrow> compare_buffers a b s;
          ((found, a, b), s) \<leftarrow> two_fields E (tc_conn_rwsplit s) sel1 (tc_conn_rwsplit s) sel2 ''@@hostname'' (a, b) s;
          if \<not> found then Some (1, add_result 1 s)
          else do {
            s \<leftarrow> compare_buffers a b s;
            alive_result E (close_maxscale_connections s) } } })"

definition bug507 :: "env \<Rightarrow> 'a tc_scheme \<Rightarrow> (int \<times> 'a tc_scheme) option" where
  "bug507 E s =
     (let sel1 = ''select last_insert_id(), @@server_id'';
          s = reach E (reach_nodes E (set_timeout 10 s))
      in if mn_N (repl s) < 3 then Some (1, s)
         else
           let s = tries E tc_conn_rwsplit
                     [''DROP TABLE IF EXISTS t2'',
                      ''CREATE TABLE t2 (id INT(10) NOT NULL AUTO_INCREMENT, x int,  PRIMARY KEY (id));'',
                      ''insert into t2 (x) values (1);''] s
           in do {
             s \<leftarrow> sync_slaves E (tc_repl s) 0 (stop_timeout s);
             let s = set_timeout 20 s;
             ((found, a, b), s) \<leftarrow> two_fields E (tc_conn_rwsplit s) sel1 (node_conn 0 s) sel1 ''@@server_id'' (None, None) s;
             if \<not> found then Some (1, s)
             else do {
               s \<leftarrow> compare_buffers a b s;
               alive_result E (leave_nodes (close_maxscale_connections s)) } })"

text \<open>The new row's number, read again until it is the number the connection was told, at most five times.\<close>

fun wait_for_id ::
  "env \<Rightarrow> string \<Rightarrow> nat \<Rightarrow> string \<Rightarrow> string \<Rightarrow> 'a tc_scheme \<Rightarrow> (string \<times> 'a tc_scheme) option" where
  "wait_for_id E sql 0 told id_str s = Some (id_str, s)"
| "wait_for_id E sql (Suc n) told id_str s =
     (if told = id_str then Some (id_str, s)
      else do { ((_, v), s) \<leftarrow> field_into E (tc_conn_rwsplit s) sql ''id'' (Some id_str) (c_sleep 1 s);
                new_id \<leftarrow> v;
                wait_for_id E sql n told new_id s })"

definition insert_id_step ::
  "env \<Rightarrow> string \<Rightarrow> nat \<Rightarrow> string option \<times> string option \<Rightarrow> 'a tc_scheme
   \<Rightarrow> ((string option \<times> string option) \<times> 'a tc_scheme) option" where
  "insert_id_step E sel1 i = (\<lambda>(told, id_str) s.
     let s = counted_on E tc_conn_rwsplit (''insert into t2 (x) values ('' @ nat_str i @ '');'') (set_timeout 50 s);
         str1 = ''select * from t2 where x='' @ nat_str i @ '';''
     in do { ((_, told), s) \<leftarrow> field_into E (tc_conn_rwsplit s) sel1 ''last_insert_id()'' told s;
             ((_, id_str), s) \<leftarrow> field_into E (tc_conn_rwsplit s) str1 ''id'' id_str s;
             a \<leftarrow> told; b \<leftarrow> id_str;
             (b, s) \<leftarrow> wait_for_id E str1 5 a b s;
             Some ((Some a, Some b), add_result (c_strcmp a b) s) })"

definition bug509_inserts :: "env \<Rightarrow> 'a tc_scheme \<Rightarrow> 'a tc_scheme" where
  "bug509_inserts E s =
     (let galera_conn = (\<lambda>i s. mn_nodes (galera s) i);
          ins = (\<lambda>i. ''insert into t2 (x) values ('' @ nat_str i @ '');'');
          s = tries E tc_conn_rwsplit
                [''DROP TABLE IF EXISTS t2;'',
                 ''CREATE TABLE t2 (id INT(10) NOT NULL AUTO_INCREMENT, x int,  PRIMARY KEY (id));'', ins 1] s;
          s = tries E (galera_conn 0) (map ins [2, 3]) s;
          s = tries E (galera_conn 1) (map ins [4, 5, 6]) s
      in tries E (galera_conn 2) (map ins [7, 8, 9, 10]) s)"

definition bug509 :: "env \<Rightarrow> 'a tc_scheme \<Rightarrow> (int \<times> 'a tc_scheme) option" where
  "bug509 E s =
     (let sel1 = ''select @@wsrep_node_address, last_insert_id();'';
          sel2 = ''select last_insert_id(), @@wsrep_node_address;'';
          s = set_timeout 60 s;
          (_, s) = connect E (tc_galera s) s;
          s = reach E s
      in if mn_N (galera s) < 3 then Some (1, s)
         else do {
           s \<leftarrow> sync_slaves E (tc_repl s) 0 (stop_timeout (bug509_inserts E s));
           ((found, a, b), s) \<leftarrow>
             two_fields E (tc_conn_rwsplit s) sel1 (tc_conn_rwsplit s) sel2 ''last_insert_id()'' (None, None) s;
           if \<not> found then Some (1, s)
           else do {
             s \<leftarrow> compare_buffers a b s;
             (_, s) \<leftarrow> foreachM [100..<150] (insert_id_step E sel1) (a, None) s;
             alive_result E s } })"

text \<open>The server a hint names, asked through MaxScale and directly.\<close>

definition hint_compare ::
  "env \<Rightarrow> int \<Rightarrow> nat \<Rightarrow> string option \<times> string option \<Rightarrow> 'a tc_scheme
   \<Rightarrow> ((string option \<times> string option) \<times> 'a tc_scheme) option" where
  "hint_compare E timeout j = (\<lambda>(a, b) s.
     let s = set_timeout timeout s;
         hint_sql = ''select @@server_id; -- maxscale route to server server'' @ nat_str (j + 1)
     in do { ((_, a), s) \<leftarrow> field_into E (tc_conn_rwsplit s) hint_sql ''@@server_id'' a s;
             ((_, b), s) \<leftarrow> field_into E (node_conn j s) ''select @@server_id;'' ''@@server_id'' b s;
             s \<leftarrow> compare_buffers a b s;
             Some ((a, b), s) })"

definition hint_rounds ::
  "env \<Rightarrow> int \<Rightarrow> nat list \<Rightarrow> 'a tc_scheme \<Rightarrow> ((string option \<times> string option) \<times> 'a tc_scheme) option" where
  "hint_rounds E timeout js s =
     foreachM [1..<25] (\<lambda>_. foreachM js (hint_compare E timeout)) (None, None) s"

definition bug471 :: "env \<Rightarrow> 'a tc_scheme \<Rightarrow> (int \<times> 'a tc_scheme) option" where
  "bug471 E s =
     (let s = reach_counted E (reach_nodes E (set_timeout 10 s)) in
      do { (_, s) \<leftarrow> hint_rounds E 5 (filter (\<lambda>j. j \<noteq> 1) (node_ids (repl s))) s;
           let s = leave_nodes (close_maxscale_connections (set_timeout 10 s));
           alive_result E s })"

definition bug587 :: "env \<Rightarrow> 'a tc_scheme \<Rightarrow> (int \<times> 'a tc_scheme) option" where
  "bug587 E s =
     (let s = reach E (reach_nodes E (set_timeout 10 s)) in
      do { (_, s) \<leftarrow> hint_rounds E 10 (node_ids (repl s)) s;
           alive_result E (leave_nodes (close_maxscale_connections s)) })"

definition bug634 :: "env \<Rightarrow> 'a tc_scheme \<Rightarrow> (int \<times> 'a tc_scheme) option" where
  "bug634 E s =
     (let s = reach E (set_timeout 5 s) in
      do { (_, s) \<leftarrow> foreachM [0..<100]
             (\<lambda>_ master_ip s.
                do { ((rc, master_ip), s) \<leftarrow>
                       field_into E (tc_conn_rwsplit s) ''SHOW SLAVE STATUS'' ''Master_Host'' master_ip (set_timeout 5 s);
                     s \<leftarrow> compare_buffers master_ip (Some (mn_IP_private (repl s) 0)) (add_result rc s);
                     Some (master_ip, s) }) None s;
           result_of (close_maxscale_connections s) })"

section \<open>Blocked nodes\<close>

definition bug547 :: "env \<Rightarrow> 'a tc_scheme \<Rightarrow> (int \<times> 'a tc_scheme) option" where
  "bug547 E s =
     (let s = do_loop [1..<nat (mn_N (repl s))] (\<lambda>i s. snd (block_node E (tc_repl s) i (set_timeout 20 s))) s;
          s = c_sleep 15 (set_timeout 30 s);
          s = reach E (set_timeout 30 s);
          s = runs E tc_conn_rwsplit [''DROP TABLE IF EXISTS t1'', ''CREATE TABLE t1 (x INT)'',
                ''INSERT INTO t1 (x) VALUES (1)'', ''select * from t1''] (set_timeout 30 s);
          s = run_on E tc_conn_master ''select * from t1'' s;
          s = run_on E tc_conn_slave ''select * from t1'' s;
          s = close_maxscale_connections (set_timeout 10 s);
          s = set_timeout 30 s;
          (_, s) = unblock_all_nodes E (tc_repl s) s;
          s = c_sleep 15 (stop_timeout s);
          s = log_lacks E [''fatal signal 11''] s
      in result_of (log_has E
           [''Failed to create new router session for service 'RW-Split-Router'' @ quote,
            ''Failed to create new router session for service 'Read-Connection-Router-Master'' @ quote,
            ''Failed to create new router session for service 'Read-Connection-Router-Slave'' @ quote] s))"

definition bug656 :: "env \<Rightarrow> 'a tc_scheme \<Rightarrow> (int \<times> 'a tc_scheme) option" where
  "bug656 E s =
     (let (_, s) = connect_rwsplit E (set_timeout 30 s);
          (_, s) = block_node E (tc_repl s) 0 s
      in do { (_, s) \<leftarrow> execute_maxadmin_command_print_tcp E (tc_maxscale_IP s) ''admin'' (tc_maxadmin_password s)
                           ''show servers'' s;
              let (_, s) = unblock_node E (tc_repl s) 0 s;
              alive_result E (close_rwsplit (c_sleep 10 s)) })"

definition bug657 :: "env \<Rightarrow> 'a tc_scheme \<Rightarrow> (int \<times> 'a tc_scheme) option" where
  "bug657 E s =
     (let (_, s) = connect_readconn_master E (set_timeout 200 s);
          (_, s) = block_node E (tc_repl s) 0 (c_sleep 1 s);
          s = close_readconn_master (c_sleep 10 s);
          (_, s) = connect_readconn_master E s;
          (_, s) = unblock_node E (tc_repl s) 0 (c_sleep 5 s)
      in alive_result E (close_readconn_master (c_sleep 10 s)))"

definition list_through_services :: "env \<Rightarrow> 'a tc_scheme \<Rightarrow> 'a tc_scheme" where
  "list_through_services E s =
     do_loop [tc_conn_rwsplit, tc_conn_master, tc_conn_slave] (\<lambda>c. run_on E c ''show processlist;'') s"

definition bug658 :: "env \<Rightarrow> 'a tc_scheme \<Rightarrow> (int \<times> 'a tc_scheme) option" where
  "bug658 E s =
     (let s = reach E (set_timeout 40 s);
          (_, s) = block_node E (tc_repl s) 0 s;
          s = c_sleep 1 (list_through_services E (c_sleep 1 s));
          (_, s) = unblock_node E (tc_repl s) 0 s;
          s = close_maxscale_connections (c_sleep 10 s)
      in do { (_, s) \<leftarrow> check_maxscale_alive E s;
              let s = reach E (set_timeout 20 s);
              let s = (if tc_smoke s then s
                       else
                         let s = block_nodes E (node_ids (repl s)) s;
                             s = c_sleep 1 (list_through_services E (c_sleep 1 s))
                         in unblock_nodes E (node_ids (repl s)) s);
              let s = c_sleep 20 (stop_timeout s);
              alive_result E (close_maxscale_connections (set_timeout 20 s)) })"

text \<open>The connections stay open.\<close>

definition bug662 :: "env \<Rightarrow> 'a tc_scheme \<Rightarrow> (int \<times> 'a tc_scheme) option" where
  "bug662 E s =
     (let s = reach E (set_timeout 20 s);
          s = block_nodes E (node_ids (repl s)) s;
          s = restart E (set_timeout 100 s);
          (rc, s) = execute_maxadmin_command E ''show servers'' (set_timeout 20 s);
          s = unblock_nodes E (node_ids (repl s)) (add_result rc s);
          s = c_sleep 30 (stop_timeout s)
      in alive_result E (set_timeout 20 s))"

definition bug676 :: "env \<Rightarrow> 'a tc_scheme \<Rightarrow> (int \<times> 'a tc_scheme) option" where
  "bug676 E s =
     (let s = reach E (set_timeout 30 s);
          (_, s) = block_node E (tc_galera s) 0 s;
          s = close_maxscale_connections s;
          s = set_timeout 30 (c_sleep 20 (stop_timeout s));
          s = tries E tc_conn_rwsplit [''USE test'', ''show processlist;''] (reach E s);
          s = stop_timeout (close_maxscale_connections s);
          (_, s) = unblock_node E (tc_galera s) 0 s
      in result_of s)"

section \<open>Accounts\<close>

definition bug592 :: "env \<Rightarrow> 'a tc_scheme \<Rightarrow> (int \<times> 'a tc_scheme) option" where
  "bug592 E s =
     (let s = reach E (reach_nodes E (set_timeout 10 s));
          slaves = [1..<nat (mn_N (repl s))];
          s = do_loop slaves (\<lambda>i. run_on E (node_conn i) ''stop slave;'') s;
          s = run_on E tc_conn_rwsplit (''CREATE USER 'test_user'@'%' IDENTIFIED BY 'pass'' @ quote) s;
          (c, s) = open_conn_no_db E (tc_rwsplit_port s) (tc_maxscale_IP s) ''test_user'' ''pass'' (tc_ssl s) s;
          s = (if c = None then add_result 1 s else s);
          s = do_loop slaves (\<lambda>i. run_on E (node_conn i) ''start slave;'') s;
          s = run_on E tc_conn_rwsplit (''DROP USER 'test_user'@'%'' @ quote) s
      in result_of (close_maxscale_connections (leave_nodes s)))"

definition bug620 :: "env \<Rightarrow> 'a tc_scheme \<Rightarrow> (int \<times> 'a tc_scheme) option" where
  "bug620 E s =
     (let s = reach E (set_timeout 30 s);
          s = tries E tc_conn_rwsplit
                [''GRANT ALL PRIVILEGES ON *.* TO 'root'@'%' IDENTIFIED BY 'skysqlroot';'',
                 ''GRANT ALL PRIVILEGES ON *.* TO 'root'@'localhost' IDENTIFIED BY 'skysqlroot';''] s;
          (c, s) = open_as E (tc_rwsplit_port s) ''root'' ''skysqlroot'' (c_sleep 10 s);
          s = (if mysql_errno E c s \<noteq> 0 then add_result 1 s
               else tries E (\<lambda>_. c) [''SELECT * from mysql.user'',
                      ''set password for 'root'@'localhost' = PASSWORD('' @ quote @ quote @ '');''] s);
          s = close_if_open c s;
          s = try_on E tc_conn_rwsplit ''DROP USER 'root'@'%';'' s;
          s = close_maxscale_connections s
      in alive_result E (log_lacks E [''Failed to add user skysql'', ''getaddrinfo failed'',
                                      ''Couldn't find suitable Master''] s))"

definition bug626 :: "env \<Rightarrow> 'a tc_scheme \<Rightarrow> (int \<times> 'a tc_scheme) option" where
  "bug626 E s =
     (let s = reach_nodes E (set_timeout 20 s);
          s = runs E (node_conn 0) [''CREATE USER 'old'@'%' IDENTIFIED BY 'old';'',
                                    ''SET PASSWORD FOR 'old'@'%' = OLD_PASSWORD('old');''] s
      in do { s \<leftarrow> sync_slaves E (tc_repl s) 0 (stop_timeout s);
              let (c, s) = open_as E (tc_rwsplit_port s) ''old'' ''old'' (set_timeout 20 s);
              let s = (if mysql_errno E c s \<noteq> 0 then s else add_result 1 s);
              let s = close_if_open c s;
              let s = run_on E (node_conn 0) (''DROP USER 'old'@'%'' @ quote) s;
              alive_result E (log_has E [''MaxScale does not support these old passwords''] s) })"

definition long_host :: string where
  "long_host = ''very_long_hostname_that_probably_caused_crashhh.com.net.org''"

definition bug653 :: "env \<Rightarrow> 'a tc_scheme \<Rightarrow> (int \<times> 'a tc_scheme) option" where
  "bug653 E s =
     (let account = quote @ ''user_long_host11'' @ quote @ ''@'' @ quote @ long_host @ quote;
          s = reach E (set_timeout 50 s);
          s = tries E tc_conn_rwsplit
                [''CREATE USER '' @ account @ '' IDENTIFIED BY 'old'' @ quote,
                 ''GRANT ALL PRIVILEGES ON *.* TO '' @ account @ '' WITH GRANT OPTION''] s;
          (c, s) = open_as E (tc_rwsplit_port s) ''user_long_host11'' ''old'' (c_sleep 10 s);
          s = (if mysql_errno E c s \<noteq> 0 then s else add_result 1 s);
          s = close_if_open c s;
          s = try_on E tc_conn_rwsplit (''DROP USER '' @ account) s
      in alive_result E (close_maxscale_connections s))"

text \<open>Three accounts with one name: only the password of the one that matches the host is right.\<close>

definition bug143_statements :: "string \<Rightarrow> string \<Rightarrow> string list" where
  "bug143_statements pre post =
     map (\<lambda>host. pre @ quote @ ''user'' @ quote @ ''@'' @ quote @ host @ quote @ post)
       [''non_existing_host1'', ''%'', ''non_existing_host2'']"

definition bug143_login :: "env \<Rightarrow> string \<Rightarrow> bool \<Rightarrow> 'a tc_scheme \<Rightarrow> 'a tc_scheme" where
  "bug143_login E pw right s =
     (let (c, s) = open_as E (tc_rwsplit_port s) ''user'' pw (set_timeout 15 s);
          n = mysql_errno E c s;
          s = (if right then add_result (int n) s else if n = 0 then add_result 1 s else s)
      in close_if_open c s)"

definition bug143 :: "env \<Rightarrow> 'a tc_scheme \<Rightarrow> (int \<times> 'a tc_scheme) option" where
  "bug143 E s =
     (let create = (\<lambda>host pw. ''CREATE USER 'user'@'' @ quote @ host @ quote @ '' IDENTIFIED BY '' @ quote @ pw @ quote);
          s = reach E s;
          s = runs E tc_conn_rwsplit
                [create ''non_existing_host1'' ''pass1'', create ''%'' ''pass2'', create ''non_existing_host2'' ''pass3''] s;
          s = runs E tc_conn_rwsplit (bug143_statements ''GRANT ALL PRIVILEGES ON *.* TO '' '''') s
      in do { s \<leftarrow> sync_slaves E (tc_repl s) 0 (set_timeout 50 s);
              let s = bug143_login E ''pass1'' False s;
              let s = bug143_login E ''pass2'' True s;
              let s = bug143_login E ''pass3'' False s;
              let s = runs E tc_conn_rwsplit (bug143_statements ''DROP USER '' '''') s;
              result_of (close_maxscale_connections s) })"

text \<open>The address of the test machine with all but its first number replaced; one without a dot has no result.\<close>

definition ip_pattern :: "string \<Rightarrow> string option" where
  "ip_pattern ip = (if strchr ip (CHR ''.'') = None then None else Some (cut_at ip (CHR ''.'') @ ''.%.%.%''))"

definition bug448 :: "env \<Rightarrow> 'a tc_scheme \<Rightarrow> (int \<times> 'a tc_scheme) option" where
  "bug448 E s =
     (let s = reach_nodes E (set_timeout 20 s);
          ((_, ip), s) = get_my_ip E (tc_maxscale_IP s) s
      in do {
        ((rc, _), s) \<leftarrow> get_client_ip E s;
        my_ip \<leftarrow> ip;
        my_ip \<leftarrow> ip_pattern my_ip;
        let s = set_timeout 30 (reach_counted E (add_result rc s));
        let s = counted_on E tc_conn_rwsplit (''CREATE USER user1@'' @ quote @ my_ip @ quote @ '';'') s;
        let s = counted_on E tc_conn_rwsplit (''GRANT ALL PRIVILEGES ON *.* TO user1@'' @ quote @ my_ip @ quote @
                  '' identified by 'pass1';  FLUSH PRIVILEGES;'') s;
        let (c, s) = open_as E (tc_rwsplit_port s) ''user1'' ''pass1'' s;
        let s = (if mysql_errno E c s \<noteq> 0 then add_result 1 s else close_if_open c s);
        let s = counted_on E tc_conn_rwsplit (''DROP USER user1@'' @ quote @ my_ip @ quote @ '';  FLUSH PRIVILEGES;'') s;
        alive_result E (close_maxscale_connections s) })"

section \<open>Table t1, files and numbers of rows\<close>

definition outfile_sql :: "string \<Rightarrow> string" where
  "outfile_sql file = ''SELECT * INTO OUTFILE '' @ quote @ file @ quote @ '' FROM t1;''"

definition bug519_round :: "env \<Rightarrow> conn option \<Rightarrow> 'a tc_scheme \<Rightarrow> 'a tc_scheme option" where
  "bug519_round E c s =
     (let s = try_on E tc_conn_rwsplit ''DROP TABLE t1;'' (set_timeout 100 s) in
      do { s \<leftarrow> sync_slaves E (tc_repl s) 0 (stop_timeout s);
           let (_, s) = create_t1 E (tc_conn_rwsplit s) (set_timeout 100 s);
           let (_, s) = try_query E c (''LOAD DATA LOCAL INFILE 't1.csv' INTO TABLE t1;'') s;
           s \<leftarrow> sync_slaves E (tc_repl s) 0 (stop_timeout s);
           do_loopM [tc_conn_rwsplit, tc_conn_master, tc_conn_slave]
             (\<lambda>c s. do { (rc, s) \<leftarrow> select_from_t1 E (c s) 4 s; Some (add_result rc s) }) (set_timeout 100 s) })"

definition bug519 :: "env \<Rightarrow> 'a tc_scheme \<Rightarrow> (int \<times> 'a tc_scheme) option" where
  "bug519 E s =
     (let iterations = (if tc_smoke s then 1 else 2);
          s = reach_nodes E (reach E (set_timeout 10 s));
          (_, s) = create_t1 E (tc_conn_rwsplit s) s
      in do {
        (_, s) \<leftarrow> insert_into_t1 E (tc_conn_rwsplit s) 4 (set_timeout 60 s);
        s \<leftarrow> sync_slaves E (tc_repl s) 0 (stop_timeout s);
        let s = set_timeout 200 s;
        let sudo = mn_access_sudo (repl s) 0;
        let s = on_all_nodes (on_node E False (sudo @ '' rm -f /tmp/t*.csv; '' @ sudo @ '' chmod 777 /tmp'')) s;
        let s = try_on E tc_conn_rwsplit (outfile_sql ''/tmp/t1.csv'') s;
        let s = try_on E tc_conn_master (outfile_sql ''/tmp/t2.csv'') s;
        let s = try_on E tc_conn_slave (outfile_sql ''/tmp/t3.csv'') s;
        let (_, s) = copy_from_maxscale E ''/tmp/t1.csv'' ''./'' s;
        s \<leftarrow> do_loopM (take iterations [tc_conn_rwsplit s, tc_conn_master s]) (bug519_round E) s;
        alive_result E (leave_nodes s) })"

definition CLIENT_FOUND_ROWS :: nat where
  "CLIENT_FOUND_ROWS = 2"

text \<open>The variable \<open>rows\<close> is only written by a statement that succeeds.\<close>

definition affected_step ::
  "env \<Rightarrow> conn option \<Rightarrow> nat \<Rightarrow> nat option \<Rightarrow> 'a tc_scheme \<Rightarrow> (nat option \<times> 'a tc_scheme) option" where
  "affected_step E c expected cnt s =
     (let ((_, n), s) = execute_query_affected_rows E c ''UPDATE t1 SET msg='xyz' WHERE val=2'' (set_timeout 30 s) in
      do { cnt \<leftarrow> (case n of None \<Rightarrow> cnt | Some k \<Rightarrow> Some k);
           Some (Some cnt, if cnt \<noteq> expected then add_result 1 s else s) })"

definition bug565 :: "env \<Rightarrow> 'a tc_scheme \<Rightarrow> (int \<times> 'a tc_scheme) option" where
  "bug565 E s =
     (let s = reach E (reach_nodes E (set_timeout 30 s));
          (conn_found_rows, s) = open_conn_db_flags E (tc_rwsplit_port s) (tc_maxscale_IP s) (Some ''test'')
             (tc_maxscale_user s) (tc_maxscale_password s) CLIENT_FOUND_ROWS (tc_ssl s) s;
          s = runs E tc_conn_rwsplit
                [''DROP TABLE IF EXISTS t1'', ''CREATE TABLE t1(id INT PRIMARY KEY, val INT, msg VARCHAR(100))'',
                 ''INSERT INTO t1 VALUES (1, 1, 'foo'), (2, 1, 'bar'), (3, 2, 'baz'), (4, 2, 'abc')''] (set_timeout 30 s)
      in do { (cnt, s) \<leftarrow> affected_step E (tc_conn_rwsplit s) 2 None s;
              (cnt, s) \<leftarrow> affected_step E (tc_conn_rwsplit s) 0 cnt s;
              (_, s) \<leftarrow> affected_step E conn_found_rows 2 cnt s;
              result_of (close_maxscale_connections s) })"

section \<open>MaxAdmin\<close>

text \<open>\<open>sscanf(res, "%d", &res_d)\<close> of what MaxAdmin shows; both variables keep what they had.\<close>

definition admin_number ::
  "env \<Rightarrow> string \<Rightarrow> string option \<times> int option \<Rightarrow> 'a tc_scheme
   \<Rightarrow> ((int \<times> string option \<times> int option) \<times> 'a tc_scheme) option" where
  "admin_number E param old s =
     do { ((_, v), s) \<leftarrow> get_maxadmin_param E ''show server server1'' param s;
          let buf = (case v of None \<Rightarrow> fst old | Some t \<Rightarrow> Some t);
          res \<leftarrow> buf;
          let num = (case scan_int res of None \<Rightarrow> snd old | Some (n, _) \<Rightarrow> Some n);
          res_d \<leftarrow> num;
          Some ((res_d, buf, num), s) }"

definition bug469 :: "env \<Rightarrow> 'a tc_scheme \<Rightarrow> (int \<times> 'a tc_scheme) option" where
  "bug469 E s =
     do { ((n, old), s) \<leftarrow> admin_number E ''Current no. of conns:'' (None, None) (set_timeout 10 s);
          ((n, old), s) \<leftarrow> admin_number E ''Number of connections:'' old (add_result n s);
          let (_, s) = connect_rwsplit E (add_result n s);
          let s = close_rwsplit (try_on E tc_conn_rwsplit ''select 1'' s);
          let s = set_timeout 10 (c_sleep 10 (stop_timeout s));
          ((n, old), s) \<leftarrow> admin_number E ''Current no. of conns:'' old s;
          ((n, _), s) \<leftarrow> admin_number E ''Number of connections:'' old (add_result n s);
          alive_result E (if n \<noteq> 1 then add_result 1 s else s) }"

text \<open>Writing element \<open>i\<close> of an array of \<open>n\<close> elements; there is no element behind its end.\<close>

definition store_in :: "nat \<Rightarrow> nat \<Rightarrow> 'v \<Rightarrow> (nat \<Rightarrow> 'v option) \<Rightarrow> (nat \<Rightarrow> 'v option) option" where
  "store_in n i v a = (if i < n then Some (a(i := Some v)) else None)"

definition bug539_turn :: "env \<Rightarrow> string option \<Rightarrow> int \<Rightarrow> 'a tc_scheme \<Rightarrow> 'a tc_scheme option" where
  "bug539_turn E cmd port s =
     do { cmd \<leftarrow> cmd;
          (rc, s) \<leftarrow> execute_maxadmin_command_tcp E (tc_maxscale_IP s) ''admin'' (tc_maxadmin_password s) cmd s;
          if rc \<noteq> 0 then Some (add_result 1 s)
          else let (c, s) = open_conn E port (tc_maxscale_IP s) (tc_maxscale_user s) (tc_maxscale_user s) (tc_ssl s) s
               in Some (snd (try_query E c ''show processlist;'' s)) }"

definition bug539 :: "env \<Rightarrow> 'a tc_scheme \<Rightarrow> (int \<times> 'a tc_scheme) option" where
  "bug539 E s =
     (let s = set_timeout 20 s; N_cmd = 2 in
      do { fail_cmd \<leftarrow> store_in (N_cmd - 1) 0 ''fail backendfd'' (\<lambda>_. None);
           fail_cmd \<leftarrow> store_in (N_cmd - 1) 1 ''fail clientfd'' fail_cmd;
           s \<leftarrow> do_loopM [0..<N_cmd]
                  (\<lambda>i s. do_loopM [tc_rwsplit_port s, tc_readconn_master_port s, tc_readconn_slave_port s]
                           (bug539_turn E (fail_cmd i)) s) s;
           alive_result E s })"

definition bug673 :: "env \<Rightarrow> 'a tc_scheme \<Rightarrow> (int \<times> 'a tc_scheme) option" where
  "bug673 E s =
     do { (_, s) \<leftarrow> foreachM [0..<2]
            (\<lambda>_ result s.
               do { ((rc, v), s) \<leftarrow> get_maxadmin_param E ''show dbusers \"RW Split Router\"'' ''User names:'' s;
                    r \<leftarrow> (case v of None \<Rightarrow> result | Some t \<Rightarrow> Some t);
                    Some (Some r, add_result rc s) }) (None :: string option) (set_timeout 20 s);
          result_of s }"

text \<open>The words of \<open>bug654\<close> that are not ASCII.\<close>

definition khren :: string where
  "khren = bytes [208, 165, 209, 128, 208, 181, 208, 189]"

definition khren_morzhovyj :: string where
  "khren_morzhovyj = khren @ '' '' @ bytes [208, 188, 208, 190, 209, 128, 208, 182, 208, 190, 208, 178, 209, 139, 208, 185]"

definition bug654_commands :: "string list" where
  "bug654_commands =
     [''reload dbusers 0x232fed0'', ''reload dbusers '' @ khren, ''reload dbusers '' @ khren_morzhovyj, khren_morzhovyj,
      ''khren morzhovyj'',
      ''show '' @ khren, ''show '' @ khren_morzhovyj, ''show khren morzhovyj'',
      ''show dcb '' @ khren, ''show dcb '' @ khren_morzhovyj, ''show dcb khren morzhovyj'',
      ''show server '' @ khren, ''show server '' @ khren_morzhovyj, ''show server khren morzhovyj'',
      ''show service '' @ khren, ''show service '' @ khren_morzhovyj, ''show service khren morzhovyj'',
      ''show service khren morzhovyj'',
      ''list listeners'', ''restart monitor'', ''restart service'']"

definition bug654_garbage :: "string list" where
  "bug654_garbage =
     [''qwerty'', ''khren morzhovyj'', khren, khren_morzhovyj, replicate 219 (CHR ''x''),
      replicate 219 (CHR ''x'') @ '' '' @ khren_morzhovyj @ '' '' @ khren_morzhovyj @ '' '']"

definition bug654_cmds :: "string list" where
  "bug654_cmds =
     [''enable disable heartbeat '', ''disable heartbeat '', ''reload dbusers '', ''set server server1 master  '',
      ''set pollsleep  '', ''set nbpolls  '', ''show dcb '', ''show eventq '', ''show eventstats '', ''show filter '',
      ''show monitor '', ''show server '', ''show service '', ''show session '', ''show filters  '', ''show modules  '',
      ''show monitors  '', ''show servers  '', ''show services  '', ''show sessions  '', ''show tasks  '',
      ''show threads  '', ''show users  '', ''shutdown monitor '', ''shutdown service '', ''shutdown maxscale '',
      ''enable root '', ''disable root '']"

definition bug654_pair :: "env \<Rightarrow> string \<Rightarrow> string \<Rightarrow> 'a tc_scheme \<Rightarrow> 'a tc_scheme" where
  "bug654_pair E cmd g s =
     (let s = admin_cmd E (cmd @ '' '' @ g) (set_timeout 30 s)
      in admin_cmd E (cmd @ '' '' @ g @ g @ g @ g @ '' '' @ g @ '' '') s)"

text \<open>The buffer \<open>result\<close> is printed and searched: it must have been written.\<close>

definition bug654 :: "env \<Rightarrow> 'a tc_scheme \<Rightarrow> (int \<times> 'a tc_scheme) option" where
  "bug654 E s =
     do { ((_, v), s) \<leftarrow> get_maxadmin_param E ''show dbusers RW Split Router'' ''Incorrect number of arguments:'' (set_timeout 30 s);
          result \<leftarrow> v;
          let s = (if strstr result ''show dbusers expects 1 argument'' = None then add_result 1 s else s);
          (_, s) \<leftarrow> get_maxadmin_param E ''show dbusers \"RW Split Router\"'' ''User names:'' (set_timeout 30 s);
          let s = do_loop bug654_commands (\<lambda>cmd s. admin_cmd E cmd (set_timeout 30 s)) s;
          alive_result E (if tc_smoke s then s
                          else do_loop bug654_cmds (\<lambda>cmd. do_loop bug654_garbage (bug654_pair E cmd)) s) }"

end
