(* ===== verification/Statement_Tests.thy ===== *)
theory Statement_Tests
  imports Regression_Tests Big_Data
begin

text \<open>
  Test programs that send statements through the services of MaxScale and look at what comes
  back: sessions, prepared statements, table \<open>t1\<close>, temporary tables, large values, text that is
  not ASCII, statements a filter has learned. Each definition is the \<open>main\<close> of the file it is named
  after, from the constructed object to the reading of the result.
\<close>

section \<open>Sessions\<close>

text \<open>The three services, each holding all rows of \<open>t1\<close>.\<close>

definition t1_everywhere :: "env \<Rightarrow> nat \<Rightarrow> 'a tc_scheme \<Rightarrow> 'a tc_scheme option" where
  "t1_everywhere E n s =
     do_loopM [tc_conn_rwsplit, tc_conn_master, tc_conn_slave] (\<lambda>c s. select_check_on E c n (set_timeout 240 s)) s"

definition short_session :: "env \<Rightarrow> nat \<Rightarrow> 'a tc_scheme \<Rightarrow> 'a tc_scheme" where
  "short_session E i s =
     (let (c, s) = open_rwsplit_connection E (set_timeout 15 s);
          (_, s) = execute_query E c (''INSERT INTO t1 (x1, fl) VALUES('' @ nat_str i @ '', 1);'') s
      in mysql_close c s)"

definition short_sessions :: "env \<Rightarrow> 'a tc_scheme \<Rightarrow> (int \<times> 'a tc_scheme) option" where
  "short_sessions E s =
     (let s = reach_nodes E (set_timeout 20 s);
          (c, s) = open_rwsplit_connection E s;
          s = runs E (\<lambda>_. c) [''DROP DATABASE IF EXISTS test;'', ''CREATE DATABASE test;'', ''USE test;''] s;
          (_, s) = create_t1 E c s;
          s = do_loop [0..<100] (short_session E) (mysql_close c s);
          s = reach_counted E (set_timeout 20 s)
      in do { s \<leftarrow> t1_everywhere E 100 s;
              alive_result E (close_maxscale_connections (set_timeout 20 s)) })"

definition temporal_tables :: "env \<Rightarrow> 'a tc_scheme \<Rightarrow> (int \<times> 'a tc_scheme) option" where
  "temporal_tables E s =
     (let s = reach_nodes E s;
          (c, s) = open_rwsplit_connection E (set_timeout 40 s);
          s = runs E (\<lambda>_. c) [''DROP DATABASE IF EXISTS test'', ''CREATE DATABASE test'', ''USE test''] s;
          (_, s) = create_t1 E c (set_timeout 40 s);
          s = runs E (\<lambda>_. c)
                [''INSERT INTO t1 (x1, fl) VALUES(0, 1);'', ''INSERT INTO t1 (x1, fl) VALUES(1, 1);'',
                 ''create temporary table t1 as (SELECT * FROM t1 WHERE fl=3);'',
                 ''INSERT INTO t1 (x1, fl) VALUES(0, 1);''] (set_timeout 40 s)
      in do { s \<leftarrow> select_check_on E (\<lambda>_. c) 1 (set_timeout 240 s);
              s \<leftarrow> t1_everywhere E 2 (reach_counted E (set_timeout 240 s));
              let s = run_on E (\<lambda>_. c) ''DROP TABLE t1;'' (close_maxscale_connections s);
              s \<leftarrow> t1_everywhere E 2 (reach_counted E s);
              result_of (mysql_close c (close_maxscale_connections s)) })"

definition session_limits :: "env \<Rightarrow> 'a tc_scheme \<Rightarrow> (int \<times> 'a tc_scheme) option" where
  "session_limits E s =
     (let s = c_sleep 20 (reach E (set_timeout 200 s));
          s = c_sleep 35 (try_on E tc_conn_rwsplit ''SELECT 1'' s);
          s = refused_on E tc_conn_rwsplit ''SELECT 1'' s;
          s = reach E (close_maxscale_connections s);
          s = do_loop [0..<10] (\<lambda>i. try_on E tc_conn_rwsplit (''set @test='' @ nat_str i)) s;
          s = c_sleep 5 (run_on E tc_conn_rwsplit ''set @test=11'' s);
          s = log_has E [''Router session exceeded session command history limit''] s
      in result_of (close_maxscale_connections s))"

definition mxs127 :: "env \<Rightarrow> 'a tc_scheme \<Rightarrow> (int \<times> 'a tc_scheme) option" where
  "mxs127 E s =
     (let s = reach E (set_timeout 10 s);
          s = do_loop [tc_conn_rwsplit, tc_conn_master, tc_conn_slave]
                (\<lambda>c. do_loop [0..<10000] (\<lambda>i s. try_on E c (''set @test='' @ nat_str i) (set_timeout 5 s))) s
      in result_of (close_maxscale_connections s))"

definition mxs47 :: "env \<Rightarrow> 'a tc_scheme \<Rightarrow> (int \<times> 'a tc_scheme) option" where
  "mxs47 E s =
     (let s = reach E s;
          s = do_loop (map (\<lambda>k. 7 * k + 1) [0..<715])
                (\<lambda>i s. try_on E tc_conn_rwsplit (''SELECT REPEAT('a','' @ nat_str i @ '')'') (set_timeout 15 s)) s
      in result_of (close_maxscale_connections s))"

definition mxs501_tee_usedb :: "env \<Rightarrow> 'a tc_scheme \<Rightarrow> (int \<times> 'a tc_scheme) option" where
  "mxs501_tee_usedb E s =
     (let s = set_timeout 10 (reach E (set_timeout 10 s));
          s = set_timeout 10 (tries E tc_conn_rwsplit [''USE mysql'', ''USE test''] s);
          s = set_timeout 10 (tries E tc_conn_master [''USE mysql'', ''USE test''] s);
          s = try_on E tc_conn_slave ''USE test'' (try_on E tc_conn_master ''USE mysql'' s);
          s = close_maxscale_connections (set_timeout 10 s)
      in alive_result E s)"

definition mxs827_write_timeout :: "env \<Rightarrow> 'a tc_scheme \<Rightarrow> (int \<times> 'a tc_scheme) option" where
  "mxs827_write_timeout E s =
     (let s = reach E (set_timeout 10 s);
          s = try_on E tc_conn_rwsplit ''SET wait_timeout=20'' s;
          (_, s) = create_t1 E (tc_conn_rwsplit s) s;
          s = do_loop [0..<30] (\<lambda>_ s. c_sleep 1 (try_on E tc_conn_rwsplit ''SELECT 1'' (set_timeout 10 s))) s
      in alive_result E (try_on E tc_conn_rwsplit ''INSERT INTO t1 VALUES (1, 1)'' s))"

definition mxs957_queries :: "string list" where
  "mxs957_queries =
     [''USE test'',
      ''CREATE OR REPLACE TABLE t1(`id` INT(10) UNSIGNED NOT NULL AUTO_INCREMENT PRIMARY KEY)'',
      ''CREATE OR REPLACE TABLE t2(`id` INT(10) UNSIGNED NOT NULL AUTO_INCREMENT PRIMARY KEY)'',
      ''CREATE TEMPORARY TABLE temp1(`id` INT(10) UNSIGNED NOT NULL AUTO_INCREMENT PRIMARY KEY)'',
      ''INSERT INTO temp1 values (1), (2), (3)'', ''INSERT INTO t1 values (1), (2), (3)'',
      ''INSERT INTO t2 values (1), (2), (3)'',
      ''CREATE TEMPORARY TABLE temp2 SELECT DISTINCT p.id FROM temp1 p JOIN t1 t ON (t.id = p.id) '' @
        ''LEFT JOIN t2 ON (t.id = t2.id) WHERE p.id IS NOT NULL AND @@server_id IS NOT NULL'',
      ''SELECT * FROM temp2'', ''DROP TABLE t1'', ''DROP TABLE t2'']"

definition mxs957 :: "env \<Rightarrow> 'a tc_scheme \<Rightarrow> (int \<times> 'a tc_scheme) option" where
  "mxs957 E s =
     result_of (do_loop mxs957_queries (\<lambda>q s. try_on E tc_conn_rwsplit q (set_timeout 30 s)) (reach E s))"

definition mxs1123 :: "env \<Rightarrow> 'a tc_scheme \<Rightarrow> (int \<times> 'a tc_scheme) option" where
  "mxs1123 E s =
     (let s = do_loop [tc_conn_rwsplit, tc_conn_master, tc_conn_slave] (\<lambda>c s. try_on E c ''select 1'' (c_sleep 1 s)) (reach E s)
      in result_of (close_maxscale_connections s))"

section \<open>Prepared statements and memory\<close>

definition prepared_statement :: "env \<Rightarrow> 'a tc_scheme \<Rightarrow> (int \<times> 'a tc_scheme) option" where
  "prepared_statement E s =
     (let (rc, s) = connect_maxscale E (reach_nodes E (set_timeout 60 s)) in
      if rc \<noteq> 0 then Some (1, s)
      else
        let (_, s) = create_t1 E (tc_conn_rwsplit s) s in
        do { (_, s) \<leftarrow> insert_into_t1 E (tc_conn_rwsplit s) 4 s;
             alive_result E (tries E tc_conn_rwsplit
               [''PREPARE stmt FROM 'SELECT * FROM t1 WHERE fl=@x;';'', ''SET @x = 3;'', ''EXECUTE stmt'',
                ''SET @x = 4;'', ''EXECUTE stmt''] (set_timeout 20 s)) })"

definition mxs244_statements :: "string list" where
  "mxs244_statements =
     [''SET NAMES \"UTF8\"'',
      ''PREPARE s1 FROM 'SHOW GLOBAL STATUS WHERE variable_name = ?'' @ quote,
      ''SET @a = \"Com_stmt_prepare\"'', ''EXECUTE s1 USING @a'',
      ''PREPARE s1 FROM 'SHOW GLOBAL STATUS WHERE variable_name = ?'' @ quote,
      ''SET @a = \"Com_stmt_close\"'', ''EXECUTE s1 USING @a'']"

definition mxs244_prepared_stmt_loop :: "env \<Rightarrow> 'a tc_scheme \<Rightarrow> (int \<times> 'a tc_scheme) option" where
  "mxs244_prepared_stmt_loop E s =
     (let (iterations, r) = (if tc_smoke s then (1000, 1) else (25000, 3));
          s = reach E (reach_nodes E (set_timeout 5 s));
          router = [tc_conn_rwsplit s, tc_conn_master s, tc_conn_slave s];
          s = do_loop (take r router)
                (\<lambda>c. do_loop [0..<iterations] (\<lambda>_ s. tries E (\<lambda>_. c) mxs244_statements (set_timeout 10 s))) s
      in alive_result E (close_maxscale_connections (set_timeout 20 s)))"

definition ses_bigmem :: "env \<Rightarrow> 'a tc_scheme \<Rightarrow> (int \<times> 'a tc_scheme) option" where
  "ses_bigmem E s =
     (let s = reach E (set_timeout 10 s);
          (iterations, r) = (if tc_smoke s then (100000, 1) else (1000000, 3))
      in do {
        s \<leftarrow> do_loopM [0..<r]
          (\<lambda>j s. do { let s = do_loop [0..<iterations]
                          (\<lambda>_ s. tries E (\<lambda>s. tc_routers s j)
                                   [''set autocommit=0;'', ''select 1;'', ''set autocommit=1;'', ''select 2;'']
                                   (set_timeout 10 s)) s;
                      (mem, s) \<leftarrow> get_maxscale_memsize E s;
                      Some (if 2000000 < mem then add_result 1 s else s) }) s;
        alive_result E s })"

section \<open>Routing to the master or a slave\<close>

text \<open>The identifiers of the first two nodes, printed.\<close>

definition two_ids :: "env \<Rightarrow> 'a tc_scheme \<Rightarrow> ((string \<times> string) \<times> 'a tc_scheme) option" where
  "two_ids E s =
     do { (m, s) \<leftarrow> get_server_id E (tc_repl s) 0 s;
          (sl, s) \<leftarrow> get_server_id E (tc_repl s) 1 s;
          Some ((int_str m, int_str sl), s) }"

definition strict_multi_round :: "env \<Rightarrow> string \<Rightarrow> string \<Rightarrow> string \<Rightarrow> 'a tc_scheme \<Rightarrow> 'a tc_scheme option" where
  "strict_multi_round E master slave last_one s =
     do { s \<leftarrow> check_one_on E tc_conn_rwsplit ''SELECT @@server_id'' slave s;
          s \<leftarrow> check_one_on E tc_conn_rwsplit ''USE test; SELECT @@server_id'' master s;
          s \<leftarrow> check_one_on E tc_conn_rwsplit ''SELECT @@server_id'' last_one s;
          Some (close_maxscale_connections s) }"

definition rwsplit_multi_stmt :: "env \<Rightarrow> 'a tc_scheme \<Rightarrow> (int \<times> 'a tc_scheme) option" where
  "rwsplit_multi_stmt E s =
     do { ((master, slave), s) \<leftarrow> two_ids E (reach_nodes E s);
          s \<leftarrow> strict_multi_round E master slave master (reach E s);
          let s = on_maxscale E True ''sed -i 's/strict_multi_stmt=true/strict_multi_stmt=false/' /etc/maxscale.cnf'' s;
          s \<leftarrow> strict_multi_round E master slave slave (reach E (restart E s));
          result_of s }"

definition read_only_trx :: "env \<Rightarrow> string \<Rightarrow> string \<Rightarrow> string \<Rightarrow> 'a tc_scheme \<Rightarrow> 'a tc_scheme option" where
  "read_only_trx E start expected finish s =
     do { s \<leftarrow> check_one_on E tc_conn_rwsplit ''SELECT @@server_id'' expected (try_on E tc_conn_rwsplit start s);
          Some (try_on E tc_conn_rwsplit finish s) }"

definition rwsplit_read_only_trx :: "env \<Rightarrow> 'a tc_scheme \<Rightarrow> (int \<times> 'a tc_scheme) option" where
  "rwsplit_read_only_trx E s =
     do { ((master, slave), s) \<leftarrow> two_ids E (reach_nodes E s);
          let s = reach E s;
          let s = silent_on E tc_conn_rwsplit ''DROP TABLE test.t1'' s;
          let s = silent_on E tc_conn_rwsplit ''CREATE TABLE test.t1(id int)'' s;
          s \<leftarrow> read_only_trx E ''START TRANSACTION READ ONLY'' slave ''COMMIT'' s;
          s \<leftarrow> read_only_trx E ''START TRANSACTION READ ONLY'' slave ''ROLLBACK'' s;
          s \<leftarrow> read_only_trx E ''START TRANSACTION'' master ''COMMIT'' s;
          s \<leftarrow> check_one_on E tc_conn_rwsplit ''SELECT @@server_id'' slave
                 (try_on E tc_conn_rwsplit ''START TRANSACTION READ ONLY'' s);
          let s = refused_on E tc_conn_rwsplit ''UPDATE test.t1 SET id=0'' s;
          let s = try_on E tc_conn_rwsplit ''COMMIT'' s;
          result_of (close_maxscale_connections s) }"

definition regexfilter1 :: "env \<Rightarrow> 'a tc_scheme \<Rightarrow> (int \<times> 'a tc_scheme) option" where
  "regexfilter1 E s =
     do { s \<leftarrow> check_one_on E tc_conn_rwsplit ''SELECT 123'' ''0'' (reach E s);
          s \<leftarrow> check_one_on E tc_conn_slave ''SELECT 123'' ''123'' s;
          s \<leftarrow> check_one_on E tc_conn_master ''SELECT 123'' ''123'' s;
          result_of (close_maxscale_connections s) }"

definition compare_server_id :: "env \<Rightarrow> string \<Rightarrow> 'a tc_scheme \<Rightarrow> (int \<times> 'a tc_scheme) option" where
  "compare_server_id E node_id s =
     do { ((rc, v), s) \<leftarrow> find_field E (tc_conn_rwsplit s) ''SELECT @@server_id'' ''@@server_id'' s;
          if rc \<noteq> 0 then Some (1, s)
          else do { str \<leftarrow> v; Some (if node_id \<noteq> str then 1 else 0, s) } }"

definition namedserverfilter :: "env \<Rightarrow> 'a tc_scheme \<Rightarrow> (int \<times> 'a tc_scheme) option" where
  "namedserverfilter E s =
     do { (i, s) \<leftarrow> get_server_id E (tc_repl s) 1 (reach_nodes E s);
          let (rc, s) = connect_rwsplit E s;
          (r, s) \<leftarrow> compare_server_id E (int_str i) (add_result rc s);
          result_of (add_result r s) }"

text \<open>Nothing is compared: the counters are only printed.\<close>

definition rw_galera_select_insert ::
  "env \<Rightarrow> counters \<times> counters \<Rightarrow> 'a tc_scheme \<Rightarrow> (int \<times> 'a tc_scheme) option" where
  "rw_galera_select_insert E = (\<lambda>((selects, inserts), (new_selects, new_inserts)) s.
     let s = set_timeout 30 s;
         (_, s) = connect E (tc_galera s) s;
         (_, s) = connect_rwsplit E s;
         s = admin_cmd E ''shutdown monitor \"Galera Monitor\"'' s
     in if tc_conn_rwsplit s = None then Some (1, add_result 1 s)
        else
          let s = tries E tc_conn_rwsplit [''DROP TABLE IF EXISTS t1;'', ''create table t1 (x1 int);''] s in
          do { (_, s) \<leftarrow> get_global_status_allnodes E selects inserts (tc_galera s) s;
               ((_, new_selects, new_inserts), s) \<leftarrow>
                 get_global_status_allnodes E new_selects new_inserts (tc_galera s)
                   (try_on E tc_conn_rwsplit ''select * from t1;'' s);
               (_, s) \<leftarrow> get_global_status_allnodes E new_selects new_inserts (tc_galera s)
                          (try_on E tc_conn_rwsplit ''insert into t1 values(1);'' s);
               result_of (close_connections (tc_galera s) (close_rwsplit s)) })"

section \<open>Table t1 and other tables\<close>

definition sql_queries_round :: "env \<Rightarrow> int \<Rightarrow> 'a tc_scheme \<Rightarrow> 'a tc_scheme option" where
  "sql_queries_round E N s =
     do { (r, s) \<leftarrow> insert_select E N s;
          let s = tries E tc_conn_rwsplit
                    [''DROP TABLE t1'', ''DROP DATABASE IF EXISTS test1;'', ''CREATE DATABASE test1;''] (add_result r s);
          s \<leftarrow> sync_slaves E (tc_repl s) 0 s;
          (r, s) \<leftarrow> use_db E ''test1'' s;
          (r, s) \<leftarrow> insert_select E N (add_result r s);
          (r, s) \<leftarrow> check_t1_table E False ''test'' (add_result r s);
          (r, s) \<leftarrow> check_t1_table E True ''test1'' (add_result r s);
          let s = do_loop [0..<3] (\<lambda>j. runs E (\<lambda>s. tc_routers s j) [''DROP DATABASE I EXISTS test1;'', ''CREATE TABLE ''])
                    (add_result r s);
          Some (leave_nodes (close_maxscale_connections s)) }"

text \<open>The rounds end with the first one that cannot connect.\<close>

fun sql_queries_rounds :: "env \<Rightarrow> nat \<Rightarrow> int \<Rightarrow> 'a tc_scheme \<Rightarrow> 'a tc_scheme option" where
  "sql_queries_rounds E 0 N s = Some s"
| "sql_queries_rounds E (Suc n) N s =
     (let (rc, s) = connect_maxscale E (reach_nodes E s)
      in if rc \<noteq> 0 then Some (add_result 1 s)
         else do { s \<leftarrow> sql_queries_round E N s; sql_queries_rounds E n N s })"

definition sql_queries :: "env \<Rightarrow> 'a tc_scheme \<Rightarrow> (int \<times> 'a tc_scheme) option" where
  "sql_queries E s =
     (let (iterations, N) = (if tc_smoke s then (1, 2) else (4, 4)) in
      do { s \<leftarrow> sql_queries_rounds E iterations N s;
           alive_result E (log_lacks E [''Length (0) is 0'', ''Unable to parse query'', ''query string allocation failed'']
             (stop_timeout s)) })"

definition mxs280_select_outfile :: "env \<Rightarrow> 'a tc_scheme \<Rightarrow> (int \<times> 'a tc_scheme) option" where
  "mxs280_select_outfile E s =
     (let s = reach E (set_timeout 10 s);
          s = on_all_nodes (\<lambda>i s. on_node E True ''touch /tmp/t1.csv'' i (set_timeout 30 s)) s;
          (r, s) = create_t1 E (tc_conn_rwsplit s) s;
          s = try_on E tc_conn_rwsplit ''INSERT INTO t1 (x1, fl) VALUES (0, 0), (1, 0)'' (add_result r s);
          s = refused_on E tc_conn_rwsplit (outfile_sql ''/tmp/t1.csv'') s;
          s = on_all_nodes (\<lambda>i s. on_node E True ''rm -rf /tmp/t1.csv'' i (set_timeout 30 s)) s;
          s = c_sleep 5 (set_timeout 30 s)
      in result_of (log_has E [''Failed to execute session command in'', ''File '/tmp/t1.csv' already exists''] s))"

definition open_no_db :: "env \<Rightarrow> 'a tc_scheme \<Rightarrow> 'a tc_scheme" where
  "open_no_db E s =
     (let (c, s) = open_conn_no_db E (tc_rwsplit_port s) (tc_maxscale_IP s) (tc_maxscale_user s) (tc_maxscale_password s)
                     (tc_ssl s) s
      in s\<lparr>tc_conn_rwsplit := c\<rparr>)"

definition connect_to_nonexisting_db :: "env \<Rightarrow> 'a tc_scheme \<Rightarrow> (int \<times> 'a tc_scheme) option" where
  "connect_to_nonexisting_db E s =
     (let s = open_no_db E (set_timeout 30 s) in
      if tc_conn_rwsplit s = None then Some (1, add_result 1 s)
      else
        let s = c_sleep 5 (close_rwsplit (run_on E tc_conn_rwsplit ''DROP DATABASE IF EXISTS test;'' s));
            s = open_no_db E (close_maxscale_connections (reach E s))
        in if tc_conn_rwsplit s = None then Some (1, s)
           else
             let s = try_on E tc_conn_rwsplit ''CREATE DATABASE test; USE test'' s;
                 (r, s) = create_t1 E (tc_conn_rwsplit s) s;
                 s = reach_counted E (close_rwsplit (add_result r s));
                 s = try_on E tc_conn_rwsplit ''INSERT INTO t1 (x1, fl) VALUES(0, 1);'' s
             in do { s \<leftarrow> select_check_on E tc_conn_rwsplit 1 (set_timeout 240 s);
                     result_of (close_maxscale_connections s) })"

definition lots_of_rows :: "env \<Rightarrow> 'a tc_scheme \<Rightarrow> (int \<times> 'a tc_scheme) option" where
  "lots_of_rows E s =
     (let s = reach E s;
          (_, s) = create_t1 E (tc_conn_rwsplit s) s
      in do { s \<leftarrow> do_loopM [0..<2000]
                (\<lambda>i s. do { sql \<leftarrow> into_block 10240 (create_insert_string 100 (int i));
                            Some (try_on E tc_conn_rwsplit sql (set_timeout 20 s)) }) s;
              let s = set_timeout 30 (c_sleep 20 (stop_timeout s));
              alive_result E (try_on E tc_conn_rwsplit ''SELECT * FROM t1'' s) })"

text \<open>
  The loop \<open>for (int i = 0; i++; i < 3)\<close>: its condition is the value \<open>i\<close> had before it was
  incremented, and its last part has no effect.
\<close>

partial_function (option) session_inserts :: "env \<Rightarrow> int \<Rightarrow> 'a tc_scheme \<Rightarrow> 'a tc_scheme option" where
  "session_inserts E i s =
     (if i = 0 then Some s
      else if \<not> int32_ok (i + 1) then None
      else session_inserts E (i + 1)
             (run_on E tc_conn_rwsplit (''INSERT INTO t1 (x1, fl) VALUES('' @ int_str (i + 1) @ '', 2);'') (set_timeout 60 s)))"

definition change_master_during_session :: "env \<Rightarrow> 'a tc_scheme \<Rightarrow> (int \<times> 'a tc_scheme) option" where
  "change_master_during_session E s =
     (let s = reach_nodes E (set_timeout 30 s);
          (_, s) = connect_rwsplit E s;
          (r, s) = create_t1 E (tc_conn_rwsplit s) (set_timeout 30 s);
          s = try_on E tc_conn_rwsplit ''INSERT INTO t1 (x1, fl) VALUES(0, 1);'' (add_result r s)
      in do { s \<leftarrow> change_master E (tc_repl s) 1 0 (set_timeout 60 s);
              s \<leftarrow> session_inserts E 0 s;
              let s = close_rwsplit (run_on E tc_conn_rwsplit ''SELECT * FROM t1;'' (set_timeout 60 s));
              let (_, s) = connect_rwsplit E (set_timeout 60 (c_sleep 3 (stop_timeout s)));
              let s = try_on E tc_conn_rwsplit ''SELECT * FROM t1;'' (set_timeout 60 s);
              s \<leftarrow> change_master E (tc_repl s) 0 1 (set_timeout 60 s);
              result_of (leave_nodes (set_timeout 60 s)) })"

section \<open>Large values and text\<close>

definition blob_round :: "env \<Rightarrow> ('a tc_scheme \<Rightarrow> conn option) \<Rightarrow> string \<times> nat \<times> nat \<Rightarrow> 'a tc_scheme \<Rightarrow> 'a tc_scheme option" where
  "blob_round E c = (\<lambda>(type, size, chunks) s.
     let s = reach_nodes E (reach E s) in
     do { (_, s) \<leftarrow> test_longblob E (c s) type size chunks 1 s;
          Some (close_maxscale_connections (leave_nodes s)) })"

definition longblob :: "env \<Rightarrow> 'a tc_scheme \<Rightarrow> (int \<times> 'a tc_scheme) option" where
  "longblob E s =
     do { s \<leftarrow> all_nodes_query E ''set global max_allowed_packet=10000000'' (set_timeout 60 s);
          s \<leftarrow> do_loopM [(''LONGBLOB'', 1000000, 20), (''BLOB'', 1000, 8), (''MEDIUMBLOB'', 1000000, 2)]
                 (\<lambda>b s. do { s \<leftarrow> blob_round E tc_conn_rwsplit b s; blob_round E tc_conn_master b s }) s;
          result_of s }"

definition mxs1110_16mb :: "env \<Rightarrow> 'a tc_scheme \<Rightarrow> (int \<times> 'a tc_scheme) option" where
  "mxs1110_16mb E s =
     (let s = set_timeout 60 s;
          (_, s) = copy_to_maxscale E ''./masking/masking_user/masking_rules.json'' ''~/'' s;
          (_, s) = copy_to_maxscale E ''./cache/cache_basic/cache_rules.json'' ''~/'' s;
          s = copy_rules E ''rules2'' ''./fw/'' s;
          (_, s) = start_maxscale E s
      in do {
        s \<leftarrow> all_nodes_query E ''set global max_allowed_packet=100000000'' s;
        let s = reach_nodes E (reach E s);
        (_, s) \<leftarrow> test_longblob E (tc_conn_rwsplit s) ''LONGBLOB'' 2500000 5 2 s;
        let s = reach E (close_maxscale_connections (leave_nodes s));
        s \<leftarrow> do_loopM [tc_conn_rwsplit, tc_conn_master, tc_conn_slave]
               (\<lambda>c s. do { (_, s) \<leftarrow> check_longblob_data E (c s) 2500000 5 2 s; Some s }) s;
        let s = close_maxscale_connections s;
        let (c, s) = open_service E 4016 s;
        result_of (mysql_close c s) })"

text \<open>A statement that is filled in chunks; the first chunk that is refused ends the function.\<close>

definition sent_chunk :: "nat list" where
  "sent_chunk = replicate (500000 * 8) 46"

fun mxs812_chunks :: "env \<Rightarrow> stmt option \<Rightarrow> nat \<Rightarrow> 'a tc_scheme \<Rightarrow> bool \<times> 'a tc_scheme" where
  "mxs812_chunks E st 0 s = (True, s)"
| "mxs812_chunks E st (Suc n) s =
     (let (rc, s) = stmt_call E st (StmtSendLong sent_chunk) (set_timeout 600 s)
      in if rc \<noteq> 0 then (False, add_result 1 s) else mxs812_chunks E st n s)"

definition mxs812_run :: "env \<Rightarrow> 'a tc_scheme \<Rightarrow> 'a tc_scheme option" where
  "mxs812_run E s =
     (let (st, s) = stmt_new E (tc_conn_rwsplit s) s;
          s = stmt_counted E st (StmtPrepare ''INSERT INTO long_blob_table(x, b) VALUES(1, ?)'') s;
          s = stmt_counted E st StmtBindParam s
      in if \<not> mem_ok E (trace s) then None
         else let (ok, s) = mxs812_chunks E st 10 s in
              if \<not> ok then Some s
              else let s = stmt_counted E st StmtExecute (set_timeout 600 s) in
                   do { s \<leftarrow> check_current_operations E 0 (c_sleep 5 (stop_timeout s));
                        Some (stmt_counted E st StmtClose s) })"

definition mxs812_1 :: "env \<Rightarrow> 'a tc_scheme \<Rightarrow> (int \<times> 'a tc_scheme) option" where
  "mxs812_1 E s =
     do { s \<leftarrow> all_nodes_query E ''set global max_allowed_packet=10000000'' (set_timeout 300 s);
          let s = tries E (node_conn 0) [''DROP TABLE IF EXISTS long_blob_table'',
                    ''CREATE TABLE long_blob_table(x INT, b BLOB)''] (reach_nodes E s);
          s \<leftarrow> do_loopM [0..<10] (\<lambda>_. mxs812_run E) (reach E s);
          result_of s }"

definition mxs314_turn :: "env \<Rightarrow> stmt option \<Rightarrow> nat \<Rightarrow> 'a tc_scheme \<Rightarrow> 'a tc_scheme" where
  "mxs314_turn E st i s =
     (let query = ''select 1'' @ concat (replicate i '',1'');
          (rc, s) = stmt_call E st (StmtPrepare query) (set_timeout 30 s);
          s = (if rc \<noteq> 0 then add_result 1 (add_result 1 s) else s);
          (rc, s) = stmt_call E st StmtReset s
      in if rc \<noteq> 0 then add_result 1 (add_result 1 s) else s)"

definition mxs314 :: "env \<Rightarrow> 'a tc_scheme \<Rightarrow> (int \<times> 'a tc_scheme) option" where
  "mxs314 E s =
     (let iterations = (if tc_smoke s then 500 else 2000);
          s = reach E (set_timeout 50 s);
          (st, s) = stmt_new E (tc_conn_rwsplit s) s;
          s = do_loop [300..<iterations] (mxs314_turn E st) s;
          (_, s) = stmt_call E st StmtClose (set_timeout 20 s)
      in result_of (close_maxscale_connections s))"

definition cat_word :: string where
  "cat_word = bytes [208, 154, 208, 190, 209, 130]"

definition check_val :: "env \<Rightarrow> conn option \<Rightarrow> 'a tc_scheme \<Rightarrow> 'a tc_scheme option" where
  "check_val E c s =
     do { ((_, v), s) \<leftarrow> find_field E c ''SELECT * FROM t2'' ''x'' (set_timeout 20 s);
          val \<leftarrow> v;
          Some (if cat_word \<noteq> val then add_result 1 s else s) }"

text \<open>The nodes of either cluster, counted by those of the first.\<close>

definition mxs682_cyrillic :: "env \<Rightarrow> 'a tc_scheme \<Rightarrow> (int \<times> 'a tc_scheme) option" where
  "mxs682_cyrillic E s =
     (let nodes = (if strstr (tc_test_name s) ''galera'' \<noteq> None then tc_galera s else tc_repl s);
          s = set_timeout 10 (reach E (set_timeout 10 s));
          (_, s) = connect E nodes s;
          s = silent_on E tc_conn_rwsplit ''DROP TABLE t2;'' (set_timeout 10 s);
          s = tries E tc_conn_rwsplit
                [''CREATE TABLE t2 (x varchar(10));'', ''INSERT INTO t2 VALUES (\"'' @ cat_word @ ''\");''] s;
          s = c_sleep 5 (stop_timeout s)
      in do { s \<leftarrow> do_loopM [tc_conn_rwsplit, tc_conn_master, tc_conn_slave] (\<lambda>c s. check_val E (c s) s) s;
              s \<leftarrow> do_loopM (node_ids (repl s)) (\<lambda>i s. check_val E (mn_nodes (objs s nodes) i) s) s;
              alive_result E s })"

definition mxs951_utfmb4 :: "env \<Rightarrow> 'a tc_scheme \<Rightarrow> (int \<times> 'a tc_scheme) option" where
  "mxs951_utfmb4 E s =
     (let cmd = cf_test_dir E @ ''/utf64.cnf'';
          s = on_all_nodes (\<lambda>i s. let (_, s) = copy_to_node E (tc_repl s) cmd ''./'' i s
                                  in on_node E True ''cp ./utf64.cnf /etc/my.cnf.d/'' i s) (stop_timeout s);
          (_, s) = start_replication E (tc_repl s) s
      in do {
        s \<leftarrow> all_nodes_query E ''SET GLOBAL character_set_server = 'utf8mb4';'' s;
        s \<leftarrow> all_nodes_query E ''SET NAMES 'utf8mb4';'' s;
        (_, s) \<leftarrow> check_maxscale_alive E (c_sleep 10 (restart E (set_timeout 120 s)));
        let s = on_all_nodes (on_node E True ''rm  /etc/my.cnf.d/utf64.cnf'') (stop_timeout s);
        let (_, s) = start_replication E (tc_repl s) s;
        result_of s })"

definition different_size_rwsplit :: "env \<Rightarrow> 'a tc_scheme \<Rightarrow> (int \<times> 'a tc_scheme) option" where
  "different_size_rwsplit E s = do { s \<leftarrow> different_packet_size E False s; alive_result E s }"

section \<open>gatekeeper\<close>

definition training_queries :: "string list" where
  "training_queries = [''SELECT * FROM test.t1 WHERE id = 1'', ''INSERT INTO test.t1 VALUES (1)'',
     ''UPDATE test.t1 SET id = 2 WHERE id = 1'']"

definition allowed_queries :: "string list" where
  "allowed_queries =
     [''SELECT * FROM test.t1 WHERE id = 1'', ''SELECT * FROM test.t1 WHERE id = 2'',
      ''SELECT * FROM test.t1 WHERE id = 102'', ''INSERT INTO test.t1 VALUES (1)'', ''INSERT INTO test.t1 VALUES (124)'',
      ''INSERT INTO test.t1 VALUES (127419823)'', ''UPDATE test.t1 SET id = 4 WHERE id = 1'',
      ''UPDATE test.t1 SET id = 3 WHERE id = 2'', ''UPDATE test.t1 SET id = 2 WHERE id = 3'',
      ''UPDATE test.t1 SET id = 1 WHERE id = 4'',
      ''   UPDATE    test.t1    SET   id   =   1   WHERE   id   =   4    '']"

definition denied_queries :: "string list" where
  "denied_queries =
     [''SELECT * FROM test.t1 WHERE id = 1 OR 1=1'', ''INSERT INTO test.t1 VALUES (1), ('This is not a number')'',
      ''UPDATE test.t1 SET id = 2 WHERE id = 1 OR id > 0'']"

definition gatekeeper :: "env \<Rightarrow> 'a tc_scheme \<Rightarrow> (int \<times> 'a tc_scheme) option" where
  "gatekeeper E s =
     (let s = set_timeout 30 (on_maxscale E True ''rm -f /var/lib/maxscale/gatekeeper.data'' s);
          (_, s) = connect_rwsplit E s;
          s = tries E tc_conn_rwsplit (''CREATE OR REPLACE TABLE test.t1 (id INT)'' # training_queries) s;
          s = on_maxscale E True ''sed -i -e 's/mode=learn/mode=enforce/' /etc/maxscale.cnf'' (close_rwsplit s);
          (_, s) = connect_rwsplit E (c_sleep 5 (restart E s));
          s = do_loop (training_queries @ allowed_queries) (\<lambda>q s. counted_on E tc_conn_rwsplit q (set_timeout 30 s)) s;
          s = do_loop denied_queries (\<lambda>q s. refused_on E tc_conn_rwsplit q (set_timeout 30 s)) s
      in result_of (on_maxscale E True ''rm -f /var/lib/maxscale/gatekeeper.data'' s))"

end
