(* ===== verification/Service_Tests.thy ===== *)
theory Service_Tests
  imports Statement_Tests Config_Tests
begin

text \<open>
  Test programs about the services themselves: accounts and passwords, MaxAdmin, configuration
  files, many connections, nodes that are blocked or stopped, databases on several servers.
\<close>

section \<open>Accounts and passwords\<close>

text \<open>Five attempts, of which the first that can read the table is enough; it leaves its connection open.\<close>

fun privilege_attempts :: "env \<Rightarrow> nat \<Rightarrow> 'a tc_scheme \<Rightarrow> bool \<times> 'a tc_scheme" where
  "privilege_attempts E 0 s = (True, s)"
| "privilege_attempts E (Suc n) s =
     (let (c, s) = open_conn_db E (tc_rwsplit_port s) (tc_maxscale_IP s) ''test'' ''table_privilege'' ''pass'' (tc_ssl s) s;
          (ok, s) =
            (if mysql_errno E c s \<noteq> 0 then (False, s)
             else let (rc, s) = execute_query E c ''SELECT * FROM t1'' (set_timeout 20 s) in (rc = 0, s))
      in if ok then (False, s) else privilege_attempts E n (c_sleep 1 (mysql_close c s)))"

definition drop_privilege_user :: "env \<Rightarrow> 'a tc_scheme \<Rightarrow> 'a tc_scheme" where
  "drop_privilege_user E s =
     silent_on E tc_conn_rwsplit ''DROP TABLE test.t1''
       (silent_on E tc_conn_rwsplit (''DROP USER 'table_privilege'@'%'' @ quote) s)"

definition mxs37_table_privilege :: "env \<Rightarrow> 'a tc_scheme \<Rightarrow> (int \<times> 'a tc_scheme) option" where
  "mxs37_table_privilege E s =
     (let s = drop_privilege_user E (reach E (set_timeout 60 s));
          s = runs E tc_conn_rwsplit
                [''CREATE TABLE test.t1 (id INT)'',
                 ''CREATE USER 'table_privilege'@'%' IDENTIFIED BY 'pass'' @ quote,
                 ''GRANT SELECT ON test.t1 TO 'table_privilege'@'%'' @ quote] s
      in do { s \<leftarrow> sync_slaves E (tc_repl s) 0 (stop_timeout s);
              let (error, s) = privilege_attempts E 5 (set_timeout 20 s);
              let s = (if error then add_result 1 s else s);
              alive_result E (drop_privilege_user E (set_timeout 20 s)) })"

definition privilege_databases :: "string list" where
  "privilege_databases = [''db1'', ''db2'', ''db3'', ''db4'']"

definition mxs716_run :: "env \<Rightarrow> string \<Rightarrow> 'a tc_scheme \<Rightarrow> 'a tc_scheme" where
  "mxs716_run E database s =
     (let (c, s) = open_conn_db E (tc_rwsplit_port s) (tc_maxscale_IP s) database ''table_privilege'' ''pass'' (tc_ssl s)
                     (set_timeout 20 s);
          s = (if c \<noteq> None \<and> mysql_errno E c s = 0 then try_on E (\<lambda>_. c) ''SELECT * FROM t1'' (set_timeout 20 s)
               else add_result 1 s)
      in mysql_close c s)"

definition mxs716 :: "env \<Rightarrow> 'a tc_scheme \<Rightarrow> (int \<times> 'a tc_scheme) option" where
  "mxs716 E s =
     (let for_each = (\<lambda>pre post. map (\<lambda>db. pre @ db @ post) privilege_databases);
          grant = (\<lambda>obj. ''GRANT SELECT ON '' @ obj @ '' TO 'table_privilege'@'%'' @ quote);
          s = set_timeout 180 (reach E s);
          s = runs E tc_conn_rwsplit
                (for_each ''DROP DATABASE IF EXISTS '' '''' @ for_each ''CREATE DATABASE '' '''' @
                 for_each ''CREATE TABLE '' ''.t1 (id INT)'' @ for_each ''INSERT INTO '' ''.t1  VALUES (1)'' @
                 [''CREATE USER 'table_privilege'@'%' IDENTIFIED BY 'pass'' @ quote] @
                 map grant [''db1.*'', ''db2.*'', ''db3.t1'', ''db4.t1'']) s
      in do { s \<leftarrow> sync_slaves E (tc_repl s) 0 s;
              let s = reach E (set_timeout 60 (do_loop privilege_databases (mxs716_run E) s));
              result_of (runs E tc_conn_rwsplit
                (for_each ''DROP DATABASE '' '''' @ [''DROP USER 'table_privilege'@'%'' @ quote]) s) })"

definition user_cache :: "env \<Rightarrow> 'a tc_scheme \<Rightarrow> (int \<times> 'a tc_scheme) option" where
  "user_cache E s =
     do { (_, s) \<leftarrow> stop_maxscale E (stop_timeout s);
          let s = do_loop
                [''CREATE USER 'testuser'@'%' IDENTIFIED BY 'testpasswd'' @ quote,
                 ''GRANT SELECT ON mysql.user TO 'testuser'@'%'' @ quote,
                 ''GRANT SELECT ON mysql.db TO 'testuser'@'%'' @ quote,
                 ''GRANT SELECT ON mysql.tables_priv TO 'testuser'@'%'' @ quote,
                 ''GRANT SHOW DATABASES ON *.* TO 'testuser'@'%'' @ quote]
                (silent_on E (node_conn 0)) (reach_nodes E s);
          let (_, s) = start_maxscale E (c_sleep 10 s);
          (r, s) \<leftarrow> try_query_all E ''SHOW DATABASES'' (set_timeout 30 (reach E s));
          let s = block_nodes E (node_ids (repl s)) (stop_timeout (add_result r s));
          let s = c_sleep 5 (restart E s);
          let (_, s) = unblock_all_nodes E (tc_repl s) s;
          let s = c_sleep 5 (silent_on E (node_conn 0) (''DROP USER 'testuser'@'%'' @ quote) (c_sleep 5 s));
          (r, s) \<leftarrow> try_query_all E ''SHOW DATABASES'' (reach E (set_timeout 30 s));
          result_of (stop_timeout (add_result r s)) }"

definition try_password_cmd :: "string \<Rightarrow> string" where
  "try_password_cmd pass =
     ''maxpasswd '' @ quote @ pass @ quote @ '' | tr -dc '[:xdigit:]' > /tmp/pw.txt && '' @
     ''sed -i 's/user=.*/user=test/' /etc/maxscale.cnf && '' @
     ''sed -i \"s/passwd=.*/passwd=$(cat /tmp/pw.txt)/\" /etc/maxscale.cnf && '' @
     ''service maxscale restart && sleep 3 && '' @
     ''sed -i 's/user=.*/user=maxskysql/' /etc/maxscale.cnf && '' @
     ''sed -i 's/passwd=.*/passwd=skysql/' /etc/maxscale.cnf && service maxscale restart''"

definition try_password :: "env \<Rightarrow> string \<Rightarrow> 'a tc_scheme \<Rightarrow> 'a tc_scheme" where
  "try_password E pass s =
     (let s = silent_on E tc_conn_rwsplit (''DROP USER 'test'@'%'' @ quote) (reach E s);
          s = runs E tc_conn_rwsplit
                [''CREATE USER 'test'@'%' IDENTIFIED BY '' @ quote @ pass @ quote,
                 ''GRANT ALL ON *.* TO 'test'@'%'' @ quote] s;
          (rc, s) = ssh_maxscale E True (try_password_cmd pass) (set_timeout 30 (close_maxscale_connections s))
      in c_sleep 3 (add_result rc s))"

definition mxs822_maxpasswd :: "env \<Rightarrow> 'a tc_scheme \<Rightarrow> (int \<times> 'a tc_scheme) option" where
  "mxs822_maxpasswd E s =
     (let s = on_maxscale E True ''maxkeys'' (set_timeout 30 s);
          s = on_maxscale E True ''sudo chown maxscale:maxscale /var/lib/maxscale/.secrets'' s
      in alive_result E (do_loop
           [''aaa$aaa'', bytes [35, 194, 164, 38], bytes [208, 191, 208, 176, 209, 128, 208, 190, 208, 187, 209, 140]]
           (try_password E) s))"

text \<open>A null pointer from the command goes to \<open>strncmp\<close> and \<open>strchr\<close>.\<close>

definition create_key :: "env \<Rightarrow> 'a tc_scheme \<Rightarrow> (int \<times> 'a tc_scheme) option" where
  "create_key E s =
     (let s = on_maxscale E True ''test -f /var/lib/maxscale/.secrets && sudo rm /var/lib/maxscale/.secrets'' (set_timeout 120 s);
          s = on_maxscale E True ''maxkeys'' s;
          (out, s) = ssh_maxscale_output E False ''sudo test -f /var/lib/maxscale/.secrets && echo SUCCESS'' s
      in do { result \<leftarrow> out;
              if take 7 result \<noteq> ''SUCCESS'' then Some (1, s)
              else Some (0, on_maxscale E True ''sudo chown maxscale:maxscale /var/lib/maxscale/.secrets'' s) })"

definition hash_password :: "env \<Rightarrow> 'a tc_scheme \<Rightarrow> (int \<times> 'a tc_scheme) option" where
  "hash_password E s =
     do { (_, s) \<leftarrow> stop_maxscale E s;
          let (out, s) = ssh_maxscale_output E True ''maxpasswd /var/lib/maxscale/ skysql'' (stop_timeout s);
          enc_pw \<leftarrow> out;
          let s = on_maxscale E True (''sed -i -e 's/passwd[[:space:]]*=[[:space:]]*skysql/passwd='' @
                    cut_at enc_pw newline @ ''/' /etc/maxscale.cnf'') s;
          let (_, s) = start_maxscale E s;
          check_maxscale_alive E s }"

text \<open>
  \<open>global_result += f()\<close>: what \<open>f\<close> itself added to the member is kept here, as C++17 orders the
  operands; so failures of \<open>check_maxscale_alive\<close> are counted once more.
\<close>

definition encrypted_passwords :: "env \<Rightarrow> 'a tc_scheme \<Rightarrow> (int \<times> 'a tc_scheme) option" where
  "encrypted_passwords E s =
     do { (r, s) \<leftarrow> create_key E s;
          (r, s) \<leftarrow> hash_password E (s\<lparr>tc_global_result := tc_global_result s + r\<rparr>);
          result_of (s\<lparr>tc_global_result := tc_global_result s + r\<rparr>) }"

definition maxscale_process_user :: "env \<Rightarrow> 'a tc_scheme \<Rightarrow> (int \<times> 'a tc_scheme) option" where
  "maxscale_process_user E s =
     (let (out, s) = ssh_maxscale_output E False
            (''ps -FC maxscale|tail -n 1|cut -f 1 -d \" \"'') (set_timeout 50 s)
      in do { user \<leftarrow> out;
              result_of (add_result (c_strcmp (cut_at user newline) ''maxscale'') s) })"

section \<open>MaxAdmin\<close>

text \<open>\<open>strstr(out, text) == NULL\<close> counted as a failure; \<open>out\<close> must not be null.\<close>

definition output_has :: "env \<Rightarrow> bool \<Rightarrow> string \<Rightarrow> string \<Rightarrow> 'a tc_scheme \<Rightarrow> 'a tc_scheme option" where
  "output_has E sudo cmd expected s =
     (let (out, s) = ssh_maxscale_output E sudo cmd s in
      do { t \<leftarrow> out; Some (if strstr t expected = None then add_result 1 s else s) })"

definition add_remove_maxadmin_user :: "env \<Rightarrow> 'a tc_scheme \<Rightarrow> 'a tc_scheme option" where
  "add_remove_maxadmin_user E s =
     (let user = tc_access_user s;
          accounts = ''Enabled Linux accounts (secure)    : '' @ user @ [newline]
      in do {
        s \<leftarrow> output_has E True (''maxadmin enable account '' @ user)
               (''The Linux user '' @ user @ '' has successfully been enabled.'' @ [newline]) s;
        s \<leftarrow> output_has E False ''maxadmin show users'' accounts s;
        let (st5, s) = ssh_maxscale E True ''maxadmin show users'' s;
        s \<leftarrow> output_has E False ''maxadmin show users'' accounts (if st5 \<noteq> 0 then add_result 1 s else s);
        s \<leftarrow> output_has E True (''maxadmin disable account '' @ user)
               (''The Linux user '' @ user @ '' has successfully been disabled.'' @ [newline]) s;
        let (st9, s) = ssh_maxscale E False ''maxadmin show users'' s;
        Some (if st9 = 0 then add_result 1 s else s) })"

definition odd_account :: string where
  "odd_account =
     ''yygrgtr'' @ bytes [208, 191, 209, 128, 208, 181, 208, 186, 209, 131, 209, 128, 208, 184] @ ''6'' @ bytes [208, 189] @
     ''33'' @ bytes [208, 184, 208, 188, 208, 189] @ ''756'' @
     bytes [208, 154, 208, 154, 208, 154, 208, 154, 208, 149, 208, 157] @ '':'' @
     bytes [208, 163, 208, 152, 208, 147, 208, 147, 208, 147, 208, 147] @
     ''*?:*:*fj34oru34h275g23457g2v90590+u764gv56837fbv62381'' @ bytes [194, 167] @ ''SDFERGtrg45ergfergergefewfergt456ty''"

definition forget_accounts :: "env \<Rightarrow> 'a tc_scheme \<Rightarrow> 'a tc_scheme" where
  "forget_accounts E s =
     on_maxscale E True ''rm -rf /var/lib/maxscale/maxadmin-users'' (on_maxscale E True ''rm -rf /var/lib/maxscale/passwd'' s)"

definition mxs729_maxadmin :: "env \<Rightarrow> 'a tc_scheme \<Rightarrow> (int \<times> 'a tc_scheme) option" where
  "mxs729_maxadmin E s =
     (let s = restart E (forget_accounts E (set_timeout 600 s));
          (st1, s) = ssh_maxscale E False ''maxadmin show users'' s;
          s = (if st1 = 0 then add_result 1 s else s)
      in do { s \<leftarrow> output_has E True ''maxadmin show users''
                    (''Enabled Linux accounts (secure)    : '' @ [newline]) s;
              s \<leftarrow> add_remove_maxadmin_user E s;
              let (_, s) = ssh_maxscale_output E True (''maxadmin enable account '' @ odd_account) s;
              (_, s) \<leftarrow> check_maxscale_alive E s;
              result_of (forget_accounts E s) })"

definition show_monitor_crash :: "env \<Rightarrow> 'a tc_scheme \<Rightarrow> (int \<times> 'a tc_scheme) option" where
  "show_monitor_crash E s =
     (let s = c_sleep 5 (admin_cmd E ''show monitors'' (set_timeout 100 s));
          s = log_lacks E [''fatal signal 11''] (log_has E [''Failed to start monitor''] s)
      in do { (_, s) \<leftarrow> check_maxscale_processes E 1 s; result_of s })"

section \<open>Numbers of connections\<close>

text \<open>\<open>mxs321\<close>: what MaxAdmin shows for a server; the third round uses the service of the second.\<close>

definition check_connection_count :: "env \<Rightarrow> nat \<Rightarrow> 'a tc_scheme \<Rightarrow> (int \<times> 'a tc_scheme) option" where
  "check_connection_count E server s =
     do { ((rc, v), s) \<leftarrow> get_maxadmin_param E (''show server server'' @ nat_str server) ''Current no. of conns:''
                            (set_timeout 30 s);
          result \<leftarrow> v;
          let s = add_result rc s;
          let result_d = (case scan_int result of None \<Rightarrow> 999 | Some (n, _) \<Rightarrow> n);
          Some (result_d, if result = [] then add_result 1 s else s) }"

definition opener :: "nat \<Rightarrow> env \<Rightarrow> 'a tc_scheme \<Rightarrow> conn option \<times> 'a tc_scheme" where
  "opener target E s =
     (if target = 1 then open_rwsplit_connection E s else open_readconn_master_connection E s)"

definition recheck_count :: "env \<Rightarrow> nat \<Rightarrow> 'a tc_scheme \<Rightarrow> 'a tc_scheme option" where
  "recheck_count E j s =
     do { (n, s) \<leftarrow> check_connection_count E j s;
          (n, s) \<leftarrow> (if n \<noteq> 0 then check_connection_count E j (c_sleep 5 s) else Some (n, s));
          Some (add_result n s) }"

definition create_and_check_connections :: "env \<Rightarrow> nat \<Rightarrow> 'a tc_scheme \<Rightarrow> 'a tc_scheme option" where
  "create_and_check_connections E target s =
     (let (stmt, s) = foreach [0..<200]
            (\<lambda>_ cs s. let (c, s) = opener target E (set_timeout 20 s) in (cs @ [c], s)) [] s;
          s = do_loop stmt (\<lambda>c s. close_if_open c (set_timeout 20 s)) s;
          s = c_sleep 10 (stop_timeout s)
      in do_loopM [1..<Suc (nat (mn_N (repl s)))] (recheck_count E) s)"

definition mxs321 :: "env \<Rightarrow> 'a tc_scheme \<Rightarrow> (int \<times> 'a tc_scheme) option" where
  "mxs321 E s =
     do { s \<leftarrow> all_nodes_query E ''SET GLOBAL max_connections=100'' (set_timeout 50 s);
          let s = run_on E tc_conn_rwsplit ''SET GLOBAL max_connections=100'' (reach E s);
          let s = stop_timeout (close_maxscale_connections s);
          s \<leftarrow> do_loopM [1, 2, 3] (create_and_check_connections E) s;
          (_, s) \<leftarrow> flush_hosts E (tc_repl s) s;
          result_of s }"

definition rwsplit_connect :: "env \<Rightarrow> 'a tc_scheme \<Rightarrow> (int \<times> 'a tc_scheme) option" where
  "rwsplit_connect E s =
     (let s = reach_nodes E (set_timeout 20 s);
          (_, s) = connect_rwsplit E s;
          s = c_sleep 5 s
      in do { (all_conn, s) \<leftarrow> foreachM (node_ids (repl s))
                (\<lambda>i all s. do { (conn_num, s) \<leftarrow> node_connections E i s;
                                Some (all + word_of_int conn_num, if i = 0 \<and> conn_num \<noteq> 1 then add_result 1 s else s) })
                (0 :: 32 word) s;
              let s = (if all_conn \<noteq> 2 then add_result 1 s else s);
              result_of (leave_nodes (close_rwsplit s)) })"

text \<open>A \<open>load\<close> that cannot connect ends the process.\<close>

definition crash_load ::
  "env \<Rightarrow> bool \<Rightarrow> nat list \<Rightarrow> counters \<times> counters \<Rightarrow> 'a tc_scheme
   \<Rightarrow> ((int + counters \<times> counters) \<times> 'a tc_scheme) option" where
  "crash_load E use_galera sched = (\<lambda>((selects, inserts), (new_selects, new_inserts)) s.
     do { (r, s) \<leftarrow> load E use_galera False 100 sched False selects inserts new_selects new_inserts (set_timeout 1200 s);
          Some (case r of Inl code \<Rightarrow> Inl code | Inr (_, arrays) \<Rightarrow> Inr arrays, s) })"

definition crash_out_of_files ::
  "env \<Rightarrow> nat list \<Rightarrow> counters \<times> counters \<Rightarrow> 'a tc_scheme \<Rightarrow> ((int + int) \<times> 'a tc_scheme) option" where
  "crash_out_of_files E sched arrays s =
     do { s \<leftarrow> all_nodes_query E ''set global max_connections = 20;'' (set_timeout 20 s);
          (r, s) \<leftarrow> crash_load E False sched arrays s;
          case r of
            Inl code \<Rightarrow> Some (Inl code, s)
          | Inr _ \<Rightarrow>
              do { let s = reach_nodes E (set_timeout 60 s);
                   let s = on_all_nodes (\<lambda>i s. do_loop [''flush hosts;'', ''set global max_connections = 151;'']
                             (counted_on E (node_conn i)) s) s;
                   let s = log_lacks E [''refresh rate limit exceeded''] (stop_timeout (leave_nodes s));
                   (rval, s) \<leftarrow> alive_result E s;
                   Some (Inr rval, s) } }"

definition crash_out_of_files_galera ::
  "env \<Rightarrow> nat list \<Rightarrow> nat list \<Rightarrow> counters \<times> counters \<Rightarrow> 'a tc_scheme \<Rightarrow> ((int + int) \<times> 'a tc_scheme) option" where
  "crash_out_of_files_galera E sched1 sched2 arrays s =
     do { (_, s) \<leftarrow> execute_query_all_nodes E (tc_galera s) ''set global max_connections = 20;'' (set_timeout 20 s);
          (r, s) \<leftarrow> crash_load E True sched1 arrays s;
          case r of
            Inl code \<Rightarrow> Some (Inl code, s)
          | Inr arrays \<Rightarrow>
              do { (r, s) \<leftarrow> crash_load E True sched2 arrays (c_sleep 10 s);
                   case r of
                     Inl code \<Rightarrow> Some (Inl code, s)
                   | Inr _ \<Rightarrow>
                       do { let (_, s) = connect E (tc_galera s) (set_timeout 20 s);
                            let s = do_loop (node_ids (galera s))
                                      (\<lambda>i. runs E (\<lambda>s. mn_nodes (galera s) i)
                                             [''flush hosts;'', ''set global max_connections = 151;'']) s;
                            let s = log_lacks E [''refresh rate limit exceeded''] (close_connections (tc_galera s) s);
                            (_, s) \<leftarrow> execute_query_all_nodes E (tc_galera s) ''set global max_connections = 100;'' s;
                            (rval, s) \<leftarrow> alive_result E s;
                            Some (Inr rval, s) } } }"

definition backend_auth_fail :: "env \<Rightarrow> 'a tc_scheme \<Rightarrow> (int \<times> 'a tc_scheme) option" where
  "backend_auth_fail E s =
     do { s \<leftarrow> all_nodes_query E ''set global max_connections = 10;'' (stop_timeout s);
          let s = do_loop [0..<3]
            (\<lambda>_ s. let (conns, s) = foreach [0..<100]
                         (\<lambda>_ cs s. let (c, s) = open_readconn_master_connection E (set_timeout 30 s);
                                       (_, s) = execute_query_silent E c ''select 1'' s
                                   in (cs @ [c], s)) [] s
                   in do_loop conns (\<lambda>c s. mysql_close c (set_timeout 30 s)) (stop_timeout s)) s;
          alive_result E (stop_timeout s) }"

definition mxs419_lots_of_connections :: "env \<Rightarrow> 'a tc_scheme \<Rightarrow> (int \<times> 'a tc_scheme) option" where
  "mxs419_lots_of_connections E s =
     (let s = try_on E tc_conn_rwsplit (''set global max_connections = 2000;'' @ [newline]) (reach E (set_timeout 30 s));
          (r, s) = create_connections E 500 True True True False (close_maxscale_connections s);
          s = reach E (set_timeout 30 (add_result r s));
          s = try_on E tc_conn_rwsplit (''set global max_connections = 100;'' @ [newline]) s
      in alive_result E (close_maxscale_connections s))"

definition pers_02 :: "env \<Rightarrow> 'a tc_scheme \<Rightarrow> (int \<times> 'a tc_scheme) option" where
  "pers_02 E s =
     do { s \<leftarrow> all_nodes_query E ''set global max_connections = 20;'' (set_timeout 60 s);
          let (_, s) = create_connections E 75 True True True True s;
          let (_, s) = stop_nodes E (tc_repl s) (stop_timeout s);
          let (_, s) = start_replication E (tc_repl s) s;
          s \<leftarrow> sync_slaves E (tc_repl s) 0 (leave_nodes s);
          s \<leftarrow> all_nodes_query E ''set global max_connections = 2000;'' (set_timeout 60 s);
          let (r, s) = create_connections E 70 True True True True s;
          alive_result E (log_lacks E [''fatal signal 11''] (add_result r s)) }"

section \<open>Nodes that fail\<close>

definition kill_master :: "env \<Rightarrow> 'a tc_scheme \<Rightarrow> (int \<times> 'a tc_scheme) option" where
  "kill_master E s =
     (let (_, s) = connect_rwsplit E (set_timeout 20 s);
          (_, s) = block_node E (tc_repl s) 0 (set_timeout 30 s);
          s = set_timeout 30 (run_on E tc_conn_rwsplit ''show processlist;'' (set_timeout 30 s));
          (_, s) = unblock_node E (tc_repl s) 0 s;
          (_, s) = connect_rwsplit E (set_timeout 30 (c_sleep 10 (stop_timeout s)));
          s = close_rwsplit (try_on E tc_conn_rwsplit ''show processlist;'' s)
      in alive_result E s)"

definition false_monitor_state_change :: "env \<Rightarrow> 'a tc_scheme \<Rightarrow> (int \<times> 'a tc_scheme) option" where
  "false_monitor_state_change E s =
     (let (_, s) = block_node E (tc_repl s) 0 s;
          s = c_sleep 5 (on_maxscale E True ''maxadmin clear server server1 master'' (c_sleep 10 s));
          (_, s) = unblock_node E (tc_repl s) 0 s
      in do { (_, s) \<leftarrow> check_maxscale_alive E (c_sleep 5 s);
              result_of (log_lacks E [''debug assert''] s) })"

definition mxs1045 :: "env \<Rightarrow> 'a tc_scheme \<Rightarrow> (int \<times> 'a tc_scheme) option" where
  "mxs1045 E s =
     (let (_, s) = block_node E (tc_repl s) 0 s;
          (res, s) = ssh_maxscale E False
            (''if [ \"`ps -ef|grep defunct|grep -v grep`\" != \"\" ]; then exit 1; fi'') (c_sleep 10 s);
          (_, s) = unblock_node E (tc_repl s) 0 (add_result res s)
      in result_of s)"

text \<open>The program \<open>change_master\<close>: \<open>IP[OldMaster]\<close> and \<open>IP[NewMaster]\<close> are read for a message.\<close>

definition change_master_main :: "env \<Rightarrow> string \<times> string \<Rightarrow> 'a tc_scheme \<Rightarrow> (int \<times> 'a tc_scheme) option" where
  "change_master_main E = (\<lambda>(arg1, arg2) s.
     do { (NewMaster, _) \<leftarrow> scan_int arg1;
          (OldMaster, _) \<leftarrow> scan_int arg2;
          if NewMaster < 0 \<or> OldMaster < 0 \<or> 256 \<le> NewMaster \<or> 256 \<le> OldMaster then None
          else do { s \<leftarrow> change_master E (tc_repl s) (nat NewMaster) (nat OldMaster) (reach_nodes E s);
                    result_of (leave_nodes s) } })"

section \<open>Configuration files\<close>

text \<open>The program ends without destroying the test object.\<close>

definition bad_configs :: "string list" where
  "bad_configs = [''bug359'', ''bug495'', ''bug526'', ''bug479'', ''bug493'', ''bad_ssl'', ''mxs710_bad_socket'',
     ''mxs711_two_ports'', ''mxs720_line_with_no_equal'', ''mxs720_wierd_line'', ''mxs799'']"

definition config_test :: "env \<Rightarrow> 'a tc_scheme \<Rightarrow> (int \<times> 'a tc_scheme) option" where
  "config_test E s =
     do { (_, s) \<leftarrow> stop_maxscale E s;
          Some (sum_loop bad_configs
            (\<lambda>config s. let (accepted, s) = test_bad_config E config s in (if accepted then 1 else 0, s)) s) }"

definition maxscale_c :: string where
  "maxscale_c = ''maxscale -c --user=maxscale''"

definition mxs722_check :: "env \<Rightarrow> int \<Rightarrow> string \<Rightarrow> 'a tc_scheme \<Rightarrow> 'a tc_scheme" where
  "mxs722_check E baseline cmd s =
     (let (rc, s) = ssh_maxscale E True maxscale_c (on_maxscale E True cmd s)
      in add_result (if baseline = rc then 1 else 0) s)"

definition mxs722 :: "env \<Rightarrow> 'a tc_scheme \<Rightarrow> (int \<times> 'a tc_scheme) option" where
  "mxs722 E s =
     do { (_, s) \<leftarrow> stop_maxscale E (stop_timeout s);
          let s = on_maxscale E True ''cp /etc/maxscale.cnf /etc/maxscale.cnf.backup'' s;
          let restore = on_maxscale E True ''cp /etc/maxscale.cnf.backup /etc/maxscale.cnf'';
          let (baseline, s) = ssh_maxscale E True maxscale_c s;
          let s = restore (mxs722_check E baseline ''sed -i -e 's/service/ecivres/' /etc/maxscale.cnf'' s);
          let s = restore (mxs722_check E baseline
                    ''sed -i -e 's/router_options.*/router_options=bad_option=true/' /etc/maxscale.cnf'' s);
          let s = mxs722_check E baseline ''sed -i -e 's/filebase/basefile/' /etc/maxscale.cnf'' s;
          result_of (mxs722_check E baseline ''rm -f /etc/maxscale.cnf'' s) }"

definition bad_ssl_step :: "env \<Rightarrow> int \<Rightarrow> 'a tc_scheme \<Rightarrow> 'a tc_scheme" where
  "bad_ssl_step E port s =
     (let (c, s) = open_conn E port (tc_maxscale_IP s) (tc_maxscale_user s) (tc_maxscale_password s) False s
      in if mysql_errno E c s = 0 then mysql_close c (add_result 1 s) else s)"

definition mxs652_bad_ssl :: "env \<Rightarrow> 'a tc_scheme \<Rightarrow> (int \<times> 'a tc_scheme) option" where
  "mxs652_bad_ssl E s =
     (let s = log_has E [''Unexpected parameter 'ssl_version'' @ quote] (set_timeout 10 s)
      in result_of (do_loop [tc_rwsplit_port s, tc_readconn_master_port s, tc_readconn_slave_port s] (bad_ssl_step E) s))"

definition mxs621_unreadable_cnf :: "env \<Rightarrow> 'a tc_scheme \<Rightarrow> (int \<times> 'a tc_scheme) option" where
  "mxs621_unreadable_cnf E s =
     (let s = on_maxscale E True ''chmod 400 /etc/maxscale.cnf'' (set_timeout 30 s);
          s = restart E (set_timeout 30 s);
          s = log_has E [''Opening file '/etc/maxscale.cnf' for reading failed''] (set_timeout 30 s)
      in result_of (on_maxscale E True ''chmod 777 /etc/maxscale.cnf'' (set_timeout 30 s)))"

definition mxs720_wierd_line :: "env \<Rightarrow> 'a tc_scheme \<Rightarrow> (int \<times> 'a tc_scheme) option" where
  "mxs720_wierd_line E s =
     (let s = log_has E
            [''Unexpected parameter '' @ quote @ bytes [209, 131, 208, 186, 208, 191, 208, 190, 209, 131, 208, 186, 209, 134] @ quote,
             ''Unexpected parameter 'hren'' @ quote] (set_timeout 30 s)
      in do { (_, s) \<leftarrow> check_maxscale_processes E 0 s; result_of s })"

definition mxs720_line_with_no_equal :: "env \<Rightarrow> 'a tc_scheme \<Rightarrow> (int \<times> 'a tc_scheme) option" where
  "mxs720_line_with_no_equal E s =
     do { (_, s) \<leftarrow> check_maxscale_processes E 0
            (log_has E [''Failed to pre-parse configuration file''] (set_timeout 30 s));
          result_of s }"

definition mxs710_bad_socket :: "env \<Rightarrow> 'a tc_scheme \<Rightarrow> (int \<times> 'a tc_scheme) option" where
  "mxs710_bad_socket E s =
     do { (_, s) \<leftarrow> check_maxscale_processes E 0 s; result_of (log_lacks E [''Fatal''] s) }"

definition mxs118 :: "env \<Rightarrow> 'a tc_scheme \<Rightarrow> (int \<times> 'a tc_scheme) option" where
  "mxs118 E s =
     result_of (log_has E [''Multiple monitors are monitoring server''] (reach E (set_timeout 10 s)))"

definition bad_pers :: "env \<Rightarrow> 'a tc_scheme \<Rightarrow> (int \<times> 'a tc_scheme) option" where
  "bad_pers E s = alive_result E (log_has E [''warning -1''] (reach E (set_timeout 10 s)))"

definition binlog_incompl :: "env \<Rightarrow> 'a tc_scheme \<Rightarrow> (int \<times> 'a tc_scheme) option" where
  "binlog_incompl E s =
     result_of (log_lacks E [''fatal signal 11''] (c_sleep 10 (close_maxscale_connections (reach E (set_timeout 60 s)))))"

section \<open>Servers made at run time\<close>

definition admin_each_server :: "env \<Rightarrow> (nat \<Rightarrow> string list) \<Rightarrow> 'a tc_scheme \<Rightarrow> 'a tc_scheme" where
  "admin_each_server E cmds s = do_loop [1..<5] (\<lambda>i. do_loop (cmds i) (on_maxscale E True)) s"

definition to_object :: "string \<Rightarrow> nat \<Rightarrow> string \<Rightarrow> string" where
  "to_object verb i obj = ''maxadmin '' @ verb @ '' server server'' @ nat_str i @ '' '' @ obj"

definition add_servers_922 :: "env \<Rightarrow> 'a tc_scheme \<Rightarrow> 'a tc_scheme" where
  "add_servers_922 E s =
     do_loop [1..<5]
       (\<lambda>i s. stop_timeout (do_loop
            [''mysql-monitor'', ''rwsplit-service'', ''read-connection-router-slave'', ''read-connection-router-master'']
            (\<lambda>obj. on_maxscale E True (to_object ''add'' i obj)) (set_timeout 120 s))) s"

definition do_query :: "env \<Rightarrow> bool \<Rightarrow> 'a tc_scheme \<Rightarrow> 'a tc_scheme" where
  "do_query E must_fail s =
     (let s = reach E (set_timeout 120 s);
          (rc, s) = execute_query E (tc_conn_rwsplit s) ''select @@server_id'' s;
          failed = (rc = 0);
          s = add_result (if failed = must_fail then 1 else 0) s
      in stop_timeout (close_maxscale_connections s))"

definition mxs922_restart :: "env \<Rightarrow> 'a tc_scheme \<Rightarrow> (int \<times> 'a tc_scheme) option" where
  "mxs922_restart E s =
     (let s = admin_each_server E (\<lambda>i. [''maxadmin create server server'' @ nat_str i @ '' '' @ mn_IP (repl s) (i - 1)]) s;
          s = do_query E False (c_sleep 2 (add_servers_922 E s));
          s = do_query E False (c_sleep 10 (restart E s))
      in do { (_, s) \<leftarrow> check_maxscale_alive E s; result_of (log_lacks E [''Fatal''] s) })"

definition bad_add_servers :: "env \<Rightarrow> 'a tc_scheme \<Rightarrow> 'a tc_scheme" where
  "bad_add_servers E s =
     stop_timeout (admin_each_server E (\<lambda>i. map (to_object ''add'' i) [''mysql-monitor'', ''rwsplit-service'']) (set_timeout 120 s))"

definition bad_remove_servers :: "env \<Rightarrow> 'a tc_scheme \<Rightarrow> 'a tc_scheme" where
  "bad_remove_servers E s =
     stop_timeout (admin_each_server E (\<lambda>i. map (to_object ''remove'' i) [''mysql-monitor'', ''rwsplit-service'']) (set_timeout 120 s))"

definition bad_destroy_servers :: "env \<Rightarrow> 'a tc_scheme \<Rightarrow> 'a tc_scheme" where
  "bad_destroy_servers E s =
     stop_timeout (admin_each_server E (\<lambda>i. [''maxadmin destroy server server'' @ nat_str i]) (set_timeout 120 s))"

definition mxs922_bad_server :: "env \<Rightarrow> 'a tc_scheme \<Rightarrow> (int \<times> 'a tc_scheme) option" where
  "mxs922_bad_server E s =
     (let s = admin_each_server E
                (\<lambda>i. [''maxadmin create server server'' @ nat_str i @ '' 3306 '' @ mn_IP (repl s) (i - 1)]) s;
          s = do_query E True (bad_add_servers E s);
          s = bad_destroy_servers E (bad_remove_servers E s);
          s = admin_each_server E
                (\<lambda>i. [''maxadmin create server server'' @ nat_str i @ '' '' @ mn_IP (repl s) (i - 1) @ '' '' @
                       int_str (mn_port (repl s) (i - 1))]) s;
          s = do_query E False (c_sleep 2 (bad_add_servers E s));
          s = bad_destroy_servers E (bad_remove_servers E s);
          s = do_query E True s
      in do { (_, s) \<leftarrow> check_maxscale_processes E 1 s; result_of s })"

definition check_backend :: "env \<Rightarrow> 'a tc_scheme \<Rightarrow> (int \<times> 'a tc_scheme) option" where
  "check_backend E s =
     (let s = reach E (set_timeout 10 s);
          (r, s) = test_maxscale_connections E True True True s;
          (c, s) = open_service E 4016 (add_result r s);
          s = (if c \<noteq> None then let (r, s) = try_query E c ''SELECT 1'' s in add_result r s else s)
      in do { (_, s) \<leftarrow> check_maxscale_alive E (close_maxscale_connections s);
              let (ver, s) = ssh_maxscale_output E False ''maxscale --version-full'' s;
              _ \<leftarrow> ver;
              result_of (if tc_global_result s = 0 \<and> tc_use_snapshots s then snd (take_snapshot E ''clean'' s) else s) })"

section \<open>Databases on several servers\<close>

definition schemarouter_duplicate_db :: "env \<Rightarrow> 'a tc_scheme \<Rightarrow> (int \<times> 'a tc_scheme) option" where
  "schemarouter_duplicate_db E s =
     (let s = runs E tc_conn_master [''DROP DATABASE IF EXISTS duplicate;'', ''CREATE DATABASE duplicate;'']
                (reach E (set_timeout 30 s));
          s = refused_on E tc_conn_rwsplit ''SELECT 1'' s
      in result_of (log_has E [''Duplicate databases found''] (c_sleep 10 (stop_timeout s))))"

text \<open>One session per database; a statement that fails ends the round and leaves its connection open.\<close>

fun shard_sessions :: "env \<Rightarrow> nat list \<Rightarrow> 'a tc_scheme \<Rightarrow> 'a tc_scheme" where
  "shard_sessions E [] s = s"
| "shard_sessions E (i # is) s =
     (let (c, s) = open_conn_db E (tc_rwsplit_port s) (tc_maxscale_IP s) (''shard_db'' @ nat_str i) (tc_maxscale_user s)
                     (tc_maxscale_password s) (tc_ssl s) (set_timeout 15 s);
          (rc, s) = execute_query E c ''SELECT 1'' (set_timeout 15 s)
      in if rc \<noteq> 0 then add_result 1 s else shard_sessions E is (mysql_close c s))"

fun shard_rounds :: "env \<Rightarrow> nat \<Rightarrow> 'a tc_scheme \<Rightarrow> 'a tc_scheme" where
  "shard_rounds E 0 s = s"
| "shard_rounds E (Suc n) s =
     (if tc_global_result s = 0 then shard_rounds E n (shard_sessions E (node_ids (repl s)) s) else s)"

definition mxs431 :: "env \<Rightarrow> 'a tc_scheme \<Rightarrow> (int \<times> 'a tc_scheme) option" where
  "mxs431 E s =
     (let iterations = (if tc_smoke s then 100 else 500) in
      do { s \<leftarrow> all_nodes_query E ''set global max_connections = 600;'' s;
           let (_, s) = stop_slaves E (tc_repl s) (set_timeout 30 s);
           let s = restart E (set_timeout 30 s);
           let s = stop_timeout (reach_nodes E (set_timeout 30 s));
           let s = on_all_nodes (\<lambda>i s.
                 let s = run_on E (node_conn i) (''DROP DATABASE IF EXISTS shard_db'' @ nat_str i) (set_timeout 20 s)
                 in stop_timeout (run_on E (node_conn i) (''CREATE DATABASE shard_db'' @ nat_str i) (set_timeout 20 s))) s;
           result_of (shard_rounds E iterations (leave_nodes s)) })"

end
