(* ===== verification/Binlog_Tests.thy ===== *)
theory Binlog_Tests
  imports Service_Tests Binlog_Checks Maxinfo
begin

text \<open>
  Tests of the binlog router and of its conversion to Avro, of sharding and of bulk inserts, the
  preparation of a Kerberos domain, and the sysbench runs. A function that ends without the
  \<open>return\<close> its type asks for, a local variable that is read before it was set, and output that
  could not be had have no result.
\<close>

section \<open>The binlog router\<close>

text \<open>With one kind of checksum when a test is cut short, with all three otherwise.\<close>

definition binlog_options :: "'a tc_scheme \<Rightarrow> nat list" where
  "binlog_options s = [0..<(if tc_smoke s then 1 else 3)]"

definition binlog_with_option :: "env \<Rightarrow> nat \<Rightarrow> 'a tc_scheme \<Rightarrow> 'a tc_scheme option" where
  "binlog_with_option E option s =
     do { (_, s) \<leftarrow> start_binlog E (s\<lparr>tc_binlog_cmd_option := int option\<rparr>); Some s }"

definition setup_binlog :: "env \<Rightarrow> 'a tc_scheme \<Rightarrow> (int \<times> 'a tc_scheme) option" where
  "setup_binlog E s =
     (let s = set_timeout 3000 s;
          options = binlog_options s;
          s = run_on E (node_conn 0) ''DROP TABLE IF EXISTS t1;'' (reach_nodes E s);
          s = c_sleep 5 (leave_nodes s)
      in do { s \<leftarrow> do_loopM options (\<lambda>option s. do { s \<leftarrow> binlog_with_option E option s; test_binlog E s }) s;
              result_of (log_lacks E [''SET NAMES utf8mb4'', ''set autocommit=1'', ''select USER()''] s) })"

text \<open>Rows written on the master must be on every node.\<close>

definition select_everywhere :: "env \<Rightarrow> 'a tc_scheme \<Rightarrow> 'a tc_scheme option" where
  "select_everywhere E s =
     do_loopM (node_ids (repl s))
       (\<lambda>i s. do { (rc, s) \<leftarrow> select_from_t1 E (node_conn i s) 4 s; Some (add_result rc s) }) s"

definition replicate_t1 :: "env \<Rightarrow> 'a tc_scheme \<Rightarrow> 'a tc_scheme option" where
  "replicate_t1 E s =
     (let s = reach_nodes E s;
          (_, s) = create_t1 E (node_conn 0 s) s
      in do { (rc, s) \<leftarrow> insert_into_t1 E (node_conn 0 s) 4 s;
              select_everywhere E (c_sleep 30 (add_result rc s)) })"

definition setup_binlog_crc_32 :: "env \<Rightarrow> 'a tc_scheme \<Rightarrow> (int \<times> 'a tc_scheme) option" where
  "setup_binlog_crc_32 E s =
     (if tc_smoke s then result_of s
      else do { s \<leftarrow> binlog_with_option E 1 (set_timeout 1000 s);
                s \<leftarrow> replicate_t1 E s;
                result_of (leave_nodes s) })"

definition setup_binlog_crc_none :: "env \<Rightarrow> 'a tc_scheme \<Rightarrow> (int \<times> 'a tc_scheme) option" where
  "setup_binlog_crc_none E s =
     (if tc_smoke s then result_of s
      else do { s \<leftarrow> binlog_with_option E 2 s;
                s \<leftarrow> replicate_t1 E s;
                result_of (leave_nodes s) })"

text \<open>One statement on the master, on connections opened for it.\<close>

definition on_master :: "env \<Rightarrow> string \<Rightarrow> 'a tc_scheme \<Rightarrow> 'a tc_scheme" where
  "on_master E sql s = run_on E (node_conn 0) sql (reach_nodes E s)"

definition semisync_round :: "env \<Rightarrow> nat \<Rightarrow> 'a tc_scheme \<Rightarrow> 'a tc_scheme option" where
  "semisync_round E option s =
     do { s \<leftarrow> binlog_with_option E option s;
          let s = leave_nodes (on_master E ''INSTALL PLUGIN rpl_semi_sync_master SONAME 'semisync_master.so';'' s);
          let s = leave_nodes (on_master E ''SET GLOBAL rpl_semi_sync_master_enabled = 1;'' s);
          s \<leftarrow> test_binlog E s;
          let s = leave_nodes (on_master E ''SET GLOBAL rpl_semi_sync_master_enabled = 0;'' s);
          s \<leftarrow> test_binlog E s;
          let s = leave_nodes (on_master E ''UNINSTALL PLUGIN rpl_semi_sync_master;'' s);
          let s = leave_nodes (on_master E ''SET GLOBAL rpl_semi_sync_master_enabled = 1;'' s);
          s \<leftarrow> test_binlog E s;
          test_binlog E
            (leave_nodes (c_sleep 10 (on_master E ''SET GLOBAL rpl_semi_sync_master_enabled = 0;'' s))) }"

definition binlog_semisync :: "env \<Rightarrow> 'a tc_scheme \<Rightarrow> (int \<times> 'a tc_scheme) option" where
  "binlog_semisync E s =
     (let s = set_timeout 3000 s;
          options = binlog_options s;
          (rc, s) = connect E (tc_repl s) s
      in if rc = 0
         then do { s \<leftarrow> do_loopM options (semisync_round E)
                         (c_sleep 5 (leave_nodes (run_on E (node_conn 0) ''DROP TABLE IF EXISTS t1;'' s)));
                   result_of s }
         else result_of (add_result 1 s))"

text \<open>\<open>strcasecmp\<close>\<close>

definition c_strcasecmp :: "string \<Rightarrow> string \<Rightarrow> int" where
  "c_strcasecmp a b = c_strcmp (map to_lower a) (map to_lower b)"

definition blanks :: "nat \<Rightarrow> string" where
  "blanks n = replicate n (CHR '' '')"

definition wrong_password_sql :: "mnodes \<Rightarrow> string" where
  "wrong_password_sql ob =
     ''change master to MASTER_HOST='' @ quote @ mn_IP ob 0 @ quote @ '','' @ blanks 9 @ ''MASTER_USER='repl','' @ blanks 9 @
     ''MASTER_PASSWORD='wrong_password','' @ blanks 9 @ ''MASTER_LOG_FILE='mar-bin.000001','' @ blanks 9 @
     ''MASTER_LOG_POS=4,'' @ blanks 9 @ ''MASTER_PORT='' @ int_str (mn_port ob 0)"

text \<open>A field that is not found leaves what the buffer held, first the statement sent before.\<close>

definition compare_field :: "env \<Rightarrow> conn option \<Rightarrow> string \<Rightarrow> string \<Rightarrow> string \<Rightarrow> 'a tc_scheme \<Rightarrow> (string \<times> 'a tc_scheme) option" where
  "compare_field E c name expected str s =
     do { ((_, v), s) \<leftarrow> field_into E c ''show slave status'' name (Some str) s;
          str \<leftarrow> v;
          Some (str, add_result (c_strcasecmp str expected) s) }"

definition open_binlog :: "env \<Rightarrow> 'a tc_scheme \<Rightarrow> conn option \<times> 'a tc_scheme" where
  "open_binlog E s =
     open_conn_no_db E (tc_binlog_port s) (tc_maxscale_IP s) (mn_user_name (repl s)) (mn_password (repl s)) (tc_ssl s) s"

definition mxs781_binlog_wrong_passwrd :: "env \<Rightarrow> 'a tc_scheme \<Rightarrow> (int \<times> 'a tc_scheme) option" where
  "mxs781_binlog_wrong_passwrd E s =
     (let s = set_timeout 30 s;
          (rc, s) = connect E (tc_repl s) s
      in do { (_, s) \<leftarrow> prepare_binlog E (add_result rc s);
              let (binlog, s) = open_binlog E (set_timeout 30 s);
              let s = add_result (int (mysql_errno E binlog s)) s;
              let s = run_on E (\<lambda>_. binlog) ''stop slave'' (set_timeout 10 s);
              let str = wrong_password_sql (repl s);
              let s = run_on E (\<lambda>_. binlog) str (set_timeout 10 s);
              let s = run_on E (\<lambda>_. binlog) ''start slave'' (set_timeout 10 s);
              let s = c_sleep 25 (stop_timeout s);
              (str, s) \<leftarrow> compare_field E binlog ''Slave_IO_State'' ''Slave stopped'' str (set_timeout 10 s);
              (_, s) \<leftarrow> compare_field E binlog ''Last_Error'' ''#28000 Authentication with master server failed'' str
                           (set_timeout 10 s);
              result_of s })"

definition endless_hostname :: string where
  "endless_hostname = concat (replicate 6 ''1234567890'') @ ''123456789'' @ replicate 245 (CHR ''0'') @ ''.com''"

definition mxs813_long_hostname :: "env \<Rightarrow> 'a tc_scheme \<Rightarrow> (int \<times> 'a tc_scheme) option" where
  "mxs813_long_hostname E s =
     do { (_, s) \<leftarrow> start_binlog E s;
          let (binlog, s) = open_binlog E s;
          let s = tries E (\<lambda>_. binlog)
                    [''stop slave'', ''change master to master_host='' @ quote @ endless_hostname @ quote @ '';'',
                     ''start slave'', ''show slave status''] s;
          let s = runs E (\<lambda>_. binlog) [''show slave status;'', ''show slave status'' @ [CHR 0x5C] @ ''G''] s;
          (_, s) \<leftarrow> check_maxscale_processes E 1 (mysql_close binlog s);
          result_of s }"

definition different_size_binlog :: "env \<Rightarrow> 'a tc_scheme \<Rightarrow> (int \<times> 'a tc_scheme) option" where
  "different_size_binlog E s =
     do { (_, s) \<leftarrow> start_binlog E (set_timeout 300 s);
          s \<leftarrow> different_packet_size E True s;
          (_, s) \<leftarrow> check_maxscale_processes E 1 s;
          result_of s }"

section \<open>Transactions without MaxScale\<close>

text \<open>
  The test has its own versions of two functions of \<open>test_binlog_fnc.cpp\<close>. This \<open>check_sha1\<close>
  compares nothing; what it returns is the number of failures so far.
\<close>

definition list_master_binlogs :: "env \<Rightarrow> 'a tc_scheme \<Rightarrow> 'a tc_scheme" where
  "list_master_binlogs E s = on_node E False ''ls -la /var/lib/mysql/mar-bin.0000*'' 0 s"

definition check_sha1_direct :: "env \<Rightarrow> 'a tc_scheme \<Rightarrow> int \<times> 'a tc_scheme" where
  "check_sha1_direct E s =
     (let s = c_sleep 20 (try_on E (node_conn 0) ''FLUSH LOGS'' (list_master_binlogs E s));
          s = c_sleep 19 (try_on E (node_conn 0) ''FLUSH LOGS'' (list_master_binlogs E s));
          s = list_master_binlogs E s
      in (tc_global_result s, s))"

definition start_transaction_direct :: "env \<Rightarrow> 'a tc_scheme \<Rightarrow> int \<times> 'a tc_scheme" where
  "start_transaction_direct E s =
     (let (r1, s) = execute_query E (node_conn 0 s) ''START TRANSACTION'' s;
          (r2, s) = execute_query E (node_conn 0 s) ''INSERT INTO t1 VALUES(111, 10)'' s
      in (r1 + r2, c_sleep 20 s))"

definition find_fl_10 :: "env \<Rightarrow> nat \<Rightarrow> string \<Rightarrow> 'a tc_scheme \<Rightarrow> 'a tc_scheme option" where
  "find_fl_10 E i expected s = check_one_on E (node_conn i) ''SELECT * FROM t1 WHERE fl=10'' expected s"

definition transaction_rollback :: "env \<Rightarrow> 'a tc_scheme \<Rightarrow> 'a tc_scheme option" where
  "transaction_rollback E s =
     (let (_, s) = start_transaction_direct E s in
      do { s \<leftarrow> find_fl_10 E 0 ''111'' s;
           let (r, s) = check_sha1_direct E s;
           let s = tries E (node_conn 0) [''ROLLBACK'', ''INSERT INTO t1 VALUES(112, 10)''] (add_result r s);
           s \<leftarrow> find_fl_10 E 0 ''112'' (c_sleep 20 s);
           s \<leftarrow> find_fl_10 E 2 ''112'' s;
           let s = try_on E (node_conn 0) ''DELETE FROM t1 WHERE fl=10'' s;
           (r, s) \<leftarrow> select_from_t1 E (node_conn 0 s) 4 s;
           Some (add_result r s) })"

definition transaction_commit :: "env \<Rightarrow> 'a tc_scheme \<Rightarrow> 'a tc_scheme option" where
  "transaction_commit E s =
     (let (_, s) = start_transaction_direct E s;
          s = try_on E (node_conn 0) ''COMMIT'' s
      in do { s \<leftarrow> find_fl_10 E 0 ''111'' s;
              s \<leftarrow> find_fl_10 E 2 ''111'' s;
              let s = try_on E (node_conn 0) ''DELETE FROM t1 WHERE fl=10'' s;
              let (r, s) = check_sha1_direct E s;
              Some (leave_nodes (add_result r s)) })"

definition transaction_test_wo_maxscale :: "env \<Rightarrow> 'a tc_scheme \<Rightarrow> (int \<times> 'a tc_scheme) option" where
  "transaction_test_wo_maxscale E s =
     do { s \<leftarrow> do_loopM [0..<3]
            (\<lambda>_ s. do { s \<leftarrow> replicate_t1 E s; s \<leftarrow> transaction_rollback E s; transaction_commit E s }) s;
          result_of s }"

section \<open>Avro\<close>

text \<open>The lines \<open>std::getline\<close> delivers: a last one that is empty is none.\<close>

fun getlines :: "string \<Rightarrow> string \<Rightarrow> string list" where
  "getlines [] line = (if line = [] then [] else [line])"
| "getlines (c # cs) line = (if c = newline then line # getlines cs [] else getlines cs (line @ [c]))"

definition avro_start :: "env \<Rightarrow> string \<Rightarrow> 'a tc_scheme \<Rightarrow> 'a tc_scheme option" where
  "avro_start E drop_sql s =
     do { (_, s) \<leftarrow> stop_maxscale E (set_timeout 600 s);
          let s = reach_nodes E (on_maxscale E True ''rm -rf /var/lib/maxscale/avro'' s);
          let s = c_sleep 5 (leave_nodes (run_on E (node_conn 0) drop_sql s));
          (_, s) \<leftarrow> start_binlog E s;
          (_, s) \<leftarrow> stop_maxscale E (set_timeout 120 s);
          let s = set_timeout 120 (on_maxscale E True ''rm -rf /var/lib/maxscale/avro'' s);
          let (_, s) = start_maxscale E s;
          let s = reach_nodes E (set_timeout 60 s);
          Some (snd (create_t1 E (node_conn 0 s) s)) }"

text \<open>
  The lines of the table, and the value of \<open>fl\<close> expected next. \<open>get_x_fl_from_json\<close> sets \<open>x1\<close> at
  most; reading \<open>fl\<close>, which every line leads to, is reading a variable that was not set.
\<close>

fun avro_lines :: "env \<Rightarrow> string list \<Rightarrow> int \<Rightarrow> int \<Rightarrow> int \<Rightarrow> 'a tc_scheme \<Rightarrow> (int \<times> 'a tc_scheme) option" where
  "avro_lines E [] x1_exp fl_exp x s = Some (fl_exp, s)"
| "avro_lines E (line # ls) x1_exp fl_exp x s =
     (let s = set_timeout 20 s; fl = None in
      do { (_, x1) \<leftarrow> get_x_fl_from_json E line;
           x1 \<leftarrow> x1;
           fl \<leftarrow> fl;
           if x1 \<noteq> x1_exp \<or> fl \<noteq> fl_exp then Some (fl_exp, add_result 1 s)
           else if x1_exp + 1 \<ge> x then avro_lines E ls 0 (fl_exp + 1) (x * 16) s
           else avro_lines E ls (x1_exp + 1) fl_exp x s })"

definition avro :: "env \<Rightarrow> 'a tc_scheme \<Rightarrow> (int \<times> 'a tc_scheme) option" where
  "avro E s =
     do { s \<leftarrow> avro_start E ''DROP TABLE IF EXISTS t1'' s;
          (_, s) \<leftarrow> insert_into_t1 E (node_conn 0 s) 3 s;
          let s = leave_nodes (run_on E (node_conn 0) ''FLUSH LOGS'' s);
          let s = c_sleep 10 (set_timeout 120 s);
          let (_, s) = ssh_maxscale_output E True
                         ''maxavrocheck -vv /var/lib/maxscale/avro/test.t1.000001.avro | grep \"{\"'' s;
          let (output, s) = ssh_maxscale_output E True ''maxavrocheck -d /var/lib/maxscale/avro/test.t1.000001.avro'' s;
          output \<leftarrow> output;
          (fl_exp, s) \<leftarrow> avro_lines E (getlines output []) 0 0 16 s;
          result_of (set_timeout 120 (if fl_exp \<noteq> 3 then add_result 1 s else s)) }"

definition avro_long :: "env \<Rightarrow> 'a tc_scheme \<Rightarrow> (int \<times> 'a tc_scheme) option" where
  "avro_long E s =
     do { s \<leftarrow> avro_start E ''DROP TABLE IF EXISTS t1;'' s;
          s \<leftarrow> do_loopM [0..<1000000]
                 (\<lambda>_ s. do { (_, s) \<leftarrow> insert_into_t1 E (node_conn 0 s) 3 (set_timeout 60 s); Some s }) s;
          result_of (leave_nodes s) }"

section \<open>Encrypted binlogs\<close>

text \<open>The test returns before it constructs the test object; the rest of it is never reached.\<close>

definition mxs1073_binlog_enc :: int where
  "mxs1073_binlog_enc = 1"

section \<open>Bulk inserts\<close>

text \<open>\<open>res == NULL || mysql_num_rows(res) != 3\<close>; the result set is not freed.\<close>

definition not_three_rows :: "reply \<Rightarrow> bool" where
  "not_three_rows rep =
     (case rep of QFail \<Rightarrow> True
      | QOk r _ \<Rightarrow> (case stored r of None \<Rightarrow> True | Some res \<Rightarrow> length (rows res) \<noteq> 3))"

definition bulk_columns :: string where
  "bulk_columns = ''forename CHAR(30) NOT NULL DEFAULT 'unknown', surname CHAR(30))''"

text \<open>\<open>mysql_query(...)\<close> as a condition: true when the statement failed.\<close>

definition sql_fails :: "env \<Rightarrow> conn option \<Rightarrow> string \<Rightarrow> 'a world_scheme \<Rightarrow> bool \<times> 'a world_scheme" where
  "sql_fails E c sql s = (let (rep, s) = mysql_query E c sql s in (rep = QFail, s))"

text \<open>The values are bound by column: the function returns 1 after the first call that fails.\<close>

definition bind_by_column :: "env \<Rightarrow> conn option \<Rightarrow> 'a world_scheme \<Rightarrow> int \<times> 'a world_scheme" where
  "bind_by_column E c s =
     (let (bad, s) = sql_fails E c ''DROP TABLE IF EXISTS test.bulk_example1'' s in
      if bad then (1, s) else
      let (bad, s) = sql_fails E c
            (''CREATE TABLE test.bulk_example1 (id INT NOT NULL AUTO_INCREMENT PRIMARY KEY,'' @ bulk_columns) s in
      if bad then (1, s) else
      let (st, s) = stmt_new E c s;
          (rc, s) = stmt_call E st (StmtPrepare ''INSERT INTO test.bulk_example1 VALUES (?,?,?)'') s in
      if rc \<noteq> 0 then (1, s) else
      let (_, s) = stmt_call E st (StmtAttr ''STMT_ATTR_ARRAY_SIZE'' 3) s;
          (_, s) = stmt_call E st StmtBindParam s;
          (rc, s) = stmt_call E st StmtExecute s in
      if rc \<noteq> 0 then (1, s) else
      let (_, s) = stmt_call E st StmtClose s;
          (rep, s) = mysql_query E c ''SELECT * FROM test.bulk_example1'' s in
      if rep = QFail then (1, s) else
      let s = mysql_store c s in
      if not_three_rows rep then (1, s) else
      let (bad, s) = sql_fails E c ''DROP TABLE test.bulk_example1'' s
      in (if bad then 1 else 0, s))"

text \<open>
  Bound by row: a failed call is printed and the function goes on. It has no \<open>return\<close> for the
  case that nothing went wrong at the end.
\<close>

definition bind_by_row :: "env \<Rightarrow> conn option \<Rightarrow> 'a world_scheme \<Rightarrow> (int \<times> 'a world_scheme) option" where
  "bind_by_row E c s =
     (let (_, s) = sql_fails E c ''DROP TABLE IF EXISTS bulk_example2'' s;
          (_, s) = sql_fails E c
            (''CREATE TABLE bulk_example2 (id INT NOT NULL AUTO_INCREMENT PRIMARY KEY,'' @ bulk_columns) s;
          (st, s) = stmt_new E c s;
          (_, s) = stmt_call E st (StmtPrepare ''INSERT INTO bulk_example2 VALUES (?,?,?)'') s;
          (_, s) = stmt_call E st (StmtAttr ''STMT_ATTR_ARRAY_SIZE'' 3) s;
          (_, s) = stmt_call E st (StmtAttr ''STMT_ATTR_ROW_SIZE'' 72) s;
          (_, s) = stmt_call E st StmtBindParam s;
          (_, s) = stmt_call E st StmtExecute s;
          (_, s) = stmt_call E st StmtClose s;
          (rep, s) = mysql_query E c ''SELECT * FROM test.bulk_example2'' s
      in
      if rep = QFail then Some (1, s) else
      let s = mysql_store c s in
      if not_three_rows rep then Some (1, s) else
      let (bad, s) = sql_fails E c ''DROP TABLE test.bulk_example2'' s
      in if bad then Some (1, s) else None)"

definition bulk_insert :: "env \<Rightarrow> 'a tc_scheme \<Rightarrow> (int \<times> 'a tc_scheme) option" where
  "bulk_insert E s =
     (let s = reach E s;
          (r, s) = bind_by_column E (tc_conn_rwsplit s) s;
          s = add_result r s;
          (r, s) = bind_by_column E (tc_conn_master s) s;
          s = add_result r s
      in do { (r, s) \<leftarrow> bind_by_row E (tc_conn_rwsplit s) s;
              let s = add_result r s;
              (r, s) \<leftarrow> bind_by_row E (tc_conn_master s) s;
              result_of (close_maxscale_connections (add_result r s)) })"

section \<open>Sharding\<close>

definition shard_name :: "nat \<Rightarrow> string" where
  "shard_name j = ''user'' @ nat_str j"

definition drop_shard_users :: "env \<Rightarrow> nat \<Rightarrow> 'a tc_scheme \<Rightarrow> 'a tc_scheme" where
  "drop_shard_users E i s =
     do_loop (node_ids (repl s))
       (\<lambda>j s. runs E (node_conn i) [''DROP USER '' @ quote @ shard_name j @ quote @ ''@'%';'', ''DROP DATABASE IF EXISTS shard_db'']
                (set_timeout 30 s)) s"

definition create_shard_users :: "env \<Rightarrow> nat \<Rightarrow> 'a tc_scheme \<Rightarrow> 'a tc_scheme" where
  "create_shard_users E i s =
     do_loop (node_ids (repl s))
       (\<lambda>j s. runs E (node_conn i)
                [''DROP USER '' @ quote @ shard_name j @ quote @ ''@'%';'',
                 ''CREATE USER '' @ quote @ shard_name j @ quote @ ''@'%' IDENTIFIED BY 'pass'' @ nat_str j @ quote @ '';'',
                 ''DROP DATABASE IF EXISTS shard_db''] (set_timeout 30 s)) s"

definition shard_login :: "env \<Rightarrow> string \<Rightarrow> nat \<Rightarrow> 'a tc_scheme \<Rightarrow> conn option \<times> 'a tc_scheme" where
  "shard_login E db i s =
     open_conn_db E (tc_rwsplit_port s) (tc_maxscale_IP s) db (shard_name i) (''pass'' @ nat_str i) (tc_ssl s) s"

text \<open>\<open>mysql_ping\<close> dereferences its handle.\<close>

definition shard_check :: "env \<Rightarrow> nat \<Rightarrow> 'a tc_scheme \<Rightarrow> 'a tc_scheme option" where
  "shard_check E i s =
     (let (c, s) = shard_login E ''shard_db'' i (set_timeout 30 s) in
      do { s \<leftarrow> check_one_on E (\<lambda>_. c) ''SHOW TABLES;'' (''table'' @ nat_str i) s;
           con \<leftarrow> c;
           Some (mysql_close c (snd (mysql_ping E con s))) })"

text \<open>The last connection is made with the account of the last node; without nodes its name was never set.\<close>

definition sharding :: "env \<Rightarrow> 'a tc_scheme \<Rightarrow> (int \<times> 'a tc_scheme) option" where
  "sharding E s =
     (let (_, s) = stop_slaves E (tc_repl s) (set_timeout 30 s);
          s = reach_nodes E (restart E s);
          s = on_all_nodes (\<lambda>i s. runs E (node_conn i)
                 [''DROP DATABASE IF EXISTS shard_db'' @ nat_str i, ''CREATE DATABASE shard_db'' @ nat_str i]
                 (create_shard_users E i s)) s;
          s = c_sleep 10 (stop_timeout s);
          s = on_all_nodes (\<lambda>i s. counted_on E (node_conn i)
                 (''GRANT SELECT,USAGE,CREATE ON shard_db.* TO '' @ quote @ shard_name i @ quote @ ''@'%'' @ quote)
                 (run_on E (node_conn i) ''CREATE DATABASE shard_db'' (set_timeout 30 s))) s;
          s = c_sleep 30 (stop_timeout (leave_nodes s));
          s = on_all_nodes (\<lambda>i s.
                 let (c, s) = shard_login E ''shard_db'' i (set_timeout 30 s)
                 in counted_on E (\<lambda>_. c) (''CREATE TABLE table'' @ nat_str i @ '' (x1 int, fl int);'') s) s
      in do { s \<leftarrow> do_loopM (node_ids (repl s)) (shard_check E) s;
              let (_, s) = connect_rwsplit E s;
              let s = run_on E tc_conn_rwsplit ''USE shard_db'' s;
              let s = on_all_nodes (\<lambda>i. counted_on E tc_conn_rwsplit (''USE shard_db'' @ nat_str i)) s;
              let s = mysql_close (tc_conn_rwsplit s) s;
              if node_ids (repl s) = [] then None
              else
                let (c, s) = shard_login E '''' (length (node_ids (repl s)) - 1) s;
                    s = stop_timeout (mysql_close c s);
                    s = log_lacks E [''Length (0) is 0'', ''Unable to parse query'', ''query string allocation failed''] s;
                    s = on_all_nodes (\<lambda>i s. run_on E (node_conn i) (''DROP DATABASE IF EXISTS shard_db'' @ nat_str i)
                          (drop_shard_users E i s)) s
                in result_of s })"

text \<open>The file is written before the test object is constructed; a file that cannot be opened is not.\<close>

definition data_csv :: string where
  "data_csv = concat (map (\<lambda>i. nat_str i @ [newline]) [0..<100])"

definition write_data_csv :: "env \<Rightarrow> 'a world_scheme \<Rightarrow> 'a world_scheme" where
  "write_data_csv E s =
     (let s = c_unlink ''data.csv'' s
      in if fs_write E (trace s) ''data.csv'' then emit (EWriteFile ''data.csv'' data_csv) s else s)"

definition sharding_load_data :: "env \<Rightarrow> 'a tc_scheme \<Rightarrow> (int \<times> 'a tc_scheme) option" where
  "sharding_load_data E s =
     do { s \<leftarrow> all_nodes_query E ''DROP DATABASE db1'' s;
          let s = runs E (node_conn 0) [''CREATE DATABASE db1'', ''CREATE TABLE db1.t1(id INT)''] (reach_nodes E s);
          let s = try_on E tc_conn_rwsplit ''LOAD DATA LOCAL INFILE 'data.csv' INTO TABLE db1.t1'' (reach E s);
          (n, s) \<leftarrow> execute_query_count_rows E (tc_conn_rwsplit s) ''SELECT * FROM db1.t1'' s;
          let s = add_result (if n \<noteq> 100 then 1 else 0) s;
          let s = tries E tc_conn_rwsplit [''DROP TABLE db1.t1'', ''DROP DATABASE db1''] s;
          result_of (c_unlink ''data.csv'' (close_maxscale_connections s)) }"

section \<open>Kerberos\<close>

definition hosts_file :: "'a tc_scheme \<Rightarrow> string" where
  "hosts_file s =
     concat (map (\<lambda>i. mn_IP (repl s) i @ '' node_'' @ pad3 i @ ''.maxscale.test'' @ [newline]) (node_ids (repl s))) @
     tc_maxscale_IP s @ '' maxscale.maxscale.test'' @ [newline]"

definition give_node :: "env \<Rightarrow> string \<Rightarrow> string \<Rightarrow> nat \<Rightarrow> 'a tc_scheme \<Rightarrow> 'a tc_scheme" where
  "give_node E file cmd i s = on_node E True cmd i (snd (copy_to_node E (tc_repl s) file ''~/'' i s))"

definition give_maxscale :: "env \<Rightarrow> string \<Rightarrow> string \<Rightarrow> 'a tc_scheme \<Rightarrow> 'a tc_scheme" where
  "give_maxscale E file cmd s = on_maxscale E True cmd (snd (copy_to_maxscale E file ''~/'' s))"

definition kinit_mariadb :: string where
  "kinit_mariadb = ''kinit mariadb/maxscale.test@MAXSCALE.TEST -k -t /etc/krb5.keytab''"

definition kerberos_server :: "string list" where
  "kerberos_server =
     [''yum install rng-tools -y'',
      ''rngd -r /dev/urandom -o /dev/random'',
      ''yum install -y MariaDB-gssapi-server MariaDB-gssapi-client krb5-server krb5-workstation pam_krb5'',
      ''sed -i \"s/EXAMPLE.COM/MAXSCALE.TEST/\" /var/kerberos/krb5kdc/kdc.conf'',
      ''sed -i \"s/EXAMPLE.COM/MAXSCALE.TEST/\" /var/kerberos/krb5kdc/kadm5.acl'',
      ''kdb5_util create -P skysql -r MAXSCALE.TEST -s'',
      ''kadmin.local -q \"addprinc -pw skysql admin/admin@MAXSCALE.TEST\"'',
      ''iptables -I INPUT -p tcp --dport 749 -j ACCEPT'',
      ''iptables -I INPUT -p tcp --dport 88 -j ACCEPT'',
      ''service krb5kdc start'',
      ''service kadmin start'',
      ''echo \"skysql\" | sudo kadmin -p admin/admin -q \"addprinc -randkey mariadb/maxscale.test\"'',
      ''echo \"skysql\" | sudo kadmin -p admin/admin -q \"ktadd mariadb/maxscale.test\"'',
      ''chmod a+r /etc/krb5.keytab;'']"

definition kerberos_query :: "env \<Rightarrow> nat \<Rightarrow> 'a tc_scheme \<Rightarrow> 'a tc_scheme" where
  "kerberos_query E port s =
     (let (rc, s) = ssh_node E (tc_repl s) 1
            (''echo select User,Host from mysql.user | mysql -uusr1 -h maxscale.maxscale.test -P '' @ nat_str port) False s
      in add_result rc s)"

definition kerberos_setup :: "env \<Rightarrow> 'a tc_scheme \<Rightarrow> (int \<times> 'a tc_scheme) option" where
  "kerberos_setup E s =
     (let s = set_timeout 1000 s; krb5_conf = cf_test_dir E @ ''/krb5.conf'' in
      if \<not> fs_write E (trace s) ''hosts'' then None
      else
        let s = emit (EWriteFile ''hosts'' (hosts_file s)) s;
            s = on_all_nodes (\<lambda>i s.
                  give_node E ''hosts'' ''cp ~/hosts /etc/'' i
                    (give_node E krb5_conf ''cp ~/krb5.conf /etc/'' i
                      (on_node E True
                         ''yum install -y MariaDB-gssapi-server MariaDB-gssapi-client krb5-workstation pam_krb5'' i s))) s;
            s = give_maxscale E krb5_conf ''cp ~/krb5.conf /etc/'' (give_maxscale E ''hosts'' ''cp ~/hosts /etc/'' s);
            s = do_loop kerberos_server (on_maxscale E True) s;
            s = on_maxscale E False kinit_mariadb s;
            s = on_maxscale E True (''su maxscale --login -s /bin/sh -c \"'' @ kinit_mariadb @ [CHR 0x22]) s;
            (_, s) = copy_from_maxscale E ''/etc/krb5.keytab'' ''.'' s;
            s = on_all_nodes (\<lambda>i s.
                  on_node E False kinit_mariadb i
                    (give_node E ''krb5.keytab'' ''cp ~/krb5.keytab /etc/'' i
                      (give_node E (cf_test_dir E @ ''/kerb.cnf'') ''cp ~/kerb.cnf /etc/my.cnf.d/'' i s))) s
        in do { s \<leftarrow> all_nodes_query E (''INSTALL SONAME 'auth_gssapi'' @ quote) (reach_nodes E s);
                let s = leave_nodes s;
                let s = tries E (node_conn 0)
                  [''CREATE USER usr1 IDENTIFIED VIA gssapi AS 'mariadb/maxscale.test@MAXSCALE.TEST'' @ quote,
                   ''grant all privileges on  *.* to 'usr1'' @ quote] (reach_nodes E s);
                result_of (do_loop [4006, 4008, 4009] (kerberos_query E) (leave_nodes s)) })"

section \<open>Sysbench\<close>

text \<open>
  The command lines of \<open>sysbench_commands.h\<close>: five texts of the same form, which differ in the
  indentation of their continuation lines and in their numbers.
\<close>

definition continued :: "nat \<Rightarrow> string list \<Rightarrow> string" where
  "continued indent ls = concat (map (\<lambda>l. '' '' @ blanks indent @ l) ls)"

definition sysbench_prepare_text :: "nat \<Rightarrow> nat \<Rightarrow> nat \<Rightarrow> string \<Rightarrow> string \<Rightarrow> string" where
  "sysbench_prepare_text indent n tables dir IP =
     dir @ ''/sysbench --test='' @ dir @ ''/tests/db/oltp.lua'' @
     continued indent
       [''--oltp-table-size='' @ nat_str n @ '' --mysql-db=test --mysql-user=skysql --mysql-password=skysql'',
        ''--mysql-port=4006 --mysql-host='' @ IP @ '' --oltp-tables-count='' @ nat_str tables @ '' prepare'']"

definition sysbench_command_text ::
  "nat \<Rightarrow> nat \<Rightarrow> nat \<Rightarrow> nat \<Rightarrow> string \<Rightarrow> string \<Rightarrow> int \<Rightarrow> string \<Rightarrow> string" where
  "sysbench_command_text indent n tables max_time dir IP port readonly =
     dir @ ''/sysbench --test='' @ dir @ ''/tests/db/oltp.lua'' @
     continued indent
       [''--mysql-host='' @ IP @ '' --mysql-port='' @ int_str port @ '' --mysql-user=skysql --mysql-password=skysql'',
        ''--mysql-db=test --mysql-table-engine=innodb --mysql-ignore-duplicates=on'',
        ''--num-threads=32 --oltp-table-size='' @ nat_str n @ '' --oltp-tables-count='' @ nat_str tables @
          '' --oltp-read-only='' @ readonly,
        ''--oltp-dist-type=uniform --oltp-skip-trx=off --init-rng=on --oltp-test-mode=complex'',
        ''--max-requests=0 --report-interval=5 --max-time='' @ nat_str max_time @ '' run'']"

definition sysbench_prepare :: "string \<Rightarrow> string \<Rightarrow> string" where
  "sysbench_prepare = sysbench_prepare_text 17 1000000 4"

definition sysbench_prepare1 :: "string \<Rightarrow> string \<Rightarrow> string" where
  "sysbench_prepare1 = sysbench_prepare_text 17 1000 1"

definition sysbench_prepare_short :: "string \<Rightarrow> string \<Rightarrow> string" where
  "sysbench_prepare_short = sysbench_prepare_text 25 10000 4"

definition sysbench_command :: "string \<Rightarrow> string \<Rightarrow> int \<Rightarrow> string \<Rightarrow> string" where
  "sysbench_command = sysbench_command_text 17 1000000 2 100"

definition sysbench_command1 :: "string \<Rightarrow> string \<Rightarrow> int \<Rightarrow> string \<Rightarrow> string" where
  "sysbench_command1 = sysbench_command_text 18 1000 1 100"

definition sysbench_command_long :: "string \<Rightarrow> string \<Rightarrow> int \<Rightarrow> string \<Rightarrow> string" where
  "sysbench_command_long = sysbench_command_text 16 1000000 2 2592000"

definition sysbench_command_short :: "string \<Rightarrow> string \<Rightarrow> int \<Rightarrow> string \<Rightarrow> string" where
  "sysbench_command_short = sysbench_command_text 24 10000 2 300"

text \<open>A command is printed into a buffer of 4096 bytes; the preparation counts, the run does not.\<close>

definition sysbench_counted :: "env \<Rightarrow> string \<Rightarrow> 'a tc_scheme \<Rightarrow> 'a tc_scheme option" where
  "sysbench_counted E cmd s =
     do { sys1 \<leftarrow> into_block 4096 cmd; let (st, s) = c_system E sys1 s; Some (add_result st s) }"

definition sysbench_run :: "env \<Rightarrow> string \<Rightarrow> 'a tc_scheme \<Rightarrow> 'a tc_scheme option" where
  "sysbench_run E cmd s = do { sys1 \<leftarrow> into_block 4096 cmd; Some (snd (c_system E sys1 s)) }"

definition drop_sysbench_tables :: "env \<Rightarrow> 'a tc_scheme \<Rightarrow> 'a tc_scheme" where
  "drop_sysbench_tables E s =
     (let s = try_on E tc_conn_rwsplit ''DROP TABLE sbtest1'' (reach E s);
          s = (if tc_smoke s then s
               else tries E tc_conn_rwsplit [''DROP TABLE sbtest2'', ''DROP TABLE sbtest3'', ''DROP TABLE sbtest4''] s)
      in close_maxscale_connections s)"

definition sysbench_example :: "env \<Rightarrow> 'a tc_scheme \<Rightarrow> (int \<times> 'a tc_scheme) option" where
  "sysbench_example E s =
     (let s = on_maxscale E False ''maxscale --version-full'' s;
          dir = tc_sysbench_dir s; IP = tc_maxscale_IP s
      in do { s \<leftarrow> sysbench_counted E (sysbench_prepare_short dir IP) (set_timeout 10000 s);
              s \<leftarrow> sysbench_run E (sysbench_command_short dir IP (tc_rwsplit_port s) ''off'')
                     (set_log_copy_interval 300 (stop_timeout s));
              alive_result E (drop_sysbench_tables E s) })"

text \<open>After its result is known this test deletes the test object and prints through it once more.\<close>

definition long_sysbench :: "env \<Rightarrow> 'a tc_scheme \<Rightarrow> (int \<times> 'a tc_scheme) option" where
  "long_sysbench E s =
     (let dir = tc_sysbench_dir s; IP = tc_maxscale_IP s in
      do { s \<leftarrow> sysbench_counted E (sysbench_prepare dir IP) (set_timeout 10000 s);
           let current_port = tc_rwsplit_port s;
           let readonly = (if current_port = tc_readconn_slave_port s then ''on'' else ''off'');
           s \<leftarrow> sysbench_run E (sysbench_command_long dir IP current_port readonly)
                  (set_log_copy_interval 300 (stop_timeout s));
           alive_result E (drop_sysbench_tables E s) })"

section \<open>A generator\<close>

text \<open>\<open>generate_log_sql.cpp\<close>: the texts it prints.\<close>

definition generate_log_sql :: "string list option" where
  "generate_log_sql =
     do { a \<leftarrow> into_block 1000000 (create_insert_string 16 0);
          b \<leftarrow> into_block 1000000 (create_insert_string 256 1);
          c \<leftarrow> into_block 1000000 (create_insert_string 4096 2);
          d \<leftarrow> into_block 1000000 (create_insert_string 65536 3);
          Some [a, b, c, d] }"

end
