(* ===== verification/Thread_Tests.thy ===== *)
theory Thread_Tests
  imports Binlog_Tests Big_Load Cdc
begin

text \<open>
  Tests whose threads work on MaxScale beside the main thread. As in \<open>Big_Load\<close> a turn of a
  thread's loop is atomic, threads start in the order they are created and end in the order they
  are joined. The turns between are made while the main thread pauses: \<open>sched k\<close> says which are
  made in its pause number \<open>k\<close>, as the numbers of the threads whose turn it is, or, for threads
  that have no state of their own, as the number of turns. A thread function without a
  \<open>return\<close> is taken to end there; nothing reads its value.
\<close>

section \<open>Threads\<close>

fun start_all :: "('i \<Rightarrow> 's \<Rightarrow> 't \<times> 's) \<Rightarrow> 'i list \<Rightarrow> 's \<Rightarrow> 't list \<times> 's" where
  "start_all f [] s = ([], s)"
| "start_all f (i # ids) s = (let (t, s) = f i s; (ts, s) = start_all f ids s in (t # ts, s))"

fun take_turns :: "('t \<Rightarrow> 's \<Rightarrow> ('t \<times> 's) option) \<Rightarrow> nat list \<Rightarrow> 't list \<Rightarrow> 's \<Rightarrow> ('t list \<times> 's) option" where
  "take_turns f [] ts s = Some (ts, s)"
| "take_turns f (k # ks) ts s =
     (if k < length ts then do { (t, s) \<leftarrow> f (ts ! k) s; take_turns f ks (ts[k := t]) s } else take_turns f ks ts s)"

definition block0 :: "env \<Rightarrow> 'a tc_scheme \<Rightarrow> 'a tc_scheme" where
  "block0 E s = snd (block_node E (tc_repl s) 0 s)"

definition unblock0 :: "env \<Rightarrow> 'a tc_scheme \<Rightarrow> 'a tc_scheme" where
  "unblock0 E s = snd (unblock_node E (tc_repl s) 0 s)"

definition flush_repl :: "env \<Rightarrow> 'a tc_scheme \<Rightarrow> 'a tc_scheme option" where
  "flush_repl E s = do { (_, s) \<leftarrow> flush_hosts E (tc_repl s) s; Some s }"

definition sync_repl :: "env \<Rightarrow> 'a tc_scheme \<Rightarrow> 'a tc_scheme option" where
  "sync_repl E s = sync_slaves E (tc_repl s) 0 s"

section \<open>Connections to the master\<close>

text \<open>
  \<open>bug529\<close>: its thread opens fifty connections, then repeats a query until the flag is set, and
  closes them. Nobody waits for it.
\<close>

definition bug529_turn ::
  "env \<Rightarrow> bool \<Rightarrow> conn option list \<times> bool \<Rightarrow> 'a tc_scheme \<Rightarrow> (conn option list \<times> bool) \<times> 'a tc_scheme" where
  "bug529_turn E exit_flag = (\<lambda>(conns, closed) s.
     if closed then ((conns, True), s)
     else if length conns < 50
     then let (c, s) = open_readconn_slave_connection E s;
              (_, s) = execute_query E c ''SELECT * FROM t1'' s
          in ((conns @ [c], False), s)
     else if exit_flag then ((conns, True), do_loop conns mysql_close s)
     else ((conns, False), snd (execute_query E (conns ! 0) ''SELECT * FROM t1'' s)))"

fun bug529_turns ::
  "env \<Rightarrow> bool \<Rightarrow> nat \<Rightarrow> conn option list \<times> bool \<Rightarrow> 'a tc_scheme \<Rightarrow> (conn option list \<times> bool) \<times> 'a tc_scheme" where
  "bug529_turns E exit_flag 0 th s = (th, s)"
| "bug529_turns E exit_flag (Suc n) th s =
     (let (th, s) = bug529_turn E exit_flag th s in bug529_turns E exit_flag n th s)"

text \<open>The connections every node has from MaxScale; only those of the first node are judged.\<close>

definition master_conns :: "env \<Rightarrow> ('a tc_scheme \<Rightarrow> 'a tc_scheme) \<Rightarrow> (int \<Rightarrow> bool) \<Rightarrow> 'a tc_scheme \<Rightarrow> 'a tc_scheme option" where
  "master_conns E before bad s =
     do_loopM (node_ids (repl s))
       (\<lambda>i s. let s = before s in
          do { (n, s) \<leftarrow> get_conn_num E (node_conn i s) (tc_maxscale_IP s) (tc_maxscale_hostname s) ''test'' s;
               Some (if i = 0 \<and> bad n then add_result 1 s else s) }) s"

definition bug529_open ::
  "env \<Rightarrow> nat \<Rightarrow> (conn option \<times> conn option \<times> conn option) list \<Rightarrow> 'a tc_scheme
   \<Rightarrow> (conn option \<times> conn option \<times> conn option) list \<times> 'a tc_scheme" where
  "bug529_open E i cs s =
     (let (c1, s) = open_rwsplit_connection E (set_timeout 60 s);
          (c2, s) = open_readconn_master_connection E s;
          (c3, s) = open_readconn_slave_connection E s;
          (_, s) = execute_query E c1 (''INSERT INTO t1 (x1, fl) VALUES('' @ nat_str i @ '', 1);'') s;
          (_, s) = execute_query E c2 (''INSERT INTO t1 (x1, fl) VALUES('' @ nat_str i @ '', 2);'') s
      in (cs @ [(c1, c2, c3)], s))"

definition bug529_reopen :: "env \<Rightarrow> nat \<Rightarrow> conn option list \<Rightarrow> 'a tc_scheme \<Rightarrow> conn option list \<times> 'a tc_scheme" where
  "bug529_reopen E i cs s =
     (let (c, s) = open_readconn_slave_connection E (set_timeout 60 s);
          (_, s) = execute_query E c ''SELECT * FROM t1'' s
      in (cs @ [c], s))"

definition bug529 :: "env \<Rightarrow> (nat \<Rightarrow> nat) \<Rightarrow> 'a tc_scheme \<Rightarrow> (int \<times> 'a tc_scheme) option" where
  "bug529 E sched s =
     (let s = reach_nodes E (set_timeout 120 s);
          (c, s) = open_rwsplit_connection E s;
          s = runs E (\<lambda>_. c) [''DROP DATABASE IF EXISTS test'', ''CREATE DATABASE test'', ''USE test;''] s;
          (_, s) = create_t1 E c s;
          (cs, s) = foreach [0..<50] (bug529_open E) [] (mysql_close c s)
      in do { s \<leftarrow> master_conns E (set_timeout 60) (\<lambda>n. n > 100) s;
              let s = do_loop cs (\<lambda>(c1, c2, c3) s. mysql_close c2 (mysql_close c1 s)) s;
              s \<leftarrow> master_conns E (set_timeout 60) (\<lambda>n. n > 100) s;
              let (th, s) = bug529_turns E False (sched 0) ([], False) s;
              s \<leftarrow> master_conns E (\<lambda>s. s) (\<lambda>n. n > 100) s;
              let (th, s) = bug529_turns E False (sched 1) th (c_sleep 15 (stop_timeout s));
              s \<leftarrow> master_conns E (set_timeout 60) (\<lambda>n. n \<noteq> 0) s;
              let s = do_loop cs (\<lambda>(c1, c2, c3). mysql_close c3) s;
              s \<leftarrow> master_conns E (set_timeout 60) (\<lambda>n. n \<noteq> 0) s;
              let (cs, s) = foreach [0..<50] (bug529_reopen E) [] s;
              s \<leftarrow> master_conns E (set_timeout 60) (\<lambda>n. n \<noteq> 0) s;
              let s = do_loop cs (\<lambda>c s. mysql_close c (set_timeout 20 s)) s;
              let (th, s) = bug529_turns E True (sched 2) th s;
              s \<leftarrow> master_conns E (set_timeout 60) (\<lambda>n. n \<noteq> 0) s;
              result_of s })"

section \<open>A master that is blocked\<close>

text \<open>A thread of \<open>bug649\<close> that could not connect does nothing more.\<close>

definition bug649_start :: "env \<Rightarrow> 'a tc_scheme \<Rightarrow> (conn option \<times> bool) \<times> 'a tc_scheme" where
  "bug649_start E s =
     (let (c, s) = open_rwsplit_connection E s in ((c, c \<noteq> None \<and> mysql_errno E c s = 0), s))"

definition bug649_turn :: "env \<Rightarrow> string \<Rightarrow> conn option \<times> bool \<Rightarrow> 'a tc_scheme \<Rightarrow> ((conn option \<times> bool) \<times> 'a tc_scheme) option" where
  "bug649_turn E sql th s = Some (th, if snd th then snd (execute_query_silent E (fst th) sql s) else s)"

definition bug649 :: "env \<Rightarrow> (nat \<Rightarrow> nat list) \<Rightarrow> 'a tc_scheme \<Rightarrow> (int \<times> 'a tc_scheme) option" where
  "bug649 E sched s =
     (let time_to_run = (if tc_smoke s then 10 else 30);
          (_, s) = connect_rwsplit E (set_timeout 10 s);
          s = run_on E (node_conn 0) ''DROP TABLE IF EXISTS t1;'' (reach_nodes E s);
          (rc, s) = create_t1 E (node_conn 0 s) s;
          s = c_sleep 5 (stop_timeout (leave_nodes (add_result rc s)))
      in do { sql \<leftarrow> into_block 1000000 (create_insert_string 65000 1);
              let (ths, s) = start_all (\<lambda>_ s. bug649_start E (set_timeout 20 s)) [0..<20] s;
              (ths, s) \<leftarrow> take_turns (bug649_turn E sql) (sched 0) ths (c_sleep time_to_run (stop_timeout s));
              (ths, s) \<leftarrow> take_turns (bug649_turn E sql) (sched 1) ths (c_sleep time_to_run (block0 E s));
              let s = set_timeout 30 s;
              let (rc, s) = execute_query_silent E (tc_conn_rwsplit s) ''show processlist;'' s;
              let s = stop_timeout (if rc = 0 then add_result 1 s else s);
              (ths, s) \<leftarrow> take_turns (bug649_turn E sql) (sched 2) ths (c_sleep time_to_run s);
              (ths, s) \<leftarrow> take_turns (bug649_turn E sql) (sched 3) ths (c_sleep time_to_run (stop_timeout (unblock0 E s)));
              let s = do_loop ths (\<lambda>th s. close_if_open (fst th) (set_timeout 30 s)) s;
              (_, s) \<leftarrow> check_maxscale_alive E (set_timeout 20 (c_sleep 5 (stop_timeout s)));
              let (_, s) = connect_rwsplit E (set_timeout 20 s);
              result_of (close_rwsplit (try_on E tc_conn_rwsplit ''show processlist;'' s)) })"

definition sysctl_tcp :: string where
  "sysctl_tcp = ''sysctl net.ipv4.tcp_tw_reuse=1 net.ipv4.tcp_tw_recycle=1 '' @
                ''net.core.somaxconn=10000 net.ipv4.tcp_max_syn_backlog=10000''"

definition mxs559_turn :: "env \<Rightarrow> string \<Rightarrow> 'a tc_scheme \<Rightarrow> 'a tc_scheme" where
  "mxs559_turn E sql s =
     (let (c, s) = open_conn_db_timeout E (tc_rwsplit_port s) (tc_maxscale_IP s) ''test'' (tc_maxscale_user s)
                     (tc_maxscale_password s) 10 (tc_ssl s) s
      in mysql_close c (snd (execute_query_silent E c sql s)))"

text \<open>At most \<open>n\<close> attempts to connect, a second apart.\<close>

fun mxs559_connect :: "env \<Rightarrow> nat \<Rightarrow> 'a tc_scheme \<Rightarrow> 'a tc_scheme" where
  "mxs559_connect E 0 s = s"
| "mxs559_connect E (Suc n) s =
     (let (rc, s) = connect_maxscale E ((set_timeout 60 s)\<lparr>tc_verbose := True\<rparr>);
          s = s\<lparr>tc_verbose := False\<rparr>
      in if rc = 0 then s else mxs559_connect E n (c_sleep 1 s))"

definition mxs559_block_master :: "env \<Rightarrow> (nat \<Rightarrow> nat) \<Rightarrow> 'a tc_scheme \<Rightarrow> (int \<times> 'a tc_scheme) option" where
  "mxs559_block_master E sched s =
     (let s = reach E (set_timeout 60 (on_maxscale E True sysctl_tcp s));
          (_, s) = create_t1 E (tc_conn_rwsplit s) s;
          s = close_maxscale_connections (run_on E tc_conn_rwsplit ''set global max_connections=1000'' s);
          s = do_loop [0..<10] (\<lambda>_. c_sleep 3) s
      in do { sql \<leftarrow> into_block 1000000 (create_insert_string 50000 2);
              let s = do_loop [0..<5]
                    (\<lambda>i s. let s = (mxs559_turn E sql ^^ sched (2 * i)) (c_sleep 10 (stop_timeout s));
                               s = block0 E (set_timeout 60 s);
                               s = (mxs559_turn E sql ^^ sched (2 * i + 1)) (c_sleep 10 (stop_timeout s))
                           in unblock0 E (set_timeout 60 s)) s;
              let s = stop_timeout (do_loop [0..<10] (\<lambda>_. set_timeout 240) s);
              s \<leftarrow> flush_repl E s;
              (_, s) \<leftarrow> fix_replication E (tc_repl s) s;
              let s = mxs559_connect E 60 s;
              let s = close_maxscale_connections (try_on E tc_conn_rwsplit ''DROP TABLE IF EXISTS t1'' s);
              (_, s) \<leftarrow> check_maxscale_alive E s;
              result_of (log_lacks E
                [''due to authentication failure'', ''fatal signal 11'', ''due to handshake failure'',
                 ''Refresh rate limit exceeded for load of users' table''] s) })"

section \<open>Changing the user\<close>

definition bug601_turn :: "env \<Rightarrow> 'a tc_scheme \<Rightarrow> 'a tc_scheme" where
  "bug601_turn E s =
     (let (c, s) = open_rwsplit_connection E s;
          s = mysql_close c s
      in if tc_backend_ssl s then c_sleep 1 s else s)"

text \<open>The connection to readwritesplit changes to an account, to \<open>user\<close> and to the one of MaxScale.\<close>

definition change_to :: "env \<Rightarrow> string \<Rightarrow> string \<Rightarrow> 'a tc_scheme \<Rightarrow> 'a tc_scheme" where
  "change_to E user pw s =
     (let (rc, s) = mysql_change_user E (tc_conn_rwsplit s) user pw (Some ''test'') s in add_result rc s)"

definition bug601_change :: "env \<Rightarrow> 'a tc_scheme \<Rightarrow> 'a tc_scheme" where
  "bug601_change E s =
     change_to E (tc_maxscale_user s) (tc_maxscale_password s) (change_to E ''user'' ''pass2'' (set_timeout 15 s))"

definition bug601 :: "env \<Rightarrow> (nat \<Rightarrow> nat) \<Rightarrow> 'a tc_scheme \<Rightarrow> (int \<times> 'a tc_scheme) option" where
  "bug601 E sched s =
     (let iterations = (if tc_smoke s then 100 else 1000) in
      do { s \<leftarrow> all_nodes_query E ''set global max_connect_errors=1000;'' (reach_nodes E (set_timeout 60 s));
           s \<leftarrow> all_nodes_query E ''set global max_connections=1000;'' s;
           let s = silent_on E tc_conn_rwsplit (''DROP USER user@'%'' @ quote) (reach E s);
           let s = tries E tc_conn_rwsplit
             [''CREATE USER user@'%' identified by 'pass2'' @ quote, ''GRANT SELECT ON test.* TO user@'%';'',
              ''FLUSH PRIVILEGES;''] s;
           let s = do_loop [0..<iterations] (\<lambda>i s. bug601_change E ((bug601_turn E ^^ sched i) s)) s;
           let s = do_loop [0..<25] (\<lambda>_. set_timeout 30) s;
           s \<leftarrow> flush_repl E s;
           let s = set_timeout 30 s;
           let (_, s) = mysql_change_user E (tc_conn_rwsplit s) (tc_maxscale_user s) (tc_maxscale_password s) None s;
           alive_result E (try_on E tc_conn_rwsplit ''DROP USER user@'%';'' s) })"

text \<open>A wrong password must be refused, with the proper message.\<close>

definition wrong_user :: "env \<Rightarrow> ('a tc_scheme \<Rightarrow> conn option) \<Rightarrow> 'a tc_scheme \<Rightarrow> 'a tc_scheme" where
  "wrong_user E c s =
     (let (rc, s) = mysql_change_user E (c s) ''user'' ''wrong_pass2'' (Some ''test'') s;
          s = (if rc = 0 then add_result 1 s else s)
      in if strstr (my_error E (trace s) (c s)) ''Access denied for user'' = None then add_result 1 s else s)"

definition change_user :: "env \<Rightarrow> 'a tc_scheme \<Rightarrow> (int \<times> 'a tc_scheme) option" where
  "change_user E s =
     (let s = reach E (reach_nodes E (set_timeout 60 s));
          s = run_on E tc_conn_rwsplit (''DROP USER 'user'@'%'' @ quote) s;
          s = tries E tc_conn_rwsplit
                [''CREATE USER user@'%' identified by 'pass2'' @ quote, ''GRANT SELECT ON test.* TO user@'%'' @ quote,
                 ''FLUSH PRIVILEGES;'', ''DROP TABLE IF EXISTS t1'', ''CREATE TABLE t1 (x1 int, fl int)''] s;
          s = change_to E ''user'' ''pass2'' s;
          (rc, s) = execute_query E (tc_conn_rwsplit s) ''INSERT INTO t1 VALUES (77, 11);'' s;
          s = (if rc = 0 then add_result 1 s else s);
          s = change_to E (mn_user_name (repl s)) (mn_password (repl s)) s;
          s = try_on E tc_conn_rwsplit ''INSERT INTO t1 VALUES (77, 12);'' s;
          s = try_on E tc_conn_rwsplit ''INSERT INTO t1 VALUES (77, 13);'' (wrong_user E tc_conn_rwsplit s);
          s = wrong_user E tc_conn_slave s;
          (rc, s) = mysql_change_user E (tc_conn_slave s) ''user'' ''pass2'' (Some ''test'') s;
          s = try_on E tc_conn_rwsplit ''DROP USER user@'%';'' (add_result rc s);
          s = silent_on E tc_conn_rwsplit ''DROP TABLE test.t1'' s
      in result_of (close_maxscale_connections s))"

text \<open>
  Short sessions that change their user twice: on the connection to readwritesplit, and on two more
  once the flag \<open>rwsplit_only\<close> is cleared. All are closed at the end of the turn.
\<close>

definition short_change :: "env \<Rightarrow> conn option \<Rightarrow> 'a tc_scheme \<Rightarrow> 'a tc_scheme" where
  "short_change E c s =
     (if c \<noteq> None \<and> mysql_errno E c s = 0
      then let (_, s) = mysql_change_user E c ''user'' ''pass2'' (Some ''test'') s
           in snd (mysql_change_user E c (mn_user_name (repl s)) (mn_password (repl s)) (Some ''test'') s)
      else s)"

definition mxs548_turn :: "env \<Rightarrow> bool \<Rightarrow> 'a tc_scheme \<Rightarrow> 'a tc_scheme" where
  "mxs548_turn E rwsplit_only s =
     (let (c1, s) = open_rwsplit_connection E s;
          s = short_change E c1 s
      in if rwsplit_only then close_if_open c1 s
         else
           let (c2, s) = open_readconn_master_connection E s;
               s = short_change E c2 s;
               (c3, s) = open_readconn_slave_connection E s;
               s = short_change E c3 s
           in close_if_open c3 (close_if_open c2 (close_if_open c1 s)))"

text \<open>The threads 0 to 2 write to the master; their connection is never closed.\<close>

definition mxs548_master :: "env \<Rightarrow> 'a tc_scheme \<Rightarrow> conn option \<times> 'a tc_scheme" where
  "mxs548_master E s =
     (let ob = repl s;
          (c, s) = open_conn E (mn_port ob 0) (mn_IP ob 0) (mn_user_name ob) (mn_password ob) False s
      in (c, if c = None then add_result 1 s else s))"

definition mxs548_turns :: "env \<Rightarrow> bool \<Rightarrow> string \<Rightarrow> conn option list \<Rightarrow> nat list \<Rightarrow> 'a tc_scheme \<Rightarrow> 'a tc_scheme" where
  "mxs548_turns E rwsplit_only sql masters ks s =
     do_loop ks
       (\<lambda>k s. if k < length masters
              then (case masters ! k of None \<Rightarrow> s | Some _ \<Rightarrow> try_on E (\<lambda>_. masters ! k) sql s)
              else mxs548_turn E rwsplit_only s) s"

definition mxs548_prepare :: "env \<Rightarrow> 'a tc_scheme \<Rightarrow> 'a tc_scheme option" where
  "mxs548_prepare E s =
     (let s = reach E (reach_nodes E (set_timeout 20 (on_maxscale E True sysctl_tcp s)));
          (_, s) = create_t1 E (tc_conn_rwsplit s) s
      in do { s \<leftarrow> all_nodes_query E ''set global max_connections = 2000;'' s;
              s \<leftarrow> sync_repl E s;
              sync_repl E (runs E tc_conn_rwsplit
                [''DROP USER user@'%'' @ quote, ''CREATE USER user@'%' IDENTIFIED BY 'pass2'' @ quote,
                 ''GRANT SELECT ON test.* TO user@'%'' @ quote, ''DROP TABLE IF EXISTS test.t1'',
                 ''CREATE TABLE test.t1 (x1 int, fl int)''] s) })"

definition mxs548_short_session_change_user ::
  "env \<Rightarrow> (nat \<Rightarrow> nat list) \<Rightarrow> 'a tc_scheme \<Rightarrow> (int \<times> 'a tc_scheme) option" where
  "mxs548_short_session_change_user E sched s =
     (let run_time = (if tc_smoke s then 10 else 300) in
      do { s \<leftarrow> mxs548_prepare E s;
           sql \<leftarrow> into_block 1000000 (create_insert_string 5000 2);
           let (masters, s) = start_all (\<lambda>_. mxs548_master E) [0..<3] s;
           let s = c_sleep run_time (set_timeout (int run_time + 60) s);
           s \<leftarrow> flush_repl E (mxs548_turns E True sql masters (sched 0) s);
           let s = c_sleep run_time (set_timeout (int run_time + 100) s);
           let s = set_timeout 60 (set_timeout 120 (mxs548_turns E False sql masters (sched 1) s));
           s \<leftarrow> flush_repl E s;
           let s = runs E tc_conn_rwsplit [''DROP TABLE test.t1;'', ''DROP USER user@'%'' @ quote] (set_timeout 60 s);
           let s = set_timeout 160 (close_maxscale_connections s);
           (_, s) \<leftarrow> check_maxscale_alive E (close_maxscale_connections (reach E s));
           let s = log_lacks E [''due to authentication failure'', ''fatal signal 11'', ''due to handshake failure''] s;
           result_of (c_sleep 30 s) })"

section \<open>Inserts from many threads\<close>

text \<open>A thread of \<open>bug718\<close>: its two connections and the iterations it still has to make.\<close>

type_synonym bug718_thread = "conn option \<times> conn option \<times> nat"

definition bug718_start :: "env \<Rightarrow> nat \<Rightarrow> 'a tc_scheme \<Rightarrow> bug718_thread \<times> 'a tc_scheme" where
  "bug718_start E iterations s =
     (let (c, s) = open_service E (tc_rwsplit_port s) s;
          (g, s) = open_service E 4016 s;
          s = runs E (\<lambda>_. c) [''CREATE DATABASE IF NOT EXISTS test0;'', ''USE test0''] s;
          (_, s) = create_t1 E c s;
          (_, s) = create_t1 E g s
      in ((c, g, iterations), s))"

definition bug718_turn :: "env \<Rightarrow> bug718_thread \<Rightarrow> 'a tc_scheme \<Rightarrow> (bug718_thread \<times> 'a tc_scheme) option" where
  "bug718_turn E = (\<lambda>(c, g, n) s.
     if n = 0 then Some ((c, g, n), s)
     else do { (_, s) \<leftarrow> insert_into_t1 E c 4 s;
               (_, s) \<leftarrow> insert_into_t1 E g 4 s;
               Some ((c, g, n - 1), s) })"

text \<open>Joining a thread: it makes all turns it still has.\<close>

fun bug718_join :: "env \<Rightarrow> conn option \<Rightarrow> conn option \<Rightarrow> nat \<Rightarrow> 'a tc_scheme \<Rightarrow> 'a tc_scheme option" where
  "bug718_join E c g 0 s = Some s"
| "bug718_join E c g (Suc n) s =
     do { (_, s) \<leftarrow> insert_into_t1 E c 4 s; (_, s) \<leftarrow> insert_into_t1 E g 4 s; bug718_join E c g n s }"

definition server_states :: "string list" where
  "server_states =
     concat (map (\<lambda>p. (''set server '' @ p @ ''server1 master'') #
                      map (\<lambda>i. ''set server '' @ p @ ''server'' @ nat_str i @ '' slave'') [2, 3, 4]) ['''', ''g_''])"

definition bug718 :: "env \<Rightarrow> (nat \<Rightarrow> nat list) \<Rightarrow> 'a tc_scheme \<Rightarrow> (int \<times> 'a tc_scheme) option" where
  "bug718 E sched s =
     (let iterations = (if tc_smoke s then 20 else 100);
          s = do_loop server_states (admin_cmd E) (set_timeout 20 s);
          (ths, s) = start_all (\<lambda>_. bug718_start E iterations) [0..<25] (reach_counted E s);
          (_, s) = create_t1 E (tc_conn_rwsplit s) s
      in do { (ths, s) \<leftarrow> foreachM [0..<iterations]
                 (\<lambda>i ths s. do { (_, s) \<leftarrow> insert_into_t1 E (tc_conn_rwsplit s) 4 (set_timeout 200 s);
                                 take_turns (bug718_turn E) (sched i) ths s }) ths s;
              s \<leftarrow> do_loopM ths (\<lambda>(c, g, n). bug718_join E c g n) (set_timeout 300 s);
              alive_result E (close_maxscale_connections s) })"

text \<open>
  \<open>mxs564\<close>: a thread has its connection to readwritesplit, one to the master unless \<open>rwsplit_only\<close>,
  and ends for good when it cannot connect or a statement fails; then it closes nothing.
\<close>

record dump_thread =
  dt_conn1 :: "conn option"
  dt_conn2 :: "conn option"
  dt_running :: bool

definition dump_connected :: "env \<Rightarrow> conn option \<Rightarrow> 'a tc_scheme \<Rightarrow> bool" where
  "dump_connected E c s \<longleftrightarrow> c \<noteq> None \<and> mysql_errno E c s = 0"

definition dump_start :: "env \<Rightarrow> bool \<Rightarrow> nat \<Rightarrow> 'a tc_scheme \<Rightarrow> dump_thread \<times> 'a tc_scheme" where
  "dump_start E rwsplit_only thread_id s =
     (let (c1, s) = open_rwsplit_connection E (c_sleep thread_id s) in
      if \<not> dump_connected E c1 s then (\<lparr>dt_conn1 = c1, dt_conn2 = None, dt_running = False\<rparr>, add_result 1 s)
      else
        let s = try_on E (\<lambda>_. c1) ''SET SESSION SQL_LOG_BIN=0;'' s in
        if rwsplit_only then (\<lparr>dt_conn1 = c1, dt_conn2 = None, dt_running = True\<rparr>, s)
        else
          let (c2, s) = open_readconn_master_connection E s in
          if \<not> dump_connected E c2 s then (\<lparr>dt_conn1 = c1, dt_conn2 = c2, dt_running = False\<rparr>, add_result 1 s)
          else (\<lparr>dt_conn1 = c1, dt_conn2 = c2, dt_running = True\<rparr>, try_on E (\<lambda>_. c2) ''SET SESSION SQL_LOG_BIN=0;'' s))"

definition dump_turn :: "env \<Rightarrow> bool \<Rightarrow> string \<Rightarrow> dump_thread \<Rightarrow> 'a tc_scheme \<Rightarrow> (dump_thread \<times> 'a tc_scheme) option" where
  "dump_turn E rwsplit_only sql th s =
     Some (if \<not> dt_running th then (th, s)
           else
             let (rc, s) = try_query E (dt_conn1 th) sql s in
             if rc \<noteq> 0 then (th\<lparr>dt_running := False\<rparr>, add_result 1 s)
             else if rwsplit_only then (th, s)
             else
               let (rc, s) = try_query E (dt_conn2 th) sql s in
               if rc \<noteq> 0 then (th\<lparr>dt_running := False\<rparr>, add_result 1 s) else (th, s))"

definition dump_end :: "bool \<Rightarrow> dump_thread \<Rightarrow> 'a tc_scheme \<Rightarrow> 'a tc_scheme" where
  "dump_end rwsplit_only th s =
     (if \<not> dt_running th then s
      else let s = close_if_open (dt_conn1 th) s
           in if rwsplit_only then s else close_if_open (dt_conn2 th) s)"

text \<open>One round of blocking two slaves. The turns are numbered from \<open>k\<close>.\<close>

definition dump_round ::
  "env \<Rightarrow> (nat \<Rightarrow> dump_thread list \<Rightarrow> 'a tc_scheme \<Rightarrow> (dump_thread list \<times> 'a tc_scheme) option) \<Rightarrow> nat \<Rightarrow> nat \<Rightarrow> nat
   \<Rightarrow> nat \<Rightarrow> dump_thread list \<Rightarrow> 'a tc_scheme \<Rightarrow> (dump_thread list \<times> 'a tc_scheme) option" where
  "dump_round E turns k slave1 slave2 run_time ths s =
     (let s = c_sleep run_time (c_sleep 20 (set_timeout (3 * int run_time + 60) s)) in
      do { (ths, s) \<leftarrow> turns k ths s;
           let s = c_sleep run_time (snd (block_node E (tc_galera s) slave1 s));
           (ths, s) \<leftarrow> turns (k + 1) ths s;
           let s = c_sleep run_time (snd (block_node E (tc_galera s) slave2 s));
           (ths, s) \<leftarrow> turns (k + 2) ths s;
           let (_, s) = unblock_node E (tc_galera s) slave1 s;
           let (_, s) = unblock_node E (tc_galera s) slave2 s;
           Some (ths, set_timeout 120 s) })"

text \<open>The exit flags are not reset before the second round: its threads connect, make no turn and end.\<close>

definition mxs564_big_dump :: "env \<Rightarrow> (nat \<Rightarrow> nat list) \<Rightarrow> 'a tc_scheme \<Rightarrow> (int \<times> 'a tc_scheme) option" where
  "mxs564_big_dump E sched s =
     (let run_time = (if tc_smoke s then 10 else 100);
          s = set_timeout 20 (stop_timeout s)
      in do { (master, s) \<leftarrow> find_master_maxadmin E (tc_galera s) s;
              let slaves = filter (\<lambda>x. int x \<noteq> master) [0, 1, 2];
              let s = set_timeout 20 (reach E (reach_nodes E (set_timeout 20 (stop_timeout s))));
              let (_, s) = create_t1 E (tc_conn_rwsplit s) s;
              s \<leftarrow> all_nodes_query E ''set global max_connections = 2000;'' s;
              let s = tries E tc_conn_rwsplit [''DROP TABLE IF EXISTS t1'', ''CREATE TABLE t1 (x1 int, fl int)'']
                        (set_timeout 20 s);
              sql \<leftarrow> into_block 1000000 (create_insert_string 1000 2);
              let (ths, s) = start_all (dump_start E True) [0..<4] s;
              (ths, s) \<leftarrow> dump_round E (\<lambda>k. take_turns (dump_turn E True sql) (sched k)) 0
                           (slaves ! 0) (slaves ! 1) run_time ths s;
              let s = do_loop ths (dump_end True) s;
              let (ths, s) = start_all (dump_start E False) [0..<4] s;
              (ths, s) \<leftarrow> dump_round E (\<lambda>_ ths s. Some (ths, s)) 3 (slaves ! 0) (slaves ! 1) run_time ths s;
              let s = set_timeout 60 (c_sleep 5 (do_loop ths (dump_end False) s));
              s \<leftarrow> all_nodes_query E ''set global max_connections = 100;'' s;
              alive_result E (close_maxscale_connections (try_on E tc_conn_rwsplit ''DROP TABLE IF EXISTS t1;'' s)) })"

text \<open>
  \<open>binlog_big_transaction\<close>: a thread disconnects the slaves in turn. It is neither told to end nor
  joined; \<open>sched i\<close> turns are made before transaction \<open>i\<close>.
\<close>

definition disconnect_start :: "env \<Rightarrow> 'a tc_scheme \<Rightarrow> (conn option \<times> int) \<times> 'a tc_scheme" where
  "disconnect_start E s =
     (let ob = repl s;
          (c, s) = open_conn E (tc_binlog_port s) (tc_maxscale_IP s) (mn_user_name ob) (mn_password ob) (mn_ssl ob) s
      in ((c, 3), add_result (int (mysql_errno E c s)) s))"

fun disconnect_turns :: "env \<Rightarrow> nat \<Rightarrow> conn option \<times> int \<Rightarrow> 'a tc_scheme \<Rightarrow> (conn option \<times> int) \<times> 'a tc_scheme" where
  "disconnect_turns E 0 th s = (th, s)"
| "disconnect_turns E (Suc n) (c, i) s =
     (let (_, s) = execute_query E c (''DISCONNECT SERVER '' @ int_str i) s;
          (i, s) = (if i + 1 > mn_N (repl s)
                    then (3, snd (execute_query E c ''DISCONNECT SERVER ALL'' (c_sleep 30 s)))
                    else (i + 1, s))
      in disconnect_turns E n (c, i) (c_sleep 5 s))"

definition binlog_big_transaction :: "env \<Rightarrow> (nat \<Rightarrow> nat) \<Rightarrow> 'a tc_scheme \<Rightarrow> (int \<times> 'a tc_scheme) option" where
  "binlog_big_transaction E sched s =
     (let s = reach_nodes E (set_log_copy_interval 300 (set_timeout 3000 s));
          s = c_sleep 5 (leave_nodes (run_on E (node_conn 0) ''DROP TABLE IF EXISTS t1;'' s))
      in do { (_, s) \<leftarrow> start_binlog E s;
              let (th, s) = disconnect_start E s;
              (_, s) \<leftarrow> foreachM [0..<100000]
                 (\<lambda>i th s. let (th, s) = disconnect_turns E (sched i) th s in
                    do { (rc, s) \<leftarrow> big_transaction E (node_conn 0 s) 7 (set_timeout 3000 s);
                         Some (th, add_result rc s) }) th (reach_nodes E s);
              result_of (leave_nodes s) })"

section \<open>Restarts\<close>

text \<open>
  The thread of \<open>mxs657_restart\<close> restarts the service, or MaxScale once \<open>restart_flag\<close> is set. The
  main thread sets the flag only between its two loads: in its first loop \<open>i > iter\<close> never holds.
\<close>

definition restart_turn :: "env \<Rightarrow> bool \<Rightarrow> 'a tc_scheme \<Rightarrow> 'a tc_scheme" where
  "restart_turn E restart_flag s =
     (let s = c_sleep 2 s
      in if restart_flag then restart E s else admin_cmd E ''restart service \"RW Split Router\"'' s)"

definition restart_load ::
  "env \<Rightarrow> nat list \<Rightarrow> counters \<times> counters \<Rightarrow> 'a tc_scheme
   \<Rightarrow> ((int + counters \<times> counters) \<times> 'a tc_scheme) option" where
  "restart_load E sched = (\<lambda>((selects, inserts), (new_selects, new_inserts)) s.
     do { (r, s) \<leftarrow> load E False True (if tc_smoke s then 15 else 25) sched False selects inserts new_selects new_inserts
                       (set_timeout 1200 s);
          Some (case r of Inl code \<Rightarrow> Inl code | Inr (_, arrays) \<Rightarrow> Inr arrays, s) })"

definition restart_sessions :: "env \<Rightarrow> (nat \<Rightarrow> nat) \<Rightarrow> nat \<Rightarrow> 'a tc_scheme \<Rightarrow> 'a tc_scheme" where
  "restart_sessions E sched iter s =
     do_loop [0..<iter]
       (\<lambda>i s. let s = do_loop [0..<iter] (\<lambda>_. silent_on E tc_conn_rwsplit ''SELECT 1'') (reach E s)
              in (restart_turn E False ^^ sched i) (close_maxscale_connections s)) s"

definition mxs657_restart ::
  "env \<Rightarrow> (nat \<Rightarrow> nat) \<Rightarrow> nat list \<times> nat list \<Rightarrow> counters \<times> counters \<Rightarrow> 'a tc_scheme
   \<Rightarrow> ((int + int) \<times> 'a tc_scheme) option" where
  "mxs657_restart E sched loads arrays s =
     (let s = set_timeout 2000 s;
          iter = (if tc_smoke s then 100 else 1000);
          s = reach_nodes E (restart_sessions E sched iter s);
          s = on_all_nodes (\<lambda>i. runs E (node_conn i)
                [''set global max_connections = 300;'', ''set global max_connect_errors = 100000;'']) s;
          s = (restart_turn E False ^^ sched iter) (leave_nodes s)
      in do { (r, s) \<leftarrow> restart_load E (fst loads) arrays s;
              case r of
                Inl code \<Rightarrow> Some (Inl code, s)
              | Inr arrays \<Rightarrow>
                  do { (r, s) \<leftarrow> restart_load E (snd loads) arrays ((restart_turn E True ^^ sched (iter + 1)) s);
                       case r of
                         Inl code \<Rightarrow> Some (Inl code, s)
                       | Inr _ \<Rightarrow>
                           do { (rval, s) \<leftarrow> alive_result E ((restart_turn E True ^^ sched (iter + 2)) s);
                                Some (Inr rval, s) } } })"

text \<open>
  Shutting down and restarting a component from five threads. The exit flag is not reset: the
  threads of the second and third round make no turn.
\<close>

definition shutdown_turn :: "env \<Rightarrow> string \<Rightarrow> 'a tc_scheme \<Rightarrow> 'a tc_scheme" where
  "shutdown_turn E name s =
     admin_cmd E (''restart service \"'' @ name @ [CHR 0x22]) (admin_cmd E (''shutdown service \"'' @ name @ [CHR 0x22]) s)"

definition sht_rst_service :: "env \<Rightarrow> string \<Rightarrow> nat \<Rightarrow> bool \<times> 'a tc_scheme \<Rightarrow> bool \<times> 'a tc_scheme" where
  "sht_rst_service E name turns = (\<lambda>(exit_flag, s).
     (True, c_sleep 10 (if exit_flag then s else (shutdown_turn E name ^^ turns) s)))"

definition mxs657_restart_service :: "env \<Rightarrow> (nat \<Rightarrow> nat) \<Rightarrow> 'a tc_scheme \<Rightarrow> (int \<times> 'a tc_scheme) option" where
  "mxs657_restart_service E sched s =
     (let (_, s) = sht_rst_service E ''MySQL Monitor'' (sched 2)
                     (sht_rst_service E ''RW Split Listener'' (sched 1)
                       (sht_rst_service E ''RW Split Router'' (sched 0) (False, s)))
      in do { (_, s) \<leftarrow> check_maxscale_alive E s; result_of (log_lacks E [''received fatal signal''] s) })"

section \<open>Opening and closing\<close>

text \<open>A thread ends when a failure was counted, by whichever thread.\<close>

definition use_test :: "env \<Rightarrow> conn option \<Rightarrow> 'a tc_scheme \<Rightarrow> 'a tc_scheme" where
  "use_test E c s = (case c of None \<Rightarrow> s | Some _ \<Rightarrow> mysql_close c (try_on E (\<lambda>_. c) ''USE test'' s))"

definition open_close_turn :: "env \<Rightarrow> bool \<Rightarrow> 'a tc_scheme \<Rightarrow> bool \<times> 'a tc_scheme" where
  "open_close_turn E running s =
     (if \<not> running \<or> tc_global_result s \<noteq> 0 then (False, s)
      else
        let (c1, s) = open_rwsplit_connection E s;
            s = add_result (int (mysql_errno E c1 s)) s;
            (c2, s) = open_readconn_master_connection E s;
            s = add_result (int (mysql_errno E c2 s)) s;
            (c3, s) = open_readconn_slave_connection E s;
            s = add_result (int (mysql_errno E c3 s)) s
        in (True, use_test E c3 (use_test E c2 (use_test E c1 s))))"

fun open_close_seconds :: "env \<Rightarrow> (nat \<Rightarrow> nat list) \<Rightarrow> nat list \<Rightarrow> bool list \<Rightarrow> 'a tc_scheme \<Rightarrow> 'a tc_scheme option" where
  "open_close_seconds E sched [] ths s = Some s"
| "open_close_seconds E sched (i # is) ths s =
     (if tc_global_result s \<noteq> 0 then Some s
      else do { (ths, s) \<leftarrow> take_turns (\<lambda>th s. Some (open_close_turn E th s)) (sched i) ths (c_sleep 1 s);
                open_close_seconds E sched is ths s })"

definition open_close_connections :: "env \<Rightarrow> (nat \<Rightarrow> nat list) \<Rightarrow> 'a tc_scheme \<Rightarrow> (int \<times> 'a tc_scheme) option" where
  "open_close_connections E sched s =
     (let run_time = (if tc_smoke s then 10 else 300) in
      do { s \<leftarrow> all_nodes_query E ''set global max_connections = 50000;'' (on_maxscale E True sysctl_tcp s);
           s \<leftarrow> sync_repl E s;
           s \<leftarrow> open_close_seconds E sched [0..<run_time] (replicate 20 True) s;
           alive_result E s })"

text \<open>Prepared statements on connections that may be lost.\<close>

definition test_ps :: "env \<Rightarrow> conn option \<Rightarrow> 'a tc_scheme \<Rightarrow> 'a tc_scheme" where
  "test_ps E c s =
     (let (st, s) = stmt_new E c s
      in do_loop [StmtPrepare ''SELECT ?, ?, ?, ?'', StmtBindParam, StmtExecute, StmtClose]
           (\<lambda>op s. snd (stmt_call E st op s)) s)"

definition mxs812_turn :: "env \<Rightarrow> 'a tc_scheme \<Rightarrow> 'a tc_scheme" where
  "mxs812_turn E s =
     (let (c, s) = open_rwsplit_connection E s in mysql_close c (do_loop [0..<3] (\<lambda>_. test_ps E c) s))"

definition mxs812_2 :: "env \<Rightarrow> (nat \<Rightarrow> nat) \<Rightarrow> 'a tc_scheme \<Rightarrow> (int \<times> 'a tc_scheme) option" where
  "mxs812_2 E sched s =
     (let s = do_loop [0..<5]
            (\<lambda>i s. let s = block0 E ((mxs812_turn E ^^ sched (2 * i)) (c_sleep 5 s))
                   in unblock0 E ((mxs812_turn E ^^ sched (2 * i + 1)) (c_sleep 5 s))) s
      in do { (_, s) \<leftarrow> check_maxscale_alive E (c_sleep 5 (stop_timeout s));
              s \<leftarrow> check_current_operations E 0 s;
              result_of s })"

text \<open>
  A thread of \<open>rwsplit_readonly_stress\<close> is the queries it has made, in hundreds; in every second turn
  it uses the service for the master.
\<close>

definition stress_turn :: "env \<Rightarrow> nat \<Rightarrow> 'a tc_scheme \<Rightarrow> (nat \<times> 'a tc_scheme) option" where
  "stress_turn E iter s =
     (let (c, s) = (if iter mod 200 = 0 then open_readconn_master_connection E s else open_readconn_slave_connection E s);
          s = do_loop [0..<100]
                (\<lambda>_ s. let (rc, s) = execute_query_silent E c ''select repeat('a', 1000)'' s
                       in if rc \<noteq> 0 then add_result 1 s else s) s
      in Some (iter + 100, mysql_close c s))"

definition rwsplit_readonly_stress :: "env \<Rightarrow> (nat \<Rightarrow> nat list) \<Rightarrow> 'a tc_scheme \<Rightarrow> (int \<times> 'a tc_scheme) option" where
  "rwsplit_readonly_stress E sched s =
     (let s = (stop_timeout s)\<lparr>tc_log_copy_interval := 300\<rparr>;
          s = admin_cmd E ''disable log-priority info'' s;
          iterations = (if tc_smoke s then 5 else 25)
      in do { (ths, s) \<leftarrow> foreachM [0..<iterations]
                (\<lambda>i ths s.
                   do { (ths, s) \<leftarrow> take_turns (stress_turn E) (sched (2 * i)) ths (c_sleep 10 (block0 E s));
                        take_turns (stress_turn E) (sched (2 * i + 1)) ths (c_sleep 10 (unblock0 E s)) })
                (replicate 16 0) s;
              s \<leftarrow> flush_repl E s;
              result_of s })"

section \<open>Sysbench with a slave that is blocked\<close>

text \<open>
  The thread is neither joined nor waited for: \<open>Before\<close> says that it has blocked its slave before
  sysbench ended, \<open>After\<close> that it does so when the main thread has looked at \<open>old_slave\<close>, an
  unsigned number that keeps its value from the round before.
\<close>

datatype killed = Before | After

definition kill_slave :: "env \<Rightarrow> 'a tc_scheme \<Rightarrow> (32 word \<times> 'a tc_scheme) option" where
  "kill_slave E s =
     do { (slave, s) \<leftarrow> find_connected_slave1 E (c_sleep 20 s);
          let old_slave = (word_of_int slave :: 32 word);
          let old_slave = (if 1 \<le> old_slave \<and> old_slave \<le> word_of_int (mn_N (repl s)) then old_slave else 1);
          Some (old_slave, snd (block_node E (tc_repl s) (unat old_slave) s)) }"

definition restore_slave :: "env \<Rightarrow> 32 word \<Rightarrow> 'a tc_scheme \<Rightarrow> 'a tc_scheme" where
  "restore_slave E old_slave s =
     (if 1 \<le> old_slave \<and> old_slave \<le> word_of_int (mn_N (repl s))
      then snd (unblock_node E (tc_repl s) (unat old_slave) s) else s)"

definition kill_round ::
  "env \<Rightarrow> killed \<times> int \<Rightarrow> 32 word \<Rightarrow> 'a tc_scheme \<Rightarrow> (32 word \<times> 'a tc_scheme) option" where
  "kill_round E = (\<lambda>(when, port) old_slave s.
     let readonly = (if port = tc_readconn_slave_port s then ''on'' else ''off'');
         command = (if tc_smoke s then sysbench_command1 else sysbench_command)
     in do { (old_slave, s) \<leftarrow> (if when = Before then kill_slave E s else Some (old_slave, s));
             s \<leftarrow> sysbench_run E (command (tc_sysbench_dir s) (tc_maxscale_IP s) port readonly) s;
             let s = restore_slave E old_slave s;
             (old_slave, s) \<leftarrow> (if when = After then kill_slave E s else Some (old_slave, s));
             let (_, s) = start_replication E (tc_repl s) (c_sleep 60 s);
             Some (old_slave, c_sleep 30 s) })"

definition sysbench_kill_slave :: "env \<Rightarrow> killed \<times> killed \<times> killed \<Rightarrow> 'a tc_scheme \<Rightarrow> (int \<times> 'a tc_scheme) option" where
  "sysbench_kill_slave E = (\<lambda>(k1, k2, k3) s.
     let prepare = (if tc_smoke s then sysbench_prepare1 else sysbench_prepare);
         rounds = [(k1, tc_rwsplit_port s), (k2, tc_readconn_master_port s), (k3, tc_readconn_slave_port s)]
     in do { s \<leftarrow> sysbench_counted E (prepare (tc_sysbench_dir s) (tc_maxscale_IP s)) (set_timeout 5000 s);
             (_, s) \<leftarrow> foreachM rounds (kill_round E) 0 (set_timeout 2000 s);
             alive_result E (drop_sysbench_tables E s) })"

section \<open>MaxInfo\<close>

text \<open>A turn asks for one of the resources, which \<open>rand\<close> chooses: \<open>choices\<close> are its values, in order.\<close>

definition resources :: "string list" where
  "resources = [''variables'', ''status'', ''services'', ''listeners'', ''modules'', ''sessions'', ''clients'', ''servers'']"

definition maxinfo_turn :: "env \<Rightarrow> nat \<Rightarrow> 'a tc_scheme \<Rightarrow> 'a tc_scheme option" where
  "maxinfo_turn E r s =
     do { (result, s) \<leftarrow> get_maxinfo E (resources ! (r mod 8)) s;
          Some (if result = None then add_result 1 s else s) }"

definition maxinfo :: "env \<Rightarrow> nat list \<Rightarrow> 'a tc_scheme \<Rightarrow> (int \<times> 'a tc_scheme) option" where
  "maxinfo E choices s =
     (let sleep_time = (if tc_smoke s then 30 else 1000) in
      do { s \<leftarrow> do_loopM choices (maxinfo_turn E) (c_sleep sleep_time (set_timeout (int sleep_time + 100) s));
           alive_result E (set_timeout 120 s) })"

section \<open>A large file\<close>

text \<open>
  A line of the file \<open>mxs365\<close> loads. \<open>i << 10 + i\<close> shifts by \<open>10 + i\<close>; a shift by the width of the
  type, or one whose value does not even fit the unsigned type, has no result.
\<close>

definition shift_left :: "nat \<Rightarrow> nat \<Rightarrow> nat option" where
  "shift_left i k = (if k < 32 \<and> i * 2 ^ k < 2 ^ 32 then Some (i * 2 ^ k) else None)"

fun hex_str :: "nat \<Rightarrow> string" where
  "hex_str n = (if n < 16 then [hexconvtab ! n] else hex_str (n div 16) @ [hexconvtab ! (n mod 16)])"

declare hex_str.simps [simp del]

definition data_line :: "nat \<Rightarrow> string option" where
  "data_line i =
     do { a \<leftarrow> shift_left i (10 + i);
          b \<leftarrow> shift_left i (5 + i);
          Some (nat_str i @ '','' @ quote @ hex_str a @ quote @ '','' @ quote @ hex_str b @ quote @ [newline]) }"

text \<open>
  Lines are written until the file has 50 MB. A write either takes the whole line or fails, which ends
  the loop.
\<close>

partial_function (option) data_lines :: "env \<Rightarrow> string \<Rightarrow> nat \<Rightarrow> nat \<Rightarrow> 'a world_scheme \<Rightarrow> 'a world_scheme option" where
  "data_lines E file i filesize s =
     (if filesize < 1024 * 1024 * 50
      then do { line \<leftarrow> data_line i;
                if fs_write E (trace s) file
                then data_lines E file (i + 1) (filesize + length line) (emit (EAppendFile file line) s)
                else Some s }
      else Some s)"

text \<open>The first name that is not taken yet.\<close>

partial_function (option) free_name :: "env \<Rightarrow> nat \<Rightarrow> 'a world_scheme \<Rightarrow> (string \<times> 'a world_scheme) option" where
  "free_name E i s =
     (let file = ''local_infile_'' @ nat_str i; ok = fs_open E (trace s) file; s = emit (EOpen file) s
      in if ok then Some (file, s) else free_name E (i + 1) s)"

definition create_data_file :: "env \<Rightarrow> 'a world_scheme \<Rightarrow> (string \<times> 'a world_scheme) option" where
  "create_data_file E s =
     do { (file, s) \<leftarrow> free_name E 0 s; s \<leftarrow> data_lines E file 0 0 s; Some (file, s) }"

definition mxs365 :: "env \<Rightarrow> 'a tc_scheme \<Rightarrow> (int \<times> 'a tc_scheme) option" where
  "mxs365 E s =
     do { (filename, s) \<leftarrow> create_data_file E (set_timeout 30 s);
          let s = do_loop
            [''set global max_allowed_packet=(1048576 * 60)'', ''DROP TABLE IF EXISTS test.dump'',
             ''CREATE TABLE test.dump(a int, b varchar(80), c varchar(80))''] (counted_on E tc_conn_rwsplit)
            (reach E (set_timeout 20 s));
          let s = reach E (set_timeout 20 (close_maxscale_connections s));
          let s = counted_on E tc_conn_rwsplit
            (''LOAD DATA LOCAL INFILE '' @ quote @ filename @ quote @ '' INTO TABLE test.dump FIELDS TERMINATED BY ',''
             @ quote) (set_timeout 100 s);
          let s = counted_on E tc_conn_rwsplit ''SELECT * FROM test.dump'' (set_timeout 100 s);
          alive_result E (close_maxscale_connections s) }"

section \<open>The CDC client\<close>

text \<open>
  A thread inserts a row whenever \<open>insert_val\<close> is set, and clears it; \<open>sched k\<close> says whether it does so
  before the main thread waits for the \<open>k\<close>th time. What \<open>epoll_ctl\<close> and \<open>epoll_wait\<close> return is given by
  \<open>ctl\<close> and \<open>wait\<close>.
\<close>

definition cdc_insert :: "env \<Rightarrow> bool \<Rightarrow> int \<Rightarrow> 'a tc_scheme \<Rightarrow> int \<times> 'a tc_scheme" where
  "cdc_insert E turn insert_val s =
     (if turn \<and> insert_val \<noteq> 0
      then (0, run_on E (node_conn 0)
                 (''INSERT INTO t1 VALUES ('' @ int_str insert_val @ '', '' @ int_str (insert_val + 100) @ '')'') s)
      else (insert_val, s))"

text \<open>
  The two first reads are ignored. Then every read is a row; \<open>fl\<close>, which \<open>get_x_fl_from_json\<close> does not
  set, is printed, and so is \<open>x1\<close>.
\<close>

partial_function (option) cdc_loop ::
  "env \<Rightarrow> (hist \<Rightarrow> int) \<Rightarrow> (nat \<Rightarrow> bool) \<Rightarrow> int \<Rightarrow> sockfd \<Rightarrow> nat \<Rightarrow> int \<Rightarrow> int \<Rightarrow> nat \<Rightarrow> 'a tc_scheme
   \<Rightarrow> ((bool \<times> int) \<times> 'a tc_scheme) option" where
  "cdc_loop E wait sched max_val sock k insert_val inserted ignore_first s =
     (if inserted \<ge> max_val then Some ((True, insert_val), s)
      else
        let s = set_timeout 60 s;
            (insert_val, s) = cdc_insert E (sched k) insert_val s;
            nfds = wait (trace s)
        in if nfds < 0 then Some ((False, insert_val), s)
           else if nfds = 0 then cdc_loop E wait sched max_val sock (k + 1) insert_val inserted ignore_first s
           else do {
             (json, s) \<leftarrow> read_sc E sock s;
             if ignore_first = 1 then cdc_loop E wait sched max_val sock (k + 1) 10 10 0 s
             else if ignore_first > 0
             then cdc_loop E wait sched max_val sock (k + 1) insert_val inserted (ignore_first - 1) s
             else do {
               (_, x1) \<leftarrow> get_x_fl_from_json E json;
               x1 \<leftarrow> x1;
               fl \<leftarrow> (None :: int option);
               cdc_loop E wait sched max_val sock (k + 1) (inserted + 1) (inserted + 1) 0 s } })"

definition reg_str :: string where
  "reg_str = ''REGISTER UUID=XXX-YYY_YYY, TYPE=JSON''"

definition req_str :: string where
  "req_str = ''REQUEST-DATA test.t1''"

definition cdc_com ::
  "env \<Rightarrow> (hist \<Rightarrow> int) \<Rightarrow> (hist \<Rightarrow> int) \<Rightarrow> (nat \<Rightarrow> bool) \<Rightarrow> 'a tc_scheme \<Rightarrow> ((bool \<times> int) \<times> 'a tc_scheme) option" where
  "cdc_com E ctl wait sched s =
     (let max_val = (if tc_smoke s then 25 else 100);
          (sock, s) = create_tcp_socket E s in
      case get_ip E (tc_maxscale_IP s) s of
        None \<Rightarrow> Some ((False, 0), s)
      | Some ip \<Rightarrow>
          if net_parse E ip \<le> 0 then Some ((False, 0), s)
          else
            let (rc, s) = sock_connect E sock ip 4001 s in
            if rc < 0 then Some ((False, 0), s)
            else do {
              get \<leftarrow> cdc_auth_srt E ''skysql'' ''skysql'';
              (rc, s) \<leftarrow> send_so E sock get s;
              if rc \<noteq> 0 then Some ((False, 0), s)
              else do {
                (rc, s) \<leftarrow> send_so E sock reg_str (snd (sock_read E sock 1024 s));
                if rc \<noteq> 0 then Some ((False, 0), s)
                else do {
                  (rc, s) \<leftarrow> send_so E sock req_str (snd (sock_read E sock 1024 s));
                  if rc \<noteq> 0 then Some ((False, 0), s)
                  else
                    let s = stop_timeout s in
                    if ctl (trace s) < 0 then Some ((False, 0), s)
                    else
                      let (_, s) = setnonblocking E sock s in
                      do { ((ok, insert_val), s) \<leftarrow> cdc_loop E wait sched max_val sock 0 0 0 2 s;
                           Some ((ok, insert_val), if ok then sock_close sock s else s) } } } })"

definition cdc_client ::
  "env \<Rightarrow> (hist \<Rightarrow> int) \<Rightarrow> (hist \<Rightarrow> int) \<Rightarrow> (nat \<Rightarrow> bool) \<Rightarrow> bool \<Rightarrow> 'a tc_scheme \<Rightarrow> (int \<times> 'a tc_scheme) option" where
  "cdc_client E ctl wait sched last_turn s =
     do { (_, s) \<leftarrow> stop_maxscale E (set_timeout 600 s);
          let s = on_maxscale E True
            (''rm -rf /var/lib/maxscale/avro;'' @
             ''iptables -n -L INPUT|grep 4001 || iptables -I INPUT -p tcp --dport 4001 -j ACCEPT;'') s;
          let s = run_on E (node_conn 0) ''DROP TABLE IF EXISTS t1;'' (reach_nodes E s);
          (_, s) \<leftarrow> start_binlog E (c_sleep 5 (leave_nodes s));
          (_, s) \<leftarrow> stop_maxscale E (set_timeout 120 s);
          let s = set_timeout 120 (on_maxscale E True ''rm -rf /var/lib/maxscale/avro'' s);
          let (_, s) = start_maxscale E s;
          let s = reach_nodes E (set_timeout 60 s);
          let (_, s) = create_t1 E (node_conn 0 s) s;
          let s = leave_nodes (run_on E (node_conn 0) ''INSERT INTO t1 VALUES (111, 222)'' s);
          let s = set_timeout 120 (c_sleep 15 (stop_timeout s));
          ((ok, insert_val), s) \<leftarrow> cdc_com E ctl wait sched (reach_nodes E s);
          let s = (if ok then s else add_result 1 s);
          let (_, s) = cdc_insert E last_turn insert_val s;
          result_of (leave_nodes s) }"

section \<open>Lag\<close>

text \<open>
  \<open>slave_lag\<close> as a whole: a hundred threads insert while the lag is checked a thousand times.
  \<open>garbage\<close> is what the variable holds that \<open>check_lag\<close> compares with and never sets; \<open>waits\<close> is how
  often the main thread sleeps until the first thread has ended. The process exits when there is no
  connection.
\<close>

definition lag_thread :: "env \<Rightarrow> 'a tc_scheme \<Rightarrow> conn option \<times> 'a tc_scheme" where
  "lag_thread E s =
     (let ob = repl s in open_conn E (mn_port ob 0) (mn_IP ob 0) (mn_user_name ob) (mn_password ob) (mn_ssl ob) s)"

definition lag_insert :: "env \<Rightarrow> string \<Rightarrow> conn option \<Rightarrow> 'a tc_scheme \<Rightarrow> (conn option \<times> 'a tc_scheme) option" where
  "lag_insert E sql c s = Some (c, silent_on E (\<lambda>_. c) sql s)"

definition slave_lag ::
  "env \<Rightarrow> (nat \<Rightarrow> nat list) \<Rightarrow> int \<Rightarrow> nat \<Rightarrow> 'a tc_scheme \<Rightarrow> ((int + int) \<times> 'a tc_scheme) option" where
  "slave_lag E sched garbage waits s =
     (let s = reach_nodes E (set_timeout 2000 s);
          (_, s) = connect_rwsplit E s
      in if tc_conn_rwsplit s = None then Some (Inl 1, s)
         else
           let s = on_all_nodes (\<lambda>i. run_on E (node_conn i) ''set global max_connections = 200;'') s;
               (_, s) = create_t1 E (tc_conn_rwsplit s) s;
               (_, s) = create_t2 E (tc_conn_rwsplit s) s
           in do {
             sql \<leftarrow> into_block 1000000 (create_insert_string 50000 1);
             let (ths, s) = start_all (\<lambda>_. lag_thread E) [0..<100] s;
             let s = run_on E tc_conn_rwsplit ''select @@server_id; -- maxscale max_slave_replication_lag=10'' s;
             ((_, server1_id), s) \<leftarrow> find_field E (node_conn 0 s) ''select @@server_id;'' ''@@server_id'' s;
             _ \<leftarrow> server1_id;
             (_, s) \<leftarrow> foreachM [0..<1000]
               (\<lambda>i ths s. do { (ths, s) \<leftarrow> take_turns (lag_insert E sql) (sched i) ths s;
                               s \<leftarrow> lag_turn E garbage s;
                               Some (ths, s) }) ths (close_rwsplit s);
             let s = leave_nodes (do_loop [0..<waits] (\<lambda>_. c_sleep 5) s);
             let (_, s) = start_replication E (tc_repl s) s;
             Some (Inr (tc_global_result s), s) })"

end
