(* ===== verification/Step_Props.thy ===== *)
theory Step_Props
  imports Thread_Tests Test_Lemmas Big_Data_Props
begin

text \<open>
  Properties of the test programs that are made of steps: what a test cannot report, what it does
  not test, and which of its texts fit their buffers.
\<close>

section \<open>Calls only add to the log\<close>

lemma emit_result [simp]: "tc_global_result (emit e s) = tc_global_result s"
  by (simp add: emit_def)

lemma close_maxscale_result [simp]: "tc_global_result (close_maxscale_connections s) = tc_global_result s"
  by (simp add: close_maxscale_connections_def Let_def)

lemma reach_result [simp]: "tc_global_result (reach E s) = tc_global_result s"
  using connect_maxscale_frame[of E s] by (simp add: reach_def)

section \<open>Bulk inserts\<close>

text \<open>To show something of a computation, show it of what follows its first call.\<close>

lemma after_call:
  "(\<And>b. P (h b (emit (EQuery c sql) s))) \<Longrightarrow> P (case sql_fails E c sql s of (b, s) \<Rightarrow> h b s)"
  "(\<And>r. P (k r (emit (EStmt st op) s))) \<Longrightarrow> P (case stmt_call E st op s of (r, s) \<Rightarrow> k r s)"
  "(\<And>st. P (l st (emit (EStmt st (StmtInit c)) s))) \<Longrightarrow> P (case stmt_new E c s of (st, s) \<Rightarrow> l st s)"
  "(\<And>rep. P (m rep (emit (EQuery c sql) s))) \<Longrightarrow> P (case mysql_query E c sql s of (rep, s) \<Rightarrow> m rep s)"
  by (simp_all add: sql_fails_def mysql_query_def stmt_call_def stmt_new_def Let_def)

text \<open>A code that is not negative, and the number of failures as it was.\<close>

definition no_worse :: "int \<Rightarrow> int \<times> 'a tc_scheme \<Rightarrow> bool" where
  "no_worse g p \<longleftrightarrow> 0 \<le> fst p \<and> tc_global_result (snd p) = g"

lemma no_worse_pair: "0 \<le> r \<Longrightarrow> tc_global_result s = g \<Longrightarrow> no_worse g (r, s)"
  by (simp add: no_worse_def)

lemma no_worse_if: "no_worse g p \<Longrightarrow> no_worse g q \<Longrightarrow> no_worse g (if b then p else q)"
  by simp

lemma bind_by_column_no_worse: "no_worse (tc_global_result s) (bind_by_column E c s)"
  unfolding bind_by_column_def Let_def
  by (intro after_call[of "no_worse (tc_global_result s)"] no_worse_if no_worse_pair
      | simp only: prod.case | simp add: mysql_store_def)+

text \<open>A result is 1, and the number of failures as it was.\<close>

definition row_failed :: "int \<Rightarrow> (int \<times> 'a tc_scheme) option \<Rightarrow> bool" where
  "row_failed g p \<longleftrightarrow> (\<forall>r t. p = Some (r, t) \<longrightarrow> r = 1 \<and> tc_global_result t = g)"

lemma row_failed_end:
  "tc_global_result s = g \<Longrightarrow> row_failed g (Some (1, s))" "row_failed g None"
  "row_failed g p \<Longrightarrow> row_failed g q \<Longrightarrow> row_failed g (if b then p else q)"
  by (simp_all add: row_failed_def)

lemma bind_by_row_failed: "row_failed (tc_global_result s) (bind_by_row E c s)"
  unfolding bind_by_row_def Let_def
  by (intro after_call[of "row_failed (tc_global_result s)"] row_failed_end
      | simp only: prod.case | simp add: mysql_store_def)+

lemma bind_by_row_result:
  "bind_by_row E c s = Some (r, t) \<Longrightarrow> r = 1 \<and> tc_global_result t = tc_global_result s"
  using bind_by_row_failed[of s E c] by (simp add: row_failed_def)


lemma dead_calls:
  "sql_fails dead_env c sql s = (True, emit (EQuery c sql) s)"
  "stmt_call dead_env st op s = (1, emit (EStmt st op) s)"
  "stmt_new dead_env c s = (None, emit (EStmt None (StmtInit c)) s)"
  "mysql_query dead_env c sql s = (QFail, emit (EQuery c sql) s)"
  by (simp_all add: sql_fails_def stmt_call_def stmt_new_def mysql_query_def dead_env_def)

lemma dead_bulk:
  "\<exists>t. bind_by_column dead_env c s = (1, t)" "\<exists>t. bind_by_row dead_env c s = Some (1, t)"
  by (simp_all add: bind_by_column_def bind_by_row_def dead_calls)


section \<open>Sysbench\<close>


section \<open>Restarting components\<close>

text \<open>
  C34. What the threads do in the second and third round of \<open>mxs657_restart_service\<close> makes no difference:
  they do nothing, and the listener and the monitor are never shut down.
\<close>

theorem later_rounds_idle:
  assumes "sched 0 = sched' 0"
  shows "mxs657_restart_service E sched s = mxs657_restart_service E sched' s"
  using assms by (simp add: mxs657_restart_service_def sht_rst_service_def)

theorem later_rounds_idle_witness:
  "mxs657_restart_service dead_env (\<lambda>_. 3) blank_tc = mxs657_restart_service dead_env ((\<lambda>_. 7)(0 := 3)) blank_tc"
  by (rule later_rounds_idle) simp

section \<open>A large file\<close>

lemma length_hex_str: "n < 16 ^ d \<Longrightarrow> 0 < d \<Longrightarrow> length (hex_str n) \<le> d"
proof (induction d arbitrary: n)
  case (Suc d)
  show ?case
  proof (cases "n < 16")
    case False
    with Suc.prems have "0 < d" "n div 16 < 16 ^ d" by (cases d; simp add: less_mult_imp_div_less mult.commute)+
    then show ?thesis using Suc.IH False by (subst hex_str.simps) simp
  qed (simp add: hex_str.simps)
qed simp

lemma shift_left_short:
  assumes "shift_left i k = Some a"
  shows "length (hex_str a) \<le> 8"
  using assms length_hex_str[of a 8] by (auto simp: shift_left_def split: if_split_asm)

lemma shifts_defined:
  assumes "i < 18"
  shows "shift_left i (10 + i) \<noteq> None" "shift_left i (5 + i) \<noteq> None"
proof -
  have "i * 2 ^ (10 + i) \<le> 17 * 2 ^ (10 + 17 :: nat)" using assms by (intro mult_le_mono power_increasing) simp_all
  moreover have "i * 2 ^ (5 + i) \<le> 17 * 2 ^ (5 + 17 :: nat)" using assms by (intro mult_le_mono power_increasing) simp_all
  ultimately show "shift_left i (10 + i) \<noteq> None" "shift_left i (5 + i) \<noteq> None"
    using assms by (simp_all add: shift_left_def)
qed

lemma data_line_short:
  assumes "i < 18"
  shows "\<exists>line. data_line i = Some line \<and> length line \<le> 100"
proof -
  obtain a b where "shift_left i (10 + i) = Some a" "shift_left i (5 + i) = Some b" using shifts_defined[OF assms] by auto
  moreover from this[THEN shift_left_short] have "length (hex_str a) \<le> 8" "length (hex_str b) \<le> 8" .
  moreover have "length (nat_str i) \<le> 2" using assms length_nat_str_digits[of i 2] by simp
  ultimately show ?thesis by (simp add: data_line_def quote_def)
qed

lemma data_line_18: "data_line 18 = None"
  by (simp add: data_line_def shift_left_def)

lemma data_lines_undefined:
  assumes "\<forall>h file. fs_write E h file" "i + k = 18" "filesize \<le> i * 100"
  shows "data_lines E file i filesize s = None"
  using assms(2,3)
proof (induction k arbitrary: i filesize s)
  case 0
  then show ?case by (subst data_lines.simps) (simp add: data_line_18)
next
  case (Suc k)
  then obtain line where line: "data_line i = Some line" "length line \<le> 100" using data_line_short[of i] by auto
  then have "data_lines E file (i + 1) (filesize + length line) t = None" for t :: "'a world_scheme"
    using Suc.prems by (intro Suc.IH) simp_all
  with line(1) assms(1) Suc.prems show ?case by (subst data_lines.simps) simp
qed

lemma create_data_file_undefined:
  assumes "\<forall>h file. fs_write E h file"
  shows "create_data_file E s = None"
proof -
  have "data_lines E f 0 0 u = None" for f and u :: "'a world_scheme"
    by (rule data_lines_undefined[OF assms, of 0 18]) simp_all
  then show ?thesis by (auto simp: create_data_file_def split: bind_splits)
qed

text \<open>
  C33. While its writes succeed, \<open>create_data_file\<close> has undefined behaviour before the file has its size:
  the nineteenth line shifts a number out of its type. So the test that loads the file has no result.
\<close>

theorem create_data_file_fails:
  assumes "\<forall>h file. fs_write E h file"
  shows "create_data_file E s = None \<and> mxs365 E t = None"
  by (simp add: mxs365_def create_data_file_undefined[OF assms])

theorem create_data_file_fails_witness:
  "create_data_file (dead_env\<lparr>fs_write := \<lambda>_ _. True, fs_open := \<lambda>_ _. True\<rparr>) start_world = None"
  using create_data_file_fails[of "dead_env\<lparr>fs_write := \<lambda>_ _. True, fs_open := \<lambda>_ _. True\<rparr>" start_world blank_tc]
  by simp

section \<open>Printed texts\<close>

text \<open>A text of up to 65536 rows with a one-digit \<open>fl\<close> fits a buffer of a million bytes.\<close>

lemma insert_text_fits:
  assumes "n \<le> 65536" "k < 10"
  shows "into_block 1000000 (create_insert_string (int n) (int k)) = Some (create_insert_string (int n) (int k))"
proof -
  have "length (tuple_text (int n) (int k)) \<le> 11"
    using length_nat_str_digits[of n 5] length_nat_str_digits[of k 1] assms by (simp add: tuple_text_def int_str_def)
  then have "length (concat (map (\<lambda>i. tuple_text (int i) (int k)) [0..<n])) \<le> n * 11"
    using length_tuples[of n n "int k"] by (meson le_refl le_trans mult_le_mono2)
  then have "length (ins1 @ concat (map (\<lambda>i. tuple_text (int i) (int k)) [0..<n])) \<le> 65536 * 11 + 40"
    using assms(1) by (simp add: ins1_def)
  then show ?thesis
    using length_before_last_comma[of "ins1 @ concat (map (\<lambda>i. tuple_text (int i) (int k)) [0..<n])"]
    by (simp add: create_insert_string_def into_block_def)
qed

text \<open>So the generator prints all four texts, and no thread that inserts runs over its buffer.\<close>

lemma generate_log_sql_complete: "\<exists>a b c d. generate_log_sql = Some [a, b, c, d]"
  using insert_text_fits[of 16 0] insert_text_fits[of 256 1] insert_text_fits[of 4096 2] insert_text_fits[of 65536 3]
  by (simp add: generate_log_sql_def)

end
