(* ===== verification/Spec2Isabelle.thy ===== *)
theory Spec2Isabelle
  imports Func_Props Nodes_Props Sql_Props Watchdog_Props Test_Props Maxadmin_Props Cdc_Props Maxinfo_Props
    Cdc_Test_Props Config_Props Config_Test_Props Big_Data_Props Big_Load Binlog_Props
    Rds_Props Maxrows_Props Monitor_Props Change_Props
    Failover_Props Step_Props
begin

text \<open>
  A model of the test framework of MariaDB MaxScale (\<open>src/maxscale-system-test\<close>): the library
  with which some two hundred test programs set up backend clusters and MaxScale, send
  statements, watch what happens and count failures. File names below are relative to that
  directory.

  \<^bold>\<open>The program and its parts.\<close> A test constructs a \<open>TestConnections\<close> object
  (\<open>testconnections.cpp\<close>). It owns two \<open>Mariadb_nodes\<close> objects (\<open>mariadb_nodes.cpp\<close>), a
  master/slave and a Galera cluster, reads its settings from the environment, repairs broken
  clusters, configures and starts MaxScale over ssh, and runs two threads, one of which ends a
  test that takes too long. Statements go through \<open>mariadb_func.cpp\<close>. Around this object stand
  helpers: the test table \<open>t1\<close> (\<open>sql_t1.cpp\<close>), changes of the configuration at run time
  (\<open>config_operations.cpp\<close>), the MaxAdmin, MaxInfo and CDC clients (\<open>maxadmin_operations.cpp\<close>,
  \<open>maxinfo_func.cpp\<close>, \<open>cdc_connector.cpp\<close>), load and large data (\<open>big_load.cpp\<close>,
  \<open>big_transaction.cpp\<close>, \<open>blob_test.cpp\<close>, \<open>different_size.cpp\<close>), checks of the binlog router
  (\<open>test_binlog_fnc.cpp\<close>), clusters in a cloud (\<open>rds_vpc.cpp\<close>). A test program is a \<open>main\<close> over
  these operations: it constructs the object, performs its steps, destroys the object and exits
  with the number of failures.

  \<^bold>\<open>How it is modelled.\<close> Everything outside the repository (client library, shell, files,
  sockets, clock, JSON parser) is the record \<open>env\<close> of theory \<open>World\<close>, an argument of every
  operation: one function per library call, which gives the result from the history of calls.
  The history is the log \<open>trace\<close> of the state, to which every call adds an event; nothing is
  assumed of \<open>env\<close> except in hypotheses of theorems, and the witnesses instantiate it with
  concrete functions. The states are records that extend each other: \<open>world\<close> (the log), \<open>sys\<close> (a
  heap of node objects), \<open>t1w\<close> (the cache of INSERT texts), \<open>tc\<close> (the fields of the test object
  and the static settings of its class), \<open>cfg\<close> (the two sets of a \<open>Config\<close> object); \<open>rds\<close> (the fields of an \<open>RDS\<close> object)
  extends \<open>world\<close>. An operation
  that always ends with a result has type \<open>'s \<Rightarrow> 'a \<times> 's\<close>; one that can have undefined behaviour or
  need not return has type \<open>'s \<Rightarrow> ('a \<times> 's) option\<close>, and \<^const>\<open>None\<close> is that case: reading an
  uninitialised buffer, dereferencing a null pointer, writing behind a block, a loop without
  end. A process exit is the left side of a sum. Numbers that can wrap or overflow are kept at
  their width or checked.

  \<^bold>\<open>The theories.\<close>
  \<^item> \<open>Prelude\<close>: loops, C strings, printed and scanned numbers, and the rules for them.
  \<^item> \<open>World\<close>: the environment, the log and the library calls. \<open>Sockets\<close>: reads and writes;
    the locale \<open>logged_call\<close> treats the repetition of an interrupted call, the locale
    \<open>accumulator\<close> readers that keep every byte.
  \<^item> \<open>Mariadb_Func\<close> (\<open>mariadb_func.cpp\<close>), \<open>Func_Lemmas\<close> with the locale \<open>query_runner\<close>, and
    \<open>Func_Props\<close>.
  \<^item> \<open>Nodes_State\<close>, \<open>Nodes_Ops\<close>, \<open>Replication\<close> (\<open>mariadb_nodes.cpp\<close>: settings; commands,
    connections and firewall; replication), \<open>Nodes_Lemmas\<close> with the locale \<open>cluster_ops\<close> for the
    repair loop, interpreted on both classes' virtual methods, and \<open>Nodes_Props\<close>.
  \<^item> \<open>Sql_T1\<close> (\<open>sql_t1.cpp\<close>, \<open>get_com_select_insert.cpp\<close>) and \<open>Sql_Props\<close>.
  \<^item> \<open>Test_Core\<close>, \<open>Test_Ops\<close>, \<open>Test_Checks\<close>, \<open>Test_Ctor\<close> (\<open>testconnections.cpp\<close>: fields and basic
    operations; steps; checks; construction and destruction), \<open>Test_Lemmas\<close>, \<open>Test_Props\<close>;
    \<open>Watchdog\<close> and \<open>Watchdog_Props\<close> (the two threads, as a step relation).
  \<^item> \<open>Maxadmin_Tcp\<close>, \<open>Maxinfo\<close>, \<open>Cdc\<close>, \<open>Cdc_Test\<close> (the clients and the test of column types) with
    \<open>Maxadmin_Props\<close>, \<open>Maxinfo_Props\<close>, \<open>Cdc_Props\<close>, \<open>Cdc_Test_Props\<close>.
  \<^item> \<open>Config_Ops\<close>, \<open>Config_Tests\<close> (\<open>config_operations.cpp\<close> and the \<open>mxs922\<close> tests) with
    \<open>Config_Props\<close>, \<open>Config_Test_Props\<close>.
  \<^item> \<open>Big_Data\<close>, \<open>Big_Load\<close>, \<open>Binlog_Checks\<close> with \<open>Big_Data_Props\<close>, \<open>Binlog_Props\<close>.
  \<^item> \<open>Rds\<close> (\<open>rds_vpc.cpp\<close>, \<open>create_rds.cpp\<close>, \<open>delete_rds.cpp\<close>) and \<open>Rds_Props\<close>.
  \<^item> Test programs: \<open>Maxrows\<close> (\<open>mxs1071_maxrows.cpp\<close>, and \<open>test_program\<close>, the frame of every
    test) with \<open>Maxrows_Props\<close>; \<open>Routing_Tests\<close> (which server gets a statement:
    \<open>rw_select_insert.cpp\<close>, \<open>test_hints.cpp\<close>, \<open>ccrfilter.cpp\<close>, \<open>server_weight.cpp\<close>, \<open>slave_lag.cpp\<close>,
    \<open>rwsplit_readonly.cpp\<close>) and \<open>Monitor_Tests\<close> (what the monitors make of a cluster:
    \<open>galera_priority.cpp\<close>, \<open>mm.cpp\<close>, \<open>mm_mysqlmon.cpp\<close>, \<open>pers_01.cpp\<close>, \<open>script.cpp\<close>) with
    \<open>Monitor_Props\<close>; \<open>Change_Master\<close> (\<open>binlog_change_master.cpp\<close>) with \<open>Change_Props\<close>;
    \<open>Firewall_Tests\<close> (the \<open>fwf*.cpp\<close> tests of the database firewall filter), \<open>Failover_Tests\<close>
    (what happens when a server fails: \<open>stale_slaves.cpp\<close>, \<open>slave_failover.cpp\<close>,
    \<open>failover_mysqlmon.cpp\<close>, \<open>auroramon.cpp\<close>, \<open>replication_manager*.cpp\<close> and others) and
    \<open>Connection_Tests\<close> (how many connections a server or a service gets:
    \<open>load_balancing.cpp\<close>, \<open>readconnrouter_*.cpp\<close>, \<open>max_connections.cpp\<close>,
    \<open>connection_limit.cpp\<close>, \<open>rwsplit_conn_num.cpp\<close>) with \<open>Failover_Props\<close>.
  \<^item> The other test programs, over the short forms of the common steps in \<open>Test_Steps\<close>:
    \<open>Regression_Tests\<close> (\<open>bug*.cpp\<close>), \<open>Statement_Tests\<close> (statements, sessions, large values,
    character sets), \<open>Service_Tests\<close> (accounts, passwords, MaxAdmin users, broken configurations,
    servers made at run time), \<open>Binlog_Tests\<close> (binlog router, Avro, sharding, bulk inserts,
    Kerberos, sysbench) and \<open>Thread_Tests\<close> (tests with threads of their own, and \<open>slave_lag\<close> as
    a whole), with \<open>Step_Props\<close>.

  \<^bold>\<open>What the lemmas show.\<close> Frame lemmas (\<open>extends\<close>, \<open>same_config\<close>, \<open>node_step\<close>, \<open>same_access\<close>)
  say which part of the state an operation leaves alone; the collections \<open>log_extends\<close> and
  \<open>node_config\<close> hold them. On these rest the properties: no connection handle is used after it
  was closed; a cluster that passes its check is as it should be, and what the repair loop
  guarantees when it ends; when waiting for a slave ends and when it does not; what the
  constructor can exit with; when the watchdog fires; which failures a check counts, and how
  often; what a reply, a page, a row consists of, independently of how it was cut into reads;
  that a CDC connection has performed its protocol; that the sets of a \<open>Config\<close> object are what
  the commands in the log create and destroy; how the creation of a cloud cluster ends and that
  what it leaves can be cleaned up; what a test compares, which failures it misses, and what its
  exit status says; and which texts fit the buffers they are printed into. Several properties state what the code does where it does not do what its
  name or comment says.

  \<^bold>\<open>Bounds and fuel.\<close> Loops the code bounds (polling at most 100 times, 15 attempts) carry the
  same bound as an argument. Loops it does not bound (waiting for a position, reading until a
  marker, repeating an interrupted call) are partial functions into \<open>option\<close>, and that they
  return is proved under the condition that makes them return. Rule files are read line by line
  until the environment reports their end, and the firewall test that waits for a rule to
  become active reads the environment's clock. The watchdog, the load and the
  transaction threads run along a schedule of any length; the threads of \<open>Thread_Tests\<close> and of
  \<open>mxs922_scaling.cpp\<close> make their turns in the pauses of the main thread, as many in each as the schedule says.

  \<^bold>\<open>Not modelled.\<close> Console output, and the release of memory. The contents of the variadic
  formatting are the formatted texts themselves; a format that is passed on without arguments
  is interpreted (\<open>c_format0\<close>). The mutexes around the cache of INSERT texts and the timeout are
  not modelled: calls are atomic. The order in which operands of \<open>+\<close> are evaluated is taken from
  left to right. Settings of the terminal and
  waiting for a key are left out. Four small programs are not modelled:
  \<open>no_password.cpp\<close> passes a null pointer as password, which the connect call of \<open>World\<close> has no
  place for, and goes on to use a closed handle; \<open>bug466.cpp\<close> calls an interface that no longer
  exists; \<open>non_native_setup.cpp\<close> only constructs the test object; \<open>t.cpp\<close> prints the time. The
  part of \<open>mxs1073_binlog_enc.cpp\<close> behind its first \<open>return\<close> is never reached.
\<close>

end
